(* ===== verification/CEPrelude.thy ===== *)
theory CEPrelude
  imports Main
begin

text \<open>
  Shared vocabulary of the development: what a Go call can end with (a return or a panic),
  Go's \<open>error\<close> values, label maps, the \<open>fmt\<close> fragments the program uses, and the
  generic lemmas on them that the component theories rely on.

  Values of the Go types map as follows.  A \<open>string\<close> is a list of bytes.  A
  \<open>map[string]string\<close> that is only read and written by key is a partial function.  An
  instant of \<open>time.Time\<close> is an integer, the number of nanoseconds since Go's zero time,
  so that \<open>IsZero\<close> is equality with 0.  A value of a type of another module that the
  program only passes on is a \<open>handle\<close>.
\<close>

section \<open>Collections of rewrite rules\<close>

named_theorems handler_simps \<open>unfolding rules of the modelled handlers\<close>
named_theorems sample_simps \<open>evaluation rules of the sample environment of the witnesses\<close>

section \<open>Outcomes and errors\<close>

text \<open>
  \<open>Errorf\<close> is an error made by \<open>fmt.Errorf\<close>, with its format and its arguments;
  \<open>RequeueImmediately\<close> is \<open>controller.NewRequeueImmediately()\<close>; the two JSON errors are
  those of \<open>encoding/json\<close>, the second with the kind of the JSON value and the field;
  \<open>Foreign\<close> is an error made by code outside the repository, under some identification.
\<close>

datatype error =
    Errorf string "fmt_arg list"
  | RequeueImmediately
  | JsonSyntaxError
  | UnmarshalTypeError string string
  | Foreign string
and fmt_arg =
    ArgStr string
  | ArgErr error

text \<open>
  A Go call returns or panics.  \<open>FatalExit\<close> is \<open>logger.Fatalw\<close>, which ends the
  process; \<open>PanicValue\<close> is a panic with a message, \<open>PanicError\<close> one with an error value.
\<close>

datatype panic =
    NilDereference
  | FailedTypeAssertion
  | PanicValue string
  | PanicError error
  | FatalExit string

datatype 'a outcome = Return 'a | Panic panic

type_synonym handle = string
type_synonym label_map = "string \<rightharpoonup> string"
type_synonym label_selector = "label_map \<Rightarrow> bool"
type_synonym instant = int

fun is_panic :: "'a outcome \<Rightarrow> bool" where
  "is_panic (Return _) = False"
| "is_panic (Panic _) = True"

lemma is_panic_iff: "is_panic x \<longleftrightarrow> (\<exists>p. x = Panic p)"
  by (cases x) simp_all

section \<open>Object keys\<close>

text \<open>
  \<open>fmt.Sprintf("%s/%s", namespace, name)\<close>, the key of a namespaced object.  Namespaces
  are DNS labels and hold no slash, which makes the key injective.
\<close>

definition object_key :: "string \<Rightarrow> string \<Rightarrow> string" where
  "object_key ns name = ns @ ''/'' @ name"

lemma append_sep_inject:
  assumes "c \<notin> set xs" and "c \<notin> set ys"
    and "xs @ c # as = ys @ c # bs"
  shows "xs = ys \<and> as = bs"
  using assms
proof (induction xs arbitrary: ys)
  case Nil
  then show ?case by (cases ys) auto
next
  case (Cons x xs)
  then show ?case by (cases ys) auto
qed

lemma object_key_inject:
  assumes "CHR ''/'' \<notin> set ns" and "CHR ''/'' \<notin> set ns'"
  shows "object_key ns n = object_key ns' n' \<longleftrightarrow> ns = ns' \<and> n = n'"
  using append_sep_inject [OF assms] by (auto simp: object_key_def)

section \<open>Decimal numbers\<close>

text \<open>The \<open>%d\<close> verb of \<open>fmt\<close>.\<close>

definition digit_char :: "nat \<Rightarrow> char" where
  "digit_char d = char_of (48 + d)"

fun show_nat :: "nat \<Rightarrow> string" where
  "show_nat n = (if n < 10 then [digit_char n] else show_nat (n div 10) @ [digit_char (n mod 10)])"

declare show_nat.simps [simp del]

definition show_int :: "int \<Rightarrow> string" where
  "show_int i = (if i < 0 then ''-'' @ show_nat (nat (- i)) else show_nat (nat i))"

text \<open>Reading the digits back gives the number, so distinct numbers print differently.\<close>

definition digit_val :: "char \<Rightarrow> nat" where
  "digit_val c = of_char c - 48"

definition read_nat :: "string \<Rightarrow> nat" where
  "read_nat s = foldl (\<lambda>n c. 10 * n + digit_val c) 0 s"

lemma digit_val_char: "d < 10 \<Longrightarrow> digit_val (digit_char d) = d"
  by (simp add: digit_val_def digit_char_def of_char_of)

lemma read_show_nat: "read_nat (show_nat n) = n"
proof (induction n rule: show_nat.induct)
  case (1 n)
  then show ?case
    by (cases "n < 10")
      (simp_all add: show_nat.simps [of n] read_nat_def digit_val_char)
qed

lemma show_nat_inject [simp]: "show_nat m = show_nat n \<longleftrightarrow> m = n"
  by (metis read_show_nat)

lemma show_nat_not_Nil [simp]: "show_nat n \<noteq> []"
  by (subst show_nat.simps) simp

lemma show_nat_0: "show_nat 0 = ''0''"
  by code_simp

section \<open>Sums as Go results\<close>

text \<open>
  A Go function that returns a value and an error returns \<open>Inl e\<close> for a non-nil error and
  \<open>Inr v\<close> otherwise.
\<close>

lemma isl_iff: "isl x \<longleftrightarrow> (\<exists>e. x = Inl e)"
  by (cases x) simp_all

end
