(* ===== verification/ApiTypes.thy ===== *)
theory ApiTypes
  imports CEPrelude "HOL-Library.Word"
begin

text \<open>
  The API types of the program, \<open>src/pkg/apis/codeenginetask\<close>: the group and its scheme
  (\<open>register.go\<close>), the types and reasons (\<open>code_engine_task_types.go\<close>), validation,
  defaulting and the condition helpers, and the two functions that keep the task status inside
  a Tekton Run.

  Libraries the package calls (\<open>apimachinery\<close>, \<open>knative.dev/pkg/apis\<close>, Tekton) are
  records of functions that the definitions take as an argument; their documented behaviour is
  stated by the predicates \<open>schema_laws\<close>, \<open>field_error_laws\<close> and
  \<open>run_laws\<close>.
\<close>

section \<open>Groups, versions and kinds\<close>

record GroupVersion =
  gv_Group :: string
  gv_Version :: string

record GroupKind =
  gk_Group :: string
  gk_Kind :: string

record GroupResource =
  gr_Group :: string
  gr_Resource :: string

record GroupVersionKind =
  gvk_Group :: string
  gvk_Version :: string
  gvk_Kind :: string

record GroupVersionResource =
  gvr_Group :: string
  gvr_Version :: string
  gvr_Resource :: string

text \<open>The methods of \<open>k8s.io/apimachinery\<close> on these types, and its API errors.\<close>

record schema_lib =
  GV_String :: "GroupVersion \<Rightarrow> string"
  WithKind :: "GroupVersion \<Rightarrow> string \<Rightarrow> GroupVersionKind"
  WithResource :: "GroupVersion \<Rightarrow> string \<Rightarrow> GroupVersionResource"
  GVK_GroupKind :: "GroupVersionKind \<Rightarrow> GroupKind"
  GVR_GroupResource :: "GroupVersionResource \<Rightarrow> GroupResource"
  GVR_String :: "GroupVersionResource \<Rightarrow> string"
  NewNotFound :: "GroupResource \<Rightarrow> string \<Rightarrow> error"
  IsNotFound :: "error \<Rightarrow> bool"

text \<open>
  Documented: \<open>String\<close> puts group and version into one \<open>group/version\<close> string;
  \<open>WithKind\<close> and \<open>WithResource\<close> add a kind or a resource, \<open>GroupKind\<close> and
  \<open>GroupResource\<close> drop the version; \<open>IsNotFound\<close> recognises what
  \<open>NewNotFound\<close> makes.
\<close>

definition schema_laws :: "'z schema_lib_scheme \<Rightarrow> bool" where
  "schema_laws L \<longleftrightarrow>
     (\<forall>g v. g \<noteq> [] \<longrightarrow> GV_String L \<lparr>gv_Group = g, gv_Version = v\<rparr> = g @ ''/'' @ v) \<and>
     (\<forall>gv k. WithKind L gv k = \<lparr>gvk_Group = gv_Group gv, gvk_Version = gv_Version gv, gvk_Kind = k\<rparr>) \<and>
     (\<forall>gv r. WithResource L gv r =
        \<lparr>gvr_Group = gv_Group gv, gvr_Version = gv_Version gv, gvr_Resource = r\<rparr>) \<and>
     (\<forall>k. GVK_GroupKind L k = \<lparr>gk_Group = gvk_Group k, gk_Kind = gvk_Kind k\<rparr>) \<and>
     (\<forall>r. GVR_GroupResource L r = \<lparr>gr_Group = gvr_Group r, gr_Resource = gvr_Resource r\<rparr>) \<and>
     (\<forall>gr n. IsNotFound L (NewNotFound L gr n))"

definition GroupName :: string where
  "GroupName = ''custom.tekton.dev''"

definition CustomTaskKind :: string where
  "CustomTaskKind = ''CodeEngineTask''"

definition SchemeGroupVersion :: GroupVersion where
  "SchemeGroupVersion = \<lparr>gv_Group = GroupName, gv_Version = ''v1alpha1''\<rparr>"

text \<open>\<open>Kind\<close> and \<open>Resource\<close> of \<open>register.go\<close>.\<close>

definition Kind :: "'z schema_lib_scheme \<Rightarrow> string \<Rightarrow> GroupKind" where
  "Kind L kind = GVK_GroupKind L (WithKind L SchemeGroupVersion kind)"

definition Resource :: "'z schema_lib_scheme \<Rightarrow> string \<Rightarrow> GroupResource" where
  "Resource L resource = GVR_GroupResource L (WithResource L SchemeGroupVersion resource)"

text \<open>
  The types \<open>addKnownTypes\<close> registers, and the scheme operations it calls.  Both panic when a kind
  they register is known to the scheme as another type.
\<close>

datatype go_type = CodeEngineTaskType | CodeEngineTaskListType

record 's scheme_lib =
  AddKnownTypes :: "'s \<Rightarrow> GroupVersion \<Rightarrow> go_type list \<Rightarrow> 's outcome"
  AddToGroupVersion :: "'s \<Rightarrow> GroupVersion \<Rightarrow> 's outcome"

definition addKnownTypes :: "('s, 'z) scheme_lib_scheme \<Rightarrow> 's \<Rightarrow> (error option \<times> 's) outcome" where
  "addKnownTypes SL scheme =
     (case AddKnownTypes SL scheme SchemeGroupVersion [CodeEngineTaskType, CodeEngineTaskListType] of
        Panic p \<Rightarrow> Panic p
      | Return scheme1 \<Rightarrow>
          (case AddToGroupVersion SL scheme1 SchemeGroupVersion of
             Panic p \<Rightarrow> Panic p
           | Return scheme2 \<Rightarrow> Return (None, scheme2)))"

lemma SchemeGroupVersion_String:
  "schema_laws L \<Longrightarrow> GV_String L SchemeGroupVersion = ''custom.tekton.dev/v1alpha1''"
  by (simp add: schema_laws_def SchemeGroupVersion_def GroupName_def)

lemma Kind_eq: "schema_laws L \<Longrightarrow> Kind L k = \<lparr>gk_Group = GroupName, gk_Kind = k\<rparr>"
  by (simp add: schema_laws_def Kind_def SchemeGroupVersion_def)

lemma Resource_eq:
  "schema_laws L \<Longrightarrow> Resource L r = \<lparr>gr_Group = GroupName, gr_Resource = r\<rparr>"
  by (simp add: schema_laws_def Resource_def SchemeGroupVersion_def)

lemma NewNotFound_IsNotFound: "schema_laws L \<Longrightarrow> IsNotFound L (NewNotFound L gr n)"
  by (simp add: schema_laws_def)

section \<open>The CodeEngineTask types\<close>

text \<open>
  \<open>metav1.TypeMeta\<close>, the part of \<open>metav1.ObjectMeta\<close> the program reads or writes,
  and the data of \<open>apis.Condition\<close> and \<open>duckv1.Status\<close>.
\<close>

record TypeMeta =
  tm_Kind :: string
  tm_APIVersion :: string

record ObjectMeta =
  om_Name :: string
  om_Namespace :: string
  om_Labels :: label_map
  om_Annotations :: label_map

record Condition =
  c_Type :: string
  c_Status :: string
  c_Severity :: string
  c_LastTransitionTime :: instant
  c_Reason :: string
  c_Message :: string

record DuckStatus =
  ds_ObservedGeneration :: int
  ds_Conditions :: "Condition list"
  ds_Annotations :: label_map

definition zero_ObjectMeta :: ObjectMeta where
  "zero_ObjectMeta = \<lparr>om_Name = [], om_Namespace = [], om_Labels = Map.empty, om_Annotations = Map.empty\<rparr>"

definition zero_DuckStatus :: DuckStatus where
  "zero_DuckStatus = \<lparr>ds_ObservedGeneration = 0, ds_Conditions = [], ds_Annotations = Map.empty\<rparr>"

record CodeEngineTaskSpec =
  JobName :: string

text \<open>
  The pointer field \<open>CodeEngineTaskSpec *CodeEngineTaskSpec\<close> is an option.  The reconciler
  lets it alias the spec of an object of the lister's cache, which nothing writes through.
\<close>

record CodeEngineTaskStatus =
  ts_Status :: DuckStatus
  ts_CodeEngineTaskSpec :: "CodeEngineTaskSpec option"
  ts_JobRunName :: string

record CodeEngineTask =
  t_TypeMeta :: TypeMeta
  t_ObjectMeta :: ObjectMeta
  t_Spec :: CodeEngineTaskSpec
  t_Status :: CodeEngineTaskStatus

definition zero_CodeEngineTaskSpec :: CodeEngineTaskSpec where
  "zero_CodeEngineTaskSpec = \<lparr>JobName = []\<rparr>"

definition zero_CodeEngineTaskStatus :: CodeEngineTaskStatus where
  "zero_CodeEngineTaskStatus =
     \<lparr>ts_Status = zero_DuckStatus, ts_CodeEngineTaskSpec = None, ts_JobRunName = []\<rparr>"

definition zero_CodeEngineTask :: CodeEngineTask where
  "zero_CodeEngineTask =
     \<lparr>t_TypeMeta = \<lparr>tm_Kind = [], tm_APIVersion = []\<rparr>, t_ObjectMeta = zero_ObjectMeta,
      t_Spec = zero_CodeEngineTaskSpec, t_Status = zero_CodeEngineTaskStatus\<rparr>"

record CodeEngineTaskList =
  tl_TypeMeta :: TypeMeta
  tl_ListMeta :: handle
  tl_Items :: "CodeEngineTask list"

definition zero_CodeEngineTaskList :: CodeEngineTaskList where
  "zero_CodeEngineTaskList = \<lparr>tl_TypeMeta = \<lparr>tm_Kind = [], tm_APIVersion = []\<rparr>, tl_ListMeta = [], tl_Items = []\<rparr>"

text \<open>
  The options of the API calls: the fields the program touches, the rest as a handle; the timeout
  is a pointer to an \<open>int64\<close>.  Options of which it touches no field are handles.
\<close>

record ListOptions =
  lo_LabelSelector :: string
  lo_FieldSelector :: string
  lo_ResourceVersion :: string
  lo_TimeoutSeconds :: "64 word option"
  lo_Watch :: bool
  lo_Rest :: handle

record GetOptions =
  go_ResourceVersion :: string
  go_Rest :: handle

definition zero_ListOptions :: ListOptions where
  "zero_ListOptions = \<lparr>lo_LabelSelector = [], lo_FieldSelector = [], lo_ResourceVersion = [],
     lo_TimeoutSeconds = None, lo_Watch = False, lo_Rest = []\<rparr>"

definition zero_GetOptions :: GetOptions where
  "zero_GetOptions = \<lparr>go_ResourceVersion = [], go_Rest = []\<rparr>"

text \<open>\<open>GetStatus\<close> of the KRShaped interface.\<close>

definition GetStatus :: "CodeEngineTask \<Rightarrow> DuckStatus" where
  "GetStatus t = ts_Status (t_Status t)"

text \<open>The reasons of the Run's \<open>Succeeded\<close> condition.\<close>

datatype CodeEngineTaskRunReason =
    ReasonStarted
  | ReasonRunning
  | ReasonFailed
  | ReasonSucceeded
  | ReasonCouldntGetTask
  | ReasonFailedToStartJobRun
  | ReasonFailedToGetJobRunStatus

fun reason_String :: "CodeEngineTaskRunReason \<Rightarrow> string" where
  "reason_String ReasonStarted = ''Started''"
| "reason_String ReasonRunning = ''Running''"
| "reason_String ReasonFailed = ''Failed''"
| "reason_String ReasonSucceeded = ''Succeeded''"
| "reason_String ReasonCouldntGetTask = ''CouldntGetCodeEngineTask''"
| "reason_String ReasonFailedToStartJobRun = ''FailedToStartJobRun''"
| "reason_String ReasonFailedToGetJobRunStatus = ''FailedToGetJobRunStatus''"

lemma reason_String_inject [simp]: "reason_String a = reason_String b \<longleftrightarrow> a = b"
  by (cases a; cases b) simp_all

section \<open>Lifecycle helpers\<close>

text \<open>
  A condition set of knative is made from the types of the conditions it depends on; \<open>Manage\<close> of a set
  works on the conditions of the embedded \<open>duckv1.Status\<close>.  \<open>apis.ConditionReady\<close> is a constant of the
  same library.
\<close>

record 'cs cond_lib =
  NewLivingConditionSet :: "string list \<Rightarrow> 'cs"
  cl_InitializeConditions :: "'cs \<Rightarrow> DuckStatus \<Rightarrow> DuckStatus"
  cl_MarkTrue :: "'cs \<Rightarrow> string \<Rightarrow> DuckStatus \<Rightarrow> DuckStatus"
  cl_MarkFalse :: "'cs \<Rightarrow> string \<Rightarrow> string \<Rightarrow> string \<Rightarrow> fmt_arg list \<Rightarrow> DuckStatus \<Rightarrow> DuckStatus"
  ConditionReady :: string

definition CodeEngineTaskConditionReady :: "'cs cond_lib \<Rightarrow> string" where
  "CodeEngineTaskConditionReady CL = ConditionReady CL"

definition condSet :: "'cs cond_lib \<Rightarrow> 'cs" where
  "condSet CL = NewLivingConditionSet CL []"

definition GetGroupVersionKind :: "'z schema_lib_scheme \<Rightarrow> GroupVersionKind" where
  "GetGroupVersionKind L = WithKind L SchemeGroupVersion ''AddressableService''"

definition GetConditionSet :: "'cs cond_lib \<Rightarrow> CodeEngineTask \<Rightarrow> 'cs" where
  "GetConditionSet CL t = condSet CL"

definition InitializeTaskConditions :: "'cs cond_lib \<Rightarrow> CodeEngineTaskStatus \<Rightarrow> CodeEngineTaskStatus" where
  "InitializeTaskConditions CL ts = ts\<lparr>ts_Status := cl_InitializeConditions CL (condSet CL) (ts_Status ts)\<rparr>"

definition MarkJobNotReady :: "'cs cond_lib \<Rightarrow> string \<Rightarrow> CodeEngineTaskStatus \<Rightarrow> CodeEngineTaskStatus" where
  "MarkJobNotReady CL jobId ts =
     ts\<lparr>ts_Status := cl_MarkFalse CL (condSet CL) (CodeEngineTaskConditionReady CL) ''JobNotReady''
          ''job %q not started yet'' [ArgStr jobId] (ts_Status ts)\<rparr>"

definition MarkJobReady :: "'cs cond_lib \<Rightarrow> CodeEngineTaskStatus \<Rightarrow> CodeEngineTaskStatus" where
  "MarkJobReady CL ts = ts\<lparr>ts_Status := cl_MarkTrue CL (condSet CL) (CodeEngineTaskConditionReady CL) (ts_Status ts)\<rparr>"

section \<open>Validation and defaulting\<close>

text \<open>A \<open>*apis.FieldError\<close> is an option; \<open>ViaField\<close> is called on it even when nil.\<close>

record 'fe field_error_lib =
  ErrMissingField :: "string \<Rightarrow> 'fe"
  ViaField :: "'fe option \<Rightarrow> string \<Rightarrow> 'fe option"

definition field_error_laws :: "'fe field_error_lib \<Rightarrow> bool" where
  "field_error_laws FL \<longleftrightarrow> (\<forall>fe f. ViaField FL fe f = None \<longleftrightarrow> fe = None)"

definition ValidateSpec :: "'fe field_error_lib \<Rightarrow> CodeEngineTaskSpec \<Rightarrow> 'fe option" where
  "ValidateSpec FL ts =
     (if JobName ts = [] then Some (ErrMissingField FL ''jobName'') else None)"

definition Validate :: "'fe field_error_lib \<Rightarrow> CodeEngineTask \<Rightarrow> 'fe option" where
  "Validate FL t = ViaField FL (ValidateSpec FL (t_Spec t)) ''spec''"

definition SetDefaultsSpec :: "CodeEngineTaskSpec \<Rightarrow> CodeEngineTaskSpec" where
  "SetDefaultsSpec tls = tls"

definition SetDefaults :: "CodeEngineTask \<Rightarrow> CodeEngineTask" where
  "SetDefaults t = t\<lparr>t_Spec := SetDefaultsSpec (t_Spec t)\<rparr>"

lemma SetDefaults_id [simp]: "SetDefaults t = t"
  by (simp add: SetDefaults_def SetDefaultsSpec_def)

lemma Validate_iff:
  "field_error_laws FL \<Longrightarrow> Validate FL t = None \<longleftrightarrow> JobName (t_Spec t) \<noteq> []"
  by (auto simp: Validate_def ValidateSpec_def field_error_laws_def)

end
