(* ===== verification/RunStatus.thy ===== *)
theory RunStatus
  imports ApiTypes
begin

text \<open>
  Tekton's \<open>Run\<close> as the program sees it, and the two functions of
  \<open>code_engine_task_types.go\<close> that keep the \<open>CodeEngineTaskStatus\<close> in the extra
  fields of its status.  The status type of Tekton is the type parameter \<open>'st\<close>, its methods
  are the record \<open>run_lib\<close>, and \<open>run_laws\<close> states what their documentation says.

  The locale \<open>status_store\<close> is the contract the reconciler relies on: what was encoded is
  what the next call decodes, and a failure leaves the Run failed.
\<close>

section \<open>The Run and its library\<close>

record RunRef =
  ref_APIVersion :: string
  ref_Kind :: string
  ref_Name :: string

record EmbeddedRunSpec =
  es_APIVersion :: string
  es_Kind :: string
  es_Labels :: label_map
  es_Annotations :: label_map
  es_Raw :: string

record 'st Run =
  run_Namespace :: string
  run_Name :: string
  run_CreationTimestamp :: instant
  run_Ref :: "RunRef option"
  run_Spec :: "EmbeddedRunSpec option"
  run_Status :: 'st

text \<open>
  \<open>StartTime\<close> and \<open>SetStartTime\<close> read and write the field \<open>Status.StartTime\<close>, a
  pointer; \<open>InitializeConditions\<close> reads the clock, its first argument.  The marking methods
  take the reason, the message format and the arguments of the format.  \<open>DecodeExtraFields\<close>
  decodes into the value it is given.
\<close>

record 'st run_lib = schema_lib +
  ConditionSucceeded :: string
  HasStarted :: "'st \<Rightarrow> bool"
  IsDone :: "'st \<Rightarrow> bool"
  GetCondition :: "'st \<Rightarrow> string \<Rightarrow> Condition option"
  StartTime :: "'st \<Rightarrow> instant option"
  SetStartTime :: "instant option \<Rightarrow> 'st \<Rightarrow> 'st"
  InitializeConditions :: "instant \<Rightarrow> 'st \<Rightarrow> 'st"
  MarkRunSucceeded :: "string \<Rightarrow> string \<Rightarrow> fmt_arg list \<Rightarrow> 'st \<Rightarrow> 'st"
  MarkRunFailed :: "string \<Rightarrow> string \<Rightarrow> fmt_arg list \<Rightarrow> 'st \<Rightarrow> 'st"
  MarkRunRunning :: "string \<Rightarrow> string \<Rightarrow> fmt_arg list \<Rightarrow> 'st \<Rightarrow> 'st"
  DecodeExtraFields :: "'st \<Rightarrow> CodeEngineTaskStatus \<Rightarrow> error + CodeEngineTaskStatus"
  EncodeExtraFields :: "CodeEngineTaskStatus \<Rightarrow> 'st \<Rightarrow> error + 'st"

text \<open>
  The marks: failing and succeeding make the Run done, running makes it not done; each sets
  the reason of the \<open>Succeeded\<close> condition and touches neither the start time nor the extra
  fields.
\<close>

definition mark_frame :: "('st, 'z) run_lib_scheme \<Rightarrow> ('st \<Rightarrow> 'st) \<Rightarrow> bool" where
  "mark_frame L f \<longleftrightarrow>
     (\<forall>st. StartTime L (f st) = StartTime L st) \<and>
     (\<forall>st. DecodeExtraFields L (f st) = DecodeExtraFields L st)"

definition mark_sets :: "('st, 'z) run_lib_scheme \<Rightarrow> string \<Rightarrow> string \<Rightarrow> ('st \<Rightarrow> 'st) \<Rightarrow> bool" where
  "mark_sets L stat r f \<longleftrightarrow>
     (\<forall>st. \<exists>c. GetCondition L (f st) (ConditionSucceeded L) = Some c \<and>
             c_Status c = stat \<and> c_Reason c = r)"

definition mark_laws :: "('st, 'z) run_lib_scheme \<Rightarrow> bool" where
  "mark_laws L \<longleftrightarrow>
     (\<forall>r m a st. IsDone L (MarkRunFailed L r m a st)) \<and>
     (\<forall>r m a st. IsDone L (MarkRunSucceeded L r m a st)) \<and>
     (\<forall>r m a st. \<not> IsDone L (MarkRunRunning L r m a st)) \<and>
     (\<forall>r m a. mark_frame L (MarkRunFailed L r m a)) \<and>
     (\<forall>r m a. mark_frame L (MarkRunSucceeded L r m a)) \<and>
     (\<forall>r m a. mark_frame L (MarkRunRunning L r m a)) \<and>
     (\<forall>r m a. mark_sets L ''False'' r (MarkRunFailed L r m a)) \<and>
     (\<forall>r m a. mark_sets L ''True'' r (MarkRunSucceeded L r m a)) \<and>
     (\<forall>r m a. mark_sets L ''Unknown'' r (MarkRunRunning L r m a))"

text \<open>
  The start: a Run has started when its start time is set and not zero;
  \<open>InitializeConditions\<close> sets the start time to the present unless it is set, and neither
  finishes the Run nor touches the extra fields.
\<close>

definition start_laws :: "('st, 'z) run_lib_scheme \<Rightarrow> bool" where
  "start_laws L \<longleftrightarrow>
     (\<forall>st. HasStarted L st \<longleftrightarrow> (\<exists>t. StartTime L st = Some t \<and> t \<noteq> 0)) \<and>
     (\<forall>now st. StartTime L (InitializeConditions L now st) =
        (if HasStarted L st then StartTime L st else Some now)) \<and>
     (\<forall>now st. IsDone L (InitializeConditions L now st) = IsDone L st) \<and>
     (\<forall>now st. DecodeExtraFields L (InitializeConditions L now st) = DecodeExtraFields L st) \<and>
     (\<forall>t st. StartTime L (SetStartTime L t st) = t) \<and>
     (\<forall>t st. IsDone L (SetStartTime L t st) = IsDone L st) \<and>
     (\<forall>t st. DecodeExtraFields L (SetStartTime L t st) = DecodeExtraFields L st) \<and>
     (\<forall>t st ty. GetCondition L (SetStartTime L t st) ty = GetCondition L st ty)"

text \<open>
  The extra fields: decoding what was encoded gives back the job run name and the stored spec,
  and encoding touches neither start time nor conditions.  (The timestamps of conditions are
  not asked to survive: JSON keeps seconds only.)
\<close>

definition same_job :: "CodeEngineTaskStatus \<Rightarrow> CodeEngineTaskStatus \<Rightarrow> bool" where
  "same_job s s' \<longleftrightarrow>
     ts_JobRunName s = ts_JobRunName s' \<and> ts_CodeEngineTaskSpec s = ts_CodeEngineTaskSpec s'"

definition extra_laws :: "('st, 'z) run_lib_scheme \<Rightarrow> bool" where
  "extra_laws L \<longleftrightarrow>
     (\<forall>s st st'. EncodeExtraFields L s st = Inr st' \<longrightarrow>
        (\<exists>s'. DecodeExtraFields L st' zero_CodeEngineTaskStatus = Inr s' \<and> same_job s s') \<and>
        StartTime L st' = StartTime L st \<and> IsDone L st' = IsDone L st \<and>
        GetCondition L st' = GetCondition L st)"

definition run_laws :: "('st, 'z) run_lib_scheme \<Rightarrow> bool" where
  "run_laws L \<longleftrightarrow> schema_laws L \<and> mark_laws L \<and> start_laws L \<and> extra_laws L"

section \<open>Using the laws\<close>

lemma run_lawsD:
  assumes "run_laws L"
  shows "schema_laws L" and "mark_laws L" and "start_laws L" and "extra_laws L"
  using assms by (auto simp: run_laws_def)

lemma mark_done:
  assumes "run_laws L"
  shows "IsDone L (MarkRunFailed L r m a st)"
    and "IsDone L (MarkRunSucceeded L r m a st)"
    and "\<not> IsDone L (MarkRunRunning L r m a st)"
  using run_lawsD(2) [OF assms] by (auto simp: mark_laws_def)

lemma mark_StartTime:
  assumes "run_laws L"
  shows "StartTime L (MarkRunFailed L r m a st) = StartTime L st"
    and "StartTime L (MarkRunSucceeded L r m a st) = StartTime L st"
    and "StartTime L (MarkRunRunning L r m a st) = StartTime L st"
  using run_lawsD(2) [OF assms] by (auto simp: mark_laws_def mark_frame_def)

lemma mark_Decode:
  assumes "run_laws L"
  shows "DecodeExtraFields L (MarkRunFailed L r m a st) = DecodeExtraFields L st"
    and "DecodeExtraFields L (MarkRunSucceeded L r m a st) = DecodeExtraFields L st"
    and "DecodeExtraFields L (MarkRunRunning L r m a st) = DecodeExtraFields L st"
  using run_lawsD(2) [OF assms] by (auto simp: mark_laws_def mark_frame_def)

lemma mark_condition:
  assumes "run_laws L"
  shows "\<exists>c. GetCondition L (MarkRunFailed L r m a st) (ConditionSucceeded L) = Some c \<and>
           c_Status c = ''False'' \<and> c_Reason c = r"
    and "\<exists>c. GetCondition L (MarkRunSucceeded L r m a st) (ConditionSucceeded L) = Some c \<and>
           c_Status c = ''True'' \<and> c_Reason c = r"
    and "\<exists>c. GetCondition L (MarkRunRunning L r m a st) (ConditionSucceeded L) = Some c \<and>
           c_Status c = ''Unknown'' \<and> c_Reason c = r"
  using run_lawsD(2) [OF assms] by (simp_all add: mark_laws_def mark_sets_def)

lemma HasStarted_iff:
  "run_laws L \<Longrightarrow> HasStarted L st \<longleftrightarrow> (\<exists>t. StartTime L st = Some t \<and> t \<noteq> 0)"
  by (simp add: run_laws_def start_laws_def)

lemma init_laws:
  assumes "run_laws L"
  shows "StartTime L (InitializeConditions L now st) =
           (if HasStarted L st then StartTime L st else Some now)"
    and "IsDone L (InitializeConditions L now st) = IsDone L st"
    and "DecodeExtraFields L (InitializeConditions L now st) = DecodeExtraFields L st"
    and "StartTime L (SetStartTime L t st) = t"
    and "IsDone L (SetStartTime L t st) = IsDone L st"
    and "DecodeExtraFields L (SetStartTime L t st) = DecodeExtraFields L st"
  using run_lawsD(3) [OF assms] by (simp_all add: start_laws_def)

lemma Encode_laws:
  assumes "run_laws L" and "EncodeExtraFields L s st = Inr st'"
  shows "\<exists>s'. DecodeExtraFields L st' zero_CodeEngineTaskStatus = Inr s' \<and> same_job s s'"
    and "StartTime L st' = StartTime L st" and "IsDone L st' = IsDone L st"
    and "GetCondition L st' = GetCondition L st"
  using run_lawsD(4) [OF assms(1)] assms(2) by (auto simp: extra_laws_def)

lemmas run_law_simps = mark_done mark_StartTime mark_Decode init_laws

section \<open>Decoding and encoding the task status\<close>

text \<open>Both functions mark the Run failed when the library reports an error.\<close>

definition DecodeStatusFromRun ::
    "('st, 'z) run_lib_scheme \<Rightarrow> 'st Run \<Rightarrow> (error + CodeEngineTaskStatus) \<times> 'st Run" where
  "DecodeStatusFromRun L run =
     (case DecodeExtraFields L (run_Status run) zero_CodeEngineTaskStatus of
        Inl err \<Rightarrow>
          (Inl err, run\<lparr>run_Status := MarkRunFailed L (reason_String ReasonFailed)
             ''Internal error calling DecodeExtraFields: %v'' [ArgErr err] (run_Status run)\<rparr>)
      | Inr status \<Rightarrow> (Inr status, run))"

definition EncodeIntoRun ::
    "('st, 'z) run_lib_scheme \<Rightarrow> CodeEngineTaskStatus \<Rightarrow> 'st Run \<Rightarrow> error option \<times> 'st Run" where
  "EncodeIntoRun L ts run =
     (case EncodeExtraFields L ts (run_Status run) of
        Inl err \<Rightarrow>
          (Some err, run\<lparr>run_Status := MarkRunFailed L (reason_String ReasonFailed)
             ''Internal error calling EncodeExtraFields: %v'' [ArgErr err] (run_Status run)\<rparr>)
      | Inr st \<Rightarrow> (None, run\<lparr>run_Status := st\<rparr>))"

section \<open>The contract of a status store\<close>

locale status_store =
  fixes laws :: "'l \<Rightarrow> bool"
    and load :: "'l \<Rightarrow> 'r \<Rightarrow> (error + 's) \<times> 'r"
    and save :: "'l \<Rightarrow> 's \<Rightarrow> 'r \<Rightarrow> error option \<times> 'r"
    and finished :: "'l \<Rightarrow> 'r \<Rightarrow> bool"
    and same :: "'s \<Rightarrow> 's \<Rightarrow> bool"
  assumes same_refl: "same s s"
    and same_trans: "same s t \<Longrightarrow> same t u \<Longrightarrow> same s u"
    and load_ok: "load l r = (Inr s, r') \<Longrightarrow> r' = r"
    and load_err: "laws l \<Longrightarrow> load l r = (Inl e, r') \<Longrightarrow> finished l r'"
    and save_ok: "laws l \<Longrightarrow> save l s r = (None, r') \<Longrightarrow>
        \<exists>s'. load l r' = (Inr s', r') \<and> same s s'"
    and save_err: "laws l \<Longrightarrow> save l s r = (Some e, r') \<Longrightarrow> finished l r'"
begin

text \<open>
  The client's view: after a load, some work on the loaded value and a save, either the Run is
  finished or the next load returns the result of the work.
\<close>

lemma session:
  assumes "laws l" and "load l r = (x, r1)"
    and "\<And>s. x = Inr s \<Longrightarrow> save l (work s) r1 = (y, r2)"
    and "isl x \<Longrightarrow> r2 = r1"
  shows "finished l r2 \<or> (\<exists>s s'. x = Inr s \<and> load l r2 = (Inr s', r2) \<and> same (work s) s')"
proof (cases x)
  case (Inl e)
  with assms load_err show ?thesis by auto
next
  case (Inr s)
  then have sv: "save l (work s) r1 = (y, r2)" by (rule assms(3))
  show ?thesis
  proof (cases y)
    case None
    with sv save_ok [OF assms(1)] Inr show ?thesis by blast
  next
    case (Some e)
    with sv save_err [OF assms(1)] show ?thesis by blast
  qed
qed

lemma save_twice:
  assumes "laws l" and "save l s r = (None, r1)" and "load l r1 = (Inr s1, r1')"
    and "save l s1 r1' = (None, r2)"
  shows "\<exists>s2. load l r2 = (Inr s2, r2) \<and> same s s2"
  using save_ok [OF assms(1,2)] save_ok [OF assms(1,4)] assms(3) by (auto intro: same_trans)

end

interpretation run_store: status_store run_laws DecodeStatusFromRun EncodeIntoRun
    "\<lambda>L run. IsDone L (run_Status run)" same_job
proof (unfold_locales, goal_cases)
  case (5 l s r r')
  then show ?case
    by (auto simp: EncodeIntoRun_def DecodeStatusFromRun_def split: sum.splits
        dest: Encode_laws(1))
qed (auto simp: same_job_def DecodeStatusFromRun_def EncodeIntoRun_def mark_done
    split: sum.splits)

text \<open>What the two functions leave alone.\<close>

lemma DecodeStatusFromRun_frame:
  assumes "run_laws L" and "DecodeStatusFromRun L run = (x, run')"
  shows "StartTime L (run_Status run') = StartTime L (run_Status run)"
    and "run' = run\<lparr>run_Status := run_Status run'\<rparr>"
  using assms by (auto simp: DecodeStatusFromRun_def mark_StartTime split: sum.splits)

lemma EncodeIntoRun_frame:
  assumes "run_laws L" and "EncodeIntoRun L s run = (x, run')"
  shows "StartTime L (run_Status run') = StartTime L (run_Status run)"
    and "run' = run\<lparr>run_Status := run_Status run'\<rparr>"
  using assms by (auto simp: EncodeIntoRun_def mark_StartTime Encode_laws(2) split: sum.splits)

lemma EncodeIntoRun_IsDone:
  assumes "run_laws L" and "EncodeIntoRun L s run = (x, run')"
  shows "IsDone L (run_Status run') \<longleftrightarrow> x \<noteq> None \<or> IsDone L (run_Status run)"
  using assms by (auto simp: EncodeIntoRun_def mark_done Encode_laws(3) split: sum.splits)

end
