(* ===== verification/Listers.thy ===== *)
theory Listers
  imports ApiTypes
begin

text \<open>
  The listers of \<open>src/pkg/client/listers/codeenginetask/v1alpha1\<close>: typed, read-only access
  to an indexer of client-go, which is the record \<open>indexer\<close>.  The locale
  \<open>namespace_lister\<close> is the interface \<open>CodeEngineTaskNamespaceLister\<close> with what its
  users rely on.
\<close>

section \<open>The indexer\<close>

text \<open>
  An object of an indexer is an \<open>interface{}\<close>: a \<open>*CodeEngineTask\<close> or something else.
  \<open>GetByKey\<close> returns the object, when there is one, or an error.  \<open>ListAll\<close> and
  \<open>ListAllByNamespace\<close> are \<open>cache.ListAll\<close> and \<open>cache.ListAllByNamespace\<close>: the objects
  they hand to the append function, in order, and the error they return.
\<close>

datatype kobj = TaskObj CodeEngineTask | OtherObj handle

record indexer =
  GetByKey :: "string \<Rightarrow> error + kobj option"
  ListAll :: "label_selector \<Rightarrow> kobj list \<times> error option"
  ListAllByNamespace :: "string \<Rightarrow> label_selector \<Rightarrow> kobj list \<times> error option"

section \<open>The listers\<close>

record codeEngineTaskLister =
  cl_indexer :: indexer

record codeEngineTaskNamespaceLister =
  nl_indexer :: indexer
  nl_namespace :: string

definition NewCodeEngineTaskLister :: "indexer \<Rightarrow> codeEngineTaskLister" where
  "NewCodeEngineTaskLister ix = \<lparr>cl_indexer = ix\<rparr>"

text \<open>
  The append function of both \<open>List\<close> methods: it asserts the type of each object, and
  panics on a foreign one.
\<close>

fun append_tasks :: "kobj list \<Rightarrow> CodeEngineTask list \<Rightarrow> CodeEngineTask list outcome" where
  "append_tasks [] ret = Return ret"
| "append_tasks (TaskObj t # ms) ret = append_tasks ms (ret @ [t])"
| "append_tasks (OtherObj _ # ms) ret = Panic FailedTypeAssertion"

definition listed :: "kobj list \<times> error option \<Rightarrow> (CodeEngineTask list \<times> error option) outcome" where
  "listed r =
     (case append_tasks (fst r) [] of
        Return ret \<Rightarrow> Return (ret, snd r)
      | Panic p \<Rightarrow> Panic p)"

definition Lister_List ::
    "codeEngineTaskLister \<Rightarrow> label_selector \<Rightarrow> (CodeEngineTask list \<times> error option) outcome" where
  "Lister_List s selector = listed (ListAll (cl_indexer s) selector)"

definition Lister_CodeEngineTasks ::
    "codeEngineTaskLister \<Rightarrow> string \<Rightarrow> codeEngineTaskNamespaceLister" where
  "Lister_CodeEngineTasks s namespace = \<lparr>nl_indexer = cl_indexer s, nl_namespace = namespace\<rparr>"

definition NamespaceLister_List ::
    "codeEngineTaskNamespaceLister \<Rightarrow> label_selector \<Rightarrow>
       (CodeEngineTask list \<times> error option) outcome" where
  "NamespaceLister_List s selector =
     listed (ListAllByNamespace (nl_indexer s) (nl_namespace s) selector)"

definition NamespaceLister_Get ::
    "'z schema_lib_scheme \<Rightarrow> codeEngineTaskNamespaceLister \<Rightarrow> string \<Rightarrow>
       (error + CodeEngineTask) outcome" where
  "NamespaceLister_Get L s name =
     (case GetByKey (nl_indexer s) (object_key (nl_namespace s) name) of
        Inl err \<Rightarrow> Return (Inl err)
      | Inr None \<Rightarrow> Return (Inl (NewNotFound L (Resource L ''codeenginetask'') name))
      | Inr (Some (TaskObj t)) \<Rightarrow> Return (Inr t)
      | Inr (Some (OtherObj _)) \<Rightarrow> Panic FailedTypeAssertion)"

text \<open>
  A task lister is an interface; its user calls \<open>CodeEngineTasks(namespace).Get(name)\<close>.  This is what
  the call does on the struct \<open>codeEngineTaskLister\<close>.
\<close>

definition indexer_task_lister ::
    "'z schema_lib_scheme \<Rightarrow> codeEngineTaskLister \<Rightarrow> string \<Rightarrow> string \<Rightarrow> (error + CodeEngineTask) outcome" where
  "indexer_task_lister L s namespace name = NamespaceLister_Get L (Lister_CodeEngineTasks s namespace) name"

lemma append_tasks_TaskObj [simp]: "append_tasks (map TaskObj ts) ret = Return (ret @ ts)"
  by (induction ts arbitrary: ret) simp_all

lemma append_tasks_Return:
  "append_tasks ms ret = Return ts \<longleftrightarrow> (\<exists>us. ms = map TaskObj us \<and> ts = ret @ us)"
proof (induction ms ret rule: append_tasks.induct)
  case (2 t ms ret)
  have "append_tasks (TaskObj t # ms) ret = Return ts \<longleftrightarrow>
      (\<exists>us. ms = map TaskObj us \<and> ts = ret @ t # us)"
    using 2 by simp
  also have "\<dots> \<longleftrightarrow> (\<exists>us. TaskObj t # ms = map TaskObj us \<and> ts = ret @ us)"
    by (auto simp: Cons_eq_map_conv)
  finally show ?case .
qed auto

lemma listed_TaskObj [simp]: "listed (map TaskObj ts, e) = Return (ts, e)"
  by (simp add: listed_def)

section \<open>The interface\<close>

text \<open>
  \<open>contents l n\<close> is the object a lister has under the name \<open>n\<close>.  A lister that keeps
  the laws returns exactly its contents, and a present object is listed exactly when the
  selector matches its labels.
\<close>

locale namespace_lister =
  fixes laws :: "'l \<Rightarrow> bool"
    and get :: "'l \<Rightarrow> string \<Rightarrow> (error + 'o) outcome"
    and select :: "'l \<Rightarrow> 'sel \<Rightarrow> ('o list \<times> error option) outcome"
    and matches :: "'l \<Rightarrow> 'sel \<Rightarrow> label_map \<Rightarrow> bool"
    and contents :: "'l \<Rightarrow> string \<rightharpoonup> 'o"
    and labels_of :: "'o \<Rightarrow> label_map"
    and not_found :: "'l \<Rightarrow> error \<Rightarrow> bool"
  assumes get_present: "laws l \<Longrightarrow> contents l n = Some t \<Longrightarrow> get l n = Return (Inr t)"
    and get_absent: "laws l \<Longrightarrow> contents l n = None \<Longrightarrow>
        \<exists>e. get l n = Return (Inl e) \<and> not_found l e"
    and select_matching: "laws l \<Longrightarrow>
        \<exists>ts. select l sel = Return (ts, None) \<and>
             set ts = {t \<in> ran (contents l). matches l sel (labels_of t)}"
begin

lemma get_iff: "laws l \<Longrightarrow> get l n = Return (Inr t) \<longleftrightarrow> contents l n = Some t"
  using get_present [of l n] get_absent [of l n] by (cases "contents l n") auto

lemma get_total: "laws l \<Longrightarrow> \<exists>x. get l n = Return x"
  using get_present [of l n] get_absent [of l n] by (cases "contents l n") auto

lemma get_error: "laws l \<Longrightarrow> get l n = Return (Inl e) \<Longrightarrow> not_found l e \<and> contents l n = None"
  using get_present [of l n] get_absent [of l n] by (cases "contents l n") auto

lemma selected_iff_gettable:
  assumes "laws l" and "select l sel = Return (ts, e)"
  shows "t \<in> set ts \<longleftrightarrow> matches l sel (labels_of t) \<and> (\<exists>n. get l n = Return (Inr t))"
  using select_matching [OF assms(1), of sel] assms(2) get_iff [OF assms(1)]
  by (auto simp: ran_def)

lemma select_no_error: "laws l \<Longrightarrow> \<exists>ts. select l sel = Return (ts, None)"
  using select_matching [of l sel] by blast

end

section \<open>The indexer lister provides it\<close>

text \<open>
  What an indexer with the namespace index of the informer gives for one namespace:
  \<open>GetByKey\<close> never fails and finds tasks only, and the namespace listing yields the stored
  tasks that match.
\<close>

definition indexed_task :: "indexer \<Rightarrow> string \<Rightarrow> string \<rightharpoonup> CodeEngineTask" where
  "indexed_task ix ns name =
     (case GetByKey ix (object_key ns name) of
        Inr (Some (TaskObj t)) \<Rightarrow> Some t
      | _ \<Rightarrow> None)"

definition task_labels :: "CodeEngineTask \<Rightarrow> label_map" where
  "task_labels t = om_Labels (t_ObjectMeta t)"

definition indexer_laws :: "indexer \<Rightarrow> string \<Rightarrow> bool" where
  "indexer_laws ix ns \<longleftrightarrow>
     (\<forall>name. GetByKey ix (object_key ns name) = Inr (map_option TaskObj (indexed_task ix ns name))) \<and>
     (\<forall>sel. \<exists>ts. ListAllByNamespace ix ns sel = (map TaskObj ts, None) \<and>
          set ts = {t \<in> ran (indexed_task ix ns). sel (task_labels t)})"

definition lister_laws :: "'z schema_lib_scheme \<times> codeEngineTaskNamespaceLister \<Rightarrow> bool" where
  "lister_laws l \<longleftrightarrow> schema_laws (fst l) \<and> indexer_laws (nl_indexer (snd l)) (nl_namespace (snd l))"

lemma lister_GetByKey:
  "lister_laws l \<Longrightarrow> GetByKey (nl_indexer (snd l)) (object_key (nl_namespace (snd l)) n) =
     Inr (map_option TaskObj (indexed_task (nl_indexer (snd l)) (nl_namespace (snd l)) n))"
  unfolding lister_laws_def indexer_laws_def by blast

lemma NamespaceLister_Get_eq:
  assumes "lister_laws (L, s)"
  shows "NamespaceLister_Get L s n =
    (case indexed_task (nl_indexer s) (nl_namespace s) n of
       Some t \<Rightarrow> Return (Inr t)
     | None \<Rightarrow> Return (Inl (NewNotFound L (Resource L ''codeenginetask'') n)))"
  using lister_GetByKey [OF assms, of n]
  by (simp add: NamespaceLister_Get_def split: option.split)

lemma NamespaceLister_List_eq:
  assumes "lister_laws (L, s)"
  shows "\<exists>ts. NamespaceLister_List s sel = Return (ts, None) \<and>
    set ts = {t \<in> ran (indexed_task (nl_indexer s) (nl_namespace s)). sel (task_labels t)}"
proof -
  obtain ts where "ListAllByNamespace (nl_indexer s) (nl_namespace s) sel = (map TaskObj ts, None)"
    and "set ts = {t \<in> ran (indexed_task (nl_indexer s) (nl_namespace s)). sel (task_labels t)}"
    using assms unfolding lister_laws_def indexer_laws_def fst_conv snd_conv by blast
  then show ?thesis by (simp add: NamespaceLister_List_def)
qed

interpretation task_lister: namespace_lister lister_laws
    "\<lambda>l. NamespaceLister_Get (fst l) (snd l)"
    "\<lambda>l. NamespaceLister_List (snd l)"
    "\<lambda>l sel. sel"
    "\<lambda>l. indexed_task (nl_indexer (snd l)) (nl_namespace (snd l))"
    task_labels
    "\<lambda>l. IsNotFound (fst l)"
proof (unfold_locales, goal_cases)
  case (1 l n t)
  then show ?case by (cases l) (simp add: NamespaceLister_Get_eq)
next
  case (2 l n)
  then have "schema_laws (fst l)" by (simp add: lister_laws_def)
  with 2 show ?case by (cases l) (simp add: NamespaceLister_Get_eq NewNotFound_IsNotFound)
next
  case (3 l sel)
  then show ?case using NamespaceLister_List_eq [of "fst l" "snd l" sel] by simp
qed

end
