(* ===== verification/GoJson.thy ===== *)
theory GoJson
  imports ApiTypes
begin

text \<open>
  The part of Go's \<open>encoding/json\<close> that the program uses to read JSON text: the scanner and
  parser of \<open>json.Unmarshal\<close>, with Go's nesting limit, its string unquoting (escapes,
  surrogate pairs, replacement of invalid UTF-8), and the decoding of a JSON object into the
  struct \<open>CodeEngineTaskSpec\<close>.

  The parser recurses on fuel; each nested call consumes at least one byte or leaves one to the
  next, so twice the length of the text plus one is always enough (\<open>parse_json_no_fuel\<close>).
\<close>

section \<open>Strings\<close>

definition byte :: "nat \<Rightarrow> char" where
  "byte n = char_of n"

abbreviation backslash :: char where
  "backslash \<equiv> CHR 0x5C"

abbreviation dquote :: char where
  "dquote \<equiv> CHR 0x22"

definition in_range :: "nat \<Rightarrow> nat \<Rightarrow> char \<Rightarrow> bool" where
  "in_range lo hi c \<longleftrightarrow> lo \<le> of_char c \<and> of_char c \<le> hi"

definition is_digit :: "char \<Rightarrow> bool" where
  "is_digit c = in_range 48 57 c"

definition is_space :: "char \<Rightarrow> bool" where
  "is_space c \<longleftrightarrow> c \<in> {CHR 0x20, CHR 0x09, CHR 0x0A, CHR 0x0D}"

fun skip_ws :: "string \<Rightarrow> string" where
  "skip_ws [] = []"
| "skip_ws (c # cs) = (if is_space c then skip_ws cs else c # cs)"

definition hex_val :: "char \<Rightarrow> nat option" where
  "hex_val c =
     (if is_digit c then Some (of_char c - 48)
      else if in_range 97 102 c then Some (of_char c - 87)
      else if in_range 65 70 c then Some (of_char c - 55)
      else None)"

fun hex4 :: "string \<Rightarrow> nat option" where
  "hex4 (a # b # c # d # _) =
     (case (hex_val a, hex_val b, hex_val c, hex_val d) of
        (Some w, Some x, Some y, Some z) \<Rightarrow> Some (4096 * w + 256 * x + 16 * y + z)
      | _ \<Rightarrow> None)"
| "hex4 _ = None"

text \<open>\<open>utf8.EncodeRune\<close>, for runes that are not surrogates and below 0x110000.\<close>

definition encode_rune :: "nat \<Rightarrow> string" where
  "encode_rune r =
     (if r < 0x80 then [byte r]
      else if r < 0x800 then [byte (0xC0 + r div 64), byte (0x80 + r mod 64)]
      else if r < 0x10000 then
        [byte (0xE0 + r div 4096), byte (0x80 + r div 64 mod 64), byte (0x80 + r mod 64)]
      else
        [byte (0xF0 + r div 262144), byte (0x80 + r div 4096 mod 64),
         byte (0x80 + r div 64 mod 64), byte (0x80 + r mod 64)])"

definition replacement :: string where
  "replacement = encode_rune 0xFFFD"

definition is_cont :: "char \<Rightarrow> bool" where
  "is_cont c = in_range 0x80 0xBF c"

text \<open>The width of the valid UTF-8 sequence at the front, 0 when there is none.\<close>

definition utf8_width :: "string \<Rightarrow> nat" where
  "utf8_width s =
     (case s of
        [] \<Rightarrow> 0
      | a # as \<Rightarrow>
          if in_range 0 0x7F a then 1
          else if in_range 0xC2 0xDF a then
            (case as of b # _ \<Rightarrow> if is_cont b then 2 else 0 | [] \<Rightarrow> 0)
          else if in_range 0xE0 0xEF a then
            (case as of
               b # c # _ \<Rightarrow>
                 if (if a = CHR 0xE0 then in_range 0xA0 0xBF b
                     else if a = CHR 0xED then in_range 0x80 0x9F b else is_cont b)
                    \<and> is_cont c then 3 else 0
             | _ \<Rightarrow> 0)
          else if in_range 0xF0 0xF4 a then
            (case as of
               b # c # d # _ \<Rightarrow>
                 if (if a = CHR 0xF0 then in_range 0x90 0xBF b
                     else if a = CHR 0xF4 then in_range 0x80 0x8F b else is_cont b)
                    \<and> is_cont c \<and> is_cont d then 4 else 0
             | _ \<Rightarrow> 0)
          else 0)"

text \<open>
  The escape \<open>\\uXXXX\<close> after its \<open>u\<close>: a surrogate pair is one rune, a lone surrogate the
  replacement rune.
\<close>

definition is_surrogate :: "nat \<Rightarrow> bool" where
  "is_surrogate r \<longleftrightarrow> 0xD800 \<le> r \<and> r < 0xE000"

fun unquote_unicode :: "string \<Rightarrow> string \<times> string" where
  "unquote_unicode s =
     (case hex4 s of
        None \<Rightarrow> ([], drop 4 s)
      | Some rr \<Rightarrow>
          if \<not> is_surrogate rr then (encode_rune rr, drop 4 s)
          else
            (case drop 4 s of
               b # u # r1 \<Rightarrow>
                 (case hex4 r1 of
                    Some rr1 \<Rightarrow>
                      if b = backslash \<and> u = CHR ''u'' \<and> rr < 0xDC00 \<and>
                         0xDC00 \<le> rr1 \<and> rr1 < 0xE000
                      then (encode_rune (0x10000 + (rr - 0xD800) * 0x400 + (rr1 - 0xDC00)),
                            drop 4 r1)
                      else (replacement, drop 4 s)
                  | None \<Rightarrow> (replacement, drop 4 s))
             | _ \<Rightarrow> (replacement, drop 4 s)))"

definition unescape_char :: "char \<Rightarrow> char" where
  "unescape_char c =
     (if c = CHR ''b'' then CHR 0x08 else if c = CHR ''f'' then CHR 0x0C
      else if c = CHR ''n'' then CHR 0x0A else if c = CHR ''r'' then CHR 0x0D
      else if c = CHR ''t'' then CHR 0x09 else c)"

text \<open>One step of \<open>unquote\<close>: the bytes written and the rest of the body.\<close>

definition unquote_step :: "char \<Rightarrow> string \<Rightarrow> string \<times> string" where
  "unquote_step c cs =
     (if c = backslash then
        (case cs of
           [] \<Rightarrow> ([], [])
         | e # r \<Rightarrow> if e = CHR ''u'' then unquote_unicode r else ([unescape_char e], r))
      else
        (let w = utf8_width (c # cs)
         in if w = 0 then (replacement, cs) else (take w (c # cs), drop w (c # cs))))"

lemma unquote_unicode_shorter: "length (snd (unquote_unicode s)) \<le> length s"
  by (auto split: option.splits list.splits dest!: arg_cong [where f = length])

lemma unquote_step_shorter: "length (snd (unquote_step c cs)) < Suc (length cs)"
  using unquote_unicode_shorter
  by (auto simp: unquote_step_def Let_def less_Suc_eq_le le_SucI
      simp del: unquote_unicode.simps split: list.splits)

function unquote :: "string \<Rightarrow> string" where
  "unquote [] = []"
| "unquote (c # cs) = fst (unquote_step c cs) @ unquote (snd (unquote_step c cs))"
  by pat_completeness auto
termination
  by (relation "measure length") (auto simp: unquote_step_shorter)

text \<open>
  The scanner inside a string: the body up to the closing quote and the rest, or nothing when a
  control byte, a bad escape or the end of the text comes first.
\<close>

definition is_escape :: "char \<Rightarrow> bool" where
  "is_escape c \<longleftrightarrow> c \<in> {CHR ''b'', CHR ''f'', CHR ''n'', CHR ''r'', CHR ''t'', backslash, CHR ''/'', dquote}"

fun scan_string :: "string \<Rightarrow> (string \<times> string) option" where
  "scan_string [] = None"
| "scan_string (c # cs) =
     (if c = dquote then Some ([], cs)
      else if of_char c < (0x20 :: nat) then None
      else if c = backslash then
        (case cs of
           [] \<Rightarrow> None
         | e # r \<Rightarrow>
             if e = CHR ''u'' \<and> hex4 r \<noteq> None \<or> is_escape e
             then map_option (\<lambda>(b, r'). (c # e # b, r')) (scan_string r)
             else None)
      else map_option (\<lambda>(b, r'). (c # b, r')) (scan_string cs))"

lemma scan_string_shorter: "scan_string s = Some (b, r) \<Longrightarrow> length r < length s"
  by (induction s arbitrary: b r rule: scan_string.induct)
    (fastforce split: if_splits list.splits intro: less_SucI)+

section \<open>Numbers\<close>

fun span_digits :: "string \<Rightarrow> string \<times> string" where
  "span_digits [] = ([], [])"
| "span_digits (c # cs) =
     (if is_digit c then (let (d, r) = span_digits cs in (c # d, r)) else ([], c # cs))"

lemma span_digits_split: "fst (span_digits s) @ snd (span_digits s) = s"
  by (induction s) (auto simp: case_prod_beta)

text \<open>The optional fraction and exponent; \<open>None\<close> when digits are missing.\<close>

definition scan_frac :: "string \<Rightarrow> (string \<times> string) option" where
  "scan_frac s =
     (case s of
        [] \<Rightarrow> Some ([], s)
      | c # cs \<Rightarrow>
          if c = CHR ''.'' then
            (let (d, r) = span_digits cs in if d = [] then None else Some (c # d, r))
          else Some ([], s))"

definition scan_exp :: "string \<Rightarrow> (string \<times> string) option" where
  "scan_exp s =
     (case s of
        [] \<Rightarrow> Some ([], s)
      | c # cs \<Rightarrow>
          if c = CHR ''e'' \<or> c = CHR ''E'' then
            (let (sg, cs1) = (case cs of
                                g # gs \<Rightarrow> if g = CHR ''+'' \<or> g = CHR ''-'' then ([g], gs) else ([], cs)
                              | [] \<Rightarrow> ([], cs));
                 (d, r) = span_digits cs1
             in if d = [] then None else Some (c # sg @ d, r))
          else Some ([], s))"

definition scan_int :: "string \<Rightarrow> (string \<times> string) option" where
  "scan_int s =
     (case s of
        [] \<Rightarrow> None
      | c # cs \<Rightarrow>
          if c = CHR ''0'' then Some ([c], cs)
          else if is_digit c then (let (d, r) = span_digits cs in Some (c # d, r))
          else None)"

definition scan_number :: "string \<Rightarrow> (string \<times> string) option" where
  "scan_number s =
     (let (sg, s1) = (case s of c # cs \<Rightarrow> if c = CHR ''-'' then ([c], cs) else ([], s) | [] \<Rightarrow> ([], s))
      in (case scan_int s1 of
            None \<Rightarrow> None
          | Some (i, s2) \<Rightarrow>
              (case scan_frac s2 of
                 None \<Rightarrow> None
               | Some (f, s3) \<Rightarrow>
                   (case scan_exp s3 of
                      None \<Rightarrow> None
                    | Some (x, s4) \<Rightarrow> Some (sg @ i @ f @ x, s4)))))"

lemma span_digits_le: "span_digits s = (d, r) \<Longrightarrow> length r \<le> length s"
  using span_digits_split [of s] by (metis fst_conv snd_conv le_add2 length_append)

lemma scan_int_shorter: "scan_int s = Some (i, r) \<Longrightarrow> length r < length s"
  by (auto simp: scan_int_def split: list.splits if_splits prod.splits dest!: span_digits_le)

lemma scan_frac_le: "scan_frac s = Some (i, r) \<Longrightarrow> length r \<le> length s"
  by (auto simp: scan_frac_def split: list.splits if_splits prod.splits dest!: span_digits_le)

lemma scan_exp_le: "scan_exp s = Some (i, r) \<Longrightarrow> length r \<le> length s"
  by (auto simp: scan_exp_def Let_def split: list.splits if_splits prod.splits dest!: span_digits_le)

lemma scan_number_shorter: "scan_number s = Some (n, r) \<Longrightarrow> length r < length s"
  by (fastforce simp: scan_number_def split: list.splits if_splits prod.splits option.splits
      dest: scan_int_shorter scan_frac_le scan_exp_le)

section \<open>Values\<close>

text \<open>
  A parsed value: numbers keep their text, objects their members in order, with duplicates.
\<close>

datatype json =
    JNull
  | JBool bool
  | JNum string
  | JStr string
  | JArr "json list"
  | JObj "(string \<times> json) list"

text \<open>\<open>maxNestingDepth\<close> of the scanner.\<close>

definition max_depth :: nat where
  "max_depth = 10000"

datatype 'a parse = Parsed 'a string | SyntaxError | OutOfFuel

definition literal :: "string \<Rightarrow> json \<Rightarrow> string \<Rightarrow> json parse" where
  "literal w v s = (if take (length w) s = w then Parsed v (drop (length w) s) else SyntaxError)"

definition starts_with :: "char \<Rightarrow> string \<Rightarrow> bool" where
  "starts_with c s = (case s of [] \<Rightarrow> False | d # _ \<Rightarrow> d = c)"

fun parse_value :: "nat \<Rightarrow> nat \<Rightarrow> string \<Rightarrow> json parse"
  and parse_elements :: "nat \<Rightarrow> nat \<Rightarrow> string \<Rightarrow> json list parse"
  and parse_members :: "nat \<Rightarrow> nat \<Rightarrow> string \<Rightarrow> (string \<times> json) list parse"
where
  "parse_value 0 d s = OutOfFuel"
| "parse_value (Suc k) d s =
     (case skip_ws s of
        [] \<Rightarrow> SyntaxError
      | c # cs \<Rightarrow>
          if c = dquote then
            (case scan_string cs of
               None \<Rightarrow> SyntaxError
             | Some (b, r) \<Rightarrow> Parsed (JStr (unquote b)) r)
          else if c = CHR ''{'' then
            (if max_depth \<le> d then SyntaxError
             else if starts_with (CHR ''}'') (skip_ws cs) then Parsed (JObj []) (tl (skip_ws cs))
             else (case parse_members k (Suc d) cs of
                     Parsed ms r \<Rightarrow> Parsed (JObj ms) r
                   | SyntaxError \<Rightarrow> SyntaxError
                   | OutOfFuel \<Rightarrow> OutOfFuel))
          else if c = CHR ''['' then
            (if max_depth \<le> d then SyntaxError
             else if starts_with (CHR '']'') (skip_ws cs) then Parsed (JArr []) (tl (skip_ws cs))
             else (case parse_elements k (Suc d) cs of
                     Parsed vs r \<Rightarrow> Parsed (JArr vs) r
                   | SyntaxError \<Rightarrow> SyntaxError
                   | OutOfFuel \<Rightarrow> OutOfFuel))
          else if c = CHR ''t'' then literal ''true'' (JBool True) (c # cs)
          else if c = CHR ''f'' then literal ''false'' (JBool False) (c # cs)
          else if c = CHR ''n'' then literal ''null'' JNull (c # cs)
          else
            (case scan_number (c # cs) of
               None \<Rightarrow> SyntaxError
             | Some (n, r) \<Rightarrow> Parsed (JNum n) r))"
| "parse_elements 0 d s = OutOfFuel"
| "parse_elements (Suc k) d s =
     (case parse_value k d s of
        SyntaxError \<Rightarrow> SyntaxError
      | OutOfFuel \<Rightarrow> OutOfFuel
      | Parsed v r \<Rightarrow>
          (case skip_ws r of
             [] \<Rightarrow> SyntaxError
           | c # cs \<Rightarrow>
               if c = CHR '']'' then Parsed [v] cs
               else if c = CHR '','' then
                 (case parse_elements k d cs of
                    Parsed vs r' \<Rightarrow> Parsed (v # vs) r'
                  | SyntaxError \<Rightarrow> SyntaxError
                  | OutOfFuel \<Rightarrow> OutOfFuel)
               else SyntaxError))"
| "parse_members 0 d s = OutOfFuel"
| "parse_members (Suc k) d s =
     (case skip_ws s of
        [] \<Rightarrow> SyntaxError
      | q # qs \<Rightarrow>
          if q \<noteq> dquote then SyntaxError
          else
            (case scan_string qs of
               None \<Rightarrow> SyntaxError
             | Some (b, r) \<Rightarrow>
                 if \<not> starts_with (CHR '':'') (skip_ws r) then SyntaxError
                 else
                   (case parse_value k d (tl (skip_ws r)) of
                      SyntaxError \<Rightarrow> SyntaxError
                    | OutOfFuel \<Rightarrow> OutOfFuel
                    | Parsed v r1 \<Rightarrow>
                        (case skip_ws r1 of
                           [] \<Rightarrow> SyntaxError
                         | c # cs \<Rightarrow>
                             if c = CHR ''}'' then Parsed [(unquote b, v)] cs
                             else if c = CHR '','' then
                               (case parse_members k d cs of
                                  Parsed ms r' \<Rightarrow> Parsed ((unquote b, v) # ms) r'
                                | SyntaxError \<Rightarrow> SyntaxError
                                | OutOfFuel \<Rightarrow> OutOfFuel)
                             else SyntaxError))))"

text \<open>The whole text: one value, then white space only.\<close>

definition parse_json :: "string \<Rightarrow> json option" where
  "parse_json s =
     (case parse_value (Suc (2 * length s)) 0 s of
        Parsed v r \<Rightarrow> if skip_ws r = [] then Some v else None
      | _ \<Rightarrow> None)"

section \<open>The parser consumes its input and never runs out of fuel\<close>

lemma skip_ws_le: "length (skip_ws s) \<le> length s"
  by (induction s) auto

lemma skip_ws_Cons_le: "skip_ws s = c # cs \<Longrightarrow> length cs < length s"
  using skip_ws_le [of s] by simp

lemma literal_shorter: "w \<noteq> [] \<Longrightarrow> literal w v s = Parsed x r \<Longrightarrow> length r < length s"
  by (cases s; cases w) (auto simp: literal_def split: if_splits)

lemma starts_with_tl_less: "starts_with c s \<Longrightarrow> length (tl s) < length s"
  by (auto simp: starts_with_def split: list.splits)

lemma tl_skip_ws_le: "starts_with c (skip_ws s) \<Longrightarrow> length (tl (skip_ws s)) < length s"
  using starts_with_tl_less [of c "skip_ws s"] skip_ws_le [of s] by linarith

lemmas parse_shrinks =
  skip_ws_Cons_le tl_skip_ws_le scan_string_shorter scan_number_shorter literal_shorter

lemma literal_Cons_shorter: "literal (a # w) v s = Parsed x r \<Longrightarrow> length r < length s"
  by (rule literal_shorter) simp_all

lemma literal_fuel: "literal w v s \<noteq> OutOfFuel"
  by (simp add: literal_def)

lemma parse_shorter:
  "parse_value k d s = Parsed v r \<Longrightarrow> length r < length s"
  "parse_elements k d s = Parsed vs r \<Longrightarrow> length r < length s"
  "parse_members k d s = Parsed ms r \<Longrightarrow> length r < length s"
proof (induction k arbitrary: d s v vs ms r)
  case (Suc k)
  note IH = Suc.IH
  {
    case 1
    then show ?case
      by (auto split: if_splits option.splits parse.splits prod.splits list.splits
       dest!: parse_shrinks literal_Cons_shorter IH)
  next
    case 2
    then show ?case
      by (auto split: if_splits option.splits parse.splits prod.splits list.splits
       dest!: parse_shrinks IH)
  next
    case 3
    then show ?case
      by (auto split: if_splits option.splits parse.splits prod.splits list.splits
       dest!: parse_shrinks IH)
  }
qed simp_all

lemma parse_fuel:
  "parse_value k d s = OutOfFuel \<Longrightarrow> k \<le> 2 * length s"
  "parse_elements k d s = OutOfFuel \<Longrightarrow> k \<le> 2 * length s + 1"
  "parse_members k d s = OutOfFuel \<Longrightarrow> k \<le> 2 * length s"
proof (induction k arbitrary: d s)
  case (Suc k)
  note IH = Suc.IH
  {
    case 1
    then show ?case
      by (auto split: if_splits option.splits parse.splits prod.splits list.splits simp: literal_fuel
       dest!: parse_shrinks IH)
  next
    case 2
    then show ?case
      by (auto split: if_splits option.splits parse.splits prod.splits list.splits
       dest!: parse_shrinks parse_shorter IH)
  next
    case 3
    then show ?case
      by (auto split: if_splits option.splits parse.splits prod.splits list.splits
       dest!: parse_shrinks parse_shorter IH)
  }
qed simp_all

text \<open>More fuel changes nothing once there was enough.\<close>

lemma parse_more_fuel:
  "parse_value k d s \<noteq> OutOfFuel \<Longrightarrow> k \<le> j \<Longrightarrow> parse_value j d s = parse_value k d s"
  "parse_elements k d s \<noteq> OutOfFuel \<Longrightarrow> k \<le> j \<Longrightarrow> parse_elements j d s = parse_elements k d s"
  "parse_members k d s \<noteq> OutOfFuel \<Longrightarrow> k \<le> j \<Longrightarrow> parse_members j d s = parse_members k d s"
proof (induction k arbitrary: d s j)
  case (Suc k)
  note IH = Suc.IH
  {
    case 1
    then obtain i where i: "j = Suc i" "k \<le> i" by (cases j) auto
    have "parse_members k (Suc d) cs \<noteq> OutOfFuel \<Longrightarrow>
        parse_members i (Suc d) cs = parse_members k (Suc d) cs"
      "parse_elements k (Suc d) cs \<noteq> OutOfFuel \<Longrightarrow>
        parse_elements i (Suc d) cs = parse_elements k (Suc d) cs" for cs
      using IH(2,3) i(2) by blast+
    with 1 show ?case by (auto simp: i(1) split: if_splits option.splits parse.splits list.splits)
  next
    case 2
    then obtain i where i: "j = Suc i" "k \<le> i" by (cases j) auto
    have "parse_value k d cs \<noteq> OutOfFuel \<Longrightarrow> parse_value i d cs = parse_value k d cs"
      "parse_elements k d cs \<noteq> OutOfFuel \<Longrightarrow> parse_elements i d cs = parse_elements k d cs" for cs
      using IH(1,2) i(2) by blast+
    with 2 show ?case by (auto simp: i(1) split: if_splits option.splits parse.splits list.splits)
  next
    case 3
    then obtain i where i: "j = Suc i" "k \<le> i" by (cases j) auto
    have "parse_value k d cs \<noteq> OutOfFuel \<Longrightarrow> parse_value i d cs = parse_value k d cs"
      "parse_members k d cs \<noteq> OutOfFuel \<Longrightarrow> parse_members i d cs = parse_members k d cs" for cs
      using IH(1,3) i(2) by blast+
    with 3 show ?case by (auto simp: i(1) split: if_splits option.splits parse.splits list.splits)
  }
qed simp_all

lemma parse_json_no_fuel: "parse_value (Suc (2 * length s)) 0 s \<noteq> OutOfFuel"
  using parse_fuel(1) [of "Suc (2 * length s)" 0 s] by auto

section \<open>Decoding into \<open>CodeEngineTaskSpec\<close>\<close>

text \<open>
  Field names match without regard to the case of ASCII letters; the last matching member wins;
  \<open>null\<close> leaves the field as it is; a value of another kind is remembered as the error, the
  first one wins, and decoding goes on.
\<close>

definition to_lower :: "char \<Rightarrow> char" where
  "to_lower c = (if in_range 65 90 c then byte (of_char c + 32) else c)"

definition eq_fold :: "string \<Rightarrow> string \<Rightarrow> bool" where
  "eq_fold a b \<longleftrightarrow> map to_lower a = map to_lower b"

fun json_kind :: "json \<Rightarrow> string" where
  "json_kind JNull = ''null''"
| "json_kind (JBool _) = ''bool''"
| "json_kind (JNum _) = ''number''"
| "json_kind (JStr _) = ''string''"
| "json_kind (JArr _) = ''array''"
| "json_kind (JObj _) = ''object''"

definition save_error :: "error option \<Rightarrow> error \<Rightarrow> error option" where
  "save_error saved e = (case saved of None \<Rightarrow> Some e | Some _ \<Rightarrow> saved)"

fun decode_spec_members ::
    "(string \<times> json) list \<Rightarrow> CodeEngineTaskSpec \<Rightarrow> error option \<Rightarrow> error option \<times> CodeEngineTaskSpec" where
  "decode_spec_members [] s saved = (saved, s)"
| "decode_spec_members ((key, v) # ms) s saved =
     (if eq_fold key ''jobName'' then
        (case v of
           JStr x \<Rightarrow> decode_spec_members ms (s\<lparr>JobName := x\<rparr>) saved
         | JNull \<Rightarrow> decode_spec_members ms s saved
         | _ \<Rightarrow> decode_spec_members ms s
                (save_error saved (UnmarshalTypeError (json_kind v) ''jobName'')))
      else decode_spec_members ms s saved)"

definition Unmarshal_TaskSpec :: "string \<Rightarrow> CodeEngineTaskSpec \<Rightarrow> error option \<times> CodeEngineTaskSpec" where
  "Unmarshal_TaskSpec data s =
     (case parse_json data of
        None \<Rightarrow> (Some JsonSyntaxError, s)
      | Some JNull \<Rightarrow> (None, s)
      | Some (JObj ms) \<Rightarrow> decode_spec_members ms s None
      | Some v \<Rightarrow> (Some (UnmarshalTypeError (json_kind v) []), s))"

text \<open>A syntax error means that no amount of fuel makes the parser accept the whole text.\<close>

definition accepts :: "nat \<Rightarrow> string \<Rightarrow> bool" where
  "accepts fuel s \<longleftrightarrow>
     (case parse_value fuel 0 s of Parsed v r \<Rightarrow> skip_ws r = [] | SyntaxError \<Rightarrow> False | OutOfFuel \<Rightarrow> False)"

lemma parse_enough_fuel:
  assumes "2 * length s < fuel"
  shows "parse_value fuel 0 s = parse_value (Suc (2 * length s)) 0 s"
  by (rule parse_more_fuel(1) [OF parse_json_no_fuel]) (use assms in simp)

lemma parse_json_None:
  assumes "2 * length s < fuel"
  shows "parse_json s = None \<longleftrightarrow> \<not> accepts fuel s"
  by (simp add: parse_json_def accepts_def parse_enough_fuel [OF assms] split: parse.split
      del: parse_value.simps)

lemma decode_spec_members_syntax:
  "fst (decode_spec_members ms s saved) = Some JsonSyntaxError \<longleftrightarrow> saved = Some JsonSyntaxError"
  by (induction ms s saved rule: decode_spec_members.induct)
    (simp_all add: save_error_def split: json.split option.split)

lemma Unmarshal_syntax_error:
  assumes "2 * length data < fuel"
  shows "fst (Unmarshal_TaskSpec data s) = Some JsonSyntaxError \<longleftrightarrow> \<not> accepts fuel data"
  unfolding parse_json_None [OF assms, symmetric]
  by (simp add: Unmarshal_TaskSpec_def decode_spec_members_syntax split: option.split json.split)

section \<open>Plain names\<close>

text \<open>
  The text of a spec with a plain job name (printable ASCII without quote and backslash, as
  every Kubernetes name is) decodes to that name.
\<close>

definition plain_char :: "char \<Rightarrow> bool" where
  "plain_char c \<longleftrightarrow> in_range 0x20 0x7E c \<and> c \<noteq> dquote \<and> c \<noteq> backslash"

definition spec_text :: "string \<Rightarrow> string" where
  \<open>spec_text name = ''{"jobName":"'' @ name @ ''"}''\<close>

lemma scan_string_plain:
  "list_all plain_char s \<Longrightarrow> scan_string (s @ dquote # r) = Some (s, r)"
  by (induction s) (auto simp: plain_char_def in_range_def)

lemma unquote_plain: "list_all plain_char s \<Longrightarrow> unquote s = s"
  by (induction s) (auto simp: plain_char_def in_range_def unquote_step_def utf8_width_def)

lemma parse_spec_text:
  assumes "list_all plain_char name"
  shows "parse_json (spec_text name) = Some (JObj [(''jobName'', JStr name)])"
proof -
  have "parse_value (Suc (Suc (Suc k))) 0 (spec_text name) = Parsed (JObj [(''jobName'', JStr name)]) []" for k
    using assms by (simp add: spec_text_def is_space_def starts_with_def max_depth_def
      scan_string_plain unquote_plain unquote_step_def utf8_width_def in_range_def plain_char_def)
  from this [of "2 * length (spec_text name) - 2"] show ?thesis
    by (simp add: parse_json_def spec_text_def)
qed

end
