(* ===== verification/Reconciler.thy ===== *)
theory Reconciler
  imports RunStatus Listers GoJson
begin

text \<open>
  The reconciler of \<open>src/pkg/reconciler/codeenginetask/codeenginetask.go\<close>: one definition per
  method, in the order of the file, over an explicit state that holds what the methods change:
  the Run, the local \<open>status\<close>, the Code Engine API behind the job runs client, and the trace of
  emitted events and creation calls.  Log messages are left out; where the evaluation of a log
  argument can panic, the panic is kept.
\<close>

section \<open>Code Engine resources and their library\<close>

text \<open>
  The job run types of the Code Engine batch job client: the fields the program names, and the
  rest as the type parameter \<open>'x\<close>.  A job definition is only passed on (\<open>'jd\<close>).
\<close>

record 'x CEJobRunStatus =
  js_Unknown :: int
  js_Requested :: int
  js_Pending :: int
  js_Running :: int
  js_Succeeded :: int
  js_Failed :: int
  js_Rest :: 'x

record 'x JobRun =
  jr_Name :: string
  jr_GenerateName :: string
  jr_Labels :: label_map
  jr_JobDefinitionRef :: string
  jr_Status :: "'x CEJobRunStatus"
  jr_Rest :: 'x

text \<open>
  The functions of that client; \<open>ZeroRest\<close> is the zero value of the fields the program does not
  name, and \<open>GetLatestCondition\<close> gives the type of the latest condition.
\<close>

record ('st, 'x, 'jd) ce_lib = "'st run_lib" +
  ZeroRest :: 'x
  SetDefaultsFromJobDefinition :: "'x JobRun \<Rightarrow> 'jd \<Rightarrow> 'x JobRun"
  CheckCondition :: "'x JobRun \<Rightarrow> string \<Rightarrow> bool"
  GetLatestCondition :: "'x CEJobRunStatus \<Rightarrow> string option"
  JobComplete :: string
  JobFailed :: string

text \<open>
  Documented: defaulting from the job definition completes the spec of the job run and leaves
  its name, generate name, labels and job definition reference alone.
\<close>

definition ce_laws :: "('st, 'x, 'jd, 'z) ce_lib_scheme \<Rightarrow> bool" where
  "ce_laws L \<longleftrightarrow>
     (\<forall>jr jd. jr_Labels (SetDefaultsFromJobDefinition L jr jd) = jr_Labels jr \<and>
              jr_GenerateName (SetDefaultsFromJobDefinition L jr jd) = jr_GenerateName jr \<and>
              jr_JobDefinitionRef (SetDefaultsFromJobDefinition L jr jd) = jr_JobDefinitionRef jr)"

definition jobRunOwnerLabelKey :: string where
  "jobRunOwnerLabelKey = GroupName @ ''/runOwner''"

definition jobRunOwnerNamespaceLabelKey :: string where
  "jobRunOwnerNamespaceLabelKey = GroupName @ ''/runNamespace''"

lemma label_keys_distinct [simp]:
  "jobRunOwnerLabelKey \<noteq> jobRunOwnerNamespaceLabelKey"
  "jobRunOwnerNamespaceLabelKey \<noteq> jobRunOwnerLabelKey"
  by (simp_all add: jobRunOwnerLabelKey_def jobRunOwnerNamespaceLabelKey_def)

section \<open>The reconciler and its state\<close>

text \<open>
  The struct \<open>Reconciler\<close>.  The listers are what the informer caches answer during the call,
  the client is a function of the API's state, and the cache of created job runs is the set of
  keys for which \<open>Get\<close> finds an unexpired item.
\<close>

record ('x, 'jd, 'w) Reconciler =
  r_kubeclient :: handle
  r_runLister :: handle
  r_secretLister :: handle
  r_taskLister :: "string \<Rightarrow> string \<Rightarrow> (error + CodeEngineTask) outcome"
  r_jobDefinitionLister :: "string \<Rightarrow> string \<Rightarrow> error + 'jd"
  r_jobRunLister :: "string \<Rightarrow> string \<Rightarrow> error + 'x JobRun"
  r_jobRunsClient :: "'x JobRun \<Rightarrow> 'w \<Rightarrow> (error + 'x JobRun) \<times> 'w"
  r_codeEngineNamespace :: string
  r_createdJobRuns :: "string \<Rightarrow> bool"

datatype ('st, 'x) effect =
    EmitEvent "Condition option" "Condition option" "'st Run"
  | CreateCall "'x JobRun" "error + 'x JobRun"

record ('st, 'x, 'w) rstate =
  rs_run :: "'st Run"
  rs_status :: CodeEngineTaskStatus
  rs_api :: 'w
  rs_effects :: "('st, 'x) effect list"

definition succeeded_condition :: "('st, 'z) run_lib_scheme \<Rightarrow> 'st Run \<Rightarrow> Condition option" where
  "succeeded_condition L run = GetCondition L (run_Status run) (ConditionSucceeded L)"

definition emit :: "('st, 'x) effect \<Rightarrow> ('st, 'x, 'w) rstate \<Rightarrow> ('st, 'x, 'w) rstate" where
  "emit e s = s\<lparr>rs_effects := rs_effects s @ [e]\<rparr>"

definition set_run_status :: "'st \<Rightarrow> ('st, 'x, 'w) rstate \<Rightarrow> ('st, 'x, 'w) rstate" where
  "set_run_status st s = s\<lparr>rs_run := (rs_run s)\<lparr>run_Status := st\<rparr>\<rparr>"

definition mark_failed ::
    "('st, 'z) run_lib_scheme \<Rightarrow> CodeEngineTaskRunReason \<Rightarrow> string \<Rightarrow> fmt_arg list \<Rightarrow>
       ('st, 'x, 'w) rstate \<Rightarrow> ('st, 'x, 'w) rstate" where
  "mark_failed L reason msg args s =
     set_run_status (MarkRunFailed L (reason_String reason) msg args (run_Status (rs_run s))) s"

definition mark_running ::
    "('st, 'z) run_lib_scheme \<Rightarrow> CodeEngineTaskRunReason \<Rightarrow> string \<Rightarrow> fmt_arg list \<Rightarrow>
       ('st, 'x, 'w) rstate \<Rightarrow> ('st, 'x, 'w) rstate" where
  "mark_running L reason msg args s =
     set_run_status (MarkRunRunning L (reason_String reason) msg args (run_Status (rs_run s))) s"

definition mark_succeeded ::
    "('st, 'z) run_lib_scheme \<Rightarrow> CodeEngineTaskRunReason \<Rightarrow> string \<Rightarrow> fmt_arg list \<Rightarrow>
       ('st, 'x, 'w) rstate \<Rightarrow> ('st, 'x, 'w) rstate" where
  "mark_succeeded L reason msg args s =
     set_run_status (MarkRunSucceeded L (reason_String reason) msg args (run_Status (rs_run s))) s"

section \<open>The methods\<close>

text \<open>
  \<open>verifyCodeEngineSpec\<close>.  The log message of its last check reads
  \<open>run.Spec.Ref.APIVersion\<close>, which panics for an embedded spec without a reference.
\<close>

definition foreign_type :: "'z schema_lib_scheme \<Rightarrow> string \<Rightarrow> string \<Rightarrow> bool" where
  "foreign_type L apiVersion kind \<longleftrightarrow>
     apiVersion \<noteq> GV_String L SchemeGroupVersion \<or> kind \<noteq> CustomTaskKind"

definition verifyCodeEngineSpec :: "'z schema_lib_scheme \<Rightarrow> 'st Run \<Rightarrow> bool outcome" where
  "verifyCodeEngineSpec L run =
     (if run_Spec run = None \<and> run_Ref run = None then Return False
      else if (case run_Ref run of
                 Some ref \<Rightarrow> foreign_type L (ref_APIVersion ref) (ref_Kind ref)
               | None \<Rightarrow> False) then Return False
      else
        (case run_Spec run of
           Some spec \<Rightarrow>
             if foreign_type L (es_APIVersion spec) (es_Kind spec) then
               (case run_Ref run of
                  None \<Rightarrow> Panic NilDereference
                | Some ref \<Rightarrow> Return False)
             else Return True
         | None \<Rightarrow> Return True))"

text \<open>\<open>initializeRun\<close>; \<open>now\<close> is the clock reading of \<open>InitializeConditions\<close>.\<close>

definition initializeRun ::
    "('st, 'z) run_lib_scheme \<Rightarrow> instant \<Rightarrow> ('st, 'x, 'w) rstate \<Rightarrow>
       unit outcome \<times> ('st, 'x, 'w) rstate" where
  "initializeRun L now s =
     (let run = rs_run s;
          st = InitializeConditions L now (run_Status run);
          s1 = set_run_status st s
      in (case StartTime L st of
            None \<Rightarrow> (Panic NilDereference, s1)
          | Some t \<Rightarrow>
              (let s2 = (if t - run_CreationTimestamp run < 0
                         then set_run_status (SetStartTime L (Some (run_CreationTimestamp run)) st) s1
                         else s1)
               in (Return (),
                   emit (EmitEvent None (succeeded_condition L (rs_run s2)) (rs_run s2)) s2))))"

definition finalizeRun :: "('st, 'x, 'w) rstate \<Rightarrow> ('st, 'x, 'w) rstate" where
  "finalizeRun s = s"

definition getCodeEngineTask ::
    "('st, 'z) run_lib_scheme \<Rightarrow> ('x, 'jd, 'w) Reconciler \<Rightarrow> ('st, 'x, 'w) rstate \<Rightarrow>
       (error + CodeEngineTask) outcome \<times> ('st, 'x, 'w) rstate" where
  "getCodeEngineTask L r s =
     (let run = rs_run s;
          missing = Errorf ''missing spec.ref.name for Run %s''
                      [ArgStr (object_key (run_Namespace run) (run_Name run))]
      in (case run_Spec run of
            Some spec \<Rightarrow>
              (case Unmarshal_TaskSpec (es_Raw spec) zero_CodeEngineTaskSpec of
                 (Some err, _) \<Rightarrow>
                   (Return (Inl (Errorf ''error unmarshal Code Engine task spec: %w'' [ArgErr err])), s)
               | (None, taskSpec) \<Rightarrow>
                   (Return (Inr
                      \<lparr>t_TypeMeta = \<lparr>tm_Kind = es_Kind spec, tm_APIVersion = es_APIVersion spec\<rparr>,
                       t_ObjectMeta = zero_ObjectMeta
                         \<lparr>om_Labels := es_Labels spec, om_Annotations := es_Annotations spec\<rparr>,
                       t_Spec = taskSpec,
                       t_Status = zero_CodeEngineTaskStatus\<rparr>), s))
          | None \<Rightarrow>
              (case run_Ref run of
                 Some ref \<Rightarrow>
                   if ref_Name ref \<noteq> [] then
                     (case r_taskLister r (run_Namespace run) (ref_Name ref) of
                        Panic p \<Rightarrow> (Panic p, s)
                      | Return (Inl err) \<Rightarrow>
                          (Return (Inl missing),
                           mark_failed L ReasonCouldntGetTask
                             ''Error retrieving CodeEngineTask for Run %s/%s: %s''
                             [ArgStr (run_Namespace run), ArgStr (run_Name run), ArgErr err] s)
                      | Return (Inr task) \<Rightarrow> (Return (Inr task), s))
                   else
                     (Return (Inl missing),
                      mark_failed L ReasonCouldntGetTask ''Missing spec.ref.name for Run %s/%s''
                        [ArgStr (run_Namespace run), ArgStr (run_Name run)] s)
               | None \<Rightarrow>
                   (Return (Inl missing),
                    mark_failed L ReasonCouldntGetTask ''Missing spec.ref.name for Run %s/%s''
                      [ArgStr (run_Namespace run), ArgStr (run_Name run)] s))))"

definition storeCodeEngineTaskSpec ::
    "CodeEngineTaskStatus \<Rightarrow> CodeEngineTaskSpec \<Rightarrow> CodeEngineTaskStatus" where
  "storeCodeEngineTaskSpec status tls =
     (case ts_CodeEngineTaskSpec status of
        None \<Rightarrow> status\<lparr>ts_CodeEngineTaskSpec := Some tls\<rparr>
      | Some _ \<Rightarrow> status)"

text \<open>The literal \<open>&JobRun{...}\<close> of \<open>runCodeEngineJob\<close>.\<close>

definition new_job_run :: "('st, 'x, 'jd, 'z) ce_lib_scheme \<Rightarrow> 'st Run \<Rightarrow> string \<Rightarrow> 'x JobRun" where
  "new_job_run L run jobName =
     \<lparr>jr_Name = [],
      jr_GenerateName = jobName @ ''-'',
      jr_Labels = [jobRunOwnerLabelKey \<mapsto> run_Name run,
                   jobRunOwnerNamespaceLabelKey \<mapsto> run_Namespace run],
      jr_JobDefinitionRef = jobName,
      jr_Status = \<lparr>js_Unknown = 0, js_Requested = 0, js_Pending = 0, js_Running = 0,
                   js_Succeeded = 0, js_Failed = 0, js_Rest = ZeroRest L\<rparr>,
      jr_Rest = ZeroRest L\<rparr>"

definition runCodeEngineJob ::
    "('st, 'x, 'jd, 'z) ce_lib_scheme \<Rightarrow> ('x, 'jd, 'w) Reconciler \<Rightarrow> ('st, 'x, 'w) rstate \<Rightarrow>
       error option outcome \<times> ('st, 'x, 'w) rstate" where
  "runCodeEngineJob L r s =
     (let run = rs_run s; status = rs_status s
      in if ts_JobRunName status = [] then
           (if r_createdJobRuns r (object_key (run_Namespace run) (run_Name run))
            then (Return (Some RequeueImmediately), s)
            else
              (case ts_CodeEngineTaskSpec status of
                 None \<Rightarrow> (Panic NilDereference, s)
               | Some spec \<Rightarrow>
                   (case r_jobDefinitionLister r (r_codeEngineNamespace r) (JobName spec) of
                      Inl err \<Rightarrow>
                        (Return (Some err),
                         mark_failed L ReasonFailedToStartJobRun
                           ''Error retrieving CodeEngine JobDefinition %q for Run %s/%s: %v''
                           [ArgStr (JobName spec), ArgStr (run_Namespace run),
                            ArgStr (run_Name run), ArgErr err] s)
                    | Inr jd \<Rightarrow>
                        (let jobRun = SetDefaultsFromJobDefinition L
                                        (new_job_run L run (JobName spec)) jd;
                             (res, api) = r_jobRunsClient r jobRun (rs_api s);
                             s1 = emit (CreateCall jobRun res) (s\<lparr>rs_api := api\<rparr>)
                         in (case res of
                               Inl err \<Rightarrow>
                                 (Return (Some err),
                                  mark_failed L ReasonFailedToStartJobRun
                                    ''Error creating CodeEngine JobRun: %v'' [ArgErr err] s1)
                             | Inr created \<Rightarrow>
                                 (Return None,
                                  mark_running L ReasonRunning ''Created CodeEngine JobRun: %q''
                                    [ArgStr (jr_Name created)]
                                    (s1\<lparr>rs_status := status\<lparr>ts_JobRunName := jr_Name created\<rparr>\<rparr>)))))))
         else (Return None, s))"

definition checkCodeEngineJobRunStatus ::
    "('st, 'x, 'jd, 'z) ce_lib_scheme \<Rightarrow> ('x, 'jd, 'w) Reconciler \<Rightarrow> ('st, 'x, 'w) rstate \<Rightarrow>
       error option \<times> ('st, 'x, 'w) rstate" where
  "checkCodeEngineJobRunStatus L r s =
     (let name = ts_JobRunName (rs_status s)
      in if length name > 0 then
           (case r_jobRunLister r (r_codeEngineNamespace r) name of
              Inl err \<Rightarrow>
                if IsNotFound L err then (None, s)
                else
                  (Some err,
                   mark_running L ReasonFailedToGetJobRunStatus
                     ''Error retrieving CodeEngine JobRun %q status: %v''
                     [ArgStr name, ArgErr err] s)
            | Inr jobRun \<Rightarrow>
                (let s1 = (if CheckCondition L jobRun (JobComplete L)
                           then mark_succeeded L ReasonSucceeded
                                  ''CodeEngine JobRun %q has completed'' [ArgStr name] s
                           else s);
                     s2 = (if CheckCondition L jobRun (JobFailed L)
                           then mark_failed L ReasonFailed
                                  ''CodeEngine JobRun %q has failed'' [ArgStr name] s1
                           else s1)
                 in (None, s2)))
         else (None, s))"

definition reconcile ::
    "('st, 'x, 'jd, 'z) ce_lib_scheme \<Rightarrow> ('x, 'jd, 'w) Reconciler \<Rightarrow> ('st, 'x, 'w) rstate \<Rightarrow>
       error option outcome \<times> ('st, 'x, 'w) rstate" where
  "reconcile L r s =
     (case getCodeEngineTask L r s of
        (Panic p, s1) \<Rightarrow> (Panic p, s1)
      | (Return (Inl err), s1) \<Rightarrow> (Return (Some err), s1)
      | (Return (Inr task), s1) \<Rightarrow>
          (let s2 = s1\<lparr>rs_status := storeCodeEngineTaskSpec (rs_status s1) (t_Spec task)\<rparr>
           in (case runCodeEngineJob L r s2 of
                 (Panic p, s3) \<Rightarrow> (Panic p, s3)
               | (Return (Some err), s3) \<Rightarrow> (Return (Some err), s3)
               | (Return None, s3) \<Rightarrow>
                   (let (err, s4) = checkCodeEngineJobRunStatus L r s3 in (Return err, s4)))))"

text \<open>
  The two halves of \<open>ReconcileKind\<close> after the deferred emission is set up: the branch of a Run
  that is not done, and the body.
\<close>

definition reconcile_undone ::
    "('st, 'x, 'jd, 'z) ce_lib_scheme \<Rightarrow> ('x, 'jd, 'w) Reconciler \<Rightarrow> ('st, 'x, 'w) rstate \<Rightarrow>
       error option outcome \<times> ('st, 'x, 'w) rstate" where
  "reconcile_undone L r s =
     (case DecodeStatusFromRun L (rs_run s) of
        (Inl err, run) \<Rightarrow> (Return (Some err), s\<lparr>rs_run := run\<rparr>)
      | (Inr status, run) \<Rightarrow>
          (case reconcile L r (s\<lparr>rs_run := run, rs_status := status\<rparr>) of
             (Panic p, s1) \<Rightarrow> (Panic p, s1)
           | (Return (Some err), s1) \<Rightarrow> (Return (Some err), s1)
           | (Return None, s1) \<Rightarrow>
               (let (err, run1) = EncodeIntoRun L (rs_status s1) (rs_run s1)
                in (Return err, s1\<lparr>rs_run := run1\<rparr>))))"

definition reconcile_body ::
    "('st, 'x, 'jd, 'z) ce_lib_scheme \<Rightarrow> ('x, 'jd, 'w) Reconciler \<Rightarrow> instant \<Rightarrow>
       ('st, 'x, 'w) rstate \<Rightarrow> error option outcome \<times> ('st, 'x, 'w) rstate" where
  "reconcile_body L r now s =
     (let (out, s1) = (if HasStarted L (run_Status (rs_run s)) then (Return (), s)
                       else initializeRun L now s)
      in (case out of
            Panic p \<Rightarrow> (Panic p, s1)
          | Return _ \<Rightarrow>
              if IsDone L (run_Status (rs_run s1)) then (Return None, finalizeRun s1)
              else reconcile_undone L r s1))"

text \<open>
  \<open>ReconcileKind\<close>: the deferred function emits the change of the condition however the body
  ends.
\<close>

definition ReconcileKind ::
    "('st, 'x, 'jd, 'z) ce_lib_scheme \<Rightarrow> ('x, 'jd, 'w) Reconciler \<Rightarrow> instant \<Rightarrow> 'st Run \<Rightarrow> 'w \<Rightarrow>
       error option outcome \<times> ('st, 'x, 'w) rstate" where
  "ReconcileKind L r now run api =
     (let s = \<lparr>rs_run = run, rs_status = zero_CodeEngineTaskStatus, rs_api = api, rs_effects = []\<rparr>
      in (case verifyCodeEngineSpec L run of
            Panic p \<Rightarrow> (Panic p, s)
          | Return False \<Rightarrow> (Return None, s)
          | Return True \<Rightarrow>
              (let beforeCondition = succeeded_condition L run;
                   (out, s1) = reconcile_body L r now s;
                   afterCondition = succeeded_condition L (rs_run s1)
               in (out, emit (EmitEvent beforeCondition afterCondition (rs_run s1)) s1))))"

text \<open>\<open>JobRunStatus\<close>, the text of the log message about a job run.\<close>

definition JobRunStatus :: "('st, 'x, 'jd, 'z) ce_lib_scheme \<Rightarrow> 'x CEJobRunStatus \<Rightarrow> string" where
  "JobRunStatus L js =
     (case GetLatestCondition L js of None \<Rightarrow> ''Unknown'' | Some ty \<Rightarrow> ty) @
     '' (unknown: '' @ show_int (js_Unknown js) @
     '', requested: '' @ show_int (js_Requested js) @
     '', pending: '' @ show_int (js_Pending js) @
     '', running: '' @ show_int (js_Running js) @
     '', succeeded: '' @ show_int (js_Succeeded js) @
     '', failed: '' @ show_int (js_Failed js) @ '')''"

end
