(* ===== verification/ReconcilerFacts.thy ===== *)
theory ReconcilerFacts
  imports Reconciler
begin

text \<open>
  The lemma library of the reconciler: selector rules of the state updates, one case rule per
  method (its branches with what each does), and what each method leaves alone.
\<close>

section \<open>State updates\<close>

lemma emit_simps [simp]:
  "rs_run (emit e s) = rs_run s"
  "rs_status (emit e s) = rs_status s"
  "rs_api (emit e s) = rs_api s"
  "rs_effects (emit e s) = rs_effects s @ [e]"
  by (simp_all add: emit_def)

lemma set_run_status_simps [simp]:
  "rs_run (set_run_status st s) = (rs_run s)\<lparr>run_Status := st\<rparr>"
  "rs_status (set_run_status st s) = rs_status s"
  "rs_api (set_run_status st s) = rs_api s"
  "rs_effects (set_run_status st s) = rs_effects s"
  by (simp_all add: set_run_status_def)

lemma mark_failed_simps [simp]:
  "rs_run (mark_failed L q m a s) =
     (rs_run s)\<lparr>run_Status := MarkRunFailed L (reason_String q) m a (run_Status (rs_run s))\<rparr>"
  "rs_status (mark_failed L q m a s) = rs_status s"
  "rs_api (mark_failed L q m a s) = rs_api s"
  "rs_effects (mark_failed L q m a s) = rs_effects s"
  by (simp_all add: mark_failed_def)

lemma mark_running_simps [simp]:
  "rs_run (mark_running L q m a s) =
     (rs_run s)\<lparr>run_Status := MarkRunRunning L (reason_String q) m a (run_Status (rs_run s))\<rparr>"
  "rs_status (mark_running L q m a s) = rs_status s"
  "rs_api (mark_running L q m a s) = rs_api s"
  "rs_effects (mark_running L q m a s) = rs_effects s"
  by (simp_all add: mark_running_def)

lemma mark_succeeded_simps [simp]:
  "rs_run (mark_succeeded L q m a s) =
     (rs_run s)\<lparr>run_Status := MarkRunSucceeded L (reason_String q) m a (run_Status (rs_run s))\<rparr>"
  "rs_status (mark_succeeded L q m a s) = rs_status s"
  "rs_api (mark_succeeded L q m a s) = rs_api s"
  "rs_effects (mark_succeeded L q m a s) = rs_effects s"
  by (simp_all add: mark_succeeded_def)

lemma storeCodeEngineTaskSpec_simps [simp]:
  "ts_JobRunName (storeCodeEngineTaskSpec st tls) = ts_JobRunName st"
  "ts_CodeEngineTaskSpec (storeCodeEngineTaskSpec st tls) =
     (case ts_CodeEngineTaskSpec st of None \<Rightarrow> Some tls | Some x \<Rightarrow> Some x)"
  by (simp_all add: storeCodeEngineTaskSpec_def split: option.split)

section \<open>What a step keeps\<close>

text \<open>
  \<open>keeps L s s'\<close>: only the status of the Run differs, and in it neither the start time nor the
  extra fields.
\<close>

definition keeps :: "('st, 'z) run_lib_scheme \<Rightarrow> ('st, 'x, 'w) rstate \<Rightarrow> ('st, 'x, 'w) rstate \<Rightarrow> bool" where
  "keeps L s s' \<longleftrightarrow>
     (\<exists>st. rs_run s' = (rs_run s)\<lparr>run_Status := st\<rparr> \<and>
        StartTime L st = StartTime L (run_Status (rs_run s)) \<and>
        DecodeExtraFields L st = DecodeExtraFields L (run_Status (rs_run s)))"

lemma keepsI:
  assumes "rs_run s' = (rs_run s)\<lparr>run_Status := st\<rparr>"
    and "StartTime L st = StartTime L (run_Status (rs_run s))"
    and "DecodeExtraFields L st = DecodeExtraFields L (run_Status (rs_run s))"
  shows "keeps L s s'"
  using assms unfolding keeps_def by blast

lemma keeps_same_run: "rs_run s' = rs_run s \<Longrightarrow> keeps L s s'"
  unfolding keeps_def by (rule exI [of _ "run_Status (rs_run s)"]) simp

lemma keeps_refl [simp, intro]: "keeps L s s"
  by (simp add: keeps_same_run)

lemma keeps_trans: "keeps L s t \<Longrightarrow> keeps L t u \<Longrightarrow> keeps L s u"
  by (auto simp: keeps_def)

lemma keeps_run_cong: "keeps L s s' \<Longrightarrow> rs_run t = rs_run s \<Longrightarrow> keeps L t s'"
  by (simp add: keeps_def)

lemma keeps_marks:
  assumes "run_laws L"
  shows "keeps L s (mark_failed L q m a s)"
    and "keeps L s (mark_running L q m a s)"
    and "keeps L s (mark_succeeded L q m a s)"
  using assms by (auto simp: keeps_def run_law_simps)

lemma keeps_fields:
  assumes "keeps L s s'"
  shows "run_Namespace (rs_run s') = run_Namespace (rs_run s)"
    and "run_Name (rs_run s') = run_Name (rs_run s)"
    and "run_CreationTimestamp (rs_run s') = run_CreationTimestamp (rs_run s)"
    and "run_Ref (rs_run s') = run_Ref (rs_run s)"
    and "run_Spec (rs_run s') = run_Spec (rs_run s)"
  using assms by (auto simp: keeps_def)

lemma keeps_status:
  assumes "keeps L s s'"
  shows "StartTime L (run_Status (rs_run s')) = StartTime L (run_Status (rs_run s))"
    and "DecodeExtraFields L (run_Status (rs_run s')) = DecodeExtraFields L (run_Status (rs_run s))"
  using assms by (auto simp: keeps_def)

section \<open>Verification\<close>

lemma verify_cases:
  obtains (accept) "verifyCodeEngineSpec L run = Return True"
  | (reject) "verifyCodeEngineSpec L run = Return False"
  | (panic) "verifyCodeEngineSpec L run = Panic NilDereference"
proof -
  have "verifyCodeEngineSpec L run \<in> {Return True, Return False, Panic NilDereference}"
    by (simp add: verifyCodeEngineSpec_def split: option.split)
  then show thesis using accept reject panic by blast
qed

lemma verify_panic_iff:
  "is_panic (verifyCodeEngineSpec L run) \<longleftrightarrow>
     run_Ref run = None \<and>
     (\<exists>spec. run_Spec run = Some spec \<and> foreign_type L (es_APIVersion spec) (es_Kind spec))"
  by (auto simp: verifyCodeEngineSpec_def split: option.splits)

lemma verify_accept_iff:
  "verifyCodeEngineSpec L run = Return True \<longleftrightarrow>
     (run_Spec run \<noteq> None \<or> run_Ref run \<noteq> None) \<and>
     (\<forall>ref. run_Ref run = Some ref \<longrightarrow> \<not> foreign_type L (ref_APIVersion ref) (ref_Kind ref)) \<and>
     (\<forall>spec. run_Spec run = Some spec \<longrightarrow> \<not> foreign_type L (es_APIVersion spec) (es_Kind spec))"
  by (auto simp: verifyCodeEngineSpec_def split: option.splits)

section \<open>The methods, case by case\<close>

lemma initializeRun_eq:
  fixes now :: instant
  assumes "run_laws L" and "\<not> HasStarted L (run_Status (rs_run s))"
  defines "st \<equiv> (let st = InitializeConditions L now (run_Status (rs_run s))
     in if now < run_CreationTimestamp (rs_run s)
        then SetStartTime L (Some (run_CreationTimestamp (rs_run s))) st else st)"
  shows "initializeRun L now s =
    (Return (), emit (EmitEvent None (GetCondition L st (ConditionSucceeded L)) ((rs_run s)\<lparr>run_Status := st\<rparr>))
       (set_run_status st s))"
  using assms(1,2)
  by (simp add: initializeRun_def st_def init_laws Let_def succeeded_condition_def set_run_status_def
      emit_def)

lemma getCodeEngineTask_cases:
  assumes "getCodeEngineTask L r s = (out, s')"
  obtains (found) task where "out = Return (Inr task)" "s' = s"
  | (bad_spec) err spec where "run_Spec (rs_run s) = Some spec"
      "out = Return (Inl (Errorf ''error unmarshal Code Engine task spec: %w'' [ArgErr err]))" "s' = s"
  | (not_found) m a e where "out = Return (Inl e)" "s' = mark_failed L ReasonCouldntGetTask m a s"
      "run_Spec (rs_run s) = None"
  | (panic) p where "out = Panic p" "s' = s"
proof (cases "run_Spec (rs_run s)")
  case (Some spec)
  obtain e t where dec: "Unmarshal_TaskSpec (es_Raw spec) zero_CodeEngineTaskSpec = (e, t)"
    by (rule prod.exhaust)
  show thesis
  proof (cases e)
    case None
    show thesis by (rule found) (use assms Some dec None in \<open>auto simp: getCodeEngineTask_def\<close>)
  next
    case (Some err)
    show thesis
      by (rule bad_spec [of spec err])
        (use assms \<open>run_Spec _ = _\<close> dec Some in \<open>simp_all add: getCodeEngineTask_def\<close>)
  qed
next
  case None
  show thesis
  proof (cases "\<exists>ref. run_Ref (rs_run s) = Some ref \<and> ref_Name ref \<noteq> []")
    case True
    then obtain ref where ref: "run_Ref (rs_run s) = Some ref" "ref_Name ref \<noteq> []" by blast
    define got where "got = r_taskLister r (run_Namespace (rs_run s)) (ref_Name ref)"
    consider (p) p where "got = Panic p" | (e) e where "got = Return (Inl e)"
      | (t) t where "got = Return (Inr t)"
      by (metis outcome.exhaust sum.exhaust)
    then show thesis
    proof cases
      case (p p)
      show thesis
        by (rule panic [of p]) (use assms None ref p in \<open>auto simp: getCodeEngineTask_def got_def\<close>)
    next
      case (e e)
      show thesis
        by (rule not_found [OF _ _ None])
          (use assms None ref e in \<open>auto simp: getCodeEngineTask_def got_def Let_def\<close>)
    next
      case (t t)
      show thesis
        by (rule found [of t]) (use assms None ref t in \<open>auto simp: getCodeEngineTask_def got_def\<close>)
    qed
  next
    case False
    show thesis
      by (rule not_found [OF _ _ None])
        (use assms None False in \<open>auto simp add: getCodeEngineTask_def Let_def split: option.splits if_splits\<close>)
  qed
qed

lemma runCodeEngineJob_cases:
  assumes "runCodeEngineJob L r s = (out, s')"
  obtains (already) "ts_JobRunName (rs_status s) \<noteq> []" "out = Return None" "s' = s"
  | (cached) "ts_JobRunName (rs_status s) = []"
      "r_createdJobRuns r (object_key (run_Namespace (rs_run s)) (run_Name (rs_run s)))"
      "out = Return (Some RequeueImmediately)" "s' = s"
  | (no_spec) "ts_JobRunName (rs_status s) = []"
      "ts_CodeEngineTaskSpec (rs_status s) = None" "out = Panic NilDereference" "s' = s"
  | (no_definition) spec err m a where "ts_JobRunName (rs_status s) = []"
      "ts_CodeEngineTaskSpec (rs_status s) = Some spec"
      "r_jobDefinitionLister r (r_codeEngineNamespace r) (JobName spec) = Inl err"
      "out = Return (Some err)" "s' = mark_failed L ReasonFailedToStartJobRun m a s"
  | (create_failed) spec jd jobRun err api m a where "ts_JobRunName (rs_status s) = []"
      "ts_CodeEngineTaskSpec (rs_status s) = Some spec"
      "jobRun = SetDefaultsFromJobDefinition L (new_job_run L (rs_run s) (JobName spec)) jd"
      "r_jobRunsClient r jobRun (rs_api s) = (Inl err, api)"
      "out = Return (Some err)"
      "s' = mark_failed L ReasonFailedToStartJobRun m a
              (emit (CreateCall jobRun (Inl err)) (s\<lparr>rs_api := api\<rparr>))"
  | (created) spec jd jobRun jr api m a where "ts_JobRunName (rs_status s) = []"
      "ts_CodeEngineTaskSpec (rs_status s) = Some spec"
      "r_jobDefinitionLister r (r_codeEngineNamespace r) (JobName spec) = Inr jd"
      "jobRun = SetDefaultsFromJobDefinition L (new_job_run L (rs_run s) (JobName spec)) jd"
      "r_jobRunsClient r jobRun (rs_api s) = (Inr jr, api)"
      "out = Return None"
      "s' = mark_running L ReasonRunning m a
              ((emit (CreateCall jobRun (Inr jr)) (s\<lparr>rs_api := api\<rparr>))
                \<lparr>rs_status := (rs_status s)\<lparr>ts_JobRunName := jr_Name jr\<rparr>\<rparr>)"
proof (cases "ts_JobRunName (rs_status s) = []")
  case False
  show thesis by (rule already) (use assms False in \<open>simp_all add: runCodeEngineJob_def\<close>)
next
  case noname: True
  show thesis
  proof (cases "r_createdJobRuns r (object_key (run_Namespace (rs_run s)) (run_Name (rs_run s)))")
    case True
    show thesis
      by (rule cached) (use assms noname True in \<open>simp_all add: runCodeEngineJob_def\<close>)
  next
    case uncached: False
    show thesis
    proof (cases "ts_CodeEngineTaskSpec (rs_status s)")
      case None
      show thesis
        by (rule no_spec) (use assms noname uncached None in \<open>simp_all add: runCodeEngineJob_def\<close>)
    next
      case spec: (Some spec)
      note prefix = assms noname uncached spec
      show thesis
      proof (cases "r_jobDefinitionLister r (r_codeEngineNamespace r) (JobName spec)")
        case (Inl err)
        show thesis
          by (rule no_definition [OF noname spec Inl])
            (use prefix Inl in \<open>auto simp: runCodeEngineJob_def Let_def\<close>)
      next
        case jd: (Inr jd)
        define jobRun where
          "jobRun = SetDefaultsFromJobDefinition L (new_job_run L (rs_run s) (JobName spec)) jd"
        obtain res api where client: "r_jobRunsClient r jobRun (rs_api s) = (res, api)"
          by (rule prod.exhaust)
        show thesis
        proof (cases res)
          case (Inl err)
          show thesis
            by (rule create_failed [OF noname spec jobRun_def])
              (use prefix jd client Inl in \<open>auto simp: runCodeEngineJob_def jobRun_def\<close>)
        next
          case (Inr jr)
          show thesis
            by (rule created [OF noname spec jd jobRun_def])
              (use prefix jd client Inr in \<open>auto simp: runCodeEngineJob_def jobRun_def\<close>)
        qed
      qed
    qed
  qed
qed

lemma check_cases:
  assumes "checkCodeEngineJobRunStatus L r s = (out, s')"
  obtains (no_name) "ts_JobRunName (rs_status s) = []" "out = None" "s' = s"
  | (unknown) e where "ts_JobRunName (rs_status s) \<noteq> []"
      "r_jobRunLister r (r_codeEngineNamespace r) (ts_JobRunName (rs_status s)) = Inl e"
      "IsNotFound L e" "out = None" "s' = s"
  | (broken) e m a where "ts_JobRunName (rs_status s) \<noteq> []"
      "r_jobRunLister r (r_codeEngineNamespace r) (ts_JobRunName (rs_status s)) = Inl e"
      "\<not> IsNotFound L e" "out = Some e"
      "s' = mark_running L ReasonFailedToGetJobRunStatus m a s"
  | (unfinished) jr where "ts_JobRunName (rs_status s) \<noteq> []"
      "r_jobRunLister r (r_codeEngineNamespace r) (ts_JobRunName (rs_status s)) = Inr jr"
      "\<not> CheckCondition L jr (JobComplete L)" "\<not> CheckCondition L jr (JobFailed L)"
      "out = None" "s' = s"
  | (complete) jr m a where "ts_JobRunName (rs_status s) \<noteq> []"
      "r_jobRunLister r (r_codeEngineNamespace r) (ts_JobRunName (rs_status s)) = Inr jr"
      "CheckCondition L jr (JobComplete L)" "\<not> CheckCondition L jr (JobFailed L)"
      "out = None" "s' = mark_succeeded L ReasonSucceeded m a s"
  | (failed) jr m a t where "ts_JobRunName (rs_status s) \<noteq> []"
      "r_jobRunLister r (r_codeEngineNamespace r) (ts_JobRunName (rs_status s)) = Inr jr"
      "CheckCondition L jr (JobFailed L)" "out = None" "s' = mark_failed L ReasonFailed m a t"
      "t = s \<or> (\<exists>m' a'. t = mark_succeeded L ReasonSucceeded m' a' s)"
proof (cases "ts_JobRunName (rs_status s) = []")
  case True
  show thesis
    by (rule no_name) (use assms True in \<open>simp_all add: checkCodeEngineJobRunStatus_def\<close>)
next
  case name: False
  show thesis
  proof (cases "r_jobRunLister r (r_codeEngineNamespace r) (ts_JobRunName (rs_status s))")
    case (Inl e)
    note prefix = assms name Inl
    show thesis
    proof (cases "IsNotFound L e")
      case True
      show thesis
        by (rule unknown [OF name Inl True])
          (use prefix True in \<open>simp_all add: checkCodeEngineJobRunStatus_def\<close>)
    next
      case False
      show thesis
        by (rule broken [OF name Inl False])
          (use prefix False in \<open>auto simp: checkCodeEngineJobRunStatus_def\<close>)
    qed
  next
    case (Inr jr)
    note prefix = assms name Inr
    show thesis
    proof (cases "CheckCondition L jr (JobFailed L)")
      case isfailed: True
      show thesis
      proof (cases "CheckCondition L jr (JobComplete L)")
        case True
        show thesis
          by (rule failed [OF name Inr isfailed, where t = "mark_succeeded L ReasonSucceeded
                ''CodeEngine JobRun %q has completed'' [ArgStr (ts_JobRunName (rs_status s))] s"])
            (use prefix isfailed True in \<open>auto simp: checkCodeEngineJobRunStatus_def Let_def\<close>)
      next
        case False
        show thesis
          by (rule failed [OF name Inr isfailed, where t = s])
            (use prefix isfailed False in \<open>auto simp: checkCodeEngineJobRunStatus_def\<close>)
      qed
    next
      case notfailed: False
      show thesis
      proof (cases "CheckCondition L jr (JobComplete L)")
        case True
        show thesis
          by (rule complete [OF name Inr True notfailed])
            (use prefix True notfailed in \<open>auto simp: checkCodeEngineJobRunStatus_def\<close>)
      next
        case False
        show thesis
          by (rule unfinished [OF name Inr False notfailed])
            (use prefix False notfailed in \<open>simp_all add: checkCodeEngineJobRunStatus_def\<close>)
      qed
    qed
  qed
qed

lemma reconcile_cases:
  assumes "reconcile L r s = (out, s')"
  obtains (task_panic) p where "getCodeEngineTask L r s = (Panic p, s')" "out = Panic p"
  | (task_error) err where "getCodeEngineTask L r s = (Return (Inl err), s')" "out = Return (Some err)"
  | (job_stops) task s2 where "getCodeEngineTask L r s = (Return (Inr task), s)"
      "s2 = s\<lparr>rs_status := storeCodeEngineTaskSpec (rs_status s) (t_Spec task)\<rparr>"
      "runCodeEngineJob L r s2 = (out, s')" "out \<noteq> Return None"
  | (checked) task s2 s3 err where "getCodeEngineTask L r s = (Return (Inr task), s)"
      "s2 = s\<lparr>rs_status := storeCodeEngineTaskSpec (rs_status s) (t_Spec task)\<rparr>"
      "runCodeEngineJob L r s2 = (Return None, s3)"
      "checkCodeEngineJobRunStatus L r s3 = (err, s')" "out = Return err"
proof -
  obtain x s1 where task: "getCodeEngineTask L r s = (x, s1)" by (rule prod.exhaust)
  then show thesis
  proof (cases rule: getCodeEngineTask_cases)
    case (found t)
    obtain y s3 where job: "runCodeEngineJob L r
        (s\<lparr>rs_status := storeCodeEngineTaskSpec (rs_status s) (t_Spec t)\<rparr>) = (y, s3)"
      by (rule prod.exhaust)
    obtain e s4 where chk: "checkCodeEngineJobRunStatus L r s3 = (e, s4)" by (rule prod.exhaust)
    show thesis
    proof (cases "y = Return None")
      case True
      with task found job chk assms checked show thesis by (simp add: reconcile_def)
    next
      case False
      with task found job assms job_stops show thesis
        by (auto simp: reconcile_def split: outcome.splits option.splits)
    qed
  qed (use task assms task_panic task_error in \<open>auto simp: reconcile_def\<close>)
qed

lemma reconcile_undone_cases:
  assumes "reconcile_undone L r s = (out, s')"
  obtains (undecodable) err run where "DecodeStatusFromRun L (rs_run s) = (Inl err, run)"
      "out = Return (Some err)" "s' = s\<lparr>rs_run := run\<rparr>"
  | (stopped) status where "DecodeStatusFromRun L (rs_run s) = (Inr status, rs_run s)"
      "reconcile L r (s\<lparr>rs_status := status\<rparr>) = (out, s')" "out \<noteq> Return None"
  | (encoded) status s1 err run1 where "DecodeStatusFromRun L (rs_run s) = (Inr status, rs_run s)"
      "reconcile L r (s\<lparr>rs_status := status\<rparr>) = (Return None, s1)"
      "EncodeIntoRun L (rs_status s1) (rs_run s1) = (err, run1)"
      "out = Return err" "s' = s1\<lparr>rs_run := run1\<rparr>"
proof -
  obtain x run where dec: "DecodeStatusFromRun L (rs_run s) = (x, run)" by (rule prod.exhaust)
  show thesis
  proof (cases x)
    case (Inl err)
    with dec assms undecodable show thesis by (simp add: reconcile_undone_def)
  next
    case (Inr status)
    with dec run_store.load_ok have same: "run = rs_run s" by blast
    obtain y s1 where rec: "reconcile L r (s\<lparr>rs_status := status\<rparr>) = (y, s1)"
      by (rule prod.exhaust)
    obtain e run1 where enc: "EncodeIntoRun L (rs_status s1) (rs_run s1) = (e, run1)"
      by (rule prod.exhaust)
    have s_eq: "s\<lparr>rs_run := rs_run s, rs_status := status\<rparr> = s\<lparr>rs_status := status\<rparr>" by simp
    show thesis
    proof (cases "y = Return None")
      case True
      with dec Inr same rec enc assms encoded show thesis by (simp add: reconcile_undone_def)
    next
      case False
      with dec Inr same rec assms stopped show thesis
        by (auto simp: reconcile_undone_def split: outcome.splits option.splits)
    qed
  qed
qed

section \<open>Frames\<close>

lemma getCodeEngineTask_frame:
  assumes "run_laws L" and "getCodeEngineTask L r s = (out, s')"
  shows "keeps L s s'" and "rs_status s' = rs_status s" and "rs_api s' = rs_api s"
    and "rs_effects s' = rs_effects s"
  using assms(2) by (cases rule: getCodeEngineTask_cases; simp add: keeps_marks assms(1))+

lemma runCodeEngineJob_keeps:
  assumes "run_laws L" and "runCodeEngineJob L r s = (out, s')"
  shows "keeps L s s'"
  using assms(2)
proof (cases rule: runCodeEngineJob_cases)
  case (create_failed spec jd jobRun err api m a)
  show ?thesis unfolding create_failed(6)
    by (rule keeps_run_cong [OF keeps_marks(1) [OF assms(1)]]) simp
next
  case (created spec jd jobRun jr api m a)
  show ?thesis unfolding created(7)
    by (rule keeps_run_cong [OF keeps_marks(2) [OF assms(1)]]) simp
qed (simp_all add: keeps_marks assms(1))

lemma check_frame:
  assumes "run_laws L" and "checkCodeEngineJobRunStatus L r s = (out, s')"
  shows "keeps L s s'" and "rs_status s' = rs_status s" and "rs_api s' = rs_api s"
    and "rs_effects s' = rs_effects s"
proof -
  have "keeps L s s' \<and> rs_status s' = rs_status s \<and> rs_api s' = rs_api s \<and>
      rs_effects s' = rs_effects s"
    using assms(2)
  proof (cases rule: check_cases)
    case (failed jr m a t)
    then have "keeps L s t" by (auto simp: keeps_marks assms(1))
    with failed show ?thesis
      by (auto intro: keeps_trans simp: keeps_marks assms(1))
  qed (simp_all add: keeps_marks assms(1))
  then show "keeps L s s'" and "rs_status s' = rs_status s" and "rs_api s' = rs_api s"
    and "rs_effects s' = rs_effects s" by simp_all
qed

lemma reconcile_keeps:
  assumes "run_laws L" and "reconcile L r s = (out, s')"
  shows "keeps L s s'"
  using assms(2)
proof (cases rule: reconcile_cases)
  case (job_stops task s2)
  have "keeps L s2 s'" by (rule runCodeEngineJob_keeps [OF assms(1) job_stops(3)])
  then show ?thesis by (rule keeps_run_cong) (simp add: job_stops(2))
next
  case (checked task s2 s3 err)
  have "keeps L s2 s'"
    by (rule keeps_trans [OF runCodeEngineJob_keeps [OF assms(1) checked(3)]
        check_frame(1) [OF assms(1) checked(4)]])
  then show ?thesis by (rule keeps_run_cong) (simp add: checked(2))
qed (auto dest: getCodeEngineTask_frame [OF assms(1)])

end
