(* ===== verification/RunLifecycle.thy ===== *)
theory RunLifecycle
  imports ReconcilerFacts
begin

text \<open>
  The life of a Run as an abstract machine of four phases, and the refinement that each call of
  \<open>ReconcileKind\<close> is a step of it.  The machine counts the calls that create a job run; the
  bound on job runs over a whole sequence of reconciliations is proved on the machine and
  carried over.
\<close>

section \<open>Phases\<close>

text \<open>
  \<open>Fresh\<close>: no start time; \<open>Pending\<close>: started, no job run recorded; \<open>Submitted\<close>: the
  name of a job run is in the extra fields; \<open>Finished\<close>: the condition is decided.
\<close>

datatype phase = Fresh | Pending | Submitted | Finished

fun phase_rank :: "phase \<Rightarrow> nat" where
  "phase_rank Fresh = 0"
| "phase_rank Pending = 1"
| "phase_rank Submitted = 2"
| "phase_rank Finished = 3"

lemma phase_rank_inject [simp]: "phase_rank p = phase_rank q \<longleftrightarrow> p = q"
  by (cases p; cases q) simp_all

instantiation phase :: linorder
begin

definition less_eq_phase :: "phase \<Rightarrow> phase \<Rightarrow> bool" where
  "less_eq_phase p q \<longleftrightarrow> phase_rank p \<le> phase_rank q"

definition less_phase :: "phase \<Rightarrow> phase \<Rightarrow> bool" where
  "less_phase p q \<longleftrightarrow> phase_rank p < phase_rank q"

instance
  by standard (auto simp: less_eq_phase_def less_phase_def)

end

lemma phase_order [simp]:
  "Fresh \<le> p" "p \<le> Finished" "Fresh < Submitted" "Pending < Submitted" "\<not> Submitted < Submitted"
  "\<not> Finished < Submitted" "Pending \<le> Submitted" "\<not> Submitted \<le> Pending" "\<not> Finished \<le> Pending"
  "\<not> Finished \<le> Submitted" "\<not> Pending \<le> Fresh" "\<not> Submitted \<le> Fresh" "\<not> Finished \<le> Fresh"
  by (cases p; simp add: less_eq_phase_def less_phase_def)+

definition stored_status :: "('st, 'z) run_lib_scheme \<Rightarrow> 'st \<Rightarrow> CodeEngineTaskStatus option" where
  "stored_status L st =
     (case DecodeExtraFields L st zero_CodeEngineTaskStatus of Inl _ \<Rightarrow> None | Inr s \<Rightarrow> Some s)"

definition submitted :: "('st, 'z) run_lib_scheme \<Rightarrow> 'st \<Rightarrow> bool" where
  "submitted L st \<longleftrightarrow>
     (case stored_status L st of None \<Rightarrow> False | Some s \<Rightarrow> ts_JobRunName s \<noteq> [])"

definition phase_of :: "('st, 'z) run_lib_scheme \<Rightarrow> 'st \<Rightarrow> phase" where
  "phase_of L st =
     (if IsDone L st then Finished
      else if \<not> HasStarted L st then Fresh
      else if submitted L st then Submitted else Pending)"

abbreviation run_phase :: "('st, 'z) run_lib_scheme \<Rightarrow> 'st Run \<Rightarrow> phase" where
  "run_phase L run \<equiv> phase_of L (run_Status run)"

section \<open>The abstract machine\<close>

text \<open>
  \<open>lifecycle reliable p b q\<close>: a reconciliation can take a Run from \<open>p\<close> to \<open>q\<close>; \<open>b\<close> says
  whether it asked for the creation of a job run.  Only an unreliable environment can lose a
  creation.
\<close>

inductive lifecycle :: "bool \<Rightarrow> phase \<Rightarrow> bool \<Rightarrow> phase \<Rightarrow> bool" for reliable where
  wait: "p < Submitted \<Longrightarrow> lifecycle reliable p False Pending"
| submit: "p < Submitted \<Longrightarrow> lifecycle reliable p True Submitted"
| submit_finish: "p < Submitted \<Longrightarrow> lifecycle reliable p True Finished"
| lost: "\<not> reliable \<Longrightarrow> p < Submitted \<Longrightarrow> lifecycle reliable p True Pending"
| resume: "p \<le> Submitted \<Longrightarrow> p \<noteq> Pending \<Longrightarrow> lifecycle reliable p False Submitted"
| finish: "lifecycle reliable p False Finished"

inductive_simps lifecycle_from_Finished [simp]: "lifecycle reliable Finished b q"
inductive_simps lifecycle_from_Submitted [simp]: "lifecycle reliable Submitted b q"
inductive_cases lifecycle_creating: "lifecycle reliable p True q"
inductive_cases lifecycle_any: "lifecycle reliable p b q"

lemma lifecycle_mono: "lifecycle reliable p b q \<Longrightarrow> p \<le> q"
  by (induction rule: lifecycle.induct) (case_tac p; simp)+

lemma lifecycle_from_Fresh:
  assumes "lifecycle reliable p b q" and "p \<noteq> Finished"
  shows "lifecycle reliable Fresh b q"
  using assms by (cases rule: lifecycle.cases) (auto intro: lifecycle.intros)

lemma lifecycle_create_once:
  assumes "lifecycle True p b q"
  shows "(b \<longrightarrow> p < Submitted \<and> Submitted \<le> q) \<and> (Submitted \<le> p \<longrightarrow> Submitted \<le> q \<and> \<not> b)"
  using assms by (cases rule: lifecycle.cases) (auto simp: less_eq_phase_def less_phase_def)

text \<open>A run of the machine, with the number of creations it asks for.\<close>

inductive lifecycle_run :: "bool \<Rightarrow> phase \<Rightarrow> nat \<Rightarrow> phase \<Rightarrow> bool" for reliable where
  run_stop: "lifecycle_run reliable p 0 p"
| run_step: "lifecycle reliable p b q \<Longrightarrow> lifecycle_run reliable q n p' \<Longrightarrow>
    lifecycle_run reliable p (of_bool b + n) p'"

lemma lifecycle_run_creations:
  assumes "lifecycle_run True p n q"
  shows "n \<le> 1 \<and> (Submitted \<le> p \<longrightarrow> n = 0) \<and> (n = 1 \<longrightarrow> Submitted \<le> q)
    \<and> (Submitted \<le> p \<longrightarrow> Submitted \<le> q)"
  using assms
proof (induction rule: lifecycle_run.induct)
  case (run_step p b q n p')
  then show ?case using lifecycle_create_once [OF run_step.hyps(1)] by auto
qed auto

lemma lifecycle_run_mono: "lifecycle_run reliable p n q \<Longrightarrow> p \<le> q"
  by (induction rule: lifecycle_run.induct) (auto dest: lifecycle_mono)

section \<open>Creation calls of a trace\<close>

fun is_create :: "('st, 'x) effect \<Rightarrow> bool" where
  "is_create (CreateCall _ _) = True"
| "is_create (EmitEvent _ _ _) = False"

definition creations :: "('st, 'x) effect list \<Rightarrow> nat" where
  "creations es = length (filter is_create es)"

lemma creations_simps [simp]:
  "creations [] = 0"
  "creations (es @ fs) = creations es + creations fs"
  "creations (CreateCall jr res # es) = Suc (creations es)"
  "creations (EmitEvent a b run # es) = creations es"
  by (simp_all add: creations_def)

section \<open>Phases and the laws of the library\<close>

lemma phase_of_mark:
  assumes "run_laws L"
  shows "phase_of L (MarkRunFailed L q m a st) = Finished"
    and "phase_of L (MarkRunSucceeded L q m a st) = Finished"
    and "HasStarted L st \<Longrightarrow> phase_of L (MarkRunRunning L q m a st) =
           (if submitted L st then Submitted else Pending)"
  using assms
  by (simp_all add: phase_of_def submitted_def stored_status_def run_law_simps HasStarted_iff)

lemma phase_undone:
  assumes "HasStarted L st" and "\<not> IsDone L st"
  shows "phase_of L st = (if submitted L st then Submitted else Pending)"
  using assms by (simp add: phase_of_def)

lemma submitted_DecodeStatus:
  "DecodeStatusFromRun L run = (Inr status, run') \<Longrightarrow>
     submitted L (run_Status run) \<longleftrightarrow> ts_JobRunName status \<noteq> []"
  by (auto simp: submitted_def stored_status_def DecodeStatusFromRun_def split: sum.splits)

lemma submitted_Encode:
  assumes "run_laws L" and "EncodeIntoRun L status run = (None, run')"
  shows "submitted L (run_Status run') \<longleftrightarrow> ts_JobRunName status \<noteq> []"
proof -
  obtain s' where "DecodeStatusFromRun L run' = (Inr s', run')" and "same_job status s'"
    using run_store.save_ok [OF assms] by blast
  then show ?thesis by (simp add: submitted_DecodeStatus same_job_def)
qed

lemma HasStarted_Encode:
  assumes "run_laws L" and "EncodeIntoRun L status run = (x, run')"
  shows "HasStarted L (run_Status run') = HasStarted L (run_Status run)"
  using EncodeIntoRun_frame(1) [OF assms] by (simp add: HasStarted_iff [OF assms(1)])

lemma HasStarted_keeps:
  "run_laws L \<Longrightarrow> keeps L s s' \<Longrightarrow>
     HasStarted L (run_Status (rs_run s')) = HasStarted L (run_Status (rs_run s))"
  by (simp add: HasStarted_iff keeps_status)

text \<open>The phase after the final encoding.\<close>

lemma phase_Encode:
  assumes "run_laws L" and "EncodeIntoRun L status run = (err, run')"
    and "HasStarted L (run_Status run)"
  shows "run_phase L run' =
    (if err \<noteq> None \<or> IsDone L (run_Status run) then Finished
     else if ts_JobRunName status \<noteq> [] then Submitted else Pending)"
  using assms EncodeIntoRun_IsDone [OF assms(1,2)] HasStarted_Encode [OF assms(1,2)]
    submitted_Encode [OF assms(1)]
  by (cases err) (auto simp: phase_of_def)

section \<open>Each reconciliation is a step of the machine\<close>

text \<open>
  A reliable environment: the job run lister fails with NotFound only, as an informer cache
  does, and the API names the job runs it creates.
\<close>

definition reliable ::
    "'z schema_lib_scheme \<Rightarrow> ('x, 'jd, 'w) Reconciler \<Rightarrow> bool" where
  "reliable L r \<longleftrightarrow>
     (\<forall>name e. r_jobRunLister r (r_codeEngineNamespace r) name = Inl e \<longrightarrow> IsNotFound L e) \<and>
     (\<forall>jr w jr' w'. r_jobRunsClient r jr w = (Inr jr', w') \<longrightarrow> jr_Name jr' \<noteq> [])"

lemma reliable_lister:
  "reliable L r \<Longrightarrow> r_jobRunLister r (r_codeEngineNamespace r) name = Inl e \<Longrightarrow> IsNotFound L e"
  by (auto simp: reliable_def)

lemma reliable_name:
  "reliable L r \<Longrightarrow> r_jobRunsClient r jr w = (Inr jr', w') \<Longrightarrow> jr_Name jr' \<noteq> []"
  unfolding reliable_def by blast

text \<open>One pass of the job logic: what \<open>reconcile\<close> does to status, Run and trace.\<close>

definition job_result ::
    "('st, 'x, 'jd, 'z) ce_lib_scheme \<Rightarrow> ('x, 'jd, 'w) Reconciler \<Rightarrow> ('st, 'x, 'w) rstate \<Rightarrow>
       error option outcome \<Rightarrow> ('st, 'x, 'w) rstate \<Rightarrow> bool \<Rightarrow> bool" where
  "job_result L r s out s' b \<longleftrightarrow>
     creations (rs_effects s') = creations (rs_effects s) + of_bool b \<and>
     (b \<longrightarrow> ts_JobRunName (rs_status s) = []) \<and>
     (out = Return None \<longrightarrow>
        (ts_JobRunName (rs_status s) \<noteq> [] \<longrightarrow>
           \<not> b \<and> ts_JobRunName (rs_status s') = ts_JobRunName (rs_status s)) \<and>
        (ts_JobRunName (rs_status s) = [] \<longrightarrow>
           b \<and> (reliable L r \<longrightarrow> ts_JobRunName (rs_status s') \<noteq> []))) \<and>
     (out \<noteq> Return None \<longrightarrow>
        IsDone L (run_Status (rs_run s')) \<or> \<not> b \<or> \<not> reliable L r)"

lemma job_result_cong:
  assumes "job_result L r s (Return None) s' b"
    and "rs_effects t = rs_effects s" and "ts_JobRunName (rs_status t) = ts_JobRunName (rs_status s)"
    and "rs_effects t' = rs_effects s'" and "rs_status t' = rs_status s'"
  shows "job_result L r t (Return None) t' b"
  using assms(1) unfolding job_result_def assms(2-5) by (elim conjE, intro conjI) (assumption | blast)+

lemma runCodeEngineJob_result:
  assumes "run_laws L" and "runCodeEngineJob L r s = (out, s')"
  shows "\<exists>b. job_result L r s out s' b"
  using assms(2)
proof (cases rule: runCodeEngineJob_cases)
  case (create_failed spec jd jobRun err api m a)
  then have "job_result L r s out s' True" by (simp add: job_result_def run_law_simps assms(1))
  then show ?thesis ..
next
  case (created spec jd jobRun jr api m a)
  then have "job_result L r s out s' True"
    using reliable_name [OF _ created(5)]
    by (auto simp: job_result_def run_law_simps assms(1))
  then show ?thesis ..
next
  case already
  then have "job_result L r s out s' False" by (simp add: job_result_def)
  then show ?thesis ..
next
  case (no_definition spec err m a)
  then have "job_result L r s out s' False" by (simp add: job_result_def)
  then show ?thesis ..
qed (auto simp: job_result_def intro!: exI [of _ False])

lemma reconcile_ok:
  assumes "run_laws L" and "reconcile L r s = (Return None, s')"
  shows "\<exists>b. creations (rs_effects s') = creations (rs_effects s) + of_bool b \<and>
    (ts_JobRunName (rs_status s) \<noteq> [] \<longrightarrow>
       \<not> b \<and> ts_JobRunName (rs_status s') = ts_JobRunName (rs_status s)) \<and>
    (ts_JobRunName (rs_status s) = [] \<longrightarrow>
       b \<and> (reliable L r \<longrightarrow> ts_JobRunName (rs_status s') \<noteq> []))"
  using assms(2)
proof (cases rule: reconcile_cases)
  case (checked task s2 s3 err)
  obtain b where "job_result L r s2 (Return None) s3 b"
    using runCodeEngineJob_result [OF assms(1) checked(3)] by blast
  then have "job_result L r s (Return None) s' b"
    by (rule job_result_cong) (simp_all add: checked(2) check_frame(2,4) [OF assms(1) checked(4)])
  then show ?thesis unfolding job_result_def by blast
qed simp_all

lemma check_error:
  assumes "checkCodeEngineJobRunStatus L r s = (Some e, s')"
  shows "\<not> reliable L r"
  using assms by (cases rule: check_cases) (auto dest: reliable_lister)

lemma reconcile_error:
  assumes "run_laws L" and "reconcile L r s = (out, s')" and "out \<noteq> Return None"
  shows "\<exists>b. creations (rs_effects s') = creations (rs_effects s) + of_bool b \<and>
    (b \<longrightarrow> ts_JobRunName (rs_status s) = []) \<and>
    (IsDone L (run_Status (rs_run s')) \<or> \<not> b \<or> \<not> reliable L r)"
  using assms(2)
proof (cases rule: reconcile_cases)
  case (job_stops task s2)
  obtain b where "job_result L r s2 out s' b"
    using runCodeEngineJob_result [OF assms(1) job_stops(3)] by blast
  then show ?thesis using job_stops(4) by (intro exI [of _ b]) (simp add: job_result_def job_stops(2))
next
  case (checked task s2 s3 err)
  obtain b where b: "job_result L r s2 (Return None) s3 b"
    using runCodeEngineJob_result [OF assms(1) checked(3)] by blast
  from checked(4,5) assms(3) have "\<not> reliable L r" by (cases err) (auto dest: check_error)
  moreover have "job_result L r s (Return None) s' b"
    using b
    by (rule job_result_cong) (simp_all add: checked(2) check_frame(2,4) [OF assms(1) checked(4)])
  ultimately show ?thesis unfolding job_result_def by blast
next
  case (task_panic p)
  show ?thesis
    by (rule exI [of _ False]) (simp add: getCodeEngineTask_frame(4) [OF assms(1) task_panic(1)])
next
  case (task_error err)
  show ?thesis
    by (rule exI [of _ False]) (simp add: getCodeEngineTask_frame(4) [OF assms(1) task_error(1)])
qed

lemma lifecycle_stay: "p \<noteq> Fresh \<Longrightarrow> p \<noteq> Finished \<Longrightarrow> lifecycle rel p False p"
  by (cases p) (auto intro: lifecycle.intros)

lemma reconcile_undone_lifecycle:
  assumes laws: "run_laws L" and started: "HasStarted L (run_Status (rs_run s))"
    and undone: "\<not> IsDone L (run_Status (rs_run s))"
    and call: "reconcile_undone L r s = (out, s')"
  shows "\<exists>b. creations (rs_effects s') = creations (rs_effects s) + of_bool b \<and>
    lifecycle (reliable L r) (run_phase L (rs_run s)) b (run_phase L (rs_run s')) \<and>
    HasStarted L (run_Status (rs_run s'))"
  using call
proof (cases rule: reconcile_undone_cases)
  case (undecodable err run)
  have "IsDone L (run_Status run)" by (rule run_store.load_err [OF laws undecodable(1)])
  moreover have "HasStarted L (run_Status run)"
    using DecodeStatusFromRun_frame(1) [OF laws undecodable(1)] started
    by (simp add: HasStarted_iff [OF laws])
  ultimately show ?thesis
    using undecodable(3) by (auto simp: phase_of_def intro: lifecycle.finish intro!: exI [of _ False])
next
  case (stopped status)
  have keep: "keeps L s s'"
    by (rule keeps_run_cong [OF reconcile_keeps [OF laws stopped(2)]]) simp
  have started': "HasStarted L (run_Status (rs_run s'))"
    using HasStarted_keeps [OF laws keep] started by simp
  have sub: "submitted L (run_Status (rs_run s')) = submitted L (run_Status (rs_run s))"
    by (simp add: submitted_def stored_status_def keeps_status(2) [OF keep])
  note name = submitted_DecodeStatus [OF stopped(1)]
  obtain b where b: "creations (rs_effects s') = creations (rs_effects s) + of_bool b"
    "b \<longrightarrow> ts_JobRunName status = []"
    "IsDone L (run_Status (rs_run s')) \<or> \<not> b \<or> \<not> reliable L r"
    using reconcile_error [OF laws stopped(2,3)] by auto
  have "lifecycle (reliable L r) (run_phase L (rs_run s)) b (run_phase L (rs_run s'))"
  proof (cases "IsDone L (run_Status (rs_run s'))")
    case True
    then have "run_phase L (rs_run s') = Finished" by (simp add: phase_of_def)
    moreover have "b \<Longrightarrow> run_phase L (rs_run s) < Submitted"
      using b(2) name phase_undone [OF started undone] by simp
    ultimately show ?thesis by (cases b) (simp_all add: lifecycle.finish lifecycle.submit_finish)
  next
    case False
    have same: "run_phase L (rs_run s') = run_phase L (rs_run s)"
      using phase_undone [OF started undone] phase_undone [OF started' False] sub by simp
    show ?thesis
    proof (cases b)
      case True
      with b(2) name phase_undone [OF started undone] have "run_phase L (rs_run s) = Pending"
        by simp
      with True False b(3) same show ?thesis by (simp add: lifecycle.lost)
    next
      case False
      have "run_phase L (rs_run s) \<noteq> Fresh" "run_phase L (rs_run s) \<noteq> Finished"
        using started undone by (simp_all add: phase_of_def)
      with False same lifecycle_stay show ?thesis by simp
    qed
  qed
  with b(1) started' show ?thesis by blast
next
  case (encoded status s1 err run1)
  have keep: "keeps L s s1"
    by (rule keeps_run_cong [OF reconcile_keeps [OF laws encoded(2)]]) simp
  have started1: "HasStarted L (run_Status (rs_run s1))"
    using HasStarted_keeps [OF laws keep] started by simp
  obtain b where b: "creations (rs_effects s1) = creations (rs_effects s) + of_bool b"
    "ts_JobRunName status \<noteq> [] \<longrightarrow> \<not> b \<and> ts_JobRunName (rs_status s1) = ts_JobRunName status"
    "ts_JobRunName status = [] \<longrightarrow> b \<and> (reliable L r \<longrightarrow> ts_JobRunName (rs_status s1) \<noteq> [])"
    using reconcile_ok [OF laws encoded(2)] by auto
  have "lifecycle (reliable L r) (run_phase L (rs_run s)) b (run_phase L run1)"
  proof (cases "ts_JobRunName status = []")
    case True
    then have b: "b" "reliable L r \<longrightarrow> ts_JobRunName (rs_status s1) \<noteq> []" using b(3) by simp_all
    have "run_phase L (rs_run s) = Pending"
      using True submitted_DecodeStatus [OF encoded(1)] phase_undone [OF started undone] by simp
    with b phase_Encode [OF laws encoded(3) started1] show ?thesis
      by (auto simp: lifecycle.submit lifecycle.submit_finish lifecycle.lost)
  next
    case False
    then have b: "\<not> b" "ts_JobRunName (rs_status s1) \<noteq> []" using b(2) by simp_all
    have "run_phase L (rs_run s) = Submitted"
      using False submitted_DecodeStatus [OF encoded(1)] phase_undone [OF started undone] by simp
    with b phase_Encode [OF laws encoded(3) started1] show ?thesis by auto
  qed
  moreover have "HasStarted L (run_Status run1)"
    using HasStarted_Encode [OF laws encoded(3)] started1 by simp
  ultimately show ?thesis using b(1) encoded(5) by (intro exI [of _ b]) simp
qed

section \<open>\<open>ReconcileKind\<close> refines the machine\<close>

lemma initializeRun_result:
  fixes now :: instant
  assumes laws: "run_laws L" and "\<not> HasStarted L (run_Status (rs_run s))" and "0 < now"
    and "initializeRun L now s = (out, s')"
  shows "out = Return ()" and "rs_api s' = rs_api s" and "rs_status s' = rs_status s"
    and "creations (rs_effects s') = creations (rs_effects s)"
    and "HasStarted L (run_Status (rs_run s'))"
    and "IsDone L (run_Status (rs_run s')) = IsDone L (run_Status (rs_run s))"
    and "DecodeExtraFields L (run_Status (rs_run s')) = DecodeExtraFields L (run_Status (rs_run s))"
    and "StartTime L (run_Status (rs_run s')) = Some (max now (run_CreationTimestamp (rs_run s)))"
    and "\<exists>st. rs_run s' = (rs_run s)\<lparr>run_Status := st\<rparr>"
proof -
  define st where "st = (if now < run_CreationTimestamp (rs_run s)
    then SetStartTime L (Some (run_CreationTimestamp (rs_run s)))
           (InitializeConditions L now (run_Status (rs_run s)))
    else InitializeConditions L now (run_Status (rs_run s)))"
  have st: "StartTime L st = Some (max now (run_CreationTimestamp (rs_run s)))"
    "IsDone L st = IsDone L (run_Status (rs_run s))"
    "DecodeExtraFields L st = DecodeExtraFields L (run_Status (rs_run s))"
    using assms(2) by (simp_all add: st_def init_laws [OF laws])
  have "(out, s') = (Return (), emit (EmitEvent None (GetCondition L st (ConditionSucceeded L))
       ((rs_run s)\<lparr>run_Status := st\<rparr>)) (set_run_status st s))"
    using assms(4) initializeRun_eq [OF laws assms(2), of now] by (simp add: st_def Let_def)
  then show "out = Return ()" and "rs_api s' = rs_api s" and "rs_status s' = rs_status s"
    and "creations (rs_effects s') = creations (rs_effects s)"
    and "HasStarted L (run_Status (rs_run s'))"
    and "IsDone L (run_Status (rs_run s')) = IsDone L (run_Status (rs_run s))"
    and "DecodeExtraFields L (run_Status (rs_run s')) = DecodeExtraFields L (run_Status (rs_run s))"
    and "StartTime L (run_Status (rs_run s')) = Some (max now (run_CreationTimestamp (rs_run s)))"
    and "\<exists>st. rs_run s' = (rs_run s)\<lparr>run_Status := st\<rparr>"
    using st assms(3) by (auto simp: HasStarted_iff [OF laws])
qed

lemma reconcile_body_lifecycle:
  assumes laws: "run_laws L" and now: "0 < now" and call: "reconcile_body L r now s = (out, s')"
  shows "\<exists>b. creations (rs_effects s') = creations (rs_effects s) + of_bool b \<and>
    lifecycle (reliable L r) (run_phase L (rs_run s)) b (run_phase L (rs_run s')) \<and>
    HasStarted L (run_Status (rs_run s'))"
proof -
  obtain s1 where s1: "HasStarted L (run_Status (rs_run s1))"
      "IsDone L (run_Status (rs_run s1)) = IsDone L (run_Status (rs_run s))"
      "creations (rs_effects s1) = creations (rs_effects s)"
      "run_phase L (rs_run s1) = run_phase L (rs_run s) \<or> run_phase L (rs_run s) = Fresh"
      "(if IsDone L (run_Status (rs_run s1)) then (Return None, finalizeRun s1)
        else reconcile_undone L r s1) = (out, s')"
  proof (cases "HasStarted L (run_Status (rs_run s))")
    case True
    with call that [of s] show thesis by (simp add: reconcile_body_def)
  next
    case False
    obtain x s1 where init: "initializeRun L now s = (x, s1)" by (rule prod.exhaust)
    note R = initializeRun_result [OF laws False now init]
    show thesis
      by (rule that [of s1])
        (use R(1,4,5,6) call False init in \<open>simp_all add: reconcile_body_def phase_of_def\<close>)
  qed
  show ?thesis
  proof (cases "IsDone L (run_Status (rs_run s1))")
    case True
    with s1 show ?thesis
      by (auto simp: finalizeRun_def phase_of_def intro!: exI [of _ False] lifecycle.finish)
  next
    case False
    with s1(5) have call1: "reconcile_undone L r s1 = (out, s')" by simp
    obtain b where b: "creations (rs_effects s') = creations (rs_effects s1) + of_bool b"
      "lifecycle (reliable L r) (run_phase L (rs_run s1)) b (run_phase L (rs_run s'))"
      "HasStarted L (run_Status (rs_run s'))"
      using reconcile_undone_lifecycle [OF laws s1(1) False call1] by blast
    have "run_phase L (rs_run s1) \<noteq> Finished" using False s1(1) by (simp add: phase_of_def)
    with b(2) have "lifecycle (reliable L r) Fresh b (run_phase L (rs_run s'))"
      by (rule lifecycle_from_Fresh)
    with b(2) s1(4)
    have "lifecycle (reliable L r) (run_phase L (rs_run s)) b (run_phase L (rs_run s'))" by auto
    with b s1(3) show ?thesis by (intro exI [of _ b]) simp
  qed
qed

lemma ReconcileKind_cases:
  assumes "ReconcileKind L r now run api = (out, s')"
  obtains (ignored) "verifyCodeEngineSpec L run = Return False" "out = Return None"
      "s' = \<lparr>rs_run = run, rs_status = zero_CodeEngineTaskStatus, rs_api = api, rs_effects = []\<rparr>"
  | (crashed) "verifyCodeEngineSpec L run = Panic NilDereference" "out = Panic NilDereference"
      "s' = \<lparr>rs_run = run, rs_status = zero_CodeEngineTaskStatus, rs_api = api, rs_effects = []\<rparr>"
  | (accepted) s1 where "verifyCodeEngineSpec L run = Return True"
      "reconcile_body L r now \<lparr>rs_run = run, rs_status = zero_CodeEngineTaskStatus,
         rs_api = api, rs_effects = []\<rparr> = (out, s1)"
      "s' = emit (EmitEvent (succeeded_condition L run) (succeeded_condition L (rs_run s1))
              (rs_run s1)) s1"
proof -
  obtain x s1 where body: "reconcile_body L r now \<lparr>rs_run = run,
      rs_status = zero_CodeEngineTaskStatus, rs_api = api, rs_effects = []\<rparr> = (x, s1)"
    by (rule prod.exhaust)
  show thesis
  proof (cases rule: verify_cases [of L run])
    case accept
    with body assms show thesis by (intro accepted [of s1]) (simp_all add: ReconcileKind_def)
  next
    case reject
    with assms ignored show thesis by (simp add: ReconcileKind_def)
  next
    case panic
    with assms crashed show thesis by (simp add: ReconcileKind_def)
  qed
qed

lemma ReconcileKind_lifecycle:
  assumes "run_laws L" and "0 < now" and "verifyCodeEngineSpec L run = Return True"
    and "ReconcileKind L r now run api = (out, s')"
  shows "\<exists>b. creations (rs_effects s') = of_bool b \<and>
    lifecycle (reliable L r) (run_phase L run) b (run_phase L (rs_run s'))"
  using assms(4)
proof (cases rule: ReconcileKind_cases)
  case (accepted s1)
  obtain b where b: "creations (rs_effects s1) = 0 + of_bool b"
    "lifecycle (reliable L r) (run_phase L run) b (run_phase L (rs_run s1))"
    using reconcile_body_lifecycle [OF assms(1,2) accepted(2)] by auto
  have "creations (rs_effects s') = of_bool b" by (simp only: accepted(3) b) (simp add: b(1))
  moreover have "rs_run s' = rs_run s1" by (simp add: accepted(3))
  ultimately show ?thesis using b(2) by metis
qed (use assms in simp_all)

text \<open>A panic comes before the creation call.\<close>

lemma reconcile_panic:
  assumes "run_laws L" and "reconcile L r s = (Panic p, s')"
  shows "rs_effects s' = rs_effects s" and "getCodeEngineTask L r s = (Panic p, s')"
proof -
  have "getCodeEngineTask L r s = (Panic p, s')"
    using assms(2)
  proof (cases rule: reconcile_cases)
    case (job_stops task s2)
    from job_stops(3) show ?thesis
    proof (cases rule: runCodeEngineJob_cases)
      case no_spec
      then show ?thesis by (simp add: job_stops(2) split: option.splits)
    qed simp_all
  qed simp_all
  then show "getCodeEngineTask L r s = (Panic p, s')" and "rs_effects s' = rs_effects s"
    by (simp_all add: getCodeEngineTask_frame(4) [OF assms(1)])
qed

lemma reconcile_undone_panic:
  assumes "run_laws L" and "reconcile_undone L r s = (Panic p, s')"
  shows "rs_effects s' = rs_effects s"
    and "\<exists>status. getCodeEngineTask L r (s\<lparr>rs_status := status\<rparr>) = (Panic p, s')"
proof -
  obtain status where "reconcile L r (s\<lparr>rs_status := status\<rparr>) = (Panic p, s')"
    using assms(2) by (cases rule: reconcile_undone_cases) auto
  note P = reconcile_panic [OF assms(1) this]
  from P(1) show "rs_effects s' = rs_effects s" by simp
  from P(2) show "\<exists>status. getCodeEngineTask L r (s\<lparr>rs_status := status\<rparr>) = (Panic p, s')" ..
qed

lemma reconcile_body_panic:
  assumes "run_laws L" and "0 < now" and "reconcile_body L r now s = (Panic p, s')"
  shows "creations (rs_effects s') = creations (rs_effects s)"
    and "\<exists>t. run_Spec (rs_run t) = run_Spec (rs_run s) \<and> run_Ref (rs_run t) = run_Ref (rs_run s) \<and>
           run_Namespace (rs_run t) = run_Namespace (rs_run s) \<and>
           getCodeEngineTask L r t = (Panic p, s')"
proof -
  obtain x s1 where init: "initializeRun L now s = (x, s1)" by (rule prod.exhaust)
  note R = initializeRun_result [OF assms(1) _ assms(2) init]
  have "creations (rs_effects s') = creations (rs_effects s) \<and>
    (\<exists>t. run_Spec (rs_run t) = run_Spec (rs_run s) \<and> run_Ref (rs_run t) = run_Ref (rs_run s) \<and>
       run_Namespace (rs_run t) = run_Namespace (rs_run s) \<and> getCodeEngineTask L r t = (Panic p, s'))"
  proof (cases "HasStarted L (run_Status (rs_run s))")
    case True
    with assms(3) have "reconcile_undone L r s = (Panic p, s')"
      by (simp add: reconcile_body_def split: if_splits)
    note P = reconcile_undone_panic [OF assms(1) this]
    then obtain status where "getCodeEngineTask L r (s\<lparr>rs_status := status\<rparr>) = (Panic p, s')" by blast
    with P(1) show ?thesis by (intro conjI exI [of _ "s\<lparr>rs_status := status\<rparr>"]) simp_all
  next
    case False
    with assms(3) init R(1) have "reconcile_undone L r s1 = (Panic p, s')"
      by (simp add: reconcile_body_def split: if_splits)
    note P = reconcile_undone_panic [OF assms(1) this]
    then obtain status where "getCodeEngineTask L r (s1\<lparr>rs_status := status\<rparr>) = (Panic p, s')" by blast
    moreover obtain st where "rs_run s1 = (rs_run s)\<lparr>run_Status := st\<rparr>" using R(9) [OF False] by blast
    ultimately show ?thesis using P(1) R(4) [OF False]
      by (intro conjI exI [of _ "s1\<lparr>rs_status := status\<rparr>"]) simp_all
  qed
  then show "creations (rs_effects s') = creations (rs_effects s)"
    and "\<exists>t. run_Spec (rs_run t) = run_Spec (rs_run s) \<and> run_Ref (rs_run t) = run_Ref (rs_run s) \<and>
           run_Namespace (rs_run t) = run_Namespace (rs_run s) \<and>
           getCodeEngineTask L r t = (Panic p, s')" by simp_all
qed

end
