(* ===== verification/RunHistory.thy ===== *)
theory RunHistory
  imports RunLifecycle
begin

text \<open>
  Sequences of reconciliations of one Run.  Between two calls the Run is what the previous call
  left in it, which the generated reconciler of Tekton writes back, and the API keeps its state;
  a call that panics writes nothing back.  The theory lifts the single steps to such histories:
  what is stored in a Run stays stored, the start time does not move, and the creation calls of
  the whole history are those of a run of the abstract machine.
\<close>

section \<open>What is stored stays stored\<close>

definition grows :: "CodeEngineTaskStatus option \<Rightarrow> CodeEngineTaskStatus option \<Rightarrow> bool" where
  "grows a b \<longleftrightarrow>
     (\<forall>s. a = Some s \<longrightarrow>
        (\<exists>s'. b = Some s' \<and>
           (ts_CodeEngineTaskSpec s \<noteq> None \<longrightarrow> ts_CodeEngineTaskSpec s' = ts_CodeEngineTaskSpec s) \<and>
           (ts_JobRunName s \<noteq> [] \<longrightarrow> ts_JobRunName s' = ts_JobRunName s)))"

lemma grows_refl [simp]: "grows a a"
  by (simp add: grows_def)

lemma grows_None [simp]: "grows None a"
  by (simp add: grows_def)

lemma grows_trans: "grows a b \<Longrightarrow> grows b c \<Longrightarrow> grows a c"
  unfolding grows_def by metis

lemma growsI:
  assumes "ts_CodeEngineTaskSpec s \<noteq> None \<Longrightarrow> ts_CodeEngineTaskSpec s' = ts_CodeEngineTaskSpec s"
    and "ts_JobRunName s \<noteq> [] \<Longrightarrow> ts_JobRunName s' = ts_JobRunName s"
  shows "grows (Some s) (Some s')"
  using assms by (simp add: grows_def)

lemma grows_same_job: "same_job s s' \<Longrightarrow> grows (Some s) (Some s')"
  by (rule growsI) (simp_all add: same_job_def)

lemma stored_status_cong:
  "DecodeExtraFields L st = DecodeExtraFields L st' \<Longrightarrow> stored_status L st = stored_status L st'"
  by (simp add: stored_status_def)

lemma stored_status_Decode:
  "DecodeStatusFromRun L run = (Inr s, run') \<Longrightarrow> stored_status L (run_Status run) = Some s"
  by (auto simp: DecodeStatusFromRun_def stored_status_def split: sum.splits)

lemma runCodeEngineJob_status:
  assumes "runCodeEngineJob L r s = (out, s')"
  shows "ts_CodeEngineTaskSpec (rs_status s') = ts_CodeEngineTaskSpec (rs_status s)"
    and "ts_JobRunName (rs_status s) \<noteq> [] \<Longrightarrow> ts_JobRunName (rs_status s') = ts_JobRunName (rs_status s)"
  using assms by (cases rule: runCodeEngineJob_cases; simp)+

lemma reconcile_status_grows:
  assumes "run_laws L" and "reconcile L r s = (Return None, s')"
  shows "grows (Some (rs_status s)) (Some (rs_status s'))"
  using assms(2)
proof (cases rule: reconcile_cases)
  case (checked task s2 s3 err)
  note J = runCodeEngineJob_status [OF checked(3)]
  have status: "rs_status s' = rs_status s3" by (rule check_frame(2) [OF assms(1) checked(4)])
  show ?thesis
  proof (rule growsI)
    assume "ts_CodeEngineTaskSpec (rs_status s) \<noteq> None"
    then show "ts_CodeEngineTaskSpec (rs_status s') = ts_CodeEngineTaskSpec (rs_status s)"
      using J(1) by (auto simp: status checked(2))
  next
    assume "ts_JobRunName (rs_status s) \<noteq> []"
    then show "ts_JobRunName (rs_status s') = ts_JobRunName (rs_status s)"
      using J(2) by (simp add: status checked(2))
  qed
qed simp_all

lemma EncodeIntoRun_stored:
  assumes "run_laws L" and "EncodeIntoRun L s run = (x, run')"
  shows "if x = None then grows (Some s) (stored_status L (run_Status run'))
         else stored_status L (run_Status run') = stored_status L (run_Status run)"
proof (cases x)
  case None
  with assms obtain s' where "DecodeStatusFromRun L run' = (Inr s', run')" and "same_job s s'"
    using run_store.save_ok [of L s run run'] by blast
  with None show ?thesis by (simp add: stored_status_Decode grows_same_job)
next
  case (Some e)
  with assms show ?thesis
    by (auto simp: EncodeIntoRun_def run_law_simps intro!: stored_status_cong split: sum.splits)
qed

lemma keeps_stored: "keeps L s s' \<Longrightarrow>
    stored_status L (run_Status (rs_run s')) = stored_status L (run_Status (rs_run s))"
  by (rule stored_status_cong) (rule keeps_status)

lemma reconcile_undone_stored:
  assumes laws: "run_laws L" and call: "reconcile_undone L r s = (out, s')"
  shows "grows (stored_status L (run_Status (rs_run s))) (stored_status L (run_Status (rs_run s')))"
  using call
proof (cases rule: reconcile_undone_cases)
  case (undecodable err run)
  then have "stored_status L (run_Status (rs_run s)) = None"
    by (auto simp: DecodeStatusFromRun_def stored_status_def split: sum.splits)
  then show ?thesis by simp
next
  case (stopped status)
  have "keeps L s s'"
    by (rule keeps_run_cong [OF reconcile_keeps [OF laws stopped(2)]]) simp
  then show ?thesis by (simp add: keeps_stored)
next
  case (encoded status s1 err run1)
  have "keeps L s s1"
    by (rule keeps_run_cong [OF reconcile_keeps [OF laws encoded(2)]]) simp
  then have same: "stored_status L (run_Status (rs_run s1)) = stored_status L (run_Status (rs_run s))"
    by (rule keeps_stored)
  have load: "stored_status L (run_Status (rs_run s)) = Some status"
    by (rule stored_status_Decode [OF encoded(1)])
  have work: "grows (Some status) (Some (rs_status s1))"
    using reconcile_status_grows [OF laws encoded(2)] by simp
  show ?thesis
    using EncodeIntoRun_stored [OF laws encoded(3)] grows_trans [OF work]
    by (cases err) (simp_all add: load same encoded(5))
qed

lemma reconcile_undone_StartTime:
  assumes laws: "run_laws L" and call: "reconcile_undone L r s = (out, s')"
  shows "StartTime L (run_Status (rs_run s')) = StartTime L (run_Status (rs_run s))"
  using call
proof (cases rule: reconcile_undone_cases)
  case (undecodable err run)
  then show ?thesis using DecodeStatusFromRun_frame(1) [OF laws undecodable(1)] by simp
next
  case (stopped status)
  show ?thesis using keeps_status(1) [OF reconcile_keeps [OF laws stopped(2)]] by simp
next
  case (encoded status s1 err run1)
  show ?thesis
    using keeps_status(1) [OF reconcile_keeps [OF laws encoded(2)]]
      EncodeIntoRun_frame(1) [OF laws encoded(3)]
    by (simp add: encoded(5))
qed

text \<open>The identity of the Run, its references and its creation time are never written.\<close>

definition same_identity :: "'st Run \<Rightarrow> 'st Run \<Rightarrow> bool" where
  "same_identity run run' \<longleftrightarrow> (\<exists>st. run' = run\<lparr>run_Status := st\<rparr>)"

lemma same_identity_refl [simp]: "same_identity run run"
  unfolding same_identity_def by (rule exI [of _ "run_Status run"]) simp

lemma same_identity_update [simp]: "same_identity run (run\<lparr>run_Status := st\<rparr>)"
  unfolding same_identity_def by blast

lemma same_identity_trans:
  "same_identity a b \<Longrightarrow> same_identity b c \<Longrightarrow> same_identity a c"
  by (auto simp: same_identity_def)

lemma same_identity_fields:
  assumes "same_identity run run'"
  shows "run_Namespace run' = run_Namespace run" and "run_Name run' = run_Name run"
    and "run_CreationTimestamp run' = run_CreationTimestamp run"
    and "run_Ref run' = run_Ref run" and "run_Spec run' = run_Spec run"
  using assms by (auto simp: same_identity_def)

lemma keeps_identity: "keeps L s s' \<Longrightarrow> same_identity (rs_run s) (rs_run s')"
  by (auto simp: keeps_def same_identity_def)

lemma verify_identity:
  "same_identity run run' \<Longrightarrow> verifyCodeEngineSpec L run' = verifyCodeEngineSpec L run"
  by (auto simp: verifyCodeEngineSpec_def same_identity_def split: option.split)

lemma reconcile_undone_identity:
  assumes laws: "run_laws L" and call: "reconcile_undone L r s = (out, s')"
  shows "same_identity (rs_run s) (rs_run s')"
  using call
proof (cases rule: reconcile_undone_cases)
  case (undecodable err run)
  then show ?thesis using DecodeStatusFromRun_frame(2) [OF laws undecodable(1)]
    by (metis rstate.select_convs(1) rstate.surjective rstate.update_convs(1) same_identity_def)
next
  case (stopped status)
  show ?thesis using keeps_identity [OF reconcile_keeps [OF laws stopped(2)]] by simp
next
  case (encoded status s1 err run1)
  have "same_identity (rs_run s1) run1"
    using EncodeIntoRun_frame(2) [OF laws encoded(3)] unfolding same_identity_def by blast
  then show ?thesis
    using keeps_identity [OF reconcile_keeps [OF laws encoded(2)]]
    by (auto simp: encoded(5) intro: same_identity_trans)
qed

lemma reconcile_body_frame:
  fixes now :: instant
  assumes laws: "run_laws L" and now: "0 < now" and call: "reconcile_body L r now s = (out, s')"
  shows "same_identity (rs_run s) (rs_run s')"
    and "grows (stored_status L (run_Status (rs_run s))) (stored_status L (run_Status (rs_run s')))"
    and "StartTime L (run_Status (rs_run s')) =
      (if HasStarted L (run_Status (rs_run s)) then StartTime L (run_Status (rs_run s))
       else Some (max now (run_CreationTimestamp (rs_run s))))"
proof -
  obtain s1 where s1: "same_identity (rs_run s) (rs_run s1)"
      "stored_status L (run_Status (rs_run s1)) = stored_status L (run_Status (rs_run s))"
      "StartTime L (run_Status (rs_run s1)) =
        (if HasStarted L (run_Status (rs_run s)) then StartTime L (run_Status (rs_run s))
         else Some (max now (run_CreationTimestamp (rs_run s))))"
      "s' = s1 \<or> (\<exists>out. reconcile_undone L r s1 = (out, s'))"
  proof (cases "HasStarted L (run_Status (rs_run s))")
    case True
    with call that [of s] show thesis by (auto simp: reconcile_body_def finalizeRun_def split: if_splits)
  next
    case False
    obtain x s1 where init: "initializeRun L now s = (x, s1)" by (rule prod.exhaust)
    note R = initializeRun_result [OF laws False now init]
    have "same_identity (rs_run s) (rs_run s1)" using R(9) unfolding same_identity_def .
    moreover have "stored_status L (run_Status (rs_run s1)) = stored_status L (run_Status (rs_run s))"
      by (rule stored_status_cong [OF R(7)])
    moreover have "s' = s1 \<or> (\<exists>out. reconcile_undone L r s1 = (out, s'))"
      using call init False R(1) by (auto simp: reconcile_body_def finalizeRun_def split: if_splits)
    ultimately show thesis using that [of s1] R(8) False by simp
  qed
  from s1(4) have "same_identity (rs_run s1) (rs_run s') \<and>
      grows (stored_status L (run_Status (rs_run s1))) (stored_status L (run_Status (rs_run s'))) \<and>
      StartTime L (run_Status (rs_run s')) = StartTime L (run_Status (rs_run s1))"
    using reconcile_undone_identity [OF laws] reconcile_undone_stored [OF laws]
      reconcile_undone_StartTime [OF laws] by auto
  with s1(1-3) show "same_identity (rs_run s) (rs_run s')"
    and "grows (stored_status L (run_Status (rs_run s))) (stored_status L (run_Status (rs_run s')))"
    and "StartTime L (run_Status (rs_run s')) =
      (if HasStarted L (run_Status (rs_run s)) then StartTime L (run_Status (rs_run s))
       else Some (max now (run_CreationTimestamp (rs_run s))))"
    by (auto intro: same_identity_trans)
qed

lemma ReconcileKind_frame:
  fixes now :: instant
  assumes "run_laws L" and "0 < now" and "ReconcileKind L r now run api = (out, s')"
  shows "same_identity run (rs_run s')"
    and "grows (stored_status L (run_Status run)) (stored_status L (run_Status (rs_run s')))"
    and "HasStarted L (run_Status run) \<Longrightarrow>
           StartTime L (run_Status (rs_run s')) = StartTime L (run_Status run)"
  using assms(3)
proof -
  have "same_identity run (rs_run s') \<and>
      grows (stored_status L (run_Status run)) (stored_status L (run_Status (rs_run s'))) \<and>
      (HasStarted L (run_Status run) \<longrightarrow>
         StartTime L (run_Status (rs_run s')) = StartTime L (run_Status run))"
    using assms(3)
  proof (cases rule: ReconcileKind_cases)
    case (accepted s1)
    show ?thesis using reconcile_body_frame [OF assms(1,2) accepted(2)] by (simp add: accepted(3))
  qed simp_all
  then show "same_identity run (rs_run s')"
    and "grows (stored_status L (run_Status run)) (stored_status L (run_Status (rs_run s')))"
    and "HasStarted L (run_Status run) \<Longrightarrow>
           StartTime L (run_Status (rs_run s')) = StartTime L (run_Status run)" by simp_all
qed

section \<open>Histories\<close>

definition write_back :: "'st Run \<Rightarrow> error option outcome \<Rightarrow> ('st, 'x, 'w) rstate \<Rightarrow> 'st Run" where
  "write_back run out s = (if is_panic out then run else rs_run s)"

fun reconcile_all ::
    "('st, 'x, 'jd, 'z) ce_lib_scheme \<Rightarrow> (('x, 'jd, 'w) Reconciler \<times> instant) list \<Rightarrow> 'st Run \<Rightarrow> 'w \<Rightarrow>
       'st Run \<times> 'w \<times> ('st, 'x) effect list" where
  "reconcile_all L [] run api = (run, api, [])"
| "reconcile_all L ((r, now) # envs) run api =
     (let (out, s) = ReconcileKind L r now run api;
          (run', api', es) = reconcile_all L envs (write_back run out s) (rs_api s)
      in (run', api', rs_effects s @ es))"

definition history_ok ::
    "'z schema_lib_scheme \<Rightarrow> (('x, 'jd, 'w) Reconciler \<times> instant) list \<Rightarrow> bool" where
  "history_ok L envs \<longleftrightarrow> list_all (\<lambda>(r, now). reliable L r \<and> 0 < now) envs"

text \<open>One call followed by the write-back is a run of the machine of at most one step.\<close>

lemma call_lifecycle:
  assumes laws: "run_laws L" and now: "0 < now"
    and call: "ReconcileKind L r now run api = (out, s)"
  shows "(\<exists>b. creations (rs_effects s) = of_bool b \<and>
            lifecycle (reliable L r) (run_phase L run) b (run_phase L (write_back run out s)))
       \<or> creations (rs_effects s) = 0 \<and> write_back run out s = run"
  using call
proof (cases rule: ReconcileKind_cases)
  case (accepted s1)
  show ?thesis
  proof (cases out)
    case (Return x)
    then have "write_back run out s = rs_run s" by (simp add: write_back_def)
    with ReconcileKind_lifecycle [OF laws now accepted(1) call] show ?thesis by simp
  next
    case (Panic p)
    with accepted(2) have "reconcile_body L r now \<lparr>rs_run = run,
        rs_status = zero_CodeEngineTaskStatus, rs_api = api, rs_effects = []\<rparr> = (Panic p, s1)"
      by simp
    from reconcile_body_panic(1) [OF laws now this] accepted(3) Panic show ?thesis
      by (simp add: write_back_def)
  qed
qed (simp_all add: write_back_def)

lemma lifecycle_run_append:
  "lifecycle_run rel p m q \<Longrightarrow> lifecycle_run rel q n u \<Longrightarrow> lifecycle_run rel p (m + n) u"
proof (induction rule: lifecycle_run.induct)
  case (run_step p b q na p')
  then show ?case using lifecycle_run.run_step [OF run_step.hyps(1)] by (simp only: add.assoc)
qed simp

lemma lifecycle_run_single:
  assumes "lifecycle rel p b q"
  shows "lifecycle_run rel p (of_bool b) q"
  using lifecycle_run.run_step [OF assms lifecycle_run.run_stop] by simp

lemma reconcile_all_lifecycle:
  assumes "run_laws L" and "history_ok L envs" and "reconcile_all L envs run api = (run', api', es)"
  shows "lifecycle_run True (run_phase L run) (creations es) (run_phase L run')"
  using assms(2,3)
proof (induction envs arbitrary: run api es)
  case Nil
  then show ?case by (auto intro: lifecycle_run.run_stop)
next
  case (Cons env envs)
  obtain r now where env: "env = (r, now)" by (rule prod.exhaust)
  obtain out s where call: "ReconcileKind L r now run api = (out, s)" by (rule prod.exhaust)
  obtain run1 api1 es1 where rest:
      "reconcile_all L envs (write_back run out s) (rs_api s) = (run1, api1, es1)"
    by (metis prod.exhaust)
  have ok: "reliable L r" "0 < now" "history_ok L envs"
    using Cons.prems(1) by (simp_all add: history_ok_def env)
  have result: "run' = run1" "api' = api1" "es = rs_effects s @ es1"
    using Cons.prems(2) call rest by (simp_all add: env)
  note tail = Cons.IH [OF ok(3) rest [folded result(1,2)]]
  have head: "lifecycle_run True (run_phase L run) (creations (rs_effects s))
      (run_phase L (write_back run out s))"
    using call_lifecycle [OF assms(1) ok(2) call]
  proof (elim disjE exE conjE)
    fix b
    assume "creations (rs_effects s) = of_bool b"
      and "lifecycle (reliable L r) (run_phase L run) b (run_phase L (write_back run out s))"
    then show ?thesis using ok(1) lifecycle_run_single by simp
  qed (simp add: lifecycle_run.run_stop)
  show ?case using lifecycle_run_append [OF head tail] by (simp add: result(3))
qed

lemma reconcile_all_grows:
  assumes "run_laws L" and "list_all (\<lambda>(r, now). 0 < now) envs"
    and "reconcile_all L envs run api = (run', api', es)"
  shows "grows (stored_status L (run_Status run)) (stored_status L (run_Status run'))
    \<and> same_identity run run'"
  using assms(2,3)
proof (induction envs arbitrary: run api es)
  case (Cons env envs)
  obtain r now where env: "env = (r, now)" by (rule prod.exhaust)
  obtain out s where call: "ReconcileKind L r now run api = (out, s)" by (rule prod.exhaust)
  obtain run1 api1 es1 where rest:
      "reconcile_all L envs (write_back run out s) (rs_api s) = (run1, api1, es1)"
    by (metis prod.exhaust)
  have ok: "0 < now" "list_all (\<lambda>(r, now). 0 < now) envs"
    using Cons.prems(1) by (simp_all add: env)
  have result: "run' = run1" "api' = api1" using Cons.prems(2) call rest by (simp_all add: env)
  have "grows (stored_status L (run_Status run)) (stored_status L (run_Status (write_back run out s)))
      \<and> same_identity run (write_back run out s)"
    using ReconcileKind_frame [OF assms(1) ok(1) call] by (simp add: write_back_def)
  with Cons.IH [OF ok(2) rest [folded result]] show ?case
    by (meson grows_trans same_identity_trans)
qed simp

end
