(* ===== verification/RunPaths.thy ===== *)
theory RunPaths
  imports RunHistory
begin

text \<open>
  The reconciler along its main paths: which task spec a Run resolves to, what the steps do when
  the lookups succeed, and the state in which the body of \<open>ReconcileKind\<close> starts work on a Run
  that is not done.
\<close>

section \<open>Resolving the task\<close>

definition task_spec_of ::
    "('x, 'jd, 'w) Reconciler \<Rightarrow> 'st Run \<Rightarrow> CodeEngineTaskSpec \<Rightarrow> bool" where
  "task_spec_of r run tls \<longleftrightarrow>
     (case run_Spec run of
        Some spec \<Rightarrow> Unmarshal_TaskSpec (es_Raw spec) zero_CodeEngineTaskSpec = (None, tls)
      | None \<Rightarrow>
          (\<exists>ref task. run_Ref run = Some ref \<and> ref_Name ref \<noteq> [] \<and>
             r_taskLister r (run_Namespace run) (ref_Name ref) = Return (Inr task) \<and> t_Spec task = tls))"

lemma task_spec_of_identity:
  "same_identity run run' \<Longrightarrow> task_spec_of r run' tls = task_spec_of r run tls"
  by (auto simp: task_spec_of_def same_identity_def split: option.splits)

lemma getCodeEngineTask_resolves:
  assumes "task_spec_of r (rs_run s) tls"
  shows "\<exists>task. getCodeEngineTask L r s = (Return (Inr task), s) \<and> t_Spec task = tls"
  using assms
  by (auto simp: task_spec_of_def getCodeEngineTask_def Let_def split: option.splits)

text \<open>A Run without an embedded spec whose reference has no name or names no task that the lister gives.\<close>

definition task_missing :: "('x, 'jd, 'w) Reconciler \<Rightarrow> 'st Run \<Rightarrow> bool" where
  "task_missing r run \<longleftrightarrow> run_Spec run = None \<and>
     (case run_Ref run of
        None \<Rightarrow> True
      | Some ref \<Rightarrow> ref_Name ref = [] \<or>
          (\<exists>e. r_taskLister r (run_Namespace run) (ref_Name ref) = Return (Inl e)))"

lemma task_missing_identity:
  "same_identity run run' \<Longrightarrow> task_missing r run' = task_missing r run"
  by (auto simp: task_missing_def same_identity_def split: option.splits)

lemma task_missing_unresolved: "task_missing r run \<Longrightarrow> \<not> task_spec_of r run tls"
  by (auto simp: task_missing_def task_spec_of_def)

definition missing_task_error :: "'st Run \<Rightarrow> error" where
  "missing_task_error run = Errorf ''missing spec.ref.name for Run %s''
     [ArgStr (object_key (run_Namespace run) (run_Name run))]"

lemma getCodeEngineTask_missing:
  assumes "task_missing r (rs_run s)"
  shows "\<exists>m a. getCodeEngineTask L r s =
    (Return (Inl (missing_task_error (rs_run s))), mark_failed L ReasonCouldntGetTask m a s)"
proof (cases "run_Ref (rs_run s)")
  case None
  with assms show ?thesis
    by (auto simp: task_missing_def getCodeEngineTask_def missing_task_error_def Let_def)
next
  case (Some ref)
  have "\<exists>m a. mark_failed L ReasonCouldntGetTask fmt args s = mark_failed L ReasonCouldntGetTask m a s"
    for fmt args by blast
  with Some assms show ?thesis
    by (auto simp: task_missing_def getCodeEngineTask_def missing_task_error_def Let_def)
qed

lemma getCodeEngineTask_panics:
  assumes "getCodeEngineTask L r s = (Panic p, s')"
  shows "\<exists>ref. run_Spec (rs_run s) = None \<and> run_Ref (rs_run s) = Some ref \<and>
    r_taskLister r (run_Namespace (rs_run s)) (ref_Name ref) = Panic p"
  using assms
  by (auto simp: getCodeEngineTask_def Let_def split: option.splits if_splits outcome.splits
      sum.splits prod.splits)

lemma new_job_run_identity:
  "same_identity run run' \<Longrightarrow> new_job_run L run' = new_job_run L run"
  by (rule ext) (simp add: new_job_run_def same_identity_fields)

section \<open>The body on a Run that is not done\<close>

text \<open>
  \<open>begun L s s1\<close>: the work starts in \<open>s1\<close>, with the Run started; apart from the start it is the
  Run of \<open>s\<close>, and no job run was asked for.
\<close>

definition begun :: "('st, 'z) run_lib_scheme \<Rightarrow> ('st, 'x, 'w) rstate \<Rightarrow> ('st, 'x, 'w) rstate \<Rightarrow> bool" where
  "begun L s s1 \<longleftrightarrow>
     HasStarted L (run_Status (rs_run s1)) \<and> \<not> IsDone L (run_Status (rs_run s1)) \<and>
     same_identity (rs_run s) (rs_run s1) \<and> rs_api s1 = rs_api s \<and>
     stored_status L (run_Status (rs_run s1)) = stored_status L (run_Status (rs_run s)) \<and>
     filter is_create (rs_effects s1) = filter is_create (rs_effects s)"

lemma begunD:
  assumes "begun L s s1"
  shows "HasStarted L (run_Status (rs_run s1))" and "\<not> IsDone L (run_Status (rs_run s1))"
    and "same_identity (rs_run s) (rs_run s1)" and "rs_api s1 = rs_api s"
    and "stored_status L (run_Status (rs_run s1)) = stored_status L (run_Status (rs_run s))"
    and "filter is_create (rs_effects s1) = filter is_create (rs_effects s)"
  using assms by (simp_all add: begun_def)

lemma initializeRun_creates:
  assumes "run_laws L" and "\<not> HasStarted L (run_Status (rs_run s))"
    and "initializeRun L now s = (out, s')"
  shows "filter is_create (rs_effects s') = filter is_create (rs_effects s)"
  using assms(3) initializeRun_eq [OF assms(1,2), of now] by (auto simp: Let_def)

lemma reconcile_body_begun:
  assumes laws: "run_laws L" and now: "0 < now" and undone: "\<not> IsDone L (run_Status (rs_run s))"
  shows "\<exists>s1. begun L s s1 \<and> reconcile_body L r now s = reconcile_undone L r s1"
proof (cases "HasStarted L (run_Status (rs_run s))")
  case True
  with undone have "begun L s s" by (simp add: begun_def)
  with True undone show ?thesis by (intro exI [of _ s]) (simp add: reconcile_body_def)
next
  case False
  obtain x s1 where init: "initializeRun L now s = (x, s1)" by (rule prod.exhaust)
  note R = initializeRun_result [OF laws False now init]
  have "begun L s s1"
    unfolding begun_def
    using undone R(5,6) R(9) [folded same_identity_def] R(2) stored_status_cong [OF R(7)]
      initializeRun_creates [OF laws False init] by simp
  moreover have "reconcile_body L r now s = reconcile_undone L r s1"
    using init False undone R(1,6) by (simp add: reconcile_body_def)
  ultimately show ?thesis by blast
qed

lemma DecodeStatus_stored:
  "stored_status L (run_Status run) = Some status \<Longrightarrow> DecodeStatusFromRun L run = (Inr status, run)"
  by (auto simp: stored_status_def DecodeStatusFromRun_def split: sum.splits)

section \<open>Creating the job run\<close>

text \<open>
  The spec that counts is the stored one, and the spec of the task only when none is stored.
\<close>

definition effective_spec :: "CodeEngineTaskStatus \<Rightarrow> CodeEngineTaskSpec \<Rightarrow> CodeEngineTaskSpec" where
  "effective_spec status tls =
     (case ts_CodeEngineTaskSpec status of None \<Rightarrow> tls | Some sp \<Rightarrow> sp)"

definition requested_job_run ::
    "('st, 'x, 'jd, 'z) ce_lib_scheme \<Rightarrow> 'st Run \<Rightarrow> CodeEngineTaskSpec \<Rightarrow> 'jd \<Rightarrow> 'x JobRun" where
  "requested_job_run L run sp jd =
     SetDefaultsFromJobDefinition L (new_job_run L run (JobName sp)) jd"

lemma requested_job_run_identity:
  "same_identity run run' \<Longrightarrow> requested_job_run L run' = requested_job_run L run"
  by (intro ext) (simp add: requested_job_run_def new_job_run_identity)

lemma effective_stored:
  "ts_CodeEngineTaskSpec (storeCodeEngineTaskSpec status tls) = Some (effective_spec status tls)"
  by (simp add: effective_spec_def split: option.split)

text \<open>The situation in which \<open>runCodeEngineJob\<close> creates the job run \<open>jr\<close>.\<close>

definition will_create ::
    "('st, 'x, 'jd, 'z) ce_lib_scheme \<Rightarrow> ('x, 'jd, 'w) Reconciler \<Rightarrow> 'st Run \<Rightarrow> 'w \<Rightarrow>
       CodeEngineTaskSpec \<Rightarrow> 'jd \<Rightarrow> 'x JobRun \<Rightarrow> 'w \<Rightarrow> bool" where
  "will_create L r run api sp jd jr api' \<longleftrightarrow>
     \<not> r_createdJobRuns r (object_key (run_Namespace run) (run_Name run)) \<and>
     r_jobDefinitionLister r (r_codeEngineNamespace r) (JobName sp) = Inr jd \<and>
     r_jobRunsClient r (requested_job_run L run sp jd) api = (Inr jr, api')"

lemma will_create_identity:
  assumes "same_identity run run'"
  shows "will_create L r run' api sp jd jr api' = will_create L r run api sp jd jr api'"
  by (simp add: will_create_def same_identity_fields [OF assms] requested_job_run_identity [OF assms])

definition after_create ::
    "('st, 'x, 'jd, 'z) ce_lib_scheme \<Rightarrow> CodeEngineTaskSpec \<Rightarrow> 'jd \<Rightarrow> 'x JobRun \<Rightarrow> 'w \<Rightarrow>
       ('st, 'x, 'w) rstate \<Rightarrow> ('st, 'x, 'w) rstate" where
  "after_create L sp jd jr api' s =
     mark_running L ReasonRunning ''Created CodeEngine JobRun: %q'' [ArgStr (jr_Name jr)]
       ((emit (CreateCall (requested_job_run L (rs_run s) sp jd) (Inr jr)) (s\<lparr>rs_api := api'\<rparr>))
          \<lparr>rs_status := (rs_status s)\<lparr>ts_JobRunName := jr_Name jr\<rparr>\<rparr>)"

lemma runCodeEngineJob_creates:
  assumes "ts_JobRunName (rs_status s) = []" and "ts_CodeEngineTaskSpec (rs_status s) = Some sp"
    and "will_create L r (rs_run s) (rs_api s) sp jd jr api'"
  shows "runCodeEngineJob L r s = (Return None, after_create L sp jd jr api' s)"
  using assms
  by (simp add: runCodeEngineJob_def will_create_def requested_job_run_def after_create_def)

lemma reconcile_creates:
  assumes "task_spec_of r (rs_run s) tls" and "ts_JobRunName (rs_status s) = []"
    and "will_create L r (rs_run s) (rs_api s) (effective_spec (rs_status s) tls) jd jr api'"
  shows "\<exists>s3. reconcile L r s =
      (case checkCodeEngineJobRunStatus L r s3 of (err, s4) \<Rightarrow> (Return err, s4)) \<and>
    s3 = after_create L (effective_spec (rs_status s) tls) jd jr api'
           (s\<lparr>rs_status := storeCodeEngineTaskSpec (rs_status s) tls\<rparr>)"
proof -
  obtain task where task: "getCodeEngineTask L r s = (Return (Inr task), s)" "t_Spec task = tls"
    using getCodeEngineTask_resolves [OF assms(1)] by blast
  have "runCodeEngineJob L r (s\<lparr>rs_status := storeCodeEngineTaskSpec (rs_status s) tls\<rparr>) =
    (Return None, after_create L (effective_spec (rs_status s) tls) jd jr api'
       (s\<lparr>rs_status := storeCodeEngineTaskSpec (rs_status s) tls\<rparr>))"
    by (rule runCodeEngineJob_creates)
      (use assms(2,3) effective_stored in \<open>simp_all del: storeCodeEngineTaskSpec_simps(2)\<close>)
  then show ?thesis by (simp add: reconcile_def task)
qed

text \<open>What the check does right after the creation.\<close>

lemma check_not_found:
  assumes "ts_JobRunName (rs_status s) \<noteq> []"
    and "r_jobRunLister r (r_codeEngineNamespace r) (ts_JobRunName (rs_status s)) = Inl e"
  shows "IsNotFound L e \<Longrightarrow> checkCodeEngineJobRunStatus L r s = (None, s)"
    and "\<not> IsNotFound L e \<Longrightarrow> \<exists>s'. checkCodeEngineJobRunStatus L r s = (Some e, s')"
  using assms by (simp_all add: checkCodeEngineJobRunStatus_def)

lemma after_create_simps [simp]:
  "rs_status (after_create L sp jd jr api' s) = (rs_status s)\<lparr>ts_JobRunName := jr_Name jr\<rparr>"
  "rs_api (after_create L sp jd jr api' s) = api'"
  "rs_effects (after_create L sp jd jr api' s) =
     rs_effects s @ [CreateCall (requested_job_run L (rs_run s) sp jd) (Inr jr)]"
  "rs_run (after_create L sp jd jr api' s) =
     (rs_run s)\<lparr>run_Status := MarkRunRunning L (reason_String ReasonRunning)
        ''Created CodeEngine JobRun: %q'' [ArgStr (jr_Name jr)] (run_Status (rs_run s))\<rparr>"
  by (simp_all add: after_create_def)

section \<open>Failing and finishing\<close>

lemma reconcile_undone_error:
  assumes "stored_status L (run_Status (rs_run s)) = Some status"
    and "reconcile L r (s\<lparr>rs_status := status\<rparr>) = (Return (Some e), s')"
  shows "reconcile_undone L r s = (Return (Some e), s')"
  using assms(2) by (simp add: reconcile_undone_def DecodeStatus_stored [OF assms(1)])

lemma reconcile_no_definition:
  assumes "task_spec_of r (rs_run s) tls" and "ts_JobRunName (rs_status s) = []"
    and "\<not> r_createdJobRuns r (object_key (run_Namespace (rs_run s)) (run_Name (rs_run s)))"
    and "r_jobDefinitionLister r (r_codeEngineNamespace r)
           (JobName (effective_spec (rs_status s) tls)) = Inl e"
  shows "\<exists>m a. reconcile L r s = (Return (Some e), mark_failed L ReasonFailedToStartJobRun m a
    (s\<lparr>rs_status := storeCodeEngineTaskSpec (rs_status s) tls\<rparr>))"
proof -
  obtain task where task: "getCodeEngineTask L r s = (Return (Inr task), s)" "t_Spec task = tls"
    using getCodeEngineTask_resolves [OF assms(1)] by blast
  have spec: "ts_CodeEngineTaskSpec (storeCodeEngineTaskSpec (rs_status s) tls) =
      Some (effective_spec (rs_status s) tls)" by (rule effective_stored)
  show ?thesis
    using assms(2-4) spec
    by (auto simp: reconcile_def task runCodeEngineJob_def Let_def
        simp del: storeCodeEngineTaskSpec_simps(2))
qed

lemma reconcile_create_fails:
  assumes "task_spec_of r (rs_run s) tls" and "ts_JobRunName (rs_status s) = []"
    and "\<not> r_createdJobRuns r (object_key (run_Namespace (rs_run s)) (run_Name (rs_run s)))"
    and "r_jobDefinitionLister r (r_codeEngineNamespace r)
           (JobName (effective_spec (rs_status s) tls)) = Inr jd"
    and "r_jobRunsClient r (requested_job_run L (rs_run s) (effective_spec (rs_status s) tls) jd)
           (rs_api s) = (Inl e, api')"
  shows "\<exists>m a. reconcile L r s = (Return (Some e), mark_failed L ReasonFailedToStartJobRun m a
    (emit (CreateCall (requested_job_run L (rs_run s) (effective_spec (rs_status s) tls) jd) (Inl e))
       (s\<lparr>rs_status := storeCodeEngineTaskSpec (rs_status s) tls, rs_api := api'\<rparr>)))"
proof -
  obtain task where task: "getCodeEngineTask L r s = (Return (Inr task), s)" "t_Spec task = tls"
    using getCodeEngineTask_resolves [OF assms(1)] by blast
  have spec: "ts_CodeEngineTaskSpec (storeCodeEngineTaskSpec (rs_status s) tls) =
      Some (effective_spec (rs_status s) tls)" by (rule effective_stored)
  show ?thesis
    using assms(2-5) spec
    by (auto simp: reconcile_def task runCodeEngineJob_def requested_job_run_def Let_def
        simp del: storeCodeEngineTaskSpec_simps(2))
qed

text \<open>The check on a job run the cache shows.\<close>

definition job_verdict ::
    "('st, 'x, 'jd, 'z) ce_lib_scheme \<Rightarrow> 'x JobRun \<Rightarrow> string \<Rightarrow> 'st \<Rightarrow> 'st" where
  "job_verdict L jr name st =
     (let st1 = (if CheckCondition L jr (JobComplete L)
                 then MarkRunSucceeded L (reason_String ReasonSucceeded)
                        ''CodeEngine JobRun %q has completed'' [ArgStr name] st
                 else st)
      in if CheckCondition L jr (JobFailed L)
         then MarkRunFailed L (reason_String ReasonFailed)
                ''CodeEngine JobRun %q has failed'' [ArgStr name] st1
         else st1)"

lemma reconcile_checks:
  assumes "task_spec_of r (rs_run s) tls" and "ts_JobRunName (rs_status s) \<noteq> []"
    and "r_jobRunLister r (r_codeEngineNamespace r) (ts_JobRunName (rs_status s)) = Inr jr"
  shows "\<exists>s'. reconcile L r s = (Return None, s') \<and>
    rs_run s' = (rs_run s)\<lparr>run_Status := job_verdict L jr (ts_JobRunName (rs_status s))
                   (run_Status (rs_run s))\<rparr> \<and>
    rs_status s' = storeCodeEngineTaskSpec (rs_status s) tls \<and>
    rs_effects s' = rs_effects s \<and> rs_api s' = rs_api s"
proof -
  obtain task where task: "getCodeEngineTask L r s = (Return (Inr task), s)" "t_Spec task = tls"
    using getCodeEngineTask_resolves [OF assms(1)] by blast
  show ?thesis
    using assms(2,3)
    by (simp add: reconcile_def task runCodeEngineJob_def checkCodeEngineJobRunStatus_def
        job_verdict_def Let_def)
qed

lemma job_verdict_laws:
  assumes "run_laws L"
  shows "IsDone L (job_verdict L jr n st) \<longleftrightarrow>
      CheckCondition L jr (JobComplete L) \<or> CheckCondition L jr (JobFailed L) \<or> IsDone L st"
    and "StartTime L (job_verdict L jr n st) = StartTime L st"
    and "DecodeExtraFields L (job_verdict L jr n st) = DecodeExtraFields L st"
  by (simp_all add: job_verdict_def Let_def run_law_simps [OF assms])

lemma job_verdict_condition:
  assumes "run_laws L" and "CheckCondition L jr (JobComplete L) \<or> CheckCondition L jr (JobFailed L)"
  shows "\<exists>c. GetCondition L (job_verdict L jr n st) (ConditionSucceeded L) = Some c \<and>
    c_Status c = (if CheckCondition L jr (JobFailed L) then ''False'' else ''True'') \<and>
    c_Reason c = (if CheckCondition L jr (JobFailed L) then ''Failed'' else ''Succeeded'')"
  using assms(2) mark_condition [OF assms(1), of "reason_String ReasonFailed"]
    mark_condition [OF assms(1), of "reason_String ReasonSucceeded"]
  by (auto simp: job_verdict_def Let_def)

end
