(* ===== verification/RunProgress.thy ===== *)
theory RunProgress
  imports RunPaths
begin

text \<open>
  One call of \<open>ReconcileKind\<close> on a Run that is not done, from the work on it to the whole call: the
  call that creates the job run, the calls that find it recorded, and the calls on a finished Run.
\<close>

section \<open>From the work to the call\<close>

definition encodes :: "('st, 'z) run_lib_scheme \<Rightarrow> bool" where
  "encodes L \<longleftrightarrow> (\<forall>s st. \<not> isl (EncodeExtraFields L s st))"

lemma encodesD: "encodes L \<Longrightarrow> \<exists>st'. EncodeExtraFields L s st = Inr st'"
  unfolding encodes_def by (metis sum.collapse(2))

text \<open>From the work on a Run to the whole call.\<close>

lemma ReconcileKind_undone:
  assumes "run_laws L" and "0 < now" and "verifyCodeEngineSpec L run = Return True"
    and "\<not> IsDone L (run_Status run)" and "ReconcileKind L r now run api = (out, s')"
  obtains s1 s2 where
    "begun L \<lparr>rs_run = run, rs_status = zero_CodeEngineTaskStatus, rs_api = api, rs_effects = []\<rparr> s1"
    and "reconcile_undone L r s1 = (out, s2)"
    and "rs_run s' = rs_run s2" and "rs_api s' = rs_api s2"
    and "filter is_create (rs_effects s') = filter is_create (rs_effects s2)"
  using assms(5)
proof (cases rule: ReconcileKind_cases)
  case (accepted s2)
  obtain s1 where "begun L \<lparr>rs_run = run, rs_status = zero_CodeEngineTaskStatus,
        rs_api = api, rs_effects = []\<rparr> s1"
    and "reconcile_body L r now \<lparr>rs_run = run, rs_status = zero_CodeEngineTaskStatus,
        rs_api = api, rs_effects = []\<rparr> = reconcile_undone L r s1"
    using reconcile_body_begun [OF assms(1,2), of "\<lparr>rs_run = run,
        rs_status = zero_CodeEngineTaskStatus, rs_api = api, rs_effects = []\<rparr>" r] assms(4) by auto
  with accepted show thesis by (intro that [of s1 s2]) simp_all
qed (use assms in simp_all)

text \<open>The state a begun call works on, in terms of the Run it was given.\<close>

lemma begun_work:
  assumes "begun L \<lparr>rs_run = run, rs_status = z, rs_api = api, rs_effects = []\<rparr> s1"
    and "stored_status L (run_Status run) = Some status"
  shows "stored_status L (run_Status (rs_run s1)) = Some status"
    and "DecodeStatusFromRun L (rs_run s1) = (Inr status, rs_run s1)"
    and "task_spec_of r (rs_run s1) tls = task_spec_of r run tls"
    and "will_create L r' (rs_run s1) (rs_api s1) sp jd jr api' = will_create L r' run api sp jd jr api'"
    and "requested_job_run L' (rs_run s1) = requested_job_run L' run"
    and "filter is_create (rs_effects s1) = []"
proof -
  have id: "same_identity run (rs_run s1)" using begunD(3) [OF assms(1)] by simp
  show st: "stored_status L (run_Status (rs_run s1)) = Some status"
    using begunD(5) [OF assms(1)] assms(2) by simp
  show "DecodeStatusFromRun L (rs_run s1) = (Inr status, rs_run s1)"
    by (rule DecodeStatus_stored [OF st])
  show "task_spec_of r (rs_run s1) tls = task_spec_of r run tls"
    by (rule task_spec_of_identity [OF id])
  show "will_create L r' (rs_run s1) (rs_api s1) sp jd jr api' = will_create L r' run api sp jd jr api'"
    using begunD(4) [OF assms(1)] by (simp add: will_create_identity [OF id])
  show "requested_job_run L' (rs_run s1) = requested_job_run L' run"
    by (rule requested_job_run_identity [OF id])
  show "filter is_create (rs_effects s1) = []" using begunD(6) [OF assms(1)] by simp
qed

lemma creations_filter: "creations es = length (filter is_create es)"
  by (simp add: creations_def)

lemma reconcile_undone_encodes:
  assumes "run_laws L" and "encodes L" and "DecodeStatusFromRun L (rs_run s) = (Inr status, rs_run s)"
    and "reconcile L r (s\<lparr>rs_status := status\<rparr>) = (Return None, s3)"
  obtains st where "reconcile_undone L r s = (Return None, s3\<lparr>rs_run := (rs_run s3)\<lparr>run_Status := st\<rparr>\<rparr>)"
    and "\<exists>t. stored_status L st = Some t \<and> same_job (rs_status s3) t"
    and "StartTime L st = StartTime L (run_Status (rs_run s3))"
    and "IsDone L st = IsDone L (run_Status (rs_run s3))"
    and "GetCondition L st = GetCondition L (run_Status (rs_run s3))"
proof -
  obtain st where st: "EncodeExtraFields L (rs_status s3) (run_Status (rs_run s3)) = Inr st"
    using encodesD [OF assms(2)] by blast
  note E = Encode_laws [OF assms(1) st]
  show thesis
  proof (rule that [of st])
    show "reconcile_undone L r s = (Return None, s3\<lparr>rs_run := (rs_run s3)\<lparr>run_Status := st\<rparr>\<rparr>)"
      using assms(3,4) st by (simp add: reconcile_undone_def EncodeIntoRun_def)
    show "\<exists>t. stored_status L st = Some t \<and> same_job (rs_status s3) t"
      using E(1) by (auto simp: stored_status_def)
  qed (use E in simp_all)
qed

section \<open>The call that creates the job run\<close>

lemma first_call:
  assumes laws: "run_laws L" "encodes L" and now: "0 < now"
    and accepted: "verifyCodeEngineSpec L run = Return True"
    and undone: "\<not> IsDone L (run_Status run)"
    and stored: "stored_status L (run_Status run) = Some status" "ts_JobRunName status = []"
    and task: "task_spec_of r run tls"
    and create: "will_create L r run api (effective_spec status tls) jd jr api'"
    and fresh: "jr_Name jr \<noteq> []"
      "r_jobRunLister r (r_codeEngineNamespace r) (jr_Name jr) = Inl e" "IsNotFound L e"
    and call: "ReconcileKind L r now run api = (out, s')"
  shows "out = Return None \<and> rs_api s' = api' \<and>
    filter is_create (rs_effects s') =
      [CreateCall (requested_job_run L run (effective_spec status tls) jd) (Inr jr)] \<and>
    (\<exists>status'. stored_status L (run_Status (rs_run s')) = Some status' \<and>
       ts_JobRunName status' = jr_Name jr \<and>
       ts_CodeEngineTaskSpec status' = Some (effective_spec status tls)) \<and>
    (\<exists>c. succeeded_condition L (rs_run s') = Some c \<and> c_Status c = ''Unknown'' \<and>
       c_Reason c = ''Running'') \<and>
    \<not> IsDone L (run_Status (rs_run s'))"
proof -
  obtain s1 s2 where s1: "begun L \<lparr>rs_run = run, rs_status = zero_CodeEngineTaskStatus,
        rs_api = api, rs_effects = []\<rparr> s1"
    and s2: "reconcile_undone L r s1 = (out, s2)" "rs_run s' = rs_run s2" "rs_api s' = rs_api s2"
      "filter is_create (rs_effects s') = filter is_create (rs_effects s2)"
    using ReconcileKind_undone [OF laws(1) now accepted undone call] by metis
  note W = begun_work [OF s1 stored(1)]
  define sp where "sp = effective_spec status tls"
  define s3 where "s3 = after_create L sp jd jr api'
    (s1\<lparr>rs_status := storeCodeEngineTaskSpec status tls\<rparr>)"
  have rec: "reconcile L r (s1\<lparr>rs_status := status\<rparr>) =
      (case checkCodeEngineJobRunStatus L r s3 of (err, s4) \<Rightarrow> (Return err, s4))"
    using reconcile_creates [of r "s1\<lparr>rs_status := status\<rparr>" tls L jd jr api'] task stored(2) create
    by (simp add: W s3_def sp_def)
  have "checkCodeEngineJobRunStatus L r s3 = (None, s3)"
    by (rule check_not_found(1)) (use fresh in \<open>simp_all add: s3_def\<close>)
  with rec have "reconcile L r (s1\<lparr>rs_status := status\<rparr>) = (Return None, s3)" by simp
  from reconcile_undone_encodes [OF laws W(2) this]
  obtain st t where st: "reconcile_undone L r s1 = (Return None, s3\<lparr>rs_run := (rs_run s3)\<lparr>run_Status := st\<rparr>\<rparr>)"
    "stored_status L st = Some t" "same_job (rs_status s3) t"
    "GetCondition L st = GetCondition L (run_Status (rs_run s3))"
    "IsDone L st = IsDone L (run_Status (rs_run s3))" by metis
  have result: "out = Return None" "s2 = s3\<lparr>rs_run := (rs_run s3)\<lparr>run_Status := st\<rparr>\<rparr>"
    using s2(1) st(1) by simp_all
  have job: "ts_JobRunName t = jr_Name jr" "ts_CodeEngineTaskSpec t = Some sp"
    using st(3) effective_stored [of status tls] by (simp_all add: same_job_def s3_def sp_def)
  have running: "\<exists>c. succeeded_condition L (rs_run s2) = Some c \<and> c_Status c = ''Unknown'' \<and>
      c_Reason c = ''Running''"
    using mark_condition(3) [OF laws(1), of "reason_String ReasonRunning"]
    by (simp add: result(2) succeeded_condition_def st(4) s3_def)
  have "\<not> IsDone L (run_Status (rs_run s'))"
    by (simp add: s2(2) result(2) st(5) s3_def run_law_simps [OF laws(1)])
  then show ?thesis
    using s2(2-4) result job running st(2) by (simp add: s3_def sp_def W(5,6))
qed

section \<open>The calls on a recorded job run\<close>

text \<open>The verdict of what the cache shows of a job run, if anything.\<close>

definition finished_job :: "('st, 'x, 'jd, 'z) ce_lib_scheme \<Rightarrow> error + 'x JobRun \<Rightarrow> bool" where
  "finished_job L seen =
     (case seen of
        Inl _ \<Rightarrow> False
      | Inr jr \<Rightarrow> CheckCondition L jr (JobComplete L) \<or> CheckCondition L jr (JobFailed L))"

definition seen_verdict ::
    "('st, 'x, 'jd, 'z) ce_lib_scheme \<Rightarrow> error + 'x JobRun \<Rightarrow> string \<Rightarrow> 'st \<Rightarrow> 'st" where
  "seen_verdict L seen name st = (case seen of Inl _ \<Rightarrow> st | Inr jr \<Rightarrow> job_verdict L jr name st)"

lemma reconcile_recorded:
  assumes "task_spec_of r (rs_run s) tls" and "ts_JobRunName (rs_status s) \<noteq> []"
    and "\<forall>e. r_jobRunLister r (r_codeEngineNamespace r) (ts_JobRunName (rs_status s)) = Inl e \<longrightarrow>
           IsNotFound L e"
  shows "\<exists>s'. reconcile L r s = (Return None, s') \<and>
    rs_run s' = (rs_run s)\<lparr>run_Status := seen_verdict L
      (r_jobRunLister r (r_codeEngineNamespace r) (ts_JobRunName (rs_status s)))
      (ts_JobRunName (rs_status s)) (run_Status (rs_run s))\<rparr> \<and>
    rs_status s' = storeCodeEngineTaskSpec (rs_status s) tls \<and>
    rs_effects s' = rs_effects s \<and> rs_api s' = rs_api s"
proof (cases "r_jobRunLister r (r_codeEngineNamespace r) (ts_JobRunName (rs_status s))")
  case (Inl e)
  obtain task where task: "getCodeEngineTask L r s = (Return (Inr task), s)" "t_Spec task = tls"
    using getCodeEngineTask_resolves [OF assms(1)] by blast
  show ?thesis
    using assms(2,3) Inl
    by (simp add: reconcile_def task runCodeEngineJob_def checkCodeEngineJobRunStatus_def
        seen_verdict_def Let_def)
next
  case (Inr jr)
  show ?thesis using reconcile_checks [OF assms(1,2) Inr, of L] by (simp add: Inr seen_verdict_def)
qed

lemma seen_verdict_laws:
  assumes "run_laws L"
  shows "IsDone L (seen_verdict L seen n st) \<longleftrightarrow> finished_job L seen \<or> IsDone L st"
    and "StartTime L (seen_verdict L seen n st) = StartTime L st"
  by (cases seen; simp add: seen_verdict_def finished_job_def job_verdict_laws [OF assms])+

lemma recorded_call:
  assumes laws: "run_laws L" "encodes L" and now: "0 < now"
    and accepted: "verifyCodeEngineSpec L run = Return True"
    and undone: "\<not> IsDone L (run_Status run)"
    and stored: "stored_status L (run_Status run) = Some status" "ts_JobRunName status \<noteq> []"
    and task: "task_spec_of r run tls"
    and lister: "\<forall>e. r_jobRunLister r (r_codeEngineNamespace r) (ts_JobRunName status) = Inl e \<longrightarrow>
      IsNotFound L e"
    and call: "ReconcileKind L r now run api = (out, s')"
  shows "out = Return None" and "rs_api s' = api" and "creations (rs_effects s') = 0"
    and "\<exists>status'. stored_status L (run_Status (rs_run s')) = Some status' \<and>
      ts_JobRunName status' = ts_JobRunName status"
    and "IsDone L (run_Status (rs_run s')) \<longleftrightarrow>
      finished_job L (r_jobRunLister r (r_codeEngineNamespace r) (ts_JobRunName status))"
    and "\<And>jr. r_jobRunLister r (r_codeEngineNamespace r) (ts_JobRunName status) = Inr jr \<Longrightarrow>
      CheckCondition L jr (JobComplete L) \<or> CheckCondition L jr (JobFailed L) \<longrightarrow>
       (\<exists>c. succeeded_condition L (rs_run s') = Some c \<and>
          c_Status c = (if CheckCondition L jr (JobFailed L) then ''False'' else ''True'') \<and>
          c_Reason c = (if CheckCondition L jr (JobFailed L) then ''Failed'' else ''Succeeded''))"
    and "HasStarted L (run_Status (rs_run s'))"
proof -
  let ?seen = "r_jobRunLister r (r_codeEngineNamespace r) (ts_JobRunName status)"
  obtain s1 s2 where s1: "begun L \<lparr>rs_run = run, rs_status = zero_CodeEngineTaskStatus,
        rs_api = api, rs_effects = []\<rparr> s1"
    and s2: "reconcile_undone L r s1 = (out, s2)" "rs_run s' = rs_run s2" "rs_api s' = rs_api s2"
      "filter is_create (rs_effects s') = filter is_create (rs_effects s2)"
    using ReconcileKind_undone [OF laws(1) now accepted undone call] by metis
  note W = begun_work [OF s1 stored(1)]
  obtain s3 where s3: "reconcile L r (s1\<lparr>rs_status := status\<rparr>) = (Return None, s3)"
    "rs_run s3 = (rs_run s1)\<lparr>run_Status := seen_verdict L ?seen (ts_JobRunName status)
       (run_Status (rs_run s1))\<rparr>" "rs_status s3 = storeCodeEngineTaskSpec status tls"
    "rs_effects s3 = rs_effects s1" "rs_api s3 = rs_api s1"
    using reconcile_recorded [of r "s1\<lparr>rs_status := status\<rparr>" tls L] task stored(2) lister
    by (auto simp: W)
  from reconcile_undone_encodes [OF laws W(2) s3(1)]
  obtain st t where st: "reconcile_undone L r s1 = (Return None, s3\<lparr>rs_run := (rs_run s3)\<lparr>run_Status := st\<rparr>\<rparr>)"
    "stored_status L st = Some t" "same_job (rs_status s3) t"
    "StartTime L st = StartTime L (run_Status (rs_run s3))"
    "IsDone L st = IsDone L (run_Status (rs_run s3))"
    "GetCondition L st = GetCondition L (run_Status (rs_run s3))" by metis
  have result: "out = Return None" "s2 = s3\<lparr>rs_run := (rs_run s3)\<lparr>run_Status := st\<rparr>\<rparr>"
    using s2(1) st(1) by simp_all
  have run': "rs_run s' = (rs_run s1)\<lparr>run_Status := st\<rparr>" by (simp add: s2(2) result(2) s3(2))
  show "out = Return None" by (rule result(1))
  show "rs_api s' = api" and "creations (rs_effects s') = 0"
    using s2(3,4) result(2) s3(4,5) W(6) begunD(4) [OF s1] by (simp_all add: creations_filter)
  show "\<exists>status'. stored_status L (run_Status (rs_run s')) = Some status' \<and>
      ts_JobRunName status' = ts_JobRunName status"
    using st(2,3) by (simp add: run' same_job_def s3(3))
  show "IsDone L (run_Status (rs_run s')) \<longleftrightarrow> finished_job L ?seen"
    using begunD(2) [OF s1] by (simp add: run' st(5) s3(2) seen_verdict_laws [OF laws(1)])
  show "HasStarted L (run_Status (rs_run s'))"
    using begunD(1) [OF s1]
    by (simp add: run' HasStarted_iff [OF laws(1)] st(4) s3(2) seen_verdict_laws [OF laws(1)])
  fix jr
  assume "?seen = Inr jr"
  then show "CheckCondition L jr (JobComplete L) \<or> CheckCondition L jr (JobFailed L) \<longrightarrow>
       (\<exists>c. succeeded_condition L (rs_run s') = Some c \<and>
          c_Status c = (if CheckCondition L jr (JobFailed L) then ''False'' else ''True'') \<and>
          c_Reason c = (if CheckCondition L jr (JobFailed L) then ''Failed'' else ''Succeeded''))"
    using job_verdict_condition [OF laws(1), of jr "ts_JobRunName status"]
    by (simp add: run' succeeded_condition_def st(6) s3(2) seen_verdict_def)
qed

text \<open>A check that fails otherwise than with NotFound returns the error and leaves what is recorded.\<close>

lemma recorded_error_call:
  assumes laws: "run_laws L" and now: "0 < now"
    and accepted: "verifyCodeEngineSpec L run = Return True"
    and undone: "\<not> IsDone L (run_Status run)"
    and stored: "stored_status L (run_Status run) = Some status" "ts_JobRunName status \<noteq> []"
    and task: "task_spec_of r run tls"
    and lister: "r_jobRunLister r (r_codeEngineNamespace r) (ts_JobRunName status) = Inl e" "\<not> IsNotFound L e"
    and call: "ReconcileKind L r now run api = (out, s')"
  shows "out = Return (Some e)" and "rs_api s' = api" and "creations (rs_effects s') = 0"
    and "stored_status L (run_Status (rs_run s')) = Some status"
    and "\<not> IsDone L (run_Status (rs_run s'))"
proof -
  obtain s1 s2 where s1: "begun L \<lparr>rs_run = run, rs_status = zero_CodeEngineTaskStatus,
        rs_api = api, rs_effects = []\<rparr> s1"
    and s2: "reconcile_undone L r s1 = (out, s2)" "rs_run s' = rs_run s2" "rs_api s' = rs_api s2"
      "filter is_create (rs_effects s') = filter is_create (rs_effects s2)"
    using ReconcileKind_undone [OF laws now accepted undone call] by metis
  note W = begun_work [OF s1 stored(1)]
  have "task_spec_of r (rs_run (s1\<lparr>rs_status := status\<rparr>)) tls"
    using task begunD(3) [OF s1] by (simp add: task_spec_of_identity)
  then obtain t where t: "getCodeEngineTask L r (s1\<lparr>rs_status := status\<rparr>) =
      (Return (Inr t), s1\<lparr>rs_status := status\<rparr>)"
    using getCodeEngineTask_resolves by blast
  define s3 where "s3 = mark_running L ReasonFailedToGetJobRunStatus
    ''Error retrieving CodeEngine JobRun %q status: %v'' [ArgStr (ts_JobRunName status), ArgErr e]
    (s1\<lparr>rs_status := storeCodeEngineTaskSpec status (t_Spec t)\<rparr>)"
  have "reconcile L r (s1\<lparr>rs_status := status\<rparr>) = (Return (Some e), s3)"
    using stored(2) lister
    by (simp add: reconcile_def t runCodeEngineJob_def checkCodeEngineJobRunStatus_def s3_def Let_def)
  with s2(1) reconcile_undone_error [OF W(1)] have result: "out = Return (Some e)" "s2 = s3" by simp_all
  show "out = Return (Some e)" by (rule result(1))
  show "rs_api s' = api" and "creations (rs_effects s') = 0"
    using s2(3,4) W(6) begunD(4) [OF s1] by (simp_all add: result(2) s3_def creations_filter)
  show "stored_status L (run_Status (rs_run s')) = Some status" and "\<not> IsDone L (run_Status (rs_run s'))"
    using W(1) by (simp_all add: s2(2) result(2) s3_def stored_status_def run_law_simps [OF laws])
qed

section \<open>The call that does not find the task\<close>

lemma missing_task_call:
  assumes laws: "run_laws L" and now: "0 < now"
    and accepted: "verifyCodeEngineSpec L run = Return True"
    and undone: "\<not> IsDone L (run_Status run)"
    and stored: "stored_status L (run_Status run) = Some status"
    and missing: "task_missing r run"
    and call: "ReconcileKind L r now run api = (out, s')"
  shows "out = Return (Some (missing_task_error run))" and "rs_api s' = api"
    and "creations (rs_effects s') = 0"
    and "stored_status L (run_Status (rs_run s')) = Some status"
    and "IsDone L (run_Status (rs_run s'))" and "HasStarted L (run_Status (rs_run s'))"
    and "\<exists>c. succeeded_condition L (rs_run s') = Some c \<and> c_Status c = ''False'' \<and>
      c_Reason c = ''CouldntGetCodeEngineTask''"
proof -
  obtain s1 s2 where s1: "begun L \<lparr>rs_run = run, rs_status = zero_CodeEngineTaskStatus,
        rs_api = api, rs_effects = []\<rparr> s1"
    and s2: "reconcile_undone L r s1 = (out, s2)" "rs_run s' = rs_run s2" "rs_api s' = rs_api s2"
      "filter is_create (rs_effects s') = filter is_create (rs_effects s2)"
    using ReconcileKind_undone [OF laws now accepted undone call] by metis
  note W = begun_work [OF s1 stored]
  have id: "same_identity run (rs_run s1)" using begunD(3) [OF s1] by simp
  have error: "missing_task_error (rs_run s1) = missing_task_error run"
    by (simp add: missing_task_error_def same_identity_fields [OF id])
  obtain m a where "reconcile L r (s1\<lparr>rs_status := status\<rparr>) =
      (Return (Some (missing_task_error run)), mark_failed L ReasonCouldntGetTask m a (s1\<lparr>rs_status := status\<rparr>))"
    using getCodeEngineTask_missing [of r "s1\<lparr>rs_status := status\<rparr>" L] missing
    by (auto simp: reconcile_def task_missing_identity [OF id] error)
  with s2(1) reconcile_undone_error [OF W(1)] have result: "out = Return (Some (missing_task_error run))"
    "s2 = mark_failed L ReasonCouldntGetTask m a (s1\<lparr>rs_status := status\<rparr>)" by simp_all
  show "out = Return (Some (missing_task_error run))" by (rule result(1))
  show "rs_api s' = api" and "creations (rs_effects s') = 0"
    using s2(3,4) result(2) W(6) begunD(4) [OF s1] by (simp_all add: creations_filter)
  show "stored_status L (run_Status (rs_run s')) = Some status"
    using W(1) by (simp add: s2(2) result(2) stored_status_def run_law_simps [OF laws])
  show "IsDone L (run_Status (rs_run s'))" and "HasStarted L (run_Status (rs_run s'))"
    using begunD(1) [OF s1]
    by (simp_all add: s2(2) result(2) run_law_simps [OF laws] HasStarted_iff [OF laws])
  show "\<exists>c. succeeded_condition L (rs_run s') = Some c \<and> c_Status c = ''False'' \<and>
      c_Reason c = ''CouldntGetCodeEngineTask''"
    using mark_condition(1) [OF laws, of "reason_String ReasonCouldntGetTask"]
    by (simp add: s2(2) result(2) succeeded_condition_def)
qed

section \<open>The calls on a finished Run\<close>

text \<open>A Run that is done but has not started is started by the next call, and nothing else.\<close>

lemma done_call:
  fixes s :: "('st, 'x, 'w) rstate"
  assumes laws: "run_laws L" and now: "0 < now" and over: "IsDone L (run_Status run)"
    and call: "ReconcileKind L r now run api = (out, s)"
  shows "IsDone L (run_Status (rs_run s))" and "same_identity run (rs_run s)"
    and "stored_status L (run_Status (rs_run s)) = stored_status L (run_Status run)"
    and "rs_api s = api" and "filter is_create (rs_effects s) = []"
proof -
  have "IsDone L (run_Status (rs_run s)) \<and>
      stored_status L (run_Status (rs_run s)) = stored_status L (run_Status run) \<and>
      rs_api s = api \<and> filter is_create (rs_effects s) = []"
    using call
  proof (cases rule: ReconcileKind_cases)
    case (accepted s1)
    let ?s = "\<lparr>rs_run = run, rs_status = zero_CodeEngineTaskStatus, rs_api = api,
      rs_effects = []\<rparr> :: ('st, 'x, 'w) rstate"
    show ?thesis
    proof (cases "HasStarted L (run_Status run)")
      case True
      with accepted over show ?thesis by (auto simp: reconcile_body_def finalizeRun_def)
    next
      case False
      obtain x s2 where init: "initializeRun L now ?s = (x, s2)" by (rule prod.exhaust)
      note R = initializeRun_result [OF laws _ now init, simplified, OF False]
      have "s1 = s2" using accepted(2) False over R(1,6) init by (simp add: reconcile_body_def finalizeRun_def)
      then show ?thesis
        using R(2,4,6,7) over by (simp add: accepted(3) creations_filter stored_status_def)
    qed
  qed (use over in simp_all)
  then show "IsDone L (run_Status (rs_run s))"
    and "stored_status L (run_Status (rs_run s)) = stored_status L (run_Status run)"
    and "rs_api s = api" and "filter is_create (rs_effects s) = []" by simp_all
  show "same_identity run (rs_run s)" by (rule ReconcileKind_frame(1) [OF laws now call])
qed

lemma finished_history:
  assumes "IsDone L (run_Status run)" and "HasStarted L (run_Status run)"
    and "reconcile_all L envs run api = (run', api', es)"
  shows "run' = run \<and> api' = api \<and> filter is_create es = []"
  using assms(3)
proof (induction envs arbitrary: es)
  case (Cons env envs)
  obtain r now where env: "env = (r, now)" by (rule prod.exhaust)
  obtain out s where call: "ReconcileKind L r now run api = (out, s)" by (rule prod.exhaust)
  have same: "rs_run s = run" "rs_api s = api" "filter is_create (rs_effects s) = []"
    using call by (cases rule: ReconcileKind_cases;
        use assms(1,2) in \<open>simp add: reconcile_body_def finalizeRun_def\<close>)+
  then have "write_back run out s = run" by (simp add: write_back_def)
  with Cons.prems call same Cons.IH show ?case by (auto simp: env split: prod.splits)
qed simp

end
