(* ===== verification/SampleEnv.thy ===== *)
theory SampleEnv
  imports RunHistory
begin

text \<open>
  A concrete environment on which the hypotheses of the theorems are seen to hold: a status with
  a start time, one condition and the stored task status, for which \<open>run_laws\<close> is proved; an
  indexer that holds one CodeEngineTask; one job definition; and an API that numbers the job
  runs it creates.  The definitions of the program do not depend on it.
\<close>

section \<open>A status library that keeps the laws\<close>

record sample_st =
  ss_start :: "instant option"
  ss_cond :: "Condition option"
  ss_extra :: "CodeEngineTaskStatus option"

definition sample_mark :: "string \<Rightarrow> string \<Rightarrow> string \<Rightarrow> sample_st \<Rightarrow> sample_st" where
  "sample_mark stat reason msg st =
     st\<lparr>ss_cond := Some \<lparr>c_Type = ''Succeeded'', c_Status = stat, c_Severity = [],
                        c_LastTransitionTime = 0, c_Reason = reason, c_Message = msg\<rparr>\<rparr>"

definition sample_done :: "sample_st \<Rightarrow> bool" where
  "sample_done st = (case ss_cond st of None \<Rightarrow> False | Some c \<Rightarrow> c_Status c \<noteq> ''Unknown'')"

definition sample_started :: "sample_st \<Rightarrow> bool" where
  "sample_started st = (case ss_start st of None \<Rightarrow> False | Some t \<Rightarrow> t \<noteq> 0)"

definition sample_init :: "instant \<Rightarrow> sample_st \<Rightarrow> sample_st" where
  "sample_init now st =
     (let st1 = (if sample_started st then st else st\<lparr>ss_start := Some now\<rparr>)
      in (case ss_cond st1 of None \<Rightarrow> sample_mark ''Unknown'' [] [] st1 | Some _ \<Rightarrow> st1))"

definition sample_IsNotFound :: "error \<Rightarrow> bool" where
  "sample_IsNotFound e = (case e of Foreign s \<Rightarrow> take 9 s = ''not found'' | _ \<Rightarrow> False)"

definition sample_lib :: "(sample_st, string, string) ce_lib" where
  "sample_lib =
     \<lparr>GV_String = (\<lambda>gv. if gv_Group gv = [] then gv_Version gv else gv_Group gv @ ''/'' @ gv_Version gv),
      WithKind = (\<lambda>gv k. \<lparr>gvk_Group = gv_Group gv, gvk_Version = gv_Version gv, gvk_Kind = k\<rparr>),
      WithResource = (\<lambda>gv r. \<lparr>gvr_Group = gv_Group gv, gvr_Version = gv_Version gv, gvr_Resource = r\<rparr>),
      GVK_GroupKind = (\<lambda>k. \<lparr>gk_Group = gvk_Group k, gk_Kind = gvk_Kind k\<rparr>),
      GVR_GroupResource = (\<lambda>r. \<lparr>gr_Group = gvr_Group r, gr_Resource = gvr_Resource r\<rparr>),
      GVR_String = (\<lambda>r. gvr_Group r @ ''/'' @ gvr_Version r @ '', Resource='' @ gvr_Resource r),
      NewNotFound = (\<lambda>gr n. Foreign (''not found: '' @ n)),
      IsNotFound = sample_IsNotFound,
      ConditionSucceeded = ''Succeeded'',
      HasStarted = sample_started,
      IsDone = sample_done,
      GetCondition = (\<lambda>st ty. if ty = ''Succeeded'' then ss_cond st else None),
      StartTime = ss_start,
      SetStartTime = (\<lambda>t st. st\<lparr>ss_start := t\<rparr>),
      InitializeConditions = sample_init,
      MarkRunSucceeded = (\<lambda>r m a. sample_mark ''True'' r m),
      MarkRunFailed = (\<lambda>r m a. sample_mark ''False'' r m),
      MarkRunRunning = (\<lambda>r m a. sample_mark ''Unknown'' r m),
      DecodeExtraFields = (\<lambda>st s0. Inr (case ss_extra st of None \<Rightarrow> s0 | Some s \<Rightarrow> s)),
      EncodeExtraFields = (\<lambda>s st. Inr (st\<lparr>ss_extra := Some s\<rparr>)),
      ZeroRest = [],
      SetDefaultsFromJobDefinition = (\<lambda>jr jd. jr\<lparr>jr_Rest := jd\<rparr>),
      CheckCondition = (\<lambda>jr c. js_Rest (jr_Status jr) = c),
      GetLatestCondition = (\<lambda>js. if js_Rest js = [] then None else Some (js_Rest js)),
      JobComplete = ''Complete'',
      JobFailed = ''Failed''\<rparr>"

lemma sample_lib_simps [sample_simps]:
  "GV_String sample_lib \<lparr>gv_Group = g, gv_Version = v\<rparr> = (if g = [] then v else g @ ''/'' @ v)"
  "NewNotFound sample_lib gr n = Foreign (''not found: '' @ n)"
  "IsNotFound sample_lib = sample_IsNotFound"
  "ConditionSucceeded sample_lib = ''Succeeded''"
  "HasStarted sample_lib = sample_started"
  "IsDone sample_lib = sample_done"
  "GetCondition sample_lib st ty = (if ty = ''Succeeded'' then ss_cond st else None)"
  "StartTime sample_lib = ss_start"
  "SetStartTime sample_lib t st = st\<lparr>ss_start := t\<rparr>"
  "InitializeConditions sample_lib = sample_init"
  "MarkRunSucceeded sample_lib r m a = sample_mark ''True'' r m"
  "MarkRunFailed sample_lib r m a = sample_mark ''False'' r m"
  "MarkRunRunning sample_lib r m a = sample_mark ''Unknown'' r m"
  "DecodeExtraFields sample_lib st = (\<lambda>s0. Inr (case ss_extra st of None \<Rightarrow> s0 | Some s \<Rightarrow> s))"
  "EncodeExtraFields sample_lib s st = Inr (st\<lparr>ss_extra := Some s\<rparr>)"
  "ZeroRest sample_lib = []"
  "SetDefaultsFromJobDefinition sample_lib jr jd = jr\<lparr>jr_Rest := jd\<rparr>"
  "CheckCondition sample_lib jr c = (js_Rest (jr_Status jr) = c)"
  "GetLatestCondition sample_lib js = (if js_Rest js = [] then None else Some (js_Rest js))"
  "JobComplete sample_lib = ''Complete''"
  "JobFailed sample_lib = ''Failed''"
  by (simp_all add: sample_lib_def)

lemma sample_status_simps [sample_simps]:
  "ss_start (sample_mark c q m st) = ss_start st"
  "ss_extra (sample_mark c q m st) = ss_extra st"
  "sample_done (sample_mark c q m st) = (c \<noteq> ''Unknown'')"
  "sample_started (sample_mark c q m st) = sample_started st"
  "sample_started (st\<lparr>ss_extra := x\<rparr>) = sample_started st"
  "sample_done (st\<lparr>ss_extra := x\<rparr>) = sample_done st"
  by (simp_all add: sample_mark_def sample_done_def sample_started_def)

lemma sample_schema_laws: "schema_laws sample_lib"
  by (simp add: schema_laws_def sample_lib_def sample_IsNotFound_def)

lemma sample_mark_laws: "mark_laws sample_lib"
  by (simp add: mark_laws_def mark_frame_def mark_sets_def sample_simps) (simp add: sample_mark_def)

lemma sample_init_facts:
  "ss_start (sample_init now st) = (if sample_started st then ss_start st else Some now)"
  "sample_done (sample_init now st) = sample_done st"
  "ss_extra (sample_init now st) = ss_extra st"
  by (simp_all add: sample_init_def sample_mark_def sample_done_def Let_def split: option.split)

lemma sample_start_laws: "start_laws sample_lib"
  by (simp add: start_laws_def sample_lib_simps sample_init_facts)
    (auto simp: sample_started_def sample_done_def split: option.splits)

lemma sample_extra_laws: "extra_laws sample_lib"
  by (auto simp: extra_laws_def sample_simps same_job_def)

lemma sample_run_laws: "run_laws sample_lib"
  by (simp add: run_laws_def sample_schema_laws sample_mark_laws sample_start_laws sample_extra_laws)

lemma sample_ce_laws: "ce_laws sample_lib"
  by (simp add: ce_laws_def sample_simps)

section \<open>A cluster\<close>

definition sample_task :: CodeEngineTask where
  "sample_task = zero_CodeEngineTask
     \<lparr>t_ObjectMeta := zero_ObjectMeta\<lparr>om_Name := ''task'', om_Namespace := ''ns''\<rparr>,
      t_Spec := \<lparr>JobName = ''train''\<rparr>\<rparr>"

definition sample_indexer :: indexer where
  "sample_indexer =
     \<lparr>GetByKey = (\<lambda>key. Inr (if key = ''ns/task'' then Some (TaskObj sample_task) else None)),
      ListAll = (\<lambda>sel. (if sel (task_labels sample_task) then [TaskObj sample_task] else [], None)),
      ListAllByNamespace = (\<lambda>ns sel.
         (if ns = ''ns'' \<and> sel (task_labels sample_task) then [TaskObj sample_task] else [], None))\<rparr>"

definition sample_definitions :: "string \<Rightarrow> string \<Rightarrow> error + string" where
  "sample_definitions ns name =
     (if name = ''train'' then Inr ''image'' else Inl (Foreign (''not found: '' @ name)))"

definition sample_create :: "string JobRun \<Rightarrow> nat \<Rightarrow> (error + string JobRun) \<times> nat" where
  "sample_create jr n = (Inr (jr\<lparr>jr_Name := jr_GenerateName jr @ show_nat n\<rparr>), Suc n)"

text \<open>The job runs the informer cache shows are the parameter.\<close>

definition sample_reconciler ::
    "(string \<Rightarrow> string \<Rightarrow> error + string JobRun) \<Rightarrow> (string, string, nat) Reconciler" where
  "sample_reconciler jobRuns =
     \<lparr>r_kubeclient = [], r_runLister = [], r_secretLister = [],
      r_taskLister = indexer_task_lister sample_lib \<lparr>cl_indexer = sample_indexer\<rparr>,
      r_jobDefinitionLister = sample_definitions,
      r_jobRunLister = jobRuns,
      r_jobRunsClient = sample_create,
      r_codeEngineNamespace = ''project'',
      r_createdJobRuns = (\<lambda>_. False)\<rparr>"

definition no_job_runs :: "string \<Rightarrow> string \<Rightarrow> error + string JobRun" where
  "no_job_runs ns name = Inl (Foreign (''not found: '' @ name))"

definition down_job_runs :: "string \<Rightarrow> string \<Rightarrow> error + string JobRun" where
  "down_job_runs ns name = Inl (Foreign ''connection refused'')"

definition sample_job_run :: "string \<Rightarrow> string JobRun" where
  "sample_job_run c =
     \<lparr>jr_Name = ''train-0'', jr_GenerateName = ''train-'', jr_Labels = Map.empty,
      jr_JobDefinitionRef = ''train'',
      jr_Status = \<lparr>js_Unknown = 0, js_Requested = 0, js_Pending = 0, js_Running = 0,
                   js_Succeeded = 1, js_Failed = 0, js_Rest = c\<rparr>,
      jr_Rest = ''image''\<rparr>"

definition one_job_run :: "string \<Rightarrow> string \<Rightarrow> string \<Rightarrow> error + string JobRun" where
  "one_job_run c ns name =
     (if name = ''train-0'' then Inr (sample_job_run c) else Inl (Foreign (''not found: '' @ name)))"

definition sample_ref :: "string \<Rightarrow> RunRef" where
  "sample_ref name =
     \<lparr>ref_APIVersion = ''custom.tekton.dev/v1alpha1'', ref_Kind = ''CodeEngineTask'', ref_Name = name\<rparr>"

definition sample_status :: "instant option \<Rightarrow> string option \<Rightarrow> sample_st" where
  "sample_status start jobRun =
     \<lparr>ss_start = start, ss_cond = None,
      ss_extra = map_option (\<lambda>n. zero_CodeEngineTaskStatus
        \<lparr>ts_CodeEngineTaskSpec := Some \<lparr>JobName = ''train''\<rparr>, ts_JobRunName := n\<rparr>) jobRun\<rparr>"

definition sample_run :: "string \<Rightarrow> sample_st \<Rightarrow> sample_st Run" where
  "sample_run taskName st =
     \<lparr>run_Namespace = ''ns'', run_Name = ''run'', run_CreationTimestamp = 50,
      run_Ref = Some (sample_ref taskName), run_Spec = None, run_Status = st\<rparr>"

definition embedded_run :: "string \<Rightarrow> string \<Rightarrow> sample_st \<Rightarrow> sample_st Run" where
  "embedded_run apiVersion raw st =
     \<lparr>run_Namespace = ''ns'', run_Name = ''run'', run_CreationTimestamp = 50,
      run_Ref = None,
      run_Spec = Some \<lparr>es_APIVersion = apiVersion, es_Kind = ''CodeEngineTask'',
                       es_Labels = Map.empty, es_Annotations = Map.empty, es_Raw = raw\<rparr>,
      run_Status = st\<rparr>"

lemmas sample_env_defs =
  sample_task_def sample_indexer_def sample_definitions_def sample_create_def
  sample_reconciler_def no_job_runs_def down_job_runs_def sample_job_run_def one_job_run_def
  sample_ref_def sample_status_def sample_run_def embedded_run_def

lemma sample_version: "GV_String sample_lib SchemeGroupVersion = ''custom.tekton.dev/v1alpha1''"
  by (rule SchemeGroupVersion_String [OF sample_schema_laws])

lemma sample_verify: "verifyCodeEngineSpec sample_lib (sample_run n st) = Return True"
  by (simp add: verifyCodeEngineSpec_def sample_run_def sample_ref_def foreign_type_def
      sample_version CustomTaskKind_def)

lemma sample_reliable [sample_simps]:
  "reliable sample_lib (sample_reconciler no_job_runs)"
  "reliable sample_lib (sample_reconciler (one_job_run c))"
  by (auto simp: reliable_def sample_reconciler_def sample_create_def no_job_runs_def one_job_run_def
      sample_lib_simps sample_IsNotFound_def split: if_splits)

abbreviation fresh_run :: "sample_st Run" where
  "fresh_run \<equiv> sample_run ''task'' (sample_status None None)"

abbreviation submitted_run :: "sample_st Run" where
  "submitted_run \<equiv> sample_run ''task'' (sample_status (Some 100) (Some ''train-0''))"

lemma sample_Lister:
  "indexer_task_lister sample_lib \<lparr>cl_indexer = sample_indexer\<rparr> ''ns'' ''task'' =
     Return (Inr sample_task)"
  by (simp add: indexer_task_lister_def NamespaceLister_Get_def Lister_CodeEngineTasks_def sample_indexer_def object_key_def)

end
