(* ===== verification/RunProperties.thy ===== *)
theory RunProperties
  imports RunProgress SampleEnv
begin

text \<open>
  What the reconciler promises about a Run, each property with the instance on the sample
  environment that shows its hypotheses can hold.
\<close>

section \<open>The sample environment on these paths\<close>

definition first_job_run :: "string JobRun" where
  "first_job_run = (requested_job_run sample_lib fresh_run \<lparr>JobName = ''train''\<rparr> ''image'')
     \<lparr>jr_Name := ''train-0''\<rparr>"

definition train_status :: CodeEngineTaskStatus where
  "train_status = zero_CodeEngineTaskStatus
     \<lparr>ts_CodeEngineTaskSpec := Some \<lparr>JobName = ''train''\<rparr>, ts_JobRunName := ''train-0''\<rparr>"

lemma sample_stored:
  "stored_status sample_lib (run_Status fresh_run) = Some zero_CodeEngineTaskStatus"
  "stored_status sample_lib (run_Status submitted_run) = Some train_status"
  by (simp_all add: stored_status_def sample_simps sample_run_def sample_status_def train_status_def)

lemma sample_effective:
  "effective_spec zero_CodeEngineTaskStatus tls = tls"
  "effective_spec train_status tls = \<lparr>JobName = ''train''\<rparr>"
  by (simp_all add: effective_spec_def zero_CodeEngineTaskStatus_def train_status_def)

lemma sample_names:
  "ts_JobRunName zero_CodeEngineTaskStatus = []"
  "ts_JobRunName train_status = ''train-0''"
  by (simp_all add: zero_CodeEngineTaskStatus_def train_status_def)

lemma sample_will_create:
  "will_create sample_lib (sample_reconciler jobRuns) fresh_run 0
     (effective_spec zero_CodeEngineTaskStatus \<lparr>JobName = ''train''\<rparr>) ''image'' first_job_run 1"
  by (simp add: will_create_def sample_env_defs requested_job_run_def new_job_run_def sample_lib_simps
      first_job_run_def sample_effective show_nat_0)

lemma first_job_run_Name: "jr_Name first_job_run = ''train-0''"
  by (simp add: first_job_run_def)

lemma sample_task_spec_of:
  "r_taskLister r = indexer_task_lister sample_lib \<lparr>cl_indexer = sample_indexer\<rparr> \<Longrightarrow>
     task_spec_of r (sample_run ''task'' st) \<lparr>JobName = ''train''\<rparr>"
  by (simp add: task_spec_of_def sample_run_def sample_ref_def sample_Lister)
    (simp add: sample_task_def)

lemma sample_task_spec:
  "task_spec_of (sample_reconciler jobRuns) (sample_run ''task'' st) \<lparr>JobName = ''train''\<rparr>"
  by (rule sample_task_spec_of) (simp add: sample_reconciler_def)

lemma sample_job_run_lister:
  "r_jobRunLister (sample_reconciler jobRuns) = jobRuns"
  "IsNotFound sample_lib (Foreign (''not found: '' @ n))"
  "\<not> IsNotFound sample_lib (Foreign ''connection refused'')"
  by (simp_all add: sample_reconciler_def sample_lib_simps sample_IsNotFound_def)

lemma sample_encodes: "encodes sample_lib"
  by (simp add: encodes_def sample_simps)

lemma sample_undone:
  "\<not> IsDone sample_lib (run_Status (sample_run n (sample_status t j)))"
  by (simp add: sample_simps sample_run_def sample_status_def sample_done_def)

section \<open>The life of a Run\<close>

text \<open>
  C1: every call of \<open>ReconcileKind\<close> on an accepted Run is one step of the lifecycle machine from
  the phase of the Run before to its phase after, and asks for at most the one job run the step
  allows.
\<close>

theorem reconcile_refines_lifecycle:
  assumes "run_laws L" and "0 < now" and "verifyCodeEngineSpec L run = Return True"
    and "ReconcileKind L r now run api = (out, s')"
  shows "\<exists>b. creations (rs_effects s') = of_bool b \<and>
    lifecycle (reliable L r) (run_phase L run) b (run_phase L (rs_run s'))"
  by (rule ReconcileKind_lifecycle [OF assms])

lemma reconcile_refines_lifecycle_witness:
  "\<exists>b. creations (rs_effects (snd (ReconcileKind sample_lib (sample_reconciler no_job_runs) 100
        fresh_run 0))) = of_bool b \<and>
     lifecycle (reliable sample_lib (sample_reconciler no_job_runs))
       (run_phase sample_lib fresh_run) b
       (run_phase sample_lib (rs_run (snd (ReconcileKind sample_lib (sample_reconciler no_job_runs) 100
          fresh_run 0))))"
  by (rule reconcile_refines_lifecycle [OF sample_run_laws _ sample_verify prod.collapse [symmetric]])
    simp

text \<open>
  C2: in a reliable environment, a whole history of reconciliations of a Run asks for at most one
  job run, and for none once the Run has recorded its job run or is finished; the phase of the
  Run never goes back.
\<close>

theorem one_job_run_per_history:
  assumes "run_laws L" and "history_ok L envs"
    and "reconcile_all L envs run api = (run', api', es)"
  shows "creations es \<le> 1 \<and> (Submitted \<le> run_phase L run \<longrightarrow> creations es = 0) \<and>
    (creations es = 1 \<longrightarrow> Submitted \<le> run_phase L run') \<and> run_phase L run \<le> run_phase L run'"
  using lifecycle_run_creations lifecycle_run_mono reconcile_all_lifecycle [OF assms] by blast

lemma one_job_run_per_history_witness:
  "creations (snd (snd (reconcile_all sample_lib
     [(sample_reconciler no_job_runs, 100), (sample_reconciler (one_job_run ''Complete''), 200)]
     fresh_run 0))) \<le> 1"
proof -
  have "history_ok sample_lib
      [(sample_reconciler no_job_runs, 100), (sample_reconciler (one_job_run ''Complete''), 200)]"
    by (simp add: history_ok_def sample_simps)
  from one_job_run_per_history [OF sample_run_laws this, of fresh_run 0]
  show ?thesis by (metis prod.collapse)
qed

text \<open>
  C11: whatever happens to a Run over a history, reliable or not, a spec once stored in its status
  is never replaced, a recorded job run name never changes, and nothing but its status is written.
\<close>

theorem stored_job_is_stable:
  assumes "run_laws L" and "list_all (\<lambda>(r, now). 0 < now) envs"
    and "reconcile_all L envs run api = (run', api', es)"
    and "stored_status L (run_Status run) = Some status"
  shows "same_identity run run' \<and>
    (\<exists>status'. stored_status L (run_Status run') = Some status' \<and>
       (ts_CodeEngineTaskSpec status \<noteq> None \<longrightarrow>
          ts_CodeEngineTaskSpec status' = ts_CodeEngineTaskSpec status) \<and>
       (ts_JobRunName status \<noteq> [] \<longrightarrow> ts_JobRunName status' = ts_JobRunName status))"
  using reconcile_all_grows [OF assms(1-3)] assms(4) unfolding grows_def by blast

lemma stored_job_is_stable_witness:
  "same_identity submitted_run (fst (reconcile_all sample_lib
     [(sample_reconciler down_job_runs, 100), (sample_reconciler (one_job_run ''Failed''), 200)]
     submitted_run 0))"
proof -
  have "list_all (\<lambda>(r, now). 0 < (now :: instant))
      [(sample_reconciler down_job_runs, 100), (sample_reconciler (one_job_run ''Failed''), 200)]"
    by simp
  from stored_job_is_stable [where api = 0, OF sample_run_laws this _ sample_stored(2)]
  show ?thesis by (metis prod.collapse)
qed

section \<open>The paths of a reconciliation\<close>

text \<open>
  C9: on a Run without a recorded job run, when the task, the job definition and the API answer,
  \<open>ReconcileKind\<close> creates exactly the job run of the effective spec, records its name and the spec
  in the Run, marks the Run running, not done, and returns no error.
\<close>

theorem first_reconcile_creates:
  assumes laws: "run_laws L" "encodes L" and now: "0 < now"
    and accepted: "verifyCodeEngineSpec L run = Return True"
    and undone: "\<not> IsDone L (run_Status run)"
    and stored: "stored_status L (run_Status run) = Some status" "ts_JobRunName status = []"
    and task: "task_spec_of r run tls"
    and create: "will_create L r run api (effective_spec status tls) jd jr api'"
    and fresh: "jr_Name jr \<noteq> []"
      "r_jobRunLister r (r_codeEngineNamespace r) (jr_Name jr) = Inl e" "IsNotFound L e"
    and call: "ReconcileKind L r now run api = (out, s')"
  shows "out = Return None \<and> rs_api s' = api' \<and>
    filter is_create (rs_effects s') =
      [CreateCall (requested_job_run L run (effective_spec status tls) jd) (Inr jr)] \<and>
    (\<exists>status'. stored_status L (run_Status (rs_run s')) = Some status' \<and>
       ts_JobRunName status' = jr_Name jr \<and>
       ts_CodeEngineTaskSpec status' = Some (effective_spec status tls)) \<and>
    (\<exists>c. succeeded_condition L (rs_run s') = Some c \<and> c_Status c = ''Unknown'' \<and>
       c_Reason c = ''Running'') \<and>
    \<not> IsDone L (run_Status (rs_run s'))"
  by (rule first_call [OF laws now accepted undone stored task create fresh call])

lemma first_reconcile_creates_witness:
  "fst (ReconcileKind sample_lib (sample_reconciler no_job_runs) 100 fresh_run 0) = Return None"
proof -
  have lister: "r_jobRunLister (sample_reconciler no_job_runs)
      (r_codeEngineNamespace (sample_reconciler no_job_runs)) (jr_Name first_job_run) =
      Inl (Foreign (''not found: '' @ jr_Name first_job_run))"
    by (simp add: sample_job_run_lister(1) no_job_runs_def)
  have name: "jr_Name first_job_run \<noteq> []" by (simp add: first_job_run_Name)
  show ?thesis
    using first_reconcile_creates [OF sample_run_laws sample_encodes _ sample_verify sample_undone
        sample_stored(1) sample_names(1) sample_task_spec sample_will_create name lister
        sample_job_run_lister(2) prod.collapse [symmetric], of 100] by simp
qed

text \<open>
  C10: on a Run with a recorded job run that the cache shows, \<open>ReconcileKind\<close> creates nothing.  While
  the task of the Run still resolves it copies the verdict: a failed job run fails the Run, also when
  it counts as complete, a complete one makes it succeed, and any other leaves it undone.  When the
  referenced task is no longer found, the Run fails with the reason \<open>CouldntGetCodeEngineTask\<close>
  whatever its job run did.
\<close>

theorem job_outcome_reported:
  assumes laws: "run_laws L" "encodes L" and now: "0 < now"
    and accepted: "verifyCodeEngineSpec L run = Return True"
    and undone: "\<not> IsDone L (run_Status run)"
    and stored: "stored_status L (run_Status run) = Some status" "ts_JobRunName status \<noteq> []"
    and task: "task_spec_of r run tls \<or> task_missing r run"
    and lister: "r_jobRunLister r (r_codeEngineNamespace r) (ts_JobRunName status) = Inr jr"
    and call: "ReconcileKind L r now run api = (out, s')"
  shows "rs_api s' = api \<and> creations (rs_effects s') = 0 \<and>
    (if task_missing r run
     then out = Return (Some (missing_task_error run)) \<and> IsDone L (run_Status (rs_run s')) \<and>
       (\<exists>c. succeeded_condition L (rs_run s') = Some c \<and> c_Status c = ''False'' \<and>
          c_Reason c = ''CouldntGetCodeEngineTask'')
     else out = Return None \<and>
       (IsDone L (run_Status (rs_run s')) \<longleftrightarrow>
          CheckCondition L jr (JobComplete L) \<or> CheckCondition L jr (JobFailed L)) \<and>
       (CheckCondition L jr (JobComplete L) \<or> CheckCondition L jr (JobFailed L) \<longrightarrow>
          (\<exists>c. succeeded_condition L (rs_run s') = Some c \<and>
             c_Status c = (if CheckCondition L jr (JobFailed L) then ''False'' else ''True'') \<and>
             c_Reason c = (if CheckCondition L jr (JobFailed L) then ''Failed'' else ''Succeeded''))))"
proof (cases "task_missing r run")
  case True
  show ?thesis
    using missing_task_call [OF laws(1) now accepted undone stored(1) True call] True by simp
next
  case False
  with task have spec: "task_spec_of r run tls" by simp
  have "\<forall>e. r_jobRunLister r (r_codeEngineNamespace r) (ts_JobRunName status) = Inl e \<longrightarrow> IsNotFound L e"
    by (simp add: lister)
  note C = recorded_call [OF laws now accepted undone stored spec this call]
  from C(1-3,5) C(6) [OF lister] False show ?thesis by (simp add: finished_job_def lister)
qed

lemma job_outcome_reported_witness:
  "fst (ReconcileKind sample_lib (sample_reconciler (one_job_run ''Complete'')) 200 submitted_run 0) = Return None \<and>
   IsDone sample_lib (run_Status (rs_run (snd
     (ReconcileKind sample_lib (sample_reconciler (one_job_run ''Complete'')) 200 submitted_run 0)))) \<and>
   fst (ReconcileKind sample_lib
     ((sample_reconciler (one_job_run ''Complete''))\<lparr>r_taskLister := \<lambda>ns n. Return (Inl (Foreign n))\<rparr>)
     200 submitted_run 0) = Return (Some (missing_task_error submitted_run))"
proof -
  define gone :: "(string, string, nat) Reconciler" where
    "gone = (sample_reconciler (one_job_run ''Complete''))\<lparr>r_taskLister := \<lambda>ns n. Return (Inl (Foreign n))\<rparr>"
  have listed: "r_jobRunLister (sample_reconciler (one_job_run ''Complete''))
      (r_codeEngineNamespace (sample_reconciler (one_job_run ''Complete''))) (ts_JobRunName train_status) =
      Inr (sample_job_run ''Complete'')"
    "r_jobRunLister gone (r_codeEngineNamespace gone) (ts_JobRunName train_status) =
      Inr (sample_job_run ''Complete'')"
    by (simp_all add: gone_def sample_job_run_lister(1) sample_names one_job_run_def)
  have found: "task_spec_of (sample_reconciler (one_job_run ''Complete'')) submitted_run \<lparr>JobName = ''train''\<rparr>"
    by (rule sample_task_spec)
  have missing: "task_missing gone submitted_run"
    by (simp add: task_missing_def gone_def sample_run_def sample_ref_def)
  have name: "ts_JobRunName train_status \<noteq> []" by (simp add: sample_names)
  have complete: "CheckCondition sample_lib (sample_job_run ''Complete'') (JobComplete sample_lib)"
    by (simp add: sample_lib_simps sample_job_run_def)
  note report = job_outcome_reported [OF sample_run_laws sample_encodes _ sample_verify sample_undone
      sample_stored(2) name]
  have "\<not> task_missing (sample_reconciler (one_job_run ''Complete'')) submitted_run"
    using found task_missing_unresolved by blast
  with report [OF _ disjI1 [OF found] listed(1) prod.collapse [symmetric], of 200 0] complete
    report [OF _ disjI2 [OF missing] listed(2) prod.collapse [symmetric], of 200 0] missing
  show ?thesis by (simp add: gone_def)
qed

section \<open>Failures\<close>

text \<open>
  C16: when the job definition cannot be retrieved, the Run fails for good: the call returns the
  error, creates nothing and marks the Run failed with the reason \<open>FailedToStartJobRun\<close>, and no
  later history of reconciliations changes the Run or creates a job run.
\<close>

theorem missing_definition_fails_run:
  assumes laws: "run_laws L" and now: "0 < now"
    and accepted: "verifyCodeEngineSpec L run = Return True"
    and undone: "\<not> IsDone L (run_Status run)"
    and stored: "stored_status L (run_Status run) = Some status" "ts_JobRunName status = []"
    and task: "task_spec_of r run tls"
    and uncached: "\<not> r_createdJobRuns r (object_key (run_Namespace run) (run_Name run))"
    and missing: "r_jobDefinitionLister r (r_codeEngineNamespace r)
      (JobName (effective_spec status tls)) = Inl e"
    and call: "ReconcileKind L r now run api = (out, s')"
    and later: "reconcile_all L envs (rs_run s') (rs_api s') = (run'', api'', es)"
  shows "out = Return (Some e) \<and> creations (rs_effects s') = 0 \<and>
    (\<exists>c. succeeded_condition L (rs_run s') = Some c \<and> c_Status c = ''False'' \<and>
       c_Reason c = ''FailedToStartJobRun'') \<and>
    run'' = rs_run s' \<and> creations es = 0"
proof -
  obtain s1 s2 where s1: "begun L \<lparr>rs_run = run, rs_status = zero_CodeEngineTaskStatus,
        rs_api = api, rs_effects = []\<rparr> s1"
    and s2: "reconcile_undone L r s1 = (out, s2)" "rs_run s' = rs_run s2"
      "filter is_create (rs_effects s') = filter is_create (rs_effects s2)"
    using ReconcileKind_undone [OF laws(1) now accepted undone call] by metis
  note W = begun_work [OF s1 stored(1)]
  have id: "same_identity run (rs_run s1)" using begunD(3) [OF s1] by simp
  obtain m a where "reconcile L r (s1\<lparr>rs_status := status\<rparr>) = (Return (Some e),
      mark_failed L ReasonFailedToStartJobRun m a
        (s1\<lparr>rs_status := storeCodeEngineTaskSpec status tls\<rparr>))"
    using reconcile_no_definition [of r "s1\<lparr>rs_status := status\<rparr>" tls e L]
      task stored(2) uncached missing
    by (auto simp: W same_identity_fields [OF id])
  with s2(1) reconcile_undone_error [OF W(1)]
  have result: "out = Return (Some e)" "s2 = mark_failed L ReasonFailedToStartJobRun m a
        (s1\<lparr>rs_status := storeCodeEngineTaskSpec status tls\<rparr>)" by simp_all
  have fin: "IsDone L (run_Status (rs_run s'))" "HasStarted L (run_Status (rs_run s'))"
    using begunD(1) [OF s1]
    by (simp_all add: s2(2) result(2) run_law_simps [OF laws] HasStarted_iff [OF laws])
  show ?thesis
    using result s2(2,3) W(6) mark_condition(1) [OF laws, of "reason_String ReasonFailedToStartJobRun"]
      finished_history [OF fin later]
    by (simp add: creations_filter succeeded_condition_def)
qed

definition no_definitions :: "string \<Rightarrow> string \<Rightarrow> error + string" where
  "no_definitions ns name = Inl (Foreign (''not found: '' @ name))"

lemma missing_definition_fails_run_witness:
  "fst (ReconcileKind sample_lib
     ((sample_reconciler no_job_runs)\<lparr>r_jobDefinitionLister := no_definitions\<rparr>) 100 fresh_run 0) =
   Return (Some (Foreign ''not found: train''))"
proof -
  define r where "r = (sample_reconciler no_job_runs)\<lparr>r_jobDefinitionLister := no_definitions\<rparr>"
  have task: "task_spec_of r fresh_run \<lparr>JobName = ''train''\<rparr>"
    by (rule sample_task_spec_of) (simp add: r_def sample_reconciler_def)
  have missing: "r_jobDefinitionLister r (r_codeEngineNamespace r)
      (JobName (effective_spec zero_CodeEngineTaskStatus \<lparr>JobName = ''train''\<rparr>)) =
      Inl (Foreign ''not found: train'')"
    by (simp add: r_def no_definitions_def sample_effective)
  have uncached: "\<not> r_createdJobRuns r (object_key (run_Namespace fresh_run) (run_Name fresh_run))"
    by (simp add: r_def sample_reconciler_def)
  from missing_definition_fails_run [where envs = "[]" and now = 100, OF sample_run_laws _ sample_verify
      sample_undone sample_stored(1) sample_names(1) task uncached missing prod.collapse [symmetric]
      reconcile_all.simps(1)]
  show ?thesis by (simp add: r_def)
qed

text \<open>
  C17: when the API refuses the job run, the Run fails with the reason \<open>FailedToStartJobRun\<close>, the
  error is returned, and the refused request is the only one made.
\<close>

theorem refused_job_run_fails_run:
  assumes laws: "run_laws L" and now: "0 < now"
    and accepted: "verifyCodeEngineSpec L run = Return True"
    and undone: "\<not> IsDone L (run_Status run)"
    and stored: "stored_status L (run_Status run) = Some status" "ts_JobRunName status = []"
    and task: "task_spec_of r run tls"
    and uncached: "\<not> r_createdJobRuns r (object_key (run_Namespace run) (run_Name run))"
    and defined: "r_jobDefinitionLister r (r_codeEngineNamespace r)
      (JobName (effective_spec status tls)) = Inr jd"
    and refused: "r_jobRunsClient r (requested_job_run L run (effective_spec status tls) jd) api =
      (Inl e, api')"
    and call: "ReconcileKind L r now run api = (out, s')"
  shows "out = Return (Some e) \<and> rs_api s' = api' \<and>
    filter is_create (rs_effects s') =
      [CreateCall (requested_job_run L run (effective_spec status tls) jd) (Inl e)] \<and>
    run_phase L (rs_run s') = Finished \<and>
    (\<exists>c. succeeded_condition L (rs_run s') = Some c \<and> c_Status c = ''False'' \<and>
       c_Reason c = ''FailedToStartJobRun'')"
proof -
  obtain s1 s2 where s1: "begun L \<lparr>rs_run = run, rs_status = zero_CodeEngineTaskStatus,
        rs_api = api, rs_effects = []\<rparr> s1"
    and s2: "reconcile_undone L r s1 = (out, s2)" "rs_run s' = rs_run s2" "rs_api s' = rs_api s2"
      "filter is_create (rs_effects s') = filter is_create (rs_effects s2)"
    using ReconcileKind_undone [OF laws(1) now accepted undone call] by metis
  note W = begun_work [OF s1 stored(1)]
  have id: "same_identity run (rs_run s1)" and api: "rs_api s1 = api"
    using begunD(3,4) [OF s1] by simp_all
  obtain m a where "reconcile L r (s1\<lparr>rs_status := status\<rparr>) = (Return (Some e),
      mark_failed L ReasonFailedToStartJobRun m a
        (emit (CreateCall (requested_job_run L run (effective_spec status tls) jd) (Inl e))
          (s1\<lparr>rs_status := storeCodeEngineTaskSpec status tls, rs_api := api'\<rparr>)))"
    using reconcile_create_fails [of r "s1\<lparr>rs_status := status\<rparr>" tls jd L e api']
      task stored(2) uncached defined refused
    by (auto simp: W same_identity_fields [OF id] api)
  with s2(1) reconcile_undone_error [OF W(1)]
  have result: "out = Return (Some e)" "s2 = mark_failed L ReasonFailedToStartJobRun m a
        (emit (CreateCall (requested_job_run L run (effective_spec status tls) jd) (Inl e))
          (s1\<lparr>rs_status := storeCodeEngineTaskSpec status tls, rs_api := api'\<rparr>))" by simp_all
  show ?thesis
    using result s2(2-4) W(6) mark_condition(1) [OF laws, of "reason_String ReasonFailedToStartJobRun"]
      phase_of_mark(1) [OF laws]
    by (simp add: succeeded_condition_def)
qed

definition refuse :: "string JobRun \<Rightarrow> nat \<Rightarrow> (error + string JobRun) \<times> nat" where
  "refuse jr n = (Inl (Foreign ''forbidden''), n)"

lemma refused_job_run_fails_run_witness:
  "fst (ReconcileKind sample_lib
     ((sample_reconciler no_job_runs)\<lparr>r_jobRunsClient := refuse\<rparr>) 100 fresh_run 0) =
   Return (Some (Foreign ''forbidden''))"
proof -
  define r where "r = (sample_reconciler no_job_runs)\<lparr>r_jobRunsClient := refuse\<rparr>"
  have task: "task_spec_of r fresh_run \<lparr>JobName = ''train''\<rparr>"
    by (rule sample_task_spec_of) (simp add: r_def sample_reconciler_def)
  have defined: "r_jobDefinitionLister r (r_codeEngineNamespace r)
      (JobName (effective_spec zero_CodeEngineTaskStatus \<lparr>JobName = ''train''\<rparr>)) = Inr ''image''"
    by (simp add: r_def sample_reconciler_def sample_definitions_def sample_effective)
  have uncached: "\<not> r_createdJobRuns r (object_key (run_Namespace fresh_run) (run_Name fresh_run))"
    by (simp add: r_def sample_reconciler_def)
  have refused: "r_jobRunsClient r jr n = (Inl (Foreign ''forbidden''), n)" for jr n
    by (simp add: r_def refuse_def)
  from refused_job_run_fails_run [where now = 100, OF sample_run_laws _ sample_verify
      sample_undone sample_stored(1) sample_names(1) task uncached defined refused
      prod.collapse [symmetric]]
  show ?thesis by (simp add: r_def)
qed

text \<open>
  C18: a check that fails with anything but NotFound right after a creation loses the creation: the
  job run exists, the call returns the error before the status is encoded, and the Run is left as
  if no job run had been created, so that the next call creates another one.
\<close>

theorem check_error_loses_creation:
  assumes laws: "run_laws L" and now: "0 < now"
    and accepted: "verifyCodeEngineSpec L run = Return True"
    and undone: "\<not> IsDone L (run_Status run)"
    and stored: "stored_status L (run_Status run) = Some status" "ts_JobRunName status = []"
    and task: "task_spec_of r run tls"
    and create: "will_create L r run api (effective_spec status tls) jd jr api'"
    and broken: "jr_Name jr \<noteq> []"
      "r_jobRunLister r (r_codeEngineNamespace r) (jr_Name jr) = Inl e" "\<not> IsNotFound L e"
    and call: "ReconcileKind L r now run api = (out, s')"
  shows "out = Return (Some e) \<and> creations (rs_effects s') = 1 \<and> rs_api s' = api' \<and>
    stored_status L (run_Status (rs_run s')) = Some status \<and> run_phase L (rs_run s') = Pending"
proof -
  obtain s1 s2 where s1: "begun L \<lparr>rs_run = run, rs_status = zero_CodeEngineTaskStatus,
        rs_api = api, rs_effects = []\<rparr> s1"
    and s2: "reconcile_undone L r s1 = (out, s2)" "rs_run s' = rs_run s2" "rs_api s' = rs_api s2"
      "filter is_create (rs_effects s') = filter is_create (rs_effects s2)"
    using ReconcileKind_undone [OF laws(1) now accepted undone call] by metis
  note W = begun_work [OF s1 stored(1)]
  define s3 where "s3 = after_create L (effective_spec status tls) jd jr api'
    (s1\<lparr>rs_status := storeCodeEngineTaskSpec status tls\<rparr>)"
  define s4 where "s4 = mark_running L ReasonFailedToGetJobRunStatus
    ''Error retrieving CodeEngine JobRun %q status: %v'' [ArgStr (jr_Name jr), ArgErr e] s3"
  have "checkCodeEngineJobRunStatus L r s3 = (Some e, s4)"
    using broken by (simp add: checkCodeEngineJobRunStatus_def s3_def s4_def)
  moreover have "reconcile L r (s1\<lparr>rs_status := status\<rparr>) =
      (case checkCodeEngineJobRunStatus L r s3 of (err, s4) \<Rightarrow> (Return err, s4))"
    using reconcile_creates [of r "s1\<lparr>rs_status := status\<rparr>" tls L jd jr api'] task stored(2) create
    by (simp add: W s3_def)
  ultimately have "reconcile L r (s1\<lparr>rs_status := status\<rparr>) = (Return (Some e), s4)" by simp
  with s2(1) reconcile_undone_error [OF W(1)] have result: "out = Return (Some e)" "s2 = s4"
    by simp_all
  have st: "stored_status L (run_Status (rs_run s')) = Some status"
    using W(1) by (simp add: s2(2) result(2) s4_def s3_def stored_status_def run_law_simps [OF laws])
  then have "run_phase L (rs_run s') = Pending"
    using begunD(1) [OF s1] stored(2)
    by (simp add: phase_of_def submitted_def HasStarted_iff [OF laws] s2(2) result(2) s4_def s3_def
        run_law_simps [OF laws])
  with st show ?thesis
    using result(1) s2(3,4) W(6) by (simp add: result(2) s4_def s3_def creations_filter)
qed

lemma check_error_loses_creation_witness:
  "creations (rs_effects (snd (ReconcileKind sample_lib (sample_reconciler down_job_runs) 100
     fresh_run 0))) = 1"
proof -
  have lister: "r_jobRunLister (sample_reconciler down_job_runs)
      (r_codeEngineNamespace (sample_reconciler down_job_runs)) (jr_Name first_job_run) =
      Inl (Foreign ''connection refused'')"
    by (simp add: sample_job_run_lister(1) down_job_runs_def)
  have name: "jr_Name first_job_run \<noteq> []" by (simp add: first_job_run_Name)
  show ?thesis
    using check_error_loses_creation [where now = 100, OF sample_run_laws _ sample_verify sample_undone
        sample_stored(1) sample_names(1) sample_task_spec sample_will_create name lister
        sample_job_run_lister(3) prod.collapse [symmetric]] by simp
qed

end
