(* ===== verification/RunGuards.thy ===== *)
theory RunGuards
  imports RunProperties
begin

text \<open>
  The guards of the reconciler and its edge cases: which Runs it accepts, when it can panic, what
  it emits, the start time, embedded specs, Runs whose task cannot be read, and the effect of a
  stale copy of a Run.
\<close>

section \<open>Preparation\<close>

lemma will_create_creates_one:
  assumes laws: "run_laws L" and now: "0 < now"
    and accepted: "verifyCodeEngineSpec L run = Return True"
    and undone: "\<not> IsDone L (run_Status run)"
    and stored: "stored_status L (run_Status run) = Some status" "ts_JobRunName status = []"
    and task: "task_spec_of r run tls"
    and create: "will_create L r run api (effective_spec status tls) jd jr api'"
    and call: "ReconcileKind L r now run api = (out, s')"
  shows "creations (rs_effects s') = 1" and "rs_api s' = api'"
    and "filter is_create (rs_effects s') =
      [CreateCall (requested_job_run L run (effective_spec status tls) jd) (Inr jr)]"
proof -
  obtain s1 s2 where s1: "begun L \<lparr>rs_run = run, rs_status = zero_CodeEngineTaskStatus,
        rs_api = api, rs_effects = []\<rparr> s1"
    and s2: "reconcile_undone L r s1 = (out, s2)"
      "filter is_create (rs_effects s') = filter is_create (rs_effects s2)" "rs_api s' = rs_api s2"
    using ReconcileKind_undone [OF laws now accepted undone call] by metis
  note W = begun_work [OF s1 stored(1)]
  obtain s3 where s3: "reconcile L r (s1\<lparr>rs_status := status\<rparr>) =
      (case checkCodeEngineJobRunStatus L r s3 of (err, s4) \<Rightarrow> (Return err, s4))"
    "rs_effects s3 = rs_effects s1 @ [CreateCall (requested_job_run L run (effective_spec status tls) jd) (Inr jr)]"
    "rs_api s3 = api'"
    using reconcile_creates [of r "s1\<lparr>rs_status := status\<rparr>" tls L jd jr api'] task stored(2) create
    by (auto simp: W)
  obtain err s4 where chk: "checkCodeEngineJobRunStatus L r s3 = (err, s4)" by (rule prod.exhaust)
  have s4: "rs_effects s4 = rs_effects s3" "rs_api s4 = rs_api s3"
    by (rule check_frame(3,4) [OF laws chk])+
  have "rs_effects s2 = rs_effects s4 \<and> rs_api s2 = rs_api s4"
    using s2(1) s3(1) chk
    by (cases err) (auto simp: reconcile_undone_def W(2) split: prod.splits)
  with s4 show "creations (rs_effects s') = 1" and "rs_api s' = api'"
    and "filter is_create (rs_effects s') =
      [CreateCall (requested_job_run L run (effective_spec status tls) jd) (Inr jr)]"
    using s2(2,3) s3(2,3) W(6) by (simp_all add: creations_filter)
qed

text \<open>Only \<open>ReconcileKind\<close> and \<open>initializeRun\<close> emit events.\<close>

abbreviation events :: "('st, 'x) effect list \<Rightarrow> ('st, 'x) effect list" where
  "events es \<equiv> filter (\<lambda>e. \<not> is_create e) es"

lemma reconcile_events:
  assumes "run_laws L" and "reconcile L r s = (out, s')"
  shows "events (rs_effects s') = events (rs_effects s)"
proof -
  have job: "events (rs_effects t') = events (rs_effects t)" if "runCodeEngineJob L r t = (x, t')" for t x t'
    using that by (cases rule: runCodeEngineJob_cases) simp_all
  show ?thesis
    using assms(2)
  proof (cases rule: reconcile_cases)
    case (job_stops task s2)
    then show ?thesis using job [OF job_stops(3)] by simp
  next
    case (checked task s2 s3 err)
    then show ?thesis using job [OF checked(3)] check_frame(4) [OF assms(1) checked(4)] by simp
  qed (simp_all add: getCodeEngineTask_frame(4) [OF assms(1)])
qed

lemma reconcile_undone_events:
  assumes "run_laws L" and "reconcile_undone L r s = (out, s')"
  shows "events (rs_effects s') = events (rs_effects s)"
  using assms(2)
proof (cases rule: reconcile_undone_cases)
  case (stopped status)
  then show ?thesis using reconcile_events [OF assms(1) stopped(2)] by simp
next
  case (encoded status s1 err run1)
  then show ?thesis using reconcile_events [OF assms(1) encoded(2)] by simp
qed simp

lemma reconcile_body_events:
  assumes laws: "run_laws L" and now: "0 < now" and call: "reconcile_body L r now s = (out, s')"
  shows "\<exists>run1. same_identity (rs_run s) run1 \<and>
    events (rs_effects s') = events (rs_effects s) @
      (if HasStarted L (run_Status (rs_run s)) then []
       else [EmitEvent None (succeeded_condition L run1) run1])"
proof (cases "HasStarted L (run_Status (rs_run s))")
  case True
  with call reconcile_undone_events [OF laws, of r s out s'] show ?thesis
    by (intro exI [of _ "rs_run s"]) (auto simp: reconcile_body_def finalizeRun_def split: if_splits)
next
  case False
  obtain x s1 where init: "initializeRun L now s = (x, s1)" by (rule prod.exhaust)
  define st where "st = (let st = InitializeConditions L now (run_Status (rs_run s))
     in if now < run_CreationTimestamp (rs_run s)
        then SetStartTime L (Some (run_CreationTimestamp (rs_run s))) st else st)"
  have "\<exists>run1. same_identity (rs_run s) run1 \<and> x = Return () \<and>
      rs_effects s1 = rs_effects s @ [EmitEvent None (succeeded_condition L run1) run1]"
    using init initializeRun_eq [OF laws False, of now, folded st_def]
    by (intro exI [of _ "(rs_run s)\<lparr>run_Status := st\<rparr>"]) (auto simp: succeeded_condition_def)
  then obtain run1 where run1: "same_identity (rs_run s) run1" "x = Return ()"
    "rs_effects s1 = rs_effects s @ [EmitEvent None (succeeded_condition L run1) run1]" by blast
  have "events (rs_effects s') = events (rs_effects s1)"
    using call init False run1(2) reconcile_undone_events [OF laws, of r s1 out s']
    by (auto simp: reconcile_body_def finalizeRun_def split: if_splits)
  with run1 False show ?thesis by (intro exI [of _ run1]) simp
qed

lemma Unmarshal_spec_text:
  "list_all plain_char name \<Longrightarrow> Unmarshal_TaskSpec (spec_text name) s = (None, s\<lparr>JobName := name\<rparr>)"
  by (simp add: Unmarshal_TaskSpec_def parse_spec_text eq_fold_def)

lemma sample_indexed: "indexed_task sample_indexer ''ns'' = [''task'' \<mapsto> sample_task]"
  by (rule ext) (simp add: indexed_task_def sample_indexer_def object_key_def)

lemma sample_task_lister:
  "r_taskLister (sample_reconciler jobRuns) =
     indexer_task_lister sample_lib \<lparr>cl_indexer = sample_indexer\<rparr>"
  by (simp add: sample_reconciler_def)

lemma sample_lister_laws:
  "lister_laws (sample_lib, Lister_CodeEngineTasks \<lparr>cl_indexer = sample_indexer\<rparr> ''ns'')"
proof -
  have "\<exists>ts. ListAllByNamespace sample_indexer ''ns'' sel = (map TaskObj ts, None) \<and>
      set ts = {t \<in> ran (indexed_task sample_indexer ''ns''). sel (task_labels t)}" for sel
    by (rule exI [of _ "if sel (task_labels sample_task) then [sample_task] else []"])
      (auto simp: sample_indexed, simp_all add: sample_indexer_def)
  moreover have "GetByKey sample_indexer (object_key ''ns'' name) =
      Inr (map_option TaskObj (indexed_task sample_indexer ''ns'' name))" for name
    by (simp add: sample_indexed) (simp add: sample_indexer_def object_key_def)
  ultimately have "indexer_laws sample_indexer ''ns''" unfolding indexer_laws_def by blast
  then show ?thesis
    by (simp add: lister_laws_def sample_schema_laws Lister_CodeEngineTasks_def)
qed

section \<open>Acceptance and panics\<close>

text \<open>
  C22: the outcome of \<open>verifyCodeEngineSpec\<close>.  A Run is accepted when it has a reference or an
  embedded spec and neither is of a foreign type.  An embedded spec of a foreign type without a
  reference is not rejected but makes the log call panic, and so does \<open>ReconcileKind\<close>; every other
  Run is rejected, and then \<open>ReconcileKind\<close> does nothing.
\<close>

theorem verification_outcome:
  "verifyCodeEngineSpec L run =
     (if run_Ref run = None \<and>
         (\<exists>spec. run_Spec run = Some spec \<and> foreign_type L (es_APIVersion spec) (es_Kind spec))
      then Panic NilDereference
      else Return
        ((run_Spec run \<noteq> None \<or> run_Ref run \<noteq> None) \<and>
         (\<forall>ref\<in>set_option (run_Ref run). \<not> foreign_type L (ref_APIVersion ref) (ref_Kind ref)) \<and>
         (\<forall>spec\<in>set_option (run_Spec run). \<not> foreign_type L (es_APIVersion spec) (es_Kind spec))))
   \<and> (verifyCodeEngineSpec L run \<noteq> Return True \<longrightarrow>
        ReconcileKind L r now run api =
          (if is_panic (verifyCodeEngineSpec L run) then Panic NilDereference else Return None,
           \<lparr>rs_run = run, rs_status = zero_CodeEngineTaskStatus, rs_api = api, rs_effects = []\<rparr>))"
proof -
  have "ReconcileKind L r now run api =
      (if is_panic (verifyCodeEngineSpec L run) then Panic NilDereference else Return None,
       \<lparr>rs_run = run, rs_status = zero_CodeEngineTaskStatus, rs_api = api, rs_effects = []\<rparr>)"
    if "verifyCodeEngineSpec L run \<noteq> Return True"
    using that by (cases rule: verify_cases [of L run]) (simp_all add: ReconcileKind_def)
  moreover have "verifyCodeEngineSpec L run =
     (if run_Ref run = None \<and>
         (\<exists>spec. run_Spec run = Some spec \<and> foreign_type L (es_APIVersion spec) (es_Kind spec))
      then Panic NilDereference
      else Return
        ((run_Spec run \<noteq> None \<or> run_Ref run \<noteq> None) \<and>
         (\<forall>ref\<in>set_option (run_Ref run). \<not> foreign_type L (ref_APIVersion ref) (ref_Kind ref)) \<and>
         (\<forall>spec\<in>set_option (run_Spec run). \<not> foreign_type L (es_APIVersion spec) (es_Kind spec))))"
    by (cases "run_Ref run"; cases "run_Spec run") (simp_all add: verifyCodeEngineSpec_def)
  ultimately show ?thesis by blast
qed

lemma sample_foreign: "verifyCodeEngineSpec sample_lib (embedded_run ''tekton.dev/v1'' raw st) = Panic NilDereference"
  by (simp add: verifyCodeEngineSpec_def embedded_run_def foreign_type_def sample_version)

lemma verification_outcome_witness:
  "fst (ReconcileKind sample_lib (sample_reconciler no_job_runs) 100
     (embedded_run ''tekton.dev/v1'' [] (sample_status None None)) 0) = Panic NilDereference"
  using verification_outcome [of sample_lib "embedded_run ''tekton.dev/v1'' [] (sample_status None None)"
      "sample_reconciler no_job_runs" 100 0]
  by (simp add: sample_foreign)

text \<open>With a lister of CodeEngineTasks nothing that a call dereferences or asserts can panic.\<close>

lemma ReconcileKind_no_panic:
  assumes laws: "run_laws L" and now: "0 < now"
    and accepted: "verifyCodeEngineSpec L run = Return True"
    and lister: "r_taskLister r = indexer_task_lister L lst"
      "lister_laws (L, Lister_CodeEngineTasks lst (run_Namespace run))"
  shows "\<not> is_panic (fst (ReconcileKind L r now run api))"
proof
  assume "is_panic (fst (ReconcileKind L r now run api))"
  then obtain p s' where "ReconcileKind L r now run api = (Panic p, s')"
    by (metis is_panic_iff prod.collapse)
  then show False
  proof (cases rule: ReconcileKind_cases)
    case (accepted s1)
    obtain t where t: "run_Namespace (rs_run t) = run_Namespace run"
      "getCodeEngineTask L r t = (Panic p, s1)"
      using reconcile_body_panic(2) [OF laws now accepted(2)] by auto
    obtain name where "r_taskLister r (run_Namespace run) name = Panic p"
      using getCodeEngineTask_panics [OF t(2)] t(1) by auto
    moreover obtain x where "r_taskLister r (run_Namespace run) name = Return x"
      using task_lister.get_total [OF lister(2)] by (auto simp: lister(1) indexer_task_lister_def)
    ultimately show False by simp
  qed (use accepted in simp_all)
qed

text \<open>
  C13: with a lister of CodeEngineTasks, no call of \<open>ReconcileKind\<close> on an accepted Run panics: the
  start time and the stored spec are there when they are dereferenced.
\<close>

theorem accepted_run_no_panic:
  assumes laws: "run_laws L" and now: "0 < now"
    and accepted: "verifyCodeEngineSpec L run = Return True"
    and lister: "r_taskLister r = indexer_task_lister L lst"
      "lister_laws (L, Lister_CodeEngineTasks lst (run_Namespace run))"
  shows "\<not> is_panic (fst (ReconcileKind L r now run api))"
  by (rule ReconcileKind_no_panic [OF assms])

lemma accepted_run_no_panic_witness:
  "\<not> is_panic (fst (ReconcileKind sample_lib (sample_reconciler down_job_runs) 100
     (sample_run ''absent'' (sample_status None None)) 0))"
  by (rule accepted_run_no_panic [OF sample_run_laws _ sample_verify sample_task_lister])
    (simp_all add: sample_run_def sample_lister_laws)

section \<open>Start time and events\<close>

text \<open>
  C23: after a call on an accepted Run, the Run has a start time: the one it had, or, when it had
  not started, the time of the call, corrected upwards to the creation time of the Run.
\<close>

theorem start_time_not_before_creation:
  fixes now :: instant
  assumes "run_laws L" and "0 < now" and "verifyCodeEngineSpec L run = Return True"
    and "ReconcileKind L r now run api = (out, s')"
  shows "StartTime L (run_Status (rs_run s')) =
    (if HasStarted L (run_Status run) then StartTime L (run_Status run)
     else Some (max now (run_CreationTimestamp run))) \<and> HasStarted L (run_Status (rs_run s'))"
  using assms(4)
proof (cases rule: ReconcileKind_cases)
  case (accepted s1)
  have "rs_run s' = rs_run s1" by (simp add: accepted(3))
  moreover have "HasStarted L (run_Status (rs_run s1))"
    using reconcile_body_lifecycle [OF assms(1,2) accepted(2)] by blast
  ultimately show ?thesis using reconcile_body_frame(3) [OF assms(1,2) accepted(2)] by simp
qed (use assms in simp_all)

lemma start_time_not_before_creation_witness:
  "ss_start (run_Status (rs_run (snd (ReconcileKind sample_lib (sample_reconciler no_job_runs) 20
     fresh_run 0)))) = Some 50"
  using start_time_not_before_creation [where now = 20, OF sample_run_laws _ sample_verify
      prod.collapse [symmetric], of "sample_reconciler no_job_runs" "''task''" "sample_status None None" 0]
  by (simp add: sample_lib_simps) (simp add: sample_run_def sample_status_def sample_started_def)

text \<open>
  C21: on an accepted Run, however the call ends, the last event emitted is the change of the
  \<open>Succeeded\<close> condition over the whole call with the final Run; the only other event is the first
  one, from no condition, when the call started the Run.
\<close>

theorem condition_change_emitted:
  assumes laws: "run_laws L" and now: "0 < now"
    and accepted: "verifyCodeEngineSpec L run = Return True"
    and call: "ReconcileKind L r now run api = (out, s')"
  shows "\<exists>run1. same_identity run run1 \<and>
    filter (\<lambda>e. \<not> is_create e) (rs_effects s') =
      (if HasStarted L (run_Status run) then []
       else [EmitEvent None (succeeded_condition L run1) run1]) @
      [EmitEvent (succeeded_condition L run) (succeeded_condition L (rs_run s')) (rs_run s')] \<and>
    last (rs_effects s') =
      EmitEvent (succeeded_condition L run) (succeeded_condition L (rs_run s')) (rs_run s')"
  using call
proof (cases rule: ReconcileKind_cases)
  case (accepted s1)
  obtain run1 where "same_identity run run1"
    "events (rs_effects s1) = (if HasStarted L (run_Status run) then []
       else [EmitEvent None (succeeded_condition L run1) run1])"
    using reconcile_body_events [OF laws now accepted(2)] by auto
  then show ?thesis by (intro exI [of _ run1]) (simp add: accepted(3))
qed (use accepted in simp_all)

lemma condition_change_emitted_witness:
  "length (filter (\<lambda>e. \<not> is_create e) (rs_effects (snd (ReconcileKind sample_lib
     (sample_reconciler no_job_runs) 100 fresh_run 0)))) = 2"
proof -
  have "\<not> HasStarted sample_lib (run_Status fresh_run)"
    by (simp add: sample_lib_simps sample_run_def sample_status_def sample_started_def)
  with condition_change_emitted [where now = 100 and api = 0 and run = fresh_run
        and r = "sample_reconciler no_job_runs", OF sample_run_laws _ sample_verify
      prod.collapse [symmetric]]
  show ?thesis by auto
qed

section \<open>Stale copies and finished Runs\<close>

lemma done_history:
  assumes laws: "run_laws L" and "list_all (\<lambda>(r, now). 0 < now) envs" and "IsDone L (run_Status run)"
    and "reconcile_all L envs run api = (run', api', es)"
  shows "IsDone L (run_Status run') \<and> same_identity run run' \<and>
    stored_status L (run_Status run') = stored_status L (run_Status run) \<and>
    api' = api \<and> filter is_create es = []"
  using assms(2-4)
proof (induction envs arbitrary: run api es)
  case (Cons env envs)
  obtain r now where env: "env = (r, now)" by (rule prod.exhaust)
  obtain out s where call: "ReconcileKind L r now run api = (out, s)" by (rule prod.exhaust)
  obtain es1 where rest: "reconcile_all L envs (write_back run out s) (rs_api s) = (run', api', es1)"
    and es: "es = rs_effects s @ es1"
    using Cons.prems(3) by (auto simp: env call split: prod.splits)
  have times: "0 < now" "list_all (\<lambda>(r, now). 0 < now) envs" using Cons.prems(1) by (simp_all add: env)
  note C = done_call [OF laws times(1) Cons.prems(2) call]
  have same: "IsDone L (run_Status (write_back run out s))" "same_identity run (write_back run out s)"
    "stored_status L (run_Status (write_back run out s)) = stored_status L (run_Status run)"
    using C Cons.prems(2) by (simp_all add: write_back_def)
  from Cons.IH [OF times(2) same(1) rest] same(2,3) C(4,5) show ?case
    by (auto simp: es intro: same_identity_trans)
qed simp

lemma finished_events:
  assumes "IsDone L (run_Status run)" and "HasStarted L (run_Status run)"
    and "reconcile_all L envs run api = (run', api', es)"
  shows "run' = run \<and>
    (\<forall>e\<in>set es. e = EmitEvent (succeeded_condition L run) (succeeded_condition L run) run)"
  using assms(3)
proof (induction envs arbitrary: api es)
  case (Cons env envs)
  obtain r now where env: "env = (r, now)" by (rule prod.exhaust)
  obtain out s where call: "ReconcileKind L r now run api = (out, s)" by (rule prod.exhaust)
  have same: "rs_run s = run \<and>
      (\<forall>e\<in>set (rs_effects s). e = EmitEvent (succeeded_condition L run) (succeeded_condition L run) run)"
    using call by (cases rule: ReconcileKind_cases)
      (use assms(1,2) in \<open>simp_all add: reconcile_body_def finalizeRun_def\<close>)
  then have "write_back run out s = run" by (simp add: write_back_def)
  with Cons.prems call same Cons.IH show ?case by (auto simp: env split: prod.splits)
qed simp

text \<open>
  C19: the guard against a stale copy of a Run does not work: as long as the cache of created job
  runs knows nothing of the Run, and nothing in the program ever adds to that cache, reconciling
  the same stale copy of a Run twice creates two job runs.
\<close>

theorem stale_run_creates_twice:
  assumes "run_laws L" and "0 < now" and "0 < now'"
    and "verifyCodeEngineSpec L run = Return True" and "\<not> IsDone L (run_Status run)"
    and "stored_status L (run_Status run) = Some status" and "ts_JobRunName status = []"
    and "task_spec_of r run tls"
    and "will_create L r run api (effective_spec status tls) jd jr1 api1"
    and "ReconcileKind L r now run api = (out1, s1)"
    and "will_create L r run api1 (effective_spec status tls) jd jr2 api2"
    and "ReconcileKind L r now' run (rs_api s1) = (out2, s2)"
  shows "creations (rs_effects s1 @ rs_effects s2) = 2"
proof -
  note first = will_create_creates_one [OF assms(1,2,4-10)]
  have "creations (rs_effects s2) = 1"
    by (rule will_create_creates_one(1) [OF assms(1,3,4-8,11) assms(12) [unfolded first(2)]])
  with first(1) show ?thesis by simp
qed

lemma sample_creates:
  "will_create sample_lib (sample_reconciler jobRuns) fresh_run n
     (effective_spec zero_CodeEngineTaskStatus \<lparr>JobName = ''train''\<rparr>) ''image''
     (first_job_run\<lparr>jr_Name := ''train-'' @ show_nat n\<rparr>) (Suc n)"
  by (simp add: will_create_def sample_env_defs requested_job_run_def new_job_run_def
      sample_lib_simps first_job_run_def sample_effective)

lemma stale_run_creates_twice_witness:
  "creations (rs_effects (snd (ReconcileKind sample_lib (sample_reconciler no_job_runs) 100 fresh_run 0)) @
     rs_effects (snd (ReconcileKind sample_lib (sample_reconciler no_job_runs) 101 fresh_run
       (rs_api (snd (ReconcileKind sample_lib (sample_reconciler no_job_runs) 100 fresh_run 0)))))) = 2"
  by (rule stale_run_creates_twice [where now = 100 and now' = 101, OF sample_run_laws _ _ sample_verify
        sample_undone sample_stored(1) sample_names(1) sample_task_spec sample_creates
        prod.collapse [symmetric] sample_creates prod.collapse [symmetric]]) simp_all

text \<open>
  C20: a Run that is done stays done: over any history of reconciliations its identity and the status
  stored in it stay what they were, no job run is asked for and the API is left alone.  If it has
  started nothing at all is written to it and only events without a change of the condition are
  emitted.
\<close>

theorem finished_run_is_final:
  assumes laws: "run_laws L" and times: "list_all (\<lambda>(r, now). 0 < now) envs"
    and over: "IsDone L (run_Status run)"
    and history: "reconcile_all L envs run api = (run', api', es)"
  shows "IsDone L (run_Status run') \<and> same_identity run run' \<and>
    stored_status L (run_Status run') = stored_status L (run_Status run) \<and>
    api' = api \<and> creations es = 0 \<and>
    (HasStarted L (run_Status run) \<longrightarrow> run' = run \<and>
      (\<forall>e\<in>set es. e = EmitEvent (succeeded_condition L run) (succeeded_condition L run) run))"
proof (intro conjI impI)
  note H = done_history [OF laws times over history]
  show "IsDone L (run_Status run')" "same_identity run run'"
    "stored_status L (run_Status run') = stored_status L (run_Status run)" "api' = api"
    using H by blast+
  show "creations es = 0" using H by (simp add: creations_filter)
  assume started: "HasStarted L (run_Status run)"
  from finished_events [OF over started history]
  show "run' = run" and "\<forall>e\<in>set es. e = EmitEvent (succeeded_condition L run) (succeeded_condition L run) run"
    by blast+
qed

lemma finished_run_is_final_witness:
  "fst (reconcile_all sample_lib [(sample_reconciler (one_job_run ''Failed''), 100)]
     (sample_run ''task'' (sample_mark ''True'' [] [] (sample_status (Some 7) (Some ''train-0'')))) 0) =
   sample_run ''task'' (sample_mark ''True'' [] [] (sample_status (Some 7) (Some ''train-0''))) \<and>
   IsDone sample_lib (run_Status (fst (reconcile_all sample_lib [(sample_reconciler (one_job_run ''Failed''), 100)]
     (sample_run ''task'' (sample_mark ''True'' [] [] (sample_status None (Some ''train-0'')))) 0)))"
proof -
  let ?run = "\<lambda>start. sample_run ''task'' (sample_mark ''True'' [] [] (sample_status start (Some ''train-0'')))"
  have over: "IsDone sample_lib (run_Status (?run start))" for start
    by (simp add: sample_simps sample_run_def)
  have started: "HasStarted sample_lib (run_Status (?run (Some 7)))"
    by (simp add: sample_simps sample_run_def) (simp add: sample_status_def sample_started_def)
  have times: "list_all (\<lambda>(r, now). 0 < (now :: instant)) [(sample_reconciler (one_job_run ''Failed''), 100)]"
    by simp
  from finished_run_is_final [OF sample_run_laws times over, where api = 0] started
  show ?thesis by (metis prod.collapse)
qed

section \<open>Embedded and missing tasks\<close>

text \<open>
  C26: the JSON text of an embedded spec with a plain job name is read back to that name, and the
  task carries kind, version, labels and annotations of the embedded spec.
\<close>

theorem embedded_spec_round_trip:
  assumes "run_Spec (rs_run s) = Some spec" and "es_Raw spec = spec_text name"
    and "list_all plain_char name"
  shows "getCodeEngineTask L r s =
    (Return (Inr \<lparr>t_TypeMeta = \<lparr>tm_Kind = es_Kind spec, tm_APIVersion = es_APIVersion spec\<rparr>,
       t_ObjectMeta = zero_ObjectMeta\<lparr>om_Labels := es_Labels spec, om_Annotations := es_Annotations spec\<rparr>,
       t_Spec = \<lparr>JobName = name\<rparr>, t_Status = zero_CodeEngineTaskStatus\<rparr>), s)"
  using assms
  by (simp add: getCodeEngineTask_def Unmarshal_spec_text zero_CodeEngineTaskSpec_def)

definition embedded_state :: "(sample_st, string, nat) rstate" where
  "embedded_state =
     \<lparr>rs_run = embedded_run ''custom.tekton.dev/v1alpha1'' (spec_text ''train'') (sample_status None None),
      rs_status = zero_CodeEngineTaskStatus, rs_api = 0, rs_effects = []\<rparr>"

lemma embedded_spec_round_trip_witness:
  "\<exists>task. fst (getCodeEngineTask sample_lib (sample_reconciler no_job_runs) embedded_state) =
     Return (Inr task) \<and> t_Spec task = \<lparr>JobName = ''train''\<rparr>"
proof -
  have plain: "list_all plain_char ''train''" by code_simp
  obtain spec where "run_Spec (rs_run embedded_state) = Some spec" and "es_Raw spec = spec_text ''train''"
    by (simp add: embedded_state_def embedded_run_def)
  from embedded_spec_round_trip [where L = sample_lib and r = "sample_reconciler no_job_runs", OF this plain]
  show ?thesis by simp
qed

text \<open>
  C25: an embedded spec that is not valid JSON for the task spec never ends the Run: the call
  returns the decoding error, creates nothing, and leaves the Run unfinished with the same stored
  status, so the same call can only repeat itself.
\<close>

theorem malformed_spec_never_finishes:
  assumes laws: "run_laws L" and now: "0 < now"
    and accepted: "verifyCodeEngineSpec L run = Return True"
    and undone: "\<not> IsDone L (run_Status run)"
    and stored: "stored_status L (run_Status run) = Some status"
    and bad: "run_Spec run = Some spec"
      "Unmarshal_TaskSpec (es_Raw spec) zero_CodeEngineTaskSpec = (Some err, tls)"
    and call: "ReconcileKind L r now run api = (out, s')"
  shows "out = Return (Some (Errorf ''error unmarshal Code Engine task spec: %w'' [ArgErr err])) \<and>
    creations (rs_effects s') = 0 \<and> rs_api s' = api \<and> \<not> IsDone L (run_Status (rs_run s')) \<and>
    stored_status L (run_Status (rs_run s')) = Some status"
proof -
  obtain s1 s2 where s1: "begun L \<lparr>rs_run = run, rs_status = zero_CodeEngineTaskStatus,
        rs_api = api, rs_effects = []\<rparr> s1"
    and s2: "reconcile_undone L r s1 = (out, s2)" "rs_run s' = rs_run s2" "rs_api s' = rs_api s2"
      "filter is_create (rs_effects s') = filter is_create (rs_effects s2)"
    using ReconcileKind_undone [OF laws now accepted undone call] by metis
  note W = begun_work [OF s1 stored]
  have "run_Spec (rs_run s1) = Some spec"
    using same_identity_fields(5) [of run "rs_run s1"] begunD(3) [OF s1] bad(1) by simp
  with bad(2) have "reconcile L r (s1\<lparr>rs_status := status\<rparr>) =
      (Return (Some (Errorf ''error unmarshal Code Engine task spec: %w'' [ArgErr err])),
       s1\<lparr>rs_status := status\<rparr>)"
    by (simp add: reconcile_def getCodeEngineTask_def)
  with s2(1) reconcile_undone_error [OF W(1)] have
    "out = Return (Some (Errorf ''error unmarshal Code Engine task spec: %w'' [ArgErr err]))"
    "s2 = s1\<lparr>rs_status := status\<rparr>" by simp_all
  then show ?thesis using s2(2-4) W(1,6) begunD(2,4) [OF s1] by (simp add: creations_filter)
qed

lemma malformed_spec_never_finishes_witness:
  "\<not> IsDone sample_lib (run_Status (rs_run (snd (ReconcileKind sample_lib
     (sample_reconciler no_job_runs) 100
     (embedded_run ''custom.tekton.dev/v1alpha1'' ''[1]'' (sample_status None None)) 0))))"
proof -
  let ?run = "embedded_run ''custom.tekton.dev/v1alpha1'' ''[1]'' (sample_status None None)"
  have accepted: "verifyCodeEngineSpec sample_lib ?run = Return True"
    by (simp add: verifyCodeEngineSpec_def embedded_run_def foreign_type_def sample_version
        CustomTaskKind_def)
  have undone: "\<not> IsDone sample_lib (run_Status ?run)"
    by (simp add: embedded_run_def sample_lib_simps sample_done_def sample_status_def)
  have stored: "stored_status sample_lib (run_Status ?run) = Some zero_CodeEngineTaskStatus"
    by (simp add: stored_status_def sample_lib_simps embedded_run_def sample_status_def)
  have bad: "Unmarshal_TaskSpec ''[1]'' zero_CodeEngineTaskSpec =
      (Some (UnmarshalTypeError ''array'' []), zero_CodeEngineTaskSpec)" by code_simp
  from malformed_spec_never_finishes [where now = 100 and api = 0
      and r = "sample_reconciler no_job_runs", OF sample_run_laws _ accepted undone stored _ _
      prod.collapse [symmetric]] bad
  show ?thesis by (auto simp: embedded_run_def)
qed

text \<open>
  C24: a referenced task that is not in the lister's cache fails the Run for good with the reason
  \<open>CouldntGetCodeEngineTask\<close>: the call creates nothing and returns the error for a missing reference
  name, not the lister's; no later history of reconciliations changes the Run or creates a job run,
  also when the task is there by then.
\<close>

theorem absent_task_fails_run:
  assumes laws: "run_laws L" and now: "0 < now"
    and accepted: "verifyCodeEngineSpec L run = Return True"
    and undone: "\<not> IsDone L (run_Status run)"
    and stored: "stored_status L (run_Status run) = Some status"
    and ref: "run_Spec run = None" "run_Ref run = Some ref" "ref_Name ref \<noteq> []"
    and lister: "r_taskLister r = indexer_task_lister L lst"
      "lister_laws (L, Lister_CodeEngineTasks lst (run_Namespace run))"
    and absent: "indexed_task (cl_indexer lst) (run_Namespace run) (ref_Name ref) = None"
    and call: "ReconcileKind L r now run api = (out, s')"
    and later: "reconcile_all L envs (rs_run s') (rs_api s') = (run'', api'', es)"
  shows "out = Return (Some (Errorf ''missing spec.ref.name for Run %s''
      [ArgStr (object_key (run_Namespace run) (run_Name run))])) \<and>
    creations (rs_effects s') = 0 \<and> run_phase L (rs_run s') = Finished \<and>
    (\<exists>c. succeeded_condition L (rs_run s') = Some c \<and> c_Status c = ''False'' \<and>
       c_Reason c = ''CouldntGetCodeEngineTask'') \<and>
    run'' = rs_run s' \<and> creations es = 0"
proof -
  obtain e where "r_taskLister r (run_Namespace run) (ref_Name ref) = Return (Inl e)"
    using task_lister.get_absent [OF lister(2)] absent
    by (auto simp: lister(1) indexer_task_lister_def Lister_CodeEngineTasks_def)
  then have missing: "task_missing r run" using ref by (simp add: task_missing_def)
  note C = missing_task_call [OF laws now accepted undone stored missing call]
  show ?thesis
    using C(1,3,5,6,7) finished_history [OF C(5,6) later]
    by (simp add: missing_task_error_def phase_of_def creations_filter)
qed

text \<open>The task is absent at first and there in the second call.\<close>

lemma absent_task_fails_run_witness:
  "run_phase sample_lib (fst (reconcile_all sample_lib
     [(sample_reconciler no_job_runs, 100), ((sample_reconciler no_job_runs)
        \<lparr>r_taskLister := \<lambda>ns n. Return (Inr sample_task)\<rparr>, 200)]
     (sample_run ''absent'' (sample_status None None)) 0)) = Finished"
proof -
  let ?run = "sample_run ''absent'' (sample_status None None)"
  let ?later = "[((sample_reconciler no_job_runs)\<lparr>r_taskLister := \<lambda>ns n. Return (Inr sample_task)\<rparr>, 200)]"
  have stored: "stored_status sample_lib (run_Status ?run) = Some zero_CodeEngineTaskStatus"
    by (simp add: stored_status_def sample_lib_simps sample_run_def sample_status_def)
  have fields: "run_Spec ?run = None" "run_Ref ?run = Some (sample_ref ''absent'')"
    "ref_Name (sample_ref ''absent'') \<noteq> []" "run_Namespace ?run = ''ns''"
    by (simp_all add: sample_run_def sample_ref_def)
  have absent: "indexed_task (cl_indexer \<lparr>cl_indexer = sample_indexer\<rparr>)
      (run_Namespace ?run) (ref_Name (sample_ref ''absent'')) = None"
    by (simp add: fields(4) sample_reconciler_def sample_indexed sample_ref_def)
  obtain out s where call: "ReconcileKind sample_lib (sample_reconciler no_job_runs) 100 ?run 0 = (out, s)"
    by (rule prod.exhaust)
  obtain run'' api'' es where later: "reconcile_all sample_lib ?later (rs_run s) (rs_api s) = (run'', api'', es)"
    by (metis prod.exhaust)
  have lister: "lister_laws (sample_lib, Lister_CodeEngineTasks \<lparr>cl_indexer = sample_indexer\<rparr> (run_Namespace ?run))"
    by (simp add: fields(4) sample_lister_laws)
  have A: "out = Return (Some (Errorf ''missing spec.ref.name for Run %s''
      [ArgStr (object_key (run_Namespace ?run) (run_Name ?run))]))" "run_phase sample_lib (rs_run s) = Finished"
    "run'' = rs_run s"
    using absent_task_fails_run [OF sample_run_laws _ sample_verify sample_undone stored fields(1-3)
      sample_task_lister lister absent call later] by simp_all
  then have "fst (reconcile_all sample_lib ((sample_reconciler no_job_runs, 100) # ?later) ?run 0) = rs_run s"
    using later by (simp only: reconcile_all.simps(2) call) (simp add: write_back_def)
  with A(2) show ?thesis by simp
qed

end
