(* ===== verification/RunFinishes.thy ===== *)
theory RunFinishes
  imports RunProperties
begin

text \<open>
  The whole life of a Run: the call that creates the job run, any number of calls while it runs, the
  call that finds it finished, and whatever comes later.
\<close>

section \<open>Histories that wait\<close>

text \<open>
  A call of an environment that resolves the task of the Run but does not see its job run finished:
  it is not in the cache yet, it cannot be looked up, or it is still running.
\<close>

definition waits ::
    "('st, 'x, 'jd, 'z) ce_lib_scheme \<Rightarrow> 'st Run \<Rightarrow> string \<Rightarrow> ('x, 'jd, 'w) Reconciler \<times> instant \<Rightarrow> bool" where
  "waits L run name env =
     (case env of (r, now) \<Rightarrow>
        0 < now \<and> (\<exists>tls. task_spec_of r run tls) \<and>
        \<not> finished_job L (r_jobRunLister r (r_codeEngineNamespace r) name))"

text \<open>A Run that waits for the job run \<open>name\<close>.\<close>

definition awaiting :: "('st, 'x, 'jd, 'z) ce_lib_scheme \<Rightarrow> string \<Rightarrow> 'st Run \<Rightarrow> bool" where
  "awaiting L name run \<longleftrightarrow>
     verifyCodeEngineSpec L run = Return True \<and> \<not> IsDone L (run_Status run) \<and>
     (\<exists>status. stored_status L (run_Status run) = Some status \<and> ts_JobRunName status = name)"

lemma reconcile_all_append:
  assumes "reconcile_all L (xs @ ys) run api = (run', api', es)"
  shows "\<exists>run1 api1 es1 es2. reconcile_all L xs run api = (run1, api1, es1) \<and>
    reconcile_all L ys run1 api1 = (run', api', es2) \<and> es = es1 @ es2"
  using assms
proof (induction xs arbitrary: run api es)
  case (Cons env xs)
  obtain r now where env: "env = (r, now)" by (rule prod.exhaust)
  obtain out s where call: "ReconcileKind L r now run api = (out, s)" by (rule prod.exhaust)
  obtain es' where rest: "reconcile_all L (xs @ ys) (write_back run out s) (rs_api s) = (run', api', es')"
    and es: "es = rs_effects s @ es'"
    using Cons.prems by (auto simp: env call split: prod.splits)
  from Cons.IH [OF rest] show ?case by (auto simp: env call es)
qed simp

lemma waits_identity: "same_identity run run' \<Longrightarrow> waits L run' name = waits L run name"
  by (rule ext) (simp add: waits_def task_spec_of_identity split: prod.split)

lemma waiting_history:
  assumes laws: "run_laws L" "encodes L" and "name \<noteq> []"
    and "awaiting L name run" and "list_all (waits L run name) envs"
    and "reconcile_all L envs run api = (run', api', es)"
  shows "same_identity run run' \<and> awaiting L name run' \<and> api' = api \<and> filter is_create es = []"
  using assms(4-6)
proof (induction envs arbitrary: run api es)
  case (Cons env envs)
  obtain r now where env: "env = (r, now)" by (rule prod.exhaust)
  obtain out s where call: "ReconcileKind L r now run api = (out, s)" by (rule prod.exhaust)
  obtain run1 api1 es1 where rest:
      "reconcile_all L envs (write_back run out s) (rs_api s) = (run1, api1, es1)"
    by (metis prod.exhaust)
  from Cons.prems(3) call rest have result: "run' = run1" "api' = api1" "es = rs_effects s @ es1"
    by (simp_all add: env)
  from Cons.prems(2) obtain tls where w: "0 < now" "task_spec_of r run tls"
    "\<not> finished_job L (r_jobRunLister r (r_codeEngineNamespace r) name)"
    by (auto simp: env waits_def)
  from Cons.prems(1) obtain status where a: "verifyCodeEngineSpec L run = Return True"
    "\<not> IsDone L (run_Status run)" "stored_status L (run_Status run) = Some status"
    "ts_JobRunName status = name" by (auto simp: awaiting_def)
  have name: "ts_JobRunName status \<noteq> []" using assms(3) a(4) by simp
  have C: "\<not> is_panic out \<and> rs_api s = api \<and> creations (rs_effects s) = 0 \<and>
      \<not> IsDone L (run_Status (rs_run s)) \<and>
      (\<exists>status'. stored_status L (run_Status (rs_run s)) = Some status' \<and> ts_JobRunName status' = name)"
  proof (cases "\<exists>e. r_jobRunLister r (r_codeEngineNamespace r) name = Inl e \<and> \<not> IsNotFound L e")
    case True
    then obtain e where "r_jobRunLister r (r_codeEngineNamespace r) (ts_JobRunName status) = Inl e"
      "\<not> IsNotFound L e" by (auto simp: a(4))
    from recorded_error_call [OF laws(1) w(1) a(1-3) name w(2) this call] a(4) show ?thesis by auto
  next
    case False
    then have "\<forall>e. r_jobRunLister r (r_codeEngineNamespace r) (ts_JobRunName status) = Inl e \<longrightarrow>
        IsNotFound L e" by (auto simp: a(4))
    from recorded_call [OF laws w(1) a(1-3) name w(2) this call] a(4) w(3) show ?thesis by auto
  qed
  have id: "same_identity run (rs_run s)" by (rule ReconcileKind_frame(1) [OF laws(1) w(1) call])
  have written: "write_back run out s = rs_run s" using C by (simp add: write_back_def)
  have "awaiting L name (rs_run s)"
    unfolding awaiting_def verify_identity [OF id] using C a(1) by auto
  moreover have "list_all (waits L (rs_run s) name) envs"
    using Cons.prems(2) by (simp add: waits_identity [OF id])
  ultimately have "same_identity (rs_run s) run' \<and> awaiting L name run' \<and> api' = api \<and>
      filter is_create es1 = []"
    using Cons.IH rest result(1,2) C written by metis
  then show ?case
    using same_identity_trans [OF id] C by (simp add: result(3) creations_filter)
qed simp

text \<open>
  The call that ends the wait: it sees the job run finished, or does not find the task any more.
  What comes after it changes nothing.
\<close>

definition ends_wait ::
    "('st, 'x, 'jd, 'z) ce_lib_scheme \<Rightarrow> ('x, 'jd, 'w) Reconciler \<Rightarrow> 'st Run \<Rightarrow> string \<Rightarrow> bool" where
  "ends_wait L r run name \<longleftrightarrow>
     task_missing r run \<or>
     (\<exists>tls. task_spec_of r run tls) \<and> finished_job L (r_jobRunLister r (r_codeEngineNamespace r) name)"

definition verdict ::
    "('st, 'x, 'jd, 'z) ce_lib_scheme \<Rightarrow> ('x, 'jd, 'w) Reconciler \<Rightarrow> 'st Run \<Rightarrow> string \<Rightarrow> string \<times> string" where
  "verdict L r run name =
     (if task_missing r run then (''False'', ''CouldntGetCodeEngineTask'')
      else case r_jobRunLister r (r_codeEngineNamespace r) name of
          Inr jr \<Rightarrow> if CheckCondition L jr (JobFailed L) then (''False'', ''Failed'') else (''True'', ''Succeeded'')
        | Inl _ \<Rightarrow> (''Unknown'', ''Running''))"

lemma ends_wait_identity:
  "same_identity run run' \<Longrightarrow> ends_wait L r run' name = ends_wait L r run name"
  "same_identity run run' \<Longrightarrow> verdict L r run' name = verdict L r run name"
  by (simp_all add: ends_wait_def verdict_def task_missing_identity task_spec_of_identity)

lemma final_call:
  assumes laws: "run_laws L" "encodes L" and now: "0 < now" and "name \<noteq> []"
    and run: "awaiting L name run" and ends: "ends_wait L r run name"
    and call: "ReconcileKind L r now run api = (out, s)"
  shows "\<not> is_panic out" and "rs_api s = api" and "creations (rs_effects s) = 0"
    and "IsDone L (run_Status (rs_run s))" and "HasStarted L (run_Status (rs_run s))"
    and "\<exists>c. succeeded_condition L (rs_run s) = Some c \<and> (c_Status c, c_Reason c) = verdict L r run name"
proof -
  from run obtain status where a: "verifyCodeEngineSpec L run = Return True"
    "\<not> IsDone L (run_Status run)" "stored_status L (run_Status run) = Some status"
    "ts_JobRunName status = name" by (auto simp: awaiting_def)
  have name: "ts_JobRunName status \<noteq> []" using assms(4) a(4) by simp
  have "\<not> is_panic out \<and> rs_api s = api \<and> creations (rs_effects s) = 0 \<and>
    IsDone L (run_Status (rs_run s)) \<and> HasStarted L (run_Status (rs_run s)) \<and>
    (\<exists>c. succeeded_condition L (rs_run s) = Some c \<and> (c_Status c, c_Reason c) = verdict L r run name)"
  proof (cases "task_missing r run")
    case True
    note C = missing_task_call [OF laws(1) now a(1-3) True call]
    then show ?thesis using True by (auto simp: verdict_def)
  next
    case False
    with ends obtain tls jr where task: "task_spec_of r run tls"
      and jr: "r_jobRunLister r (r_codeEngineNamespace r) name = Inr jr"
      and over: "CheckCondition L jr (JobComplete L) \<or> CheckCondition L jr (JobFailed L)"
      by (auto simp: ends_wait_def finished_job_def split: sum.splits)
    have found: "\<forall>e. r_jobRunLister r (r_codeEngineNamespace r) (ts_JobRunName status) = Inl e \<longrightarrow>
        IsNotFound L e" by (simp add: a(4) jr)
    note C = recorded_call [OF laws now a(1-3) name task found call, unfolded a(4)]
    then show ?thesis using C(6) [OF jr] over False by (auto simp: verdict_def jr finished_job_def)
  qed
  then show "\<not> is_panic out" and "rs_api s = api" and "creations (rs_effects s) = 0"
    and "IsDone L (run_Status (rs_run s))" and "HasStarted L (run_Status (rs_run s))"
    and "\<exists>c. succeeded_condition L (rs_run s) = Some c \<and> (c_Status c, c_Reason c) = verdict L r run name"
    by blast+
qed

lemma final_history:
  assumes laws: "run_laws L" "encodes L" and now: "0 < now" and "name \<noteq> []"
    and run: "awaiting L name run" and ends: "ends_wait L r run name"
    and history: "reconcile_all L ((r, now) # later) run api = (run', api', es)"
  shows "IsDone L (run_Status run')" and "api' = api" and "filter is_create es = []"
    and "\<exists>c. succeeded_condition L run' = Some c \<and> (c_Status c, c_Reason c) = verdict L r run name"
proof -
  obtain out s where call: "ReconcileKind L r now run api = (out, s)" by (rule prod.exhaust)
  note C = final_call [OF laws now assms(4) run ends call]
  obtain es' where rest: "reconcile_all L later (rs_run s) (rs_api s) = (run', api', es')"
    and es: "es = rs_effects s @ es'"
    using history C(1) by (auto simp: call write_back_def split: prod.splits)
  note R = finished_history [OF C(4,5) rest]
  show "IsDone L (run_Status run')" and "api' = api" and "filter is_create es = []"
    and "\<exists>c. succeeded_condition L run' = Some c \<and> (c_Status c, c_Reason c) = verdict L r run name"
    using R C(2-4,6) by (simp_all add: es creations_filter)
qed

section \<open>From creation to verdict\<close>

text \<open>
  C3: a Run finishes.  Once a call has created the job run, did not find it in the cache yet and so
  recorded its name, and however many calls follow that find the task of the Run but, for whatever
  reason, do not see its job run finished, the first call that sees it finished makes
  the Run done with the verdict of the job run, and the first that does not find the task any more
  makes it fail with \<open>CouldntGetCodeEngineTask\<close>; either is for good, and the whole history, up to any
  later call, asks for exactly one job run.
\<close>

theorem run_finishes:
  assumes laws: "run_laws L" "encodes L" and now: "0 < now0" "0 < now1"
    and accepted: "verifyCodeEngineSpec L run = Return True"
    and undone: "\<not> IsDone L (run_Status run)"
    and stored: "stored_status L (run_Status run) = Some status" "ts_JobRunName status = []"
    and task: "task_spec_of r0 run tls"
    and create: "will_create L r0 run api (effective_spec status tls) jd jr api'"
    and fresh: "jr_Name jr \<noteq> []"
      "r_jobRunLister r0 (r_codeEngineNamespace r0) (jr_Name jr) = Inl e" "IsNotFound L e"
    and between: "list_all (waits L run (jr_Name jr)) envs"
    and ends: "ends_wait L r1 run (jr_Name jr)"
    and history: "reconcile_all L ((r0, now0) # envs @ (r1, now1) # later) run api = (run', api'', es)"
  shows "IsDone L (run_Status run') \<and>
    (\<exists>c. succeeded_condition L run' = Some c \<and> (c_Status c, c_Reason c) =
       (if task_missing r1 run then (''False'', ''CouldntGetCodeEngineTask'')
        else if \<exists>jr1. r_jobRunLister r1 (r_codeEngineNamespace r1) (jr_Name jr) = Inr jr1 \<and>
            CheckCondition L jr1 (JobFailed L)
        then (''False'', ''Failed'') else (''True'', ''Succeeded''))) \<and>
    filter is_create es =
      [CreateCall (requested_job_run L run (effective_spec status tls) jd) (Inr jr)] \<and> api'' = api'"
proof -
  obtain out s where call0: "ReconcileKind L r0 now0 run api = (out, s)" by (rule prod.exhaust)
  note F = first_call [OF laws now(1) accepted undone stored task create fresh call0]
  then have out: "out = Return None" and api: "rs_api s = api'" by blast+
  obtain es0 where rest: "reconcile_all L (envs @ (r1, now1) # later) (rs_run s) api' = (run', api'', es0)"
    and es: "es = rs_effects s @ es0"
    using history by (auto simp: call0 write_back_def out api split: prod.splits)
  have id: "same_identity run (rs_run s)" by (rule ReconcileKind_frame(1) [OF laws(1) now(1) call0])
  have start: "awaiting L (jr_Name jr) (rs_run s)"
    using F accepted unfolding awaiting_def verify_identity [OF id] by auto
  have idle: "list_all (waits L (rs_run s) (jr_Name jr)) envs"
    using between by (simp add: waits_identity [OF id])
  obtain run2 api2 es1 es2 where middle: "reconcile_all L envs (rs_run s) api' = (run2, api2, es1)"
    and final: "reconcile_all L ((r1, now1) # later) run2 api2 = (run', api'', es2)" "es0 = es1 @ es2"
    using reconcile_all_append [OF rest] by blast
  note M = waiting_history [OF laws fresh(1) start idle middle]
  have id2: "same_identity run run2" using same_identity_trans [OF id conjunct1 [OF M]] .
  have "ends_wait L r1 run2 (jr_Name jr)" using ends by (simp add: ends_wait_identity [OF id2])
  note E = final_history [OF laws now(2) fresh(1) conjunct1 [OF conjunct2 [OF M]] this final(1)]
  have "verdict L r1 run (jr_Name jr) =
       (if task_missing r1 run then (''False'', ''CouldntGetCodeEngineTask'')
        else if \<exists>jr1. r_jobRunLister r1 (r_codeEngineNamespace r1) (jr_Name jr) = Inr jr1 \<and>
            CheckCondition L jr1 (JobFailed L)
        then (''False'', ''Failed'') else (''True'', ''Succeeded''))"
    using ends by (auto simp: verdict_def ends_wait_def finished_job_def split: sum.splits)
  with E M F show ?thesis by (simp add: es final(2) ends_wait_identity(2) [OF id2])
qed

lemma run_finishes_witness:
  "IsDone sample_lib (run_Status (fst (reconcile_all sample_lib
     [(sample_reconciler no_job_runs, 100), (sample_reconciler no_job_runs, 150),
      (sample_reconciler (one_job_run ''Complete''), 200), (sample_reconciler no_job_runs, 300)]
     fresh_run 0)))"
proof -
  define envs :: "((string, string, nat) Reconciler \<times> instant) list"
    where "envs = [(sample_reconciler no_job_runs, 150)]"
  have lister: "r_jobRunLister (sample_reconciler no_job_runs)
      (r_codeEngineNamespace (sample_reconciler no_job_runs)) (jr_Name first_job_run) =
      Inl (Foreign (''not found: '' @ jr_Name first_job_run))"
    by (simp add: sample_job_run_lister(1) no_job_runs_def)
  have name: "jr_Name first_job_run \<noteq> []" by (simp add: first_job_run_Name)
  have between: "list_all (waits sample_lib fresh_run (jr_Name first_job_run)) envs"
    using sample_task_spec [of no_job_runs]
    by (auto simp: envs_def waits_def lister finished_job_def simp del: append.simps)
  have ends: "ends_wait sample_lib (sample_reconciler (one_job_run ''Complete'')) fresh_run (jr_Name first_job_run)"
    unfolding ends_wait_def using sample_task_spec [of "one_job_run ''Complete''"]
    by (auto simp: finished_job_def sample_job_run_lister(1) first_job_run_Name one_job_run_def
        sample_lib_simps sample_job_run_def)
  obtain run' api'' es where history: "reconcile_all sample_lib
      ((sample_reconciler no_job_runs, 100) # envs @ (sample_reconciler (one_job_run ''Complete''), 200) #
       [(sample_reconciler no_job_runs, 300)]) fresh_run 0 = (run', api'', es)"
    by (metis prod.exhaust)
  from run_finishes [OF sample_run_laws sample_encodes _ _ sample_verify sample_undone sample_stored(1)
      sample_names(1) sample_task_spec sample_will_create name lister sample_job_run_lister(2) between
      ends history]
  have "IsDone sample_lib (run_Status run')" by simp
  with history show ?thesis by (simp add: envs_def)
qed

end
