(* ===== verification/RunProvenance.thy ===== *)
theory RunProvenance
  imports RunFinishes
begin

text \<open>
  Where the contents of a Run come from: a recorded job run name was returned by a creation for this
  Run and its stored spec, and success was read off a job run of that name.  Both hold over any
  history, whatever the environment answers.
\<close>

section \<open>Well-formed statuses\<close>

text \<open>
  A status that records a job run has the spec it was made from.  \<open>sourced\<close>: a recorded name was
  recorded in \<open>old\<close>, or is that of a job run created by the trace for the stored spec.
\<close>

definition wf_status :: "CodeEngineTaskStatus \<Rightarrow> bool" where
  "wf_status s \<longleftrightarrow> (ts_JobRunName s \<noteq> [] \<longrightarrow> ts_CodeEngineTaskSpec s \<noteq> None)"

definition wf_run :: "('st, 'z) run_lib_scheme \<Rightarrow> 'st Run \<Rightarrow> bool" where
  "wf_run L run \<longleftrightarrow> (\<forall>s. stored_status L (run_Status run) = Some s \<longrightarrow> wf_status s)"

definition created_for ::
    "('st, 'x, 'jd, 'z) ce_lib_scheme \<Rightarrow> 'st Run \<Rightarrow> CodeEngineTaskSpec option \<Rightarrow> string \<Rightarrow>
       ('st, 'x) effect list \<Rightarrow> bool" where
  "created_for L run spec name es \<longleftrightarrow>
     (\<exists>sp jd jr. spec = Some sp \<and> CreateCall (requested_job_run L run sp jd) (Inr jr) \<in> set es \<and>
        jr_Name jr = name)"

definition sourced ::
    "('st, 'x, 'jd, 'z) ce_lib_scheme \<Rightarrow> 'st Run \<Rightarrow> CodeEngineTaskStatus option \<Rightarrow> ('st, 'x) effect list \<Rightarrow>
       CodeEngineTaskStatus \<Rightarrow> bool" where
  "sourced L run old es s \<longleftrightarrow>
     (ts_JobRunName s \<noteq> [] \<longrightarrow>
        (\<exists>s0. old = Some s0 \<and> ts_JobRunName s0 = ts_JobRunName s) \<or>
        created_for L run (ts_CodeEngineTaskSpec s) (ts_JobRunName s) es)"

lemma created_for_mono:
  "created_for L run spec name es \<Longrightarrow> set es \<subseteq> set es' \<Longrightarrow> created_for L run spec name es'"
  unfolding created_for_def by blast

lemma created_for_identity:
  "same_identity run run' \<Longrightarrow> created_for L run' = created_for L run"
  by (intro ext) (simp add: created_for_def requested_job_run_identity)

lemma runCodeEngineJob_source:
  assumes "runCodeEngineJob L r s = (Return None, s')"
  shows "ts_JobRunName (rs_status s') = ts_JobRunName (rs_status s) \<or>
    created_for L (rs_run s) (ts_CodeEngineTaskSpec (rs_status s)) (ts_JobRunName (rs_status s'))
      (rs_effects s')"
  using assms
proof (cases rule: runCodeEngineJob_cases)
  case (created spec jd jobRun jr api m a)
  then show ?thesis by (auto simp: created_for_def requested_job_run_def)
qed simp_all

lemma reconcile_source:
  assumes laws: "run_laws L" and call: "reconcile L r s = (Return None, s')"
  shows "ts_CodeEngineTaskSpec (rs_status s') \<noteq> None \<and>
    (ts_JobRunName (rs_status s') = ts_JobRunName (rs_status s) \<or>
     created_for L (rs_run s) (ts_CodeEngineTaskSpec (rs_status s')) (ts_JobRunName (rs_status s'))
       (rs_effects s'))"
  using call
proof (cases rule: reconcile_cases)
  case (checked task s2 s3 err)
  note J = runCodeEngineJob_status(1) [OF checked(3)]
  note C = check_frame(2,4) [OF laws checked(4)]
  have "ts_CodeEngineTaskSpec (rs_status s2) \<noteq> None" by (simp add: checked(2) split: option.split)
  moreover have "rs_run s2 = rs_run s" "ts_JobRunName (rs_status s2) = ts_JobRunName (rs_status s)"
    by (simp_all add: checked(2))
  ultimately show ?thesis using runCodeEngineJob_source [OF checked(3)] by (simp add: C J)
qed simp_all

lemma reconcile_undone_source:
  assumes laws: "run_laws L" and call: "reconcile_undone L r s = (out, s')"
    and stored: "stored_status L (run_Status (rs_run s')) = Some st"
  shows "stored_status L (run_Status (rs_run s)) = Some st \<or>
    ts_CodeEngineTaskSpec st \<noteq> None \<and>
    sourced L (rs_run s) (stored_status L (run_Status (rs_run s))) (rs_effects s') st"
  using call
proof (cases rule: reconcile_undone_cases)
  case (undecodable err run)
  then have "stored_status L (run_Status run) = stored_status L (run_Status (rs_run s))"
    by (auto simp: DecodeStatusFromRun_def run_law_simps [OF laws] intro!: stored_status_cong
        split: sum.splits)
  with stored show ?thesis by (simp add: undecodable(3))
next
  case (stopped status)
  have "keeps L s s'"
    by (rule keeps_run_cong [OF reconcile_keeps [OF laws stopped(2)]]) simp
  with stored show ?thesis by (simp add: keeps_stored)
next
  case (encoded status s1 err run1)
  have "keeps L s s1"
    by (rule keeps_run_cong [OF reconcile_keeps [OF laws encoded(2)]]) simp
  then have same: "stored_status L (run_Status (rs_run s1)) = stored_status L (run_Status (rs_run s))"
    by (rule keeps_stored)
  have load: "stored_status L (run_Status (rs_run s)) = Some status"
    by (rule stored_status_Decode [OF encoded(1)])
  show ?thesis
  proof (cases err)
    case None
    with encoded(3) run_store.save_ok [OF laws, of "rs_status s1" "rs_run s1" run1]
    obtain t where "DecodeStatusFromRun L run1 = (Inr t, run1)" "same_job (rs_status s1) t" by blast
    with stored_status_Decode [of L run1 t run1] stored
    have "same_job (rs_status s1) st" by (simp add: encoded(5))
    with reconcile_source [OF laws encoded(2)] show ?thesis
      by (auto simp: same_job_def sourced_def load encoded(5))
  next
    case (Some e)
    with EncodeIntoRun_stored [OF laws encoded(3)] stored show ?thesis by (simp add: same encoded(5))
  qed
qed

text \<open>What the start of a call leaves of the Run, for statements that ignore the condition.\<close>

lemma reconcile_body_started:
  assumes laws: "run_laws L" and now: "0 < now" and call: "reconcile_body L r now s = (out, s')"
  obtains s1 where "same_identity (rs_run s) (rs_run s1)"
    and "stored_status L (run_Status (rs_run s1)) = stored_status L (run_Status (rs_run s))"
    and "HasStarted L (run_Status (rs_run s1))"
    and "IsDone L (run_Status (rs_run s1)) = IsDone L (run_Status (rs_run s))"
    and "filter is_create (rs_effects s1) = filter is_create (rs_effects s)"
    and "s' = s1 \<and> IsDone L (run_Status (rs_run s1)) \<and> out = Return None \<or>
      reconcile_undone L r s1 = (out, s') \<and> \<not> IsDone L (run_Status (rs_run s1))"
proof (cases "HasStarted L (run_Status (rs_run s))")
  case True
  with call that [of s] show thesis by (auto simp: reconcile_body_def finalizeRun_def split: if_splits)
next
  case False
  obtain x s1 where init: "initializeRun L now s = (x, s1)" by (rule prod.exhaust)
  note R = initializeRun_result [OF laws False now init]
  have "same_identity (rs_run s) (rs_run s1)" using R(9) unfolding same_identity_def .
  with call init False R(1,5,6) stored_status_cong [OF R(7)] initializeRun_creates [OF laws False init]
  show thesis
    by (intro that [of s1]) (auto simp: reconcile_body_def finalizeRun_def split: if_splits)
qed

section \<open>One call\<close>

lemma sourced_refl: "sourced L run (Some s) es s"
  by (simp add: sourced_def)

lemma sourced_mono:
  "sourced L run old es s \<Longrightarrow> set es \<subseteq> set es' \<Longrightarrow> sourced L run old es' s"
  unfolding sourced_def using created_for_mono by blast

lemma ReconcileKind_source:
  assumes laws: "run_laws L" and now: "0 < now" and call: "ReconcileKind L r now run api = (out, s)"
    and stored: "stored_status L (run_Status (rs_run s)) = Some st"
  shows "stored_status L (run_Status run) = Some st \<or>
    ts_CodeEngineTaskSpec st \<noteq> None \<and>
    sourced L run (stored_status L (run_Status run)) (rs_effects s) st"
  using call
proof (cases rule: ReconcileKind_cases)
  case (accepted s2)
  let ?s = "\<lparr>rs_run = run, rs_status = zero_CodeEngineTaskStatus, rs_api = api, rs_effects = []\<rparr>"
  from accepted(2) obtain s1 where s1: "same_identity run (rs_run s1)"
    "stored_status L (run_Status (rs_run s1)) = stored_status L (run_Status run)"
    "s2 = s1 \<or> reconcile_undone L r s1 = (out, s2)"
    by (rule reconcile_body_started [OF laws now]) auto
  have st: "stored_status L (run_Status (rs_run s2)) = Some st" using stored by (simp add: accepted(3))
  from s1(3) show ?thesis
  proof
    assume "s2 = s1"
    with st s1(2) show ?thesis by simp
  next
    assume "reconcile_undone L r s1 = (out, s2)"
    from reconcile_undone_source [OF laws this st] s1(2) show ?thesis
      using created_for_identity [OF s1(1), of L]
        created_for_mono [of L run _ _ "rs_effects s2" "rs_effects s"]
      by (auto simp: sourced_def accepted(3))
  qed
qed (use stored in simp_all)

section \<open>Histories\<close>

text \<open>
  One call: what is stored afterwards was stored before, or has its spec and its source.
\<close>

definition from_call ::
    "('st, 'x, 'jd, 'z) ce_lib_scheme \<Rightarrow> 'st Run \<Rightarrow> 'st Run \<Rightarrow> ('st, 'x) effect list \<Rightarrow> bool" where
  "from_call L run run' es \<longleftrightarrow>
     (\<forall>st. stored_status L (run_Status run') = Some st \<longrightarrow>
        stored_status L (run_Status run) = Some st \<or>
        ts_CodeEngineTaskSpec st \<noteq> None \<and> sourced L run (stored_status L (run_Status run)) es st)"

lemma from_call_write_back:
  assumes "run_laws L" and "0 < now" and "ReconcileKind L r now run api = (out, s)"
  shows "from_call L run (write_back run out s) (rs_effects s)"
  using ReconcileKind_source [OF assms] by (simp add: from_call_def write_back_def)

lemma from_call_wf: "from_call L run run' es \<Longrightarrow> wf_run L run \<Longrightarrow> wf_run L run'"
  unfolding from_call_def wf_run_def wf_status_def by blast

text \<open>The source of a name survives further calls, since what is stored does.\<close>

lemma sourced_trans:
  assumes head: "from_call L run run1 es" and wf: "wf_run L run1" and same: "same_identity run run1"
    and grown: "grows (stored_status L (run_Status run1)) (Some st)"
    and tail: "sourced L run1 (stored_status L (run_Status run1)) fs st"
  shows "sourced L run (stored_status L (run_Status run)) (es @ fs) st"
  unfolding sourced_def
proof
  assume name: "ts_JobRunName st \<noteq> []"
  let ?old = "stored_status L (run_Status run)"
  let ?goal = "(\<exists>s0. ?old = Some s0 \<and> ts_JobRunName s0 = ts_JobRunName st) \<or>
    created_for L run (ts_CodeEngineTaskSpec st) (ts_JobRunName st) (es @ fs)"
  from tail name consider
      (before) s0 where "stored_status L (run_Status run1) = Some s0" "ts_JobRunName s0 = ts_JobRunName st"
    | (now) "created_for L run1 (ts_CodeEngineTaskSpec st) (ts_JobRunName st) fs"
    by (auto simp: sourced_def)
  then show ?goal
  proof cases
    case before
    have spec: "ts_CodeEngineTaskSpec s0 \<noteq> None"
      using wf before name by (simp add: wf_run_def wf_status_def)
    then have "ts_CodeEngineTaskSpec st = ts_CodeEngineTaskSpec s0"
      using grown by (simp add: before(1) grows_def)
    moreover have "?old = Some s0 \<or> sourced L run ?old es s0"
      using head before(1) unfolding from_call_def by blast
    ultimately show ?goal
      using name before(2) created_for_mono [of L run _ _ es "es @ fs"] by (auto simp: sourced_def)
  next
    case now
    then show ?goal
      using created_for_identity [OF same, of L] created_for_mono [of L run _ _ fs "es @ fs"] by simp
  qed
qed

lemma reconcile_all_source:
  assumes laws: "run_laws L" and times: "list_all (\<lambda>(r, now). 0 < now) envs"
    and wf: "wf_run L run" and history: "reconcile_all L envs run api = (run', api', es)"
  shows "wf_run L run' \<and>
    (\<forall>st. stored_status L (run_Status run') = Some st \<longrightarrow>
       sourced L run (stored_status L (run_Status run)) es st)"
  using times wf history
proof (induction envs arbitrary: run api es)
  case Nil
  then show ?case by (simp add: sourced_refl)
next
  case (Cons env envs)
  obtain r now where env: "env = (r, now)" by (rule prod.exhaust)
  obtain out s where call: "ReconcileKind L r now run api = (out, s)" by (rule prod.exhaust)
  define run1 where "run1 = write_back run out s"
  obtain es1 where rest: "reconcile_all L envs run1 (rs_api s) = (run', api', es1)"
    and es: "es = rs_effects s @ es1"
    using Cons.prems(3) by (auto simp: env call run1_def split: prod.splits)
  have times: "0 < now" "list_all (\<lambda>(r, now). 0 < now) envs"
    using Cons.prems(1) by (simp_all add: env)
  have head: "from_call L run run1 (rs_effects s)"
    unfolding run1_def by (rule from_call_write_back [OF laws times(1) call])
  have wf1: "wf_run L run1" by (rule from_call_wf [OF head Cons.prems(2)])
  have same: "same_identity run run1"
    using ReconcileKind_frame(1) [OF laws times(1) call] by (simp add: run1_def write_back_def)
  note tail = Cons.IH [OF times(2) wf1 rest]
  note grown = reconcile_all_grows [OF laws times(2) rest]
  have "sourced L run (stored_status L (run_Status run)) es st"
    if "stored_status L (run_Status run') = Some st" for st
    unfolding es
    by (rule sourced_trans [OF head wf1 same]) (use tail grown that in simp_all)
  with tail show ?case by blast
qed

section \<open>Success\<close>

definition run_succeeded :: "('st, 'z) run_lib_scheme \<Rightarrow> 'st Run \<Rightarrow> bool" where
  "run_succeeded L run \<longleftrightarrow>
     IsDone L (run_Status run) \<and>
     (\<exists>c. succeeded_condition L run = Some c \<and> c_Status c = ''True'')"

definition shows_success ::
    "('st, 'x, 'jd, 'z) ce_lib_scheme \<Rightarrow> ('x, 'jd, 'w) Reconciler \<Rightarrow> string \<Rightarrow> bool" where
  "shows_success L r name \<longleftrightarrow>
     (\<exists>jr. r_jobRunLister r (r_codeEngineNamespace r) name = Inr jr \<and>
        CheckCondition L jr (JobComplete L) \<and> \<not> CheckCondition L jr (JobFailed L))"

lemma run_succeeded_marks:
  assumes "run_laws L"
  shows "\<not> run_succeeded L (run\<lparr>run_Status := MarkRunFailed L q m a st\<rparr>)"
    and "\<not> run_succeeded L (run\<lparr>run_Status := MarkRunRunning L q m a st\<rparr>)"
  using mark_condition(1) [OF assms, of q m a st]
  by (auto simp: run_succeeded_def succeeded_condition_def mark_done [OF assms])

lemma not_succeeded: "\<not> IsDone L (run_Status run) \<Longrightarrow> \<not> run_succeeded L run"
  by (simp add: run_succeeded_def)

lemma check_success:
  assumes laws: "run_laws L" and call: "checkCodeEngineJobRunStatus L r s = (err, s')"
    and "\<not> IsDone L (run_Status (rs_run s))" and "run_succeeded L (rs_run s')"
  shows "ts_JobRunName (rs_status s) \<noteq> [] \<and> shows_success L r (ts_JobRunName (rs_status s)) \<and> err = None"
  using call
  by (cases rule: check_cases)
    (use assms(3,4) in \<open>auto simp: not_succeeded run_succeeded_marks [OF laws] shows_success_def\<close>)

lemma getCodeEngineTask_success:
  assumes laws: "run_laws L" and call: "getCodeEngineTask L r s = (out, s')"
    and "\<not> IsDone L (run_Status (rs_run s))"
  shows "\<not> run_succeeded L (rs_run s')"
  using call
  by (cases rule: getCodeEngineTask_cases)
    (use assms(3) in \<open>simp_all add: not_succeeded run_succeeded_marks [OF laws]\<close>)

lemma runCodeEngineJob_success:
  assumes laws: "run_laws L" and call: "runCodeEngineJob L r s = (out, s')"
    and "\<not> IsDone L (run_Status (rs_run s))"
  shows "\<not> run_succeeded L (rs_run s')"
    and "out = Return None \<Longrightarrow> \<not> IsDone L (run_Status (rs_run s'))"
  using call
  by (cases rule: runCodeEngineJob_cases;
      use assms(3) in \<open>simp add: not_succeeded run_succeeded_marks [OF laws] mark_done [OF laws]\<close>)+

lemma reconcile_success:
  assumes laws: "run_laws L" and call: "reconcile L r s = (out, s')"
    and undone: "\<not> IsDone L (run_Status (rs_run s))" and "run_succeeded L (rs_run s')"
  shows "out = Return None \<and> ts_JobRunName (rs_status s') \<noteq> [] \<and>
    shows_success L r (ts_JobRunName (rs_status s'))"
  using call
proof (cases rule: reconcile_cases)
  case (task_panic p)
  with getCodeEngineTask_success [OF laws task_panic(1) undone] assms(4) show ?thesis by simp
next
  case (task_error err)
  with getCodeEngineTask_success [OF laws task_error(1) undone] assms(4) show ?thesis by simp
next
  case (job_stops task s2)
  with runCodeEngineJob_success(1) [OF laws job_stops(3)] undone assms(4) show ?thesis by simp
next
  case (checked task s2 s3 err)
  have "\<not> IsDone L (run_Status (rs_run s3))"
    using runCodeEngineJob_success(2) [OF laws checked(3)] undone by (simp add: checked(2))
  from check_success [OF laws checked(4) this assms(4)] check_frame(2) [OF laws checked(4)]
  show ?thesis by (simp add: checked(5))
qed

text \<open>
  A Run that a call has turned into a success records the job run that the call saw succeed.
\<close>

definition success_seen ::
    "('st, 'x, 'jd, 'z) ce_lib_scheme \<Rightarrow> ('x, 'jd, 'w) Reconciler \<Rightarrow> 'st Run \<Rightarrow> bool" where
  "success_seen L r run \<longleftrightarrow>
     (\<exists>st. stored_status L (run_Status run) = Some st \<and> ts_JobRunName st \<noteq> [] \<and>
        shows_success L r (ts_JobRunName st))"

lemma reconcile_undone_success:
  assumes laws: "run_laws L" and call: "reconcile_undone L r s = (out, s')"
    and undone: "\<not> IsDone L (run_Status (rs_run s))" and good: "run_succeeded L (rs_run s')"
  shows "success_seen L r (rs_run s')"
  using call
proof (cases rule: reconcile_undone_cases)
  case (undecodable err run)
  then have "\<not> run_succeeded L run"
    by (auto simp: DecodeStatusFromRun_def run_succeeded_marks [OF laws] split: sum.splits)
  with good show ?thesis by (simp add: undecodable(3))
next
  case (stopped status)
  with reconcile_success [OF laws stopped(2)] undone good show ?thesis by simp
next
  case (encoded status s1 err run1)
  show ?thesis
  proof (cases err)
    case None
    from encoded(3) None obtain st where st: "EncodeExtraFields L (rs_status s1) (run_Status (rs_run s1)) = Inr st"
      "run1 = (rs_run s1)\<lparr>run_Status := st\<rparr>" by (auto simp: EncodeIntoRun_def split: sum.splits)
    note E = Encode_laws [OF laws st(1)]
    have "run_succeeded L (rs_run s1)"
      using good by (simp add: encoded(5) st(2) run_succeeded_def succeeded_condition_def E)
    with reconcile_success [OF laws encoded(2)] undone have
      "ts_JobRunName (rs_status s1) \<noteq> []" "shows_success L r (ts_JobRunName (rs_status s1))" by simp_all
    with E(1) show ?thesis
      by (auto simp: success_seen_def encoded(5) st(2) stored_status_def same_job_def)
  next
    case (Some e)
    with encoded(3) have "\<not> run_succeeded L run1"
      by (auto simp: EncodeIntoRun_def run_succeeded_marks [OF laws] split: sum.splits)
    with good show ?thesis by (simp add: encoded(5))
  qed
qed

lemma ReconcileKind_success:
  assumes laws: "run_laws L" and now: "0 < now" and call: "ReconcileKind L r now run api = (out, s)"
    and undone: "\<not> IsDone L (run_Status run)" and good: "run_succeeded L (rs_run s)"
  shows "success_seen L r (rs_run s)"
  using call
proof (cases rule: ReconcileKind_cases)
  case (accepted s2)
  from accepted(2) obtain s1 where s1: "IsDone L (run_Status (rs_run s1)) = IsDone L (run_Status run)"
    "s2 = s1 \<and> IsDone L (run_Status (rs_run s1)) \<and> out = Return None \<or>
      reconcile_undone L r s1 = (out, s2) \<and> \<not> IsDone L (run_Status (rs_run s1))"
    by (rule reconcile_body_started [OF laws now]) auto
  with undone have call: "reconcile_undone L r s1 = (out, s2)" "\<not> IsDone L (run_Status (rs_run s1))"
    by simp_all
  from reconcile_undone_success [OF laws call] good show ?thesis by (simp add: accepted(3))
qed (use undone good in \<open>simp_all add: not_succeeded\<close>)

text \<open>A call that finishes a Run leaves it started, so no later call changes it.\<close>

lemma ReconcileKind_finishes:
  assumes laws: "run_laws L" and now: "0 < now" and call: "ReconcileKind L r now run api = (out, s)"
    and undone: "\<not> IsDone L (run_Status run)" and good: "IsDone L (run_Status (rs_run s))"
  shows "HasStarted L (run_Status (rs_run s))"
  using call
proof (cases rule: ReconcileKind_cases)
  case (accepted s2)
  with reconcile_body_lifecycle [OF laws now accepted(2)] show ?thesis by auto
qed (use undone good in simp_all)

lemma reconcile_all_success:
  assumes laws: "run_laws L" and times: "list_all (\<lambda>(r, now). 0 < now) envs"
    and history: "reconcile_all L envs run api = (run', api', es)"
    and undone: "\<not> IsDone L (run_Status run)" and good: "run_succeeded L run'"
  shows "\<exists>(r, now) \<in> set envs. success_seen L r run'"
  using times history undone
proof (induction envs arbitrary: run api es)
  case Nil
  with good show ?case by (simp add: not_succeeded)
next
  case (Cons env envs)
  obtain r now where env: "env = (r, now)" by (rule prod.exhaust)
  obtain out s where call: "ReconcileKind L r now run api = (out, s)" by (rule prod.exhaust)
  define run1 where "run1 = write_back run out s"
  obtain es1 where rest: "reconcile_all L envs run1 (rs_api s) = (run', api', es1)"
    using Cons.prems(2) by (auto simp: env call run1_def split: prod.splits)
  have times: "0 < now" "list_all (\<lambda>(r, now). 0 < now) envs"
    using Cons.prems(1) by (simp_all add: env)
  show ?case
  proof (cases "IsDone L (run_Status run1)")
    case True
    with Cons.prems(3) have written: "run1 = rs_run s"
      by (auto simp: run1_def write_back_def split: if_splits)
    with True have fin: "IsDone L (run_Status (rs_run s))" by simp
    have "run' = run1"
      using finished_history [OF True _ rest] ReconcileKind_finishes [OF laws times(1) call Cons.prems(3) fin]
      by (simp add: written)
    with good written have "run_succeeded L (rs_run s)" by simp
    from ReconcileKind_success [OF laws times(1) call Cons.prems(3) this]
    show ?thesis by (simp add: env \<open>run' = run1\<close> written)
  next
    case False
    from Cons.IH [OF times(2) rest False] show ?thesis by auto
  qed
qed

section \<open>A sample history\<close>

text \<open>A Run that creates its job run in the first call and finds it complete in the second.\<close>

abbreviation create_then_complete :: "((string, string, nat) Reconciler \<times> instant) list" where
  "create_then_complete \<equiv>
     [(sample_reconciler no_job_runs, 100), (sample_reconciler (one_job_run ''Complete''), 200)]"

lemma create_then_complete_succeeds:
  assumes history: "reconcile_all sample_lib create_then_complete fresh_run 0 = (run', api', es)"
  shows "run_succeeded sample_lib run'"
proof -
  let ?done = "sample_reconciler (one_job_run ''Complete'')"
  obtain out s where call: "ReconcileKind sample_lib (sample_reconciler no_job_runs) 100 fresh_run 0 =
      (out, s)" by (rule prod.exhaust)
  have lister: "r_jobRunLister (sample_reconciler no_job_runs)
      (r_codeEngineNamespace (sample_reconciler no_job_runs)) (jr_Name first_job_run) =
      Inl (Foreign (''not found: '' @ jr_Name first_job_run))"
    by (simp add: sample_job_run_lister(1) no_job_runs_def)
  have name: "jr_Name first_job_run \<noteq> []" by (simp add: first_job_run_Name)
  note F = first_call [OF sample_run_laws sample_encodes _ sample_verify sample_undone
      sample_stored(1) sample_names(1) sample_task_spec sample_will_create name lister
      sample_job_run_lister(2) call]
  have id: "same_identity fresh_run (rs_run s)"
    by (rule ReconcileKind_frame(1) [OF sample_run_laws _ call]) simp
  have start: "awaiting sample_lib (jr_Name first_job_run) (rs_run s)"
    using F by (auto simp: awaiting_def verify_identity [OF id] sample_verify)
  have seen: "r_jobRunLister ?done (r_codeEngineNamespace ?done) (jr_Name first_job_run) =
      Inr (sample_job_run ''Complete'')"
    by (simp add: sample_job_run_lister(1) first_job_run_Name one_job_run_def)
  have verdict: "CheckCondition sample_lib (sample_job_run ''Complete'') (JobComplete sample_lib) \<or>
      CheckCondition sample_lib (sample_job_run ''Complete'') (JobFailed sample_lib)"
    "\<not> CheckCondition sample_lib (sample_job_run ''Complete'') (JobFailed sample_lib)"
    by (simp_all add: sample_lib_simps sample_job_run_def)
  have task: "task_spec_of ?done (rs_run s) \<lparr>JobName = ''train''\<rparr>"
    by (simp add: task_spec_of_identity [OF id] sample_task_spec)
  have out: "out = Return None" using F by simp
  obtain es2 where rest: "reconcile_all sample_lib ((?done, 200) # []) (rs_run s) (rs_api s) =
      (run', api', es2)"
    using history by (auto simp: call out write_back_def split: prod.splits simp del: append.simps)
  have ends: "ends_wait sample_lib ?done (rs_run s) (jr_Name first_job_run)"
    using task verdict(1) by (auto simp: ends_wait_def finished_job_def seen)
  have "verdict sample_lib ?done (rs_run s) (jr_Name first_job_run) = (''True'', ''Succeeded'')"
    using task task_missing_unresolved verdict(2) by (auto simp: verdict_def seen)
  with final_history [OF sample_run_laws sample_encodes _ name start ends rest]
  show ?thesis by (auto simp: run_succeeded_def)
qed

lemma sample_wf_run: "wf_run sample_lib fresh_run"
  by (simp add: wf_run_def wf_status_def sample_stored sample_names)

section \<open>Statuses and successes are sound\<close>

text \<open>
  C12: the status stored in a Run stays well formed over any history, reliable or not, and with a
  name always comes its source: the name was recorded before, or is the name of a job run that a
  call of the history asked for with the labels of this Run and the job name of the stored spec.
\<close>

theorem stored_status_wellformed:
  assumes "run_laws L" and "list_all (\<lambda>(r, now). 0 < now) envs" and "wf_run L run"
    and "reconcile_all L envs run api = (run', api', es)"
  shows "wf_run L run' \<and>
    (\<forall>st. stored_status L (run_Status run') = Some st \<longrightarrow>
       sourced L run (stored_status L (run_Status run)) es st)"
  by (rule reconcile_all_source [OF assms])

lemma stored_status_wellformed_witness:
  "wf_run sample_lib (fst (reconcile_all sample_lib create_then_complete fresh_run 0))"
proof -
  have "list_all (\<lambda>(r, now). 0 < (now :: instant)) create_then_complete" by simp
  from stored_status_wellformed [where api = 0, OF sample_run_laws this sample_wf_run]
  show ?thesis by (metis prod.collapse)
qed

text \<open>
  C7: success is never invented.  A Run that was not done and has become done with the condition
  true has recorded a job run; some call of the history saw that job run complete and not failed;
  and its name was recorded before the history or comes from a creation of the history for this
  Run.
\<close>

theorem run_success_sound:
  assumes laws: "run_laws L" and times: "list_all (\<lambda>(r, now). 0 < now) envs" and wf: "wf_run L run"
    and history: "reconcile_all L envs run api = (run', api', es)"
    and undone: "\<not> IsDone L (run_Status run)"
    and finished: "IsDone L (run_Status run')"
      "succeeded_condition L run' = Some c" "c_Status c = ''True''"
  shows "\<exists>st. stored_status L (run_Status run') = Some st \<and> ts_JobRunName st \<noteq> [] \<and>
    sourced L run (stored_status L (run_Status run)) es st \<and>
    (\<exists>(r, now) \<in> set envs. \<exists>jr. r_jobRunLister r (r_codeEngineNamespace r) (ts_JobRunName st) = Inr jr \<and>
       CheckCondition L jr (JobComplete L) \<and> \<not> CheckCondition L jr (JobFailed L))"
proof -
  have "run_succeeded L run'" using finished by (simp add: run_succeeded_def)
  from reconcile_all_success [OF laws times history undone this]
  obtain r now st where "(r, now) \<in> set envs" "stored_status L (run_Status run') = Some st"
    "ts_JobRunName st \<noteq> []" "shows_success L r (ts_JobRunName st)" by (auto simp: success_seen_def)
  with reconcile_all_source [OF laws times wf history] show ?thesis
    by (auto simp: shows_success_def)
qed

lemma run_success_sound_witness:
  "\<exists>st. stored_status sample_lib (run_Status (fst (reconcile_all sample_lib create_then_complete
     fresh_run 0))) = Some st \<and> ts_JobRunName st \<noteq> []"
proof -
  have times: "list_all (\<lambda>(r, now). 0 < (now :: instant)) create_then_complete" by simp
  obtain run' api' es where history:
    "reconcile_all sample_lib create_then_complete fresh_run 0 = (run', api', es)"
    by (metis prod.exhaust)
  from create_then_complete_succeeds [OF history] obtain c where
    "IsDone sample_lib (run_Status run')" "succeeded_condition sample_lib run' = Some c"
    "c_Status c = ''True''" by (auto simp: run_succeeded_def)
  from run_success_sound [OF sample_run_laws times sample_wf_run history sample_undone this]
  show ?thesis unfolding history by auto
qed

end
