(* ===== verification/GoContext.thy ===== *)
theory GoContext
  imports CEPrelude
begin

text \<open>
  \<open>context.Context\<close> values.  A context is the list of the bindings made by
  \<open>context.WithValue\<close>, the latest first; \<open>Value\<close> finds the latest binding of a key.  A key is an
  empty struct of its own type, or one with a selector; two keys are equal when type and
  selector are.  The Code Engine package puts a namespace, a client and two informers into a context;
  \<open>AnyForeign\<close> is a value of another package, whose values are the type parameter \<open>'o\<close>.

  The locale \<open>context_slot\<close> is the contract of every With/Get pair of the program.
\<close>

section \<open>Contexts\<close>

datatype ctx_key =
    NamespaceKey
  | CEClientKey
  | JobDefinitionInformerKey
  | JobRunInformerKey
  | ClientKey
  | FactoryKey
  | FilteredFactoryKey string
  | LabelKey
  | TaskInformerKey
  | FilteredTaskInformerKey string
  | OtherKey string

datatype ('cl, 'di, 'ri, 'o) ce_any =
    AnyString string
  | AnyCEClient 'cl
  | AnyJobDefinitionInformer 'di
  | AnyJobRunInformer 'ri
  | AnyForeign 'o

type_synonym 'v ctx = "(ctx_key \<times> 'v) list"

definition WithValue :: "'v ctx \<Rightarrow> ctx_key \<Rightarrow> 'v \<Rightarrow> 'v ctx" where
  "WithValue ctx k v = (k, v) # ctx"

definition Value :: "'v ctx \<Rightarrow> ctx_key \<Rightarrow> 'v option" where
  "Value ctx k = map_of ctx k"

lemma Value_WithValue [simp]: "Value (WithValue ctx k v) k' = (if k' = k then Some v else Value ctx k')"
  by (simp add: Value_def WithValue_def)

section \<open>The contract of a slot\<close>

text \<open>
  A slot of a context is written by \<open>put\<close> and read by \<open>get\<close>: what was put is got, the other keys
  are left alone, and \<open>get\<close> looks at nothing but its own key.
\<close>

locale context_slot =
  fixes key :: ctx_key
    and put :: "'v ctx \<Rightarrow> 'a \<Rightarrow> 'v ctx"
    and get :: "'v ctx \<Rightarrow> 'b"
    and found :: "'a \<Rightarrow> 'b"
  assumes get_put: "get (put c a) = found a"
    and put_frame: "k \<noteq> key \<Longrightarrow> Value (put c a) k = Value c k"
    and get_local: "Value c key = Value c' key \<Longrightarrow> get c = get c'"
begin

lemma get_put_put: "get (put (put c a) b) = found b"
  by (rule get_put)

lemma get_WithValue: "k \<noteq> key \<Longrightarrow> get (WithValue c k v) = get c"
  by (rule get_local) auto

lemma get_after: "Value c' key = Value (put c a) key \<Longrightarrow> get c' = found a"
  using get_local get_put by metis

end

end
