(* ===== verification/GoUrl.thy ===== *)
theory GoUrl
  imports GoJson "HOL-Library.Char_ord" "HOL-Library.List_Lexorder"
begin

text \<open>
  The part of Go's \<open>net/url\<close> that the program uses: \<open>url.Values\<close> with \<open>Set\<close> and \<open>Encode\<close>.  The
  inverse direction, parsing a form body, is the specification against which \<open>Encode\<close> is
  proved: whatever bytes the values hold, the receiver reads back the same pairs.
\<close>

section \<open>Escaping\<close>

definition unreserved :: "char \<Rightarrow> bool" where
  "unreserved c \<longleftrightarrow> in_range 97 122 c \<or> in_range 65 90 c \<or> is_digit c \<or>
     c \<in> {CHR ''-'', CHR ''_'', CHR ''.'', CHR ''~''}"

definition upper_hex :: "nat \<Rightarrow> char" where
  "upper_hex n = (if n < 10 then byte (48 + n) else byte (55 + n))"

definition escape_char :: "char \<Rightarrow> string" where
  "escape_char c =
     (if unreserved c then [c]
      else if c = CHR '' '' then ''+''
      else [CHR ''%'', upper_hex (of_char c div 16), upper_hex (of_char c mod 16)])"

definition query_escape :: "string \<Rightarrow> string" where
  "query_escape s = concat (map escape_char s)"

fun query_unescape :: "string \<Rightarrow> string option" where
  "query_unescape [] = Some []"
| "query_unescape (c # cs) =
     (if c = CHR ''%'' then
        (case cs of
           a # b # r \<Rightarrow>
             (case (hex_val a, hex_val b) of
                (Some x, Some y) \<Rightarrow> map_option (\<lambda>t. byte (16 * x + y) # t) (query_unescape r)
              | _ \<Rightarrow> None)
         | _ \<Rightarrow> None)
      else map_option (\<lambda>t. (if c = CHR ''+'' then CHR '' '' else c) # t) (query_unescape cs))"

lemma hex_val_upper: "n < 16 \<Longrightarrow> hex_val (upper_hex n) = Some n"
  by (auto simp: hex_val_def upper_hex_def is_digit_def in_range_def byte_def of_char_of)

lemma high_nibble: "of_char c div 16 < (16 :: nat)"
  using nat_of_char_less_256 [of c] by linarith

lemma unescape_escape_char:
  "query_unescape (escape_char c @ r) = map_option (\<lambda>t. c # t) (query_unescape r)"
proof (cases "unreserved c")
  case True
  then have "c \<noteq> CHR ''%''" and "c \<noteq> CHR ''+''"
    by (auto simp: unreserved_def in_range_def is_digit_def)
  with True show ?thesis by (simp add: escape_char_def)
next
  case False
  have "byte (16 * (of_char c div 16) + of_char c mod 16) = c"
    by (simp add: byte_def)
  then show ?thesis using False by (simp add: escape_char_def hex_val_upper high_nibble)
qed

lemma unescape_escape: "query_unescape (query_escape s) = Some s"
  by (induction s) (simp_all add: query_escape_def unescape_escape_char)

text \<open>The separators of a form never occur in escaped text.\<close>

lemma upper_hex_unreserved: "n < 16 \<Longrightarrow> unreserved (upper_hex n)"
  by (auto simp: unreserved_def upper_hex_def is_digit_def in_range_def byte_def of_char_of)

lemma escape_char_safe: "x \<in> set (escape_char c) \<Longrightarrow> unreserved x \<or> x = CHR ''+'' \<or> x = CHR ''%''"
  by (auto simp: escape_char_def upper_hex_unreserved high_nibble split: if_splits)

lemma query_escape_safe:
  assumes "x \<in> set (query_escape s)"
  shows "x \<noteq> CHR ''&'' \<and> x \<noteq> CHR ''=''"
proof -
  from assms obtain c where "x \<in> set (escape_char c)" by (auto simp: query_escape_def)
  from escape_char_safe [OF this] show ?thesis
    by (auto simp: unreserved_def in_range_def is_digit_def)
qed

section \<open>Values\<close>

text \<open>\<open>url.Values\<close> is a map to lists of values: an association list with distinct keys.\<close>

type_synonym url_values = "(string \<times> string list) list"

definition Values_Set :: "string \<Rightarrow> string \<Rightarrow> url_values \<Rightarrow> url_values" where
  "Values_Set k v vs = filter (\<lambda>(k', _). k' \<noteq> k) vs @ [(k, [v])]"

fun join_with :: "string \<Rightarrow> string list \<Rightarrow> string" where
  "join_with sep [] = []"
| "join_with sep [x] = x"
| "join_with sep (x # y # xs) = x @ sep @ join_with sep (y # xs)"

definition escape_pair :: "string \<times> string \<Rightarrow> string" where
  "escape_pair p = query_escape (fst p) @ ''='' @ query_escape (snd p)"

definition sorted_pairs :: "url_values \<Rightarrow> (string \<times> string) list" where
  "sorted_pairs vs = concat (map (\<lambda>(k, xs). map (Pair k) xs) (sort_key fst vs))"

definition Values_Encode :: "url_values \<Rightarrow> string" where
  "Values_Encode vs = join_with ''&'' (map escape_pair (sorted_pairs vs))"

section \<open>Reading a form\<close>

fun split_on :: "char \<Rightarrow> string \<Rightarrow> string list" where
  "split_on c [] = [[]]"
| "split_on c (x # xs) =
     (if x = c then [] # split_on c xs
      else (case split_on c xs of [] \<Rightarrow> [[x]] | y # ys \<Rightarrow> (x # y) # ys))"

definition parse_pair :: "string \<Rightarrow> (string \<times> string) option" where
  "parse_pair s =
     (case (query_unescape (takeWhile (\<lambda>c. c \<noteq> CHR ''='') s),
            query_unescape (tl (dropWhile (\<lambda>c. c \<noteq> CHR ''='') s))) of
        (Some k, Some v) \<Rightarrow> Some (k, v)
      | _ \<Rightarrow> None)"

definition parse_form :: "string \<Rightarrow> (string \<times> string) list option" where
  "parse_form s = (if s = [] then Some [] else those (map parse_pair (split_on (CHR ''&'') s)))"

lemma split_on_not_Nil [simp]: "split_on c xs \<noteq> []"
  by (induction xs) (auto split: list.splits)

lemma split_on_none: "c \<notin> set x \<Longrightarrow> split_on c x = [x]"
  by (induction x) auto

lemma split_on_append: "c \<notin> set x \<Longrightarrow> split_on c (x @ c # ys) = x # split_on c ys"
  by (induction x) auto

lemma split_join:
  "xs \<noteq> [] \<Longrightarrow> \<forall>x\<in>set xs. c \<notin> set x \<Longrightarrow> split_on c (join_with [c] xs) = xs"
  by (induction "[c]" xs rule: join_with.induct) (auto simp: split_on_none split_on_append)

lemma escape_pair_safe: "CHR ''&'' \<notin> set (escape_pair p)"
  using query_escape_safe by (auto simp: escape_pair_def)

lemma parse_escape_pair: "parse_pair (escape_pair p) = Some p"
proof -
  have no_eq: "\<forall>c\<in>set (query_escape (fst p)). c \<noteq> CHR ''=''" using query_escape_safe by blast
  then have "takeWhile (\<lambda>c. c \<noteq> CHR ''='') (escape_pair p) = query_escape (fst p)"
    and "dropWhile (\<lambda>c. c \<noteq> CHR ''='') (escape_pair p) = CHR ''='' # query_escape (snd p)"
    by (simp_all add: escape_pair_def takeWhile_append2 dropWhile_append2)
  then show ?thesis by (simp add: parse_pair_def unescape_escape)
qed

lemma escape_pair_not_Nil [simp]: "escape_pair p \<noteq> []"
  by (simp add: escape_pair_def)

lemma join_with_Nil_iff: "[] \<notin> set xs \<Longrightarrow> join_with sep xs = [] \<longleftrightarrow> xs = []"
  by (induction sep xs rule: join_with.induct) auto

lemma those_map_Some: "(\<And>x. x \<in> set xs \<Longrightarrow> f x = Some (g x)) \<Longrightarrow> those (map f xs) = Some (map g xs)"
  by (induction xs) auto

lemma parse_form_Encode: "parse_form (Values_Encode vs) = Some (sorted_pairs vs)"
proof (cases "sorted_pairs vs = []")
  case True
  then show ?thesis by (simp add: parse_form_def Values_Encode_def)
next
  case False
  have "split_on (CHR ''&'') (Values_Encode vs) = map escape_pair (sorted_pairs vs)"
    unfolding Values_Encode_def by (rule split_join) (use False escape_pair_safe in auto)
  moreover have "Values_Encode vs \<noteq> []"
    using False by (subst Values_Encode_def, subst join_with_Nil_iff) (auto simp: image_iff dest: sym)
  ultimately show ?thesis
    using those_map_Some [of "sorted_pairs vs" "parse_pair \<circ> escape_pair" id]
    by (simp add: parse_form_def parse_escape_pair)
qed

end
