(* ===== verification/CEContext.thy ===== *)
theory CEContext
  imports GoContext GoUrl
begin

text \<open>
  \<open>src/pkg/codeenegine/context.go\<close>: the connection to the IBM Cloud Code Engine project.  The
  process environment, the IBM SDKs, the network and the generated Code Engine client are the
  record \<open>ce_sdk\<close>; the calls that leave the process are recorded in order.
\<close>

section \<open>The context slots\<close>

definition withInformers ::
    "('cl, 'di, 'ri, 'o) ce_any ctx \<Rightarrow> 'di \<Rightarrow> 'ri \<Rightarrow> ('cl, 'di, 'ri, 'o) ce_any ctx" where
  "withInformers ctx jobDefinitionInformer jobRunInformer =
     (let ctx1 = WithValue ctx JobDefinitionInformerKey (AnyJobDefinitionInformer jobDefinitionInformer);
          ctx2 = WithValue ctx1 JobRunInformerKey (AnyJobRunInformer jobRunInformer)
      in ctx2)"

definition withClient :: "('cl, 'di, 'ri, 'o) ce_any ctx \<Rightarrow> 'cl \<Rightarrow> ('cl, 'di, 'ri, 'o) ce_any ctx" where
  "withClient ctx client = WithValue ctx CEClientKey (AnyCEClient client)"

definition withNamespace :: "('cl, 'di, 'ri, 'o) ce_any ctx \<Rightarrow> string \<Rightarrow> ('cl, 'di, 'ri, 'o) ce_any ctx" where
  "withNamespace ctx ns = WithValue ctx NamespaceKey (AnyString ns)"

definition GetNamespace :: "('cl, 'di, 'ri, 'o) ce_any ctx \<Rightarrow> string outcome" where
  "GetNamespace ctx =
     (case Value ctx NamespaceKey of
        None \<Rightarrow> Return []
      | Some (AnyString s) \<Rightarrow> Return s
      | Some _ \<Rightarrow> Panic FailedTypeAssertion)"

text \<open>A nil pointer or interface is \<open>None\<close>.\<close>

definition GetClient :: "('cl, 'di, 'ri, 'o) ce_any ctx \<Rightarrow> 'cl option outcome" where
  "GetClient ctx =
     (case Value ctx CEClientKey of
        None \<Rightarrow> Return None
      | Some (AnyCEClient c) \<Rightarrow> Return (Some c)
      | Some _ \<Rightarrow> Panic FailedTypeAssertion)"

text \<open>
  \<open>GetJobRunsClient\<close>; \<open>jobRuns\<close> is the chain \<open>CodeengineV1beta1().JobRuns(ns)\<close> of the generated
  client, called on a pointer that may be nil.
\<close>

definition GetJobRunsClient ::
    "('cl option \<Rightarrow> string \<Rightarrow> 'jc outcome) \<Rightarrow> ('cl, 'di, 'ri, 'o) ce_any ctx \<Rightarrow> 'jc outcome" where
  "GetJobRunsClient jobRuns ctx =
     (case GetNamespace ctx of
        Panic p \<Rightarrow> Panic p
      | Return ns \<Rightarrow>
          (case GetClient ctx of
             Panic p \<Rightarrow> Panic p
           | Return client \<Rightarrow> jobRuns client ns))"

definition GetJobDefinitionInformer :: "('cl, 'di, 'ri, 'o) ce_any ctx \<Rightarrow> 'di option outcome" where
  "GetJobDefinitionInformer ctx =
     (case Value ctx JobDefinitionInformerKey of
        None \<Rightarrow> Return None
      | Some (AnyJobDefinitionInformer i) \<Rightarrow> Return (Some i)
      | Some _ \<Rightarrow> Panic FailedTypeAssertion)"

definition GetJobRunInformer :: "('cl, 'di, 'ri, 'o) ce_any ctx \<Rightarrow> 'ri option outcome" where
  "GetJobRunInformer ctx =
     (case Value ctx JobRunInformerKey of
        None \<Rightarrow> Return None
      | Some (AnyJobRunInformer i) \<Rightarrow> Return (Some i)
      | Some _ \<Rightarrow> Panic FailedTypeAssertion)"

lemmas ce_slot_defs =
  withInformers_def withClient_def withNamespace_def GetNamespace_def GetClient_def
  GetJobDefinitionInformer_def GetJobRunInformer_def

interpretation namespace_slot: context_slot NamespaceKey withNamespace GetNamespace Return
  by unfold_locales (simp_all add: ce_slot_defs)

interpretation ce_client_slot: context_slot CEClientKey withClient GetClient "\<lambda>c. Return (Some c)"
  by unfold_locales (simp_all add: ce_slot_defs)

interpretation job_definition_slot: context_slot JobDefinitionInformerKey
    "\<lambda>ctx i. WithValue ctx JobDefinitionInformerKey (AnyJobDefinitionInformer i)"
    GetJobDefinitionInformer "\<lambda>i. Return (Some i)"
  by unfold_locales (simp_all add: ce_slot_defs)

interpretation job_run_slot: context_slot JobRunInformerKey
    "\<lambda>ctx i. WithValue ctx JobRunInformerKey (AnyJobRunInformer i)"
    GetJobRunInformer "\<lambda>i. Return (Some i)"
  by unfold_locales (simp_all add: ce_slot_defs)

section \<open>The Code Engine project\<close>

record http_request =
  hq_Method :: string
  hq_URL :: string
  hq_Header :: "(string \<times> string) list"
  hq_Body :: string

record http_response =
  hr_StatusCode :: int
  hr_Body :: string

record iam_authenticator =
  ia_ApiKey :: string
  ia_ClientId :: string
  ia_ClientSecret :: string

text \<open>
  \<open>ParseURL\<close> is the check of the URL in \<open>http.NewRequest\<close>; \<open>ClientDo\<close> is the exchange with the
  server, the body up to where reading it ends; \<open>GetKubeconfig\<close> returns a pointer to a string.
\<close>

record ('ce, 'cfg, 'rc, 'cl, 'f, 'di, 'ri, 'o) ce_sdk =
  Getenv :: "string \<Rightarrow> string"
  NewIbmCloudCodeEngineV1 :: "iam_authenticator \<Rightarrow> string \<Rightarrow> error + 'ce"
  ParseURL :: "string \<Rightarrow> error option"
  ClientDo :: "http_request \<Rightarrow> error + http_response"
  GetKubeconfig :: "'ce \<Rightarrow> string \<Rightarrow> string \<Rightarrow> error + string option"
  NewClientConfigFromBytes :: "string \<Rightarrow> error + 'cfg"
  ClientConfig :: "'cfg \<Rightarrow> error + 'rc"
  ConfigNamespace :: "'cfg \<Rightarrow> error + string"
  CE_NewForConfigOrDie :: "'rc \<Rightarrow> 'cl outcome"
  CE_ResyncPeriod :: "('cl, 'di, 'ri, 'o) ce_any ctx \<Rightarrow> int"
  CE_NewFactory :: "'cl \<Rightarrow> int \<Rightarrow> string \<Rightarrow> 'f"
  CE_JobDefinitions :: "'f \<Rightarrow> 'di"
  CE_JobRuns :: "'f \<Rightarrow> 'ri"
  StartInformers :: "'di \<Rightarrow> 'ri \<Rightarrow> error option"

text \<open>Calls that leave the process.\<close>

datatype ce_call =
    CallIAM http_request
  | CallKubeconfig string string

definition CEApiKeyEnv :: string where "CEApiKeyEnv = ''CE_API_KEY''"
definition CEProjectRegionEnv :: string where "CEProjectRegionEnv = ''CE_PROJECT_REGION''"
definition CEProjectIdEnv :: string where "CEProjectIdEnv = ''CE_PROJECT_ID''"

text \<open>The loop over the required variables: the first empty one is the error.\<close>

fun validate_env :: "(string \<Rightarrow> string) \<Rightarrow> string list \<Rightarrow> error option" where
  "validate_env env [] = None"
| "validate_env env (envName # rest) =
     (if env envName = [] then Some (Errorf ''environment variable %s must be set'' [ArgStr envName])
      else validate_env env rest)"

definition http_NewRequest ::
    "(string \<Rightarrow> error option) \<Rightarrow> string \<Rightarrow> string \<Rightarrow> string \<Rightarrow> error + http_request" where
  "http_NewRequest parse method u body =
     (case parse u of
        Some err \<Rightarrow> Inl err
      | None \<Rightarrow> Inr \<lparr>hq_Method = method, hq_URL = u, hq_Header = [], hq_Body = body\<rparr>)"

definition iam_form :: "string \<Rightarrow> url_values" where
  "iam_form apiKey =
     (let v0 = [];
          v1 = Values_Set ''grant_type'' ''urn:ibm:params:oauth:grant-type:apikey'' v0;
          v2 = Values_Set ''apikey'' apiKey v1;
          v3 = Values_Set ''response_type'' ''delegated_refresh_token'' v2;
          v4 = Values_Set ''receiver_client_ids'' ''ce'' v3;
          v5 = Values_Set ''delegated_refresh_token_expiry'' ''3600'' v4
      in v5)"

text \<open>
  \<open>json.NewDecoder(body).Decode(&m)\<close> into a nil \<open>map[string]string\<close>: the first JSON value of the
  body is decoded.  A member that is not a string binds its key to the empty string, as \<open>null\<close>
  does, and the decoder's error is dropped, as in the source.
\<close>

fun decode_string_members :: "(string \<times> json) list \<Rightarrow> label_map \<Rightarrow> label_map" where
  "decode_string_members [] m = m"
| "decode_string_members ((k, v) # ms) m =
     decode_string_members ms (m(k \<mapsto> (case v of JStr s \<Rightarrow> s | _ \<Rightarrow> [])))"

definition decode_string_map :: "string \<Rightarrow> label_map" where
  "decode_string_map body =
     (case parse_value (Suc (2 * length body)) 0 body of
        Parsed (JObj ms) _ \<Rightarrow> decode_string_members ms Map.empty
      | _ \<Rightarrow> Map.empty)"

text \<open>Reading a Go map gives the zero value for an absent key.\<close>

definition map_get :: "label_map \<Rightarrow> string \<Rightarrow> string" where
  "map_get m k = (case m k of None \<Rightarrow> [] | Some v \<Rightarrow> v)"

definition getCodeEngineKubeConfig ::
    "('ce, 'cfg, 'rc, 'cl, 'f, 'di, 'ri, 'o) ce_sdk \<Rightarrow> (error + 'cfg) outcome \<times> ce_call list" where
  "getCodeEngineKubeConfig S =
     (case validate_env (Getenv S) [CEApiKeyEnv, CEProjectRegionEnv, CEProjectIdEnv] of
        Some err \<Rightarrow> (Return (Inl err), [])
      | None \<Rightarrow>
          (let authenticator = \<lparr>ia_ApiKey = Getenv S CEApiKeyEnv, ia_ClientId = ''bx'',
                                ia_ClientSecret = ''bx''\<rparr>
           in (case NewIbmCloudCodeEngineV1 S authenticator
                      (''https://api.'' @ Getenv S CEProjectRegionEnv @
                       ''.codeengine.cloud.ibm.com/api/v1'') of
                 Inl err \<Rightarrow> (Return (Inl (Errorf ''unable to setup Code Engine client %v'' [ArgErr err])), [])
               | Inr ceClient \<Rightarrow>
                   (case http_NewRequest (ParseURL S) ''POST'' ''https://iam.cloud.ibm.com/identity/token''
                           (Values_Encode (iam_form (Getenv S CEApiKeyEnv))) of
                      Inl err \<Rightarrow>
                        (Return (Inl (Errorf ''unable to create IAM token request for Code Engine client %v''
                           [ArgErr err])), [])
                    | Inr req0 \<Rightarrow>
                        (let req = req0\<lparr>hq_Header := hq_Header req0 @
                               [(''Content-Type'', ''application/x-www-form-urlencoded'')]\<rparr>
                         in (case ClientDo S req of
                               Inl err \<Rightarrow>
                                 (Return (Inl (Errorf ''unable to get delegated IAM token for Code Engine client %v''
                                    [ArgErr err])), [CallIAM req])
                             | Inr resp \<Rightarrow>
                                 (let iamResponseData = decode_string_map (hr_Body resp)
                                  in if hr_StatusCode resp = 400 then
                                       (Return (Inl (Errorf ''unable to get IAM token [%s]: %s''
                                          [ArgStr (map_get iamResponseData ''errorCode''),
                                           ArgStr (map_get iamResponseData ''errorMessage'')])),
                                        [CallIAM req])
                                     else
                                       (let token = map_get iamResponseData ''delegated_refresh_token'';
                                            projectID = Getenv S CEProjectIdEnv;
                                            calls = [CallIAM req, CallKubeconfig token projectID]
                                        in (case GetKubeconfig S ceClient token projectID of
                                              Inl err \<Rightarrow>
                                                (Return (Inl (Errorf
                                                   ''unable to get kubeconfig for Code Engine project: %v, %v''
                                                   [ArgStr projectID, ArgErr err])), calls)
                                            | Inr None \<Rightarrow> (Panic NilDereference, calls)
                                            | Inr (Some result) \<Rightarrow>
                                                (case NewClientConfigFromBytes S result of
                                                   Inl err \<Rightarrow>
                                                     (Return (Inl (Errorf
                                                        ''unable to load Kubernetes config retrived from Code Engine project %v: %v''
                                                        [ArgStr projectID, ArgErr err])), calls)
                                                 | Inr cfg \<Rightarrow> (Return (Inr cfg), calls)))))))))))"

text \<open>
  \<open>startCodeEngineInformers\<close>.  \<open>logger.Fatalw\<close> ends the process.  The namespace is put into the
  context after the informers have started.
\<close>

definition startCodeEngineInformers ::
    "('ce, 'cfg, 'rc, 'cl, 'f, 'di, 'ri, 'o) ce_sdk \<Rightarrow> ('cl, 'di, 'ri, 'o) ce_any ctx \<Rightarrow>
       ('cl, 'di, 'ri, 'o) ce_any ctx outcome" where
  "startCodeEngineInformers S ctx =
     (case fst (getCodeEngineKubeConfig S) of
        Panic p \<Rightarrow> Panic p
      | Return (Inl err) \<Rightarrow> Panic (FatalExit ''Unable to load Code Engine kubernetes config'')
      | Return (Inr codeEngineClientConfig) \<Rightarrow>
          (case ClientConfig S codeEngineClientConfig of
             Inl err \<Rightarrow>
               Panic (FatalExit ''Unable to get ClientConfig from Code Engine kubernetes config'')
           | Inr codeEngineCfg \<Rightarrow>
               (case CE_NewForConfigOrDie S codeEngineCfg of
                  Panic p \<Rightarrow> Panic p
                | Return client \<Rightarrow>
                    (let ctx1 = withClient ctx client
                     in (case ConfigNamespace S codeEngineClientConfig of
                           Inl err \<Rightarrow>
                             Panic (FatalExit ''Unable to get namespace from Code Engine kubernetes config'')
                         | Inr namespace \<Rightarrow>
                             (let factory = CE_NewFactory S client (CE_ResyncPeriod S ctx1) namespace;
                                  jobDefinitionInformer = CE_JobDefinitions S factory;
                                  jobRunInformer = CE_JobRuns S factory
                              in (case StartInformers S jobDefinitionInformer jobRunInformer of
                                    Some err \<Rightarrow> Panic (FatalExit ''Failed to start CodeEngine informers'')
                                  | None \<Rightarrow>
                                      (let ctx2 = withNamespace ctx1 namespace
                                       in Return (withInformers ctx2 jobDefinitionInformer
                                                    jobRunInformer)))))))))"

definition WithClientAndInformers ::
    "('ce, 'cfg, 'rc, 'cl, 'f, 'di, 'ri, 'o) ce_sdk \<Rightarrow> ('cl, 'di, 'ri, 'o) ce_any ctx \<Rightarrow>
       ('cl, 'di, 'ri, 'o) ce_any ctx outcome" where
  "WithClientAndInformers S ctx = startCodeEngineInformers S ctx"

section \<open>The connection\<close>

lemma validate_env_None: "validate_env env names = None \<longleftrightarrow> (\<forall>n\<in>set names. env n \<noteq> [])"
  by (induction env names rule: validate_env.induct) auto

lemma validate_env_Some:
  "validate_env env names = Some e \<Longrightarrow>
     \<exists>n\<in>set names. env n = [] \<and> e = Errorf ''environment variable %s must be set'' [ArgStr n]"
  by (induction env names rule: validate_env.induct) (auto split: if_splits)

lemma iam_form_sorted:
  "sorted_pairs (iam_form key) =
     [(''apikey'', key), (''delegated_refresh_token_expiry'', ''3600''),
      (''grant_type'', ''urn:ibm:params:oauth:grant-type:apikey''),
      (''receiver_client_ids'', ''ce''), (''response_type'', ''delegated_refresh_token'')]"
  by (simp add: iam_form_def Values_Set_def sorted_pairs_def sort_key_def)

definition iam_request :: "string \<Rightarrow> http_request" where
  "iam_request key =
     \<lparr>hq_Method = ''POST'', hq_URL = ''https://iam.cloud.ibm.com/identity/token'',
      hq_Header = [(''Content-Type'', ''application/x-www-form-urlencoded'')],
      hq_Body = Values_Encode (iam_form key)\<rparr>"

lemma getCodeEngineKubeConfig_calls:
  "snd (getCodeEngineKubeConfig S) \<noteq> [] \<Longrightarrow>
     validate_env (Getenv S) [CEApiKeyEnv, CEProjectRegionEnv, CEProjectIdEnv] = None \<and>
     (\<exists>rest. snd (getCodeEngineKubeConfig S) = CallIAM (iam_request (Getenv S CEApiKeyEnv)) # rest)"
  by (auto simp: getCodeEngineKubeConfig_def Let_def iam_request_def http_NewRequest_def
      split: option.splits sum.splits if_splits)

text \<open>
  C29: the form sent to IAM reads back, for every API key, to the five parameters of a delegated
  refresh token request, in the order of their names.
\<close>

theorem iam_form_round_trip:
  "parse_form (Values_Encode (iam_form key)) = Some
     [(''apikey'', key), (''delegated_refresh_token_expiry'', ''3600''),
      (''grant_type'', ''urn:ibm:params:oauth:grant-type:apikey''),
      (''receiver_client_ids'', ''ce''), (''response_type'', ''delegated_refresh_token'')]"
  by (simp add: parse_form_Encode iam_form_sorted)

text \<open>
  C28: nothing leaves the process before the environment is complete.  With an empty variable the
  result is the error that names an empty variable and no call is made; whenever a call is made,
  all three variables are set and the first call is the token request with the API key.
\<close>

theorem environment_checked_first:
  "(\<forall>v\<in>{CEApiKeyEnv, CEProjectRegionEnv, CEProjectIdEnv}. Getenv S v = [] \<longrightarrow>
      (\<exists>n. Getenv S n = [] \<and> getCodeEngineKubeConfig S =
         (Return (Inl (Errorf ''environment variable %s must be set'' [ArgStr n])), []))) \<and>
   (snd (getCodeEngineKubeConfig S) \<noteq> [] \<longrightarrow>
      (\<forall>v\<in>{CEApiKeyEnv, CEProjectRegionEnv, CEProjectIdEnv}. Getenv S v \<noteq> []) \<and>
      hd (snd (getCodeEngineKubeConfig S)) = CallIAM (iam_request (Getenv S CEApiKeyEnv)))"
proof (intro conjI ballI impI)
  let ?vars = "[CEApiKeyEnv, CEProjectRegionEnv, CEProjectIdEnv]"
  fix v
  assume "v \<in> {CEApiKeyEnv, CEProjectRegionEnv, CEProjectIdEnv}" and "Getenv S v = []"
  then have "validate_env (Getenv S) ?vars \<noteq> None" unfolding validate_env_None by auto
  then obtain e where e: "validate_env (Getenv S) ?vars = Some e" by blast
  from validate_env_Some [OF this] e show "\<exists>n. Getenv S n = [] \<and> getCodeEngineKubeConfig S =
      (Return (Inl (Errorf ''environment variable %s must be set'' [ArgStr n])), [])"
    by (auto simp: getCodeEngineKubeConfig_def)
next
  fix v
  assume "snd (getCodeEngineKubeConfig S) \<noteq> []"
    and "v \<in> {CEApiKeyEnv, CEProjectRegionEnv, CEProjectIdEnv}"
  then show "Getenv S v \<noteq> []"
    using getCodeEngineKubeConfig_calls [of S] unfolding validate_env_None by auto
next
  assume "snd (getCodeEngineKubeConfig S) \<noteq> []"
  then show "hd (snd (getCodeEngineKubeConfig S)) = CallIAM (iam_request (Getenv S CEApiKeyEnv))"
    using getCodeEngineKubeConfig_calls [of S] by auto
qed

text \<open>A project that answers, for the witnesses; the IAM answer is the parameter.\<close>

definition sample_sdk ::
    "int \<Rightarrow> string \<Rightarrow> (string, string, string, string, string, string, string, 'o) ce_sdk" where
  "sample_sdk code body =
     \<lparr>Getenv = (\<lambda>n. if n = CEProjectIdEnv then ''project'' else ''x''),
      NewIbmCloudCodeEngineV1 = (\<lambda>a u. Inr u),
      ParseURL = (\<lambda>u. None),
      ClientDo = (\<lambda>r. Inr \<lparr>hr_StatusCode = code, hr_Body = body\<rparr>),
      GetKubeconfig = (\<lambda>c t p. Inr (Some (t @ p))),
      NewClientConfigFromBytes = Inr,
      ClientConfig = Inr,
      ConfigNamespace = (\<lambda>c. Inr ''ce-ns''),
      CE_NewForConfigOrDie = Return,
      CE_ResyncPeriod = (\<lambda>ctx. 36000),
      CE_NewFactory = (\<lambda>c p n. n),
      CE_JobDefinitions = (\<lambda>f. ''definitions of '' @ f),
      CE_JobRuns = (\<lambda>f. ''runs of '' @ f),
      StartInformers = (\<lambda>d r. None)\<rparr>"

lemma environment_checked_first_witness:
  "\<exists>n. Getenv ((sample_sdk 200 [])\<lparr>Getenv := (\<lambda>n. [])\<rparr>) n = [] \<and>
     getCodeEngineKubeConfig ((sample_sdk 200 [])\<lparr>Getenv := (\<lambda>n. [])\<rparr>) =
       (Return (Inl (Errorf ''environment variable %s must be set'' [ArgStr n])), [])"
  using environment_checked_first [of "(sample_sdk 200 [])\<lparr>Getenv := (\<lambda>n. [])\<rparr>"] by auto

text \<open>
  C30: a token request that fails with any status but 400, or answers with no usable token, is not
  noticed: the kube config is requested all the same, with an empty refresh token.
\<close>

theorem missing_token_not_noticed:
  assumes env: "\<forall>v\<in>{CEApiKeyEnv, CEProjectRegionEnv, CEProjectIdEnv}. Getenv S v \<noteq> []"
    and client: "NewIbmCloudCodeEngineV1 S \<lparr>ia_ApiKey = Getenv S CEApiKeyEnv, ia_ClientId = ''bx'',
        ia_ClientSecret = ''bx''\<rparr>
      (''https://api.'' @ Getenv S CEProjectRegionEnv @ ''.codeengine.cloud.ibm.com/api/v1'') = Inr ce"
    and url: "ParseURL S ''https://iam.cloud.ibm.com/identity/token'' = None"
    and answer: "ClientDo S (iam_request (Getenv S CEApiKeyEnv)) = Inr resp"
    and status: "hr_StatusCode resp \<noteq> 400"
    and no_token: "decode_string_map (hr_Body resp) ''delegated_refresh_token'' = None"
  shows "snd (getCodeEngineKubeConfig S) =
    [CallIAM (iam_request (Getenv S CEApiKeyEnv)), CallKubeconfig [] (Getenv S CEProjectIdEnv)]"
proof -
  have "validate_env (Getenv S) [CEApiKeyEnv, CEProjectRegionEnv, CEProjectIdEnv] = None"
    using env unfolding validate_env_None by simp
  with client url answer status no_token show ?thesis
    by (simp add: getCodeEngineKubeConfig_def Let_def http_NewRequest_def iam_request_def map_get_def
        split: option.split sum.split)
qed

lemma missing_token_not_noticed_witness:
  "snd (getCodeEngineKubeConfig (sample_sdk 503 ''unavailable'')) =
     [CallIAM (iam_request ''x''), CallKubeconfig [] ''project'']"
proof -
  have body: "decode_string_map ''unavailable'' ''delegated_refresh_token'' = None" by code_simp
  have vars: "CEApiKeyEnv \<noteq> CEProjectIdEnv" "CEProjectRegionEnv \<noteq> CEProjectIdEnv"
    by (simp_all add: CEApiKeyEnv_def CEProjectRegionEnv_def CEProjectIdEnv_def)
  show ?thesis
    using missing_token_not_noticed [of "sample_sdk 503 ''unavailable''" _
        "\<lparr>hr_StatusCode = 503, hr_Body = ''unavailable''\<rparr>"] body vars
    by (simp add: sample_sdk_def)
qed

text \<open>What \<open>WithClientAndInformers\<close> adds to the context when it returns.\<close>

lemma start_context:
  assumes "WithClientAndInformers S ctx = Return ctx'"
  obtains cfg rc client ns f where "fst (getCodeEngineKubeConfig S) = Return (Inr cfg)"
    and "ClientConfig S cfg = Inr rc" and "CE_NewForConfigOrDie S rc = Return client"
    and "ConfigNamespace S cfg = Inr ns"
    and "f = CE_NewFactory S client (CE_ResyncPeriod S (withClient ctx client)) ns"
    and "ctx' = withInformers (withNamespace (withClient ctx client) ns)
           (CE_JobDefinitions S f) (CE_JobRuns S f)"
  using assms
  by (auto simp: WithClientAndInformers_def startCodeEngineInformers_def Let_def
      split: outcome.splits sum.splits option.splits)

text \<open>
  When \<open>WithClientAndInformers\<close> returns, the context it returns holds the namespace of the
  project, a client for its configuration and the two informers of a factory over that client and
  namespace; every other key has the binding it had.
\<close>

theorem context_after_start:
  assumes "WithClientAndInformers S ctx = Return ctx'"
  shows "\<exists>cfg rc client ns. fst (getCodeEngineKubeConfig S) = Return (Inr cfg) \<and>
    ClientConfig S cfg = Inr rc \<and> CE_NewForConfigOrDie S rc = Return client \<and>
    ConfigNamespace S cfg = Inr ns \<and>
    GetNamespace ctx' = Return ns \<and> GetClient ctx' = Return (Some client) \<and>
    GetJobRunsClient jobRuns ctx' = jobRuns (Some client) ns \<and>
    (let f = CE_NewFactory S client (CE_ResyncPeriod S (withClient ctx client)) ns
     in GetJobDefinitionInformer ctx' = Return (Some (CE_JobDefinitions S f)) \<and>
        GetJobRunInformer ctx' = Return (Some (CE_JobRuns S f))) \<and>
    (\<forall>k. k \<notin> {NamespaceKey, CEClientKey, JobDefinitionInformerKey, JobRunInformerKey} \<longrightarrow>
       Value ctx' k = Value ctx k)"
  using assms
proof (cases rule: start_context)
  case (1 cfg rc client ns f)
  then show ?thesis by (auto simp: ce_slot_defs GetJobRunsClient_def Let_def)
qed

lemma context_after_start_witness:
  "\<exists>ctx'. WithClientAndInformers (sample_sdk 200 ''{}'') ([] :: (string, string, string, string) ce_any ctx) = Return ctx' \<and>
     GetNamespace ctx' = Return ''ce-ns''"
proof -
  obtain ctx' where ctx': "WithClientAndInformers (sample_sdk 200 ''{}'') ([] :: (string, string, string, string) ce_any ctx) = Return ctx'"
    by (simp add: WithClientAndInformers_def startCodeEngineInformers_def getCodeEngineKubeConfig_def
        sample_sdk_def http_NewRequest_def Let_def)
  from context_after_start [OF this] have "GetNamespace ctx' = Return ''ce-ns''"
    by (auto simp: sample_sdk_def)
  with ctx' show ?thesis by blast
qed

end
