(* ===== verification/InformerFactory.thy ===== *)
theory InformerFactory
  imports Listers
begin

text \<open>
  The shared informer factory of \<open>src/pkg/client/informers/externalversions\<close>: the options, one
  shared informer per type, starting, waiting, and the typed and generic accessors.

  Informers are objects: an informer is named by its position in the list of informers made so
  far, and \<open>go informer.Run(stopCh)\<close> is recorded in the world.  A closure that captures a Go
  variable reads a cell of the store when it is called, not when it is made.  The mutex of the
  factory makes each operation atomic.
\<close>

section \<open>Informers\<close>

type_synonym store = "nat \<Rightarrow> string"
type_synonym tweak = "store \<Rightarrow> ListOptions \<Rightarrow> ListOptions"

text \<open>\<open>reflect.TypeOf\<close> of an object: a pointer to one of the API types, or another type.\<close>

datatype rtype = PtrTo go_type | OtherType handle

text \<open>The calls \<open>client.CustomV1alpha1().CodeEngineTasks(namespace).List/Watch(ctx, options)\<close>.\<close>

datatype 'cl client_call =
    ListCall 'cl string ListOptions
  | WatchCall 'cl string ListOptions

text \<open>\<open>cache.ListWatch\<close>; an informer's pointer to it may be nil.\<close>

record 'cl ListWatch =
  ListFunc :: "store \<Rightarrow> ListOptions \<Rightarrow> 'cl client_call"
  WatchFunc :: "store \<Rightarrow> ListOptions \<Rightarrow> 'cl client_call"

record 'cl shared_informer =
  si_ListerWatcher :: "'cl ListWatch option"
  si_Object :: rtype
  si_Resync :: int
  si_Indexers :: "(string \<times> handle) list"

record 'cl world =
  w_made :: "'cl shared_informer list"
  w_run :: "(nat \<times> handle) list"

type_synonym 'cl new_informer_func = "'cl \<Rightarrow> int \<Rightarrow> 'cl world \<Rightarrow> nat \<times> 'cl world"

definition NewSharedIndexInformer ::
    "'cl ListWatch option \<Rightarrow> rtype \<Rightarrow> int \<Rightarrow> (string \<times> handle) list \<Rightarrow> 'cl world \<Rightarrow> nat \<times> 'cl world" where
  "NewSharedIndexInformer lw obj resync indexers w =
     (length (w_made w),
      w\<lparr>w_made := w_made w @ [\<lparr>si_ListerWatcher = lw, si_Object = obj, si_Resync = resync,
                               si_Indexers = indexers\<rparr>]\<rparr>)"

section \<open>The factory\<close>

record 'cl sharedInformerFactory =
  f_client :: 'cl
  f_namespace :: string
  f_tweakListOptions :: "tweak option"
  f_defaultResync :: int
  f_customResync :: "rtype \<rightharpoonup> int"
  f_informers :: "rtype \<rightharpoonup> nat"
  f_startedInformers :: "rtype \<Rightarrow> bool"

type_synonym 'cl SharedInformerOption = "'cl sharedInformerFactory \<Rightarrow> 'cl sharedInformerFactory"

text \<open>The configuration is given in the order in which the loop meets its entries.\<close>

fun WithCustomResyncConfig :: "(rtype \<times> int) list \<Rightarrow> 'cl SharedInformerOption" where
  "WithCustomResyncConfig [] factory = factory"
| "WithCustomResyncConfig ((k, v) # cfg) factory =
     WithCustomResyncConfig cfg (factory\<lparr>f_customResync := (f_customResync factory)(k \<mapsto> v)\<rparr>)"

definition WithTweakListOptions :: "tweak option \<Rightarrow> 'cl SharedInformerOption" where
  "WithTweakListOptions tweakListOptions factory = factory\<lparr>f_tweakListOptions := tweakListOptions\<rparr>"

definition WithNamespace :: "string \<Rightarrow> 'cl SharedInformerOption" where
  "WithNamespace namespace factory = factory\<lparr>f_namespace := namespace\<rparr>"

text \<open>\<open>v1.NamespaceAll\<close> is the empty string.\<close>

definition NewSharedInformerFactoryWithOptions ::
    "'cl \<Rightarrow> int \<Rightarrow> 'cl SharedInformerOption list \<Rightarrow> 'cl sharedInformerFactory" where
  "NewSharedInformerFactoryWithOptions client defaultResync options =
     foldl (\<lambda>factory opt. opt factory)
       \<lparr>f_client = client, f_namespace = [], f_tweakListOptions = None,
        f_defaultResync = defaultResync, f_customResync = Map.empty,
        f_informers = Map.empty, f_startedInformers = (\<lambda>_. False)\<rparr> options"

definition NewSharedInformerFactory :: "'cl \<Rightarrow> int \<Rightarrow> 'cl sharedInformerFactory" where
  "NewSharedInformerFactory client defaultResync =
     NewSharedInformerFactoryWithOptions client defaultResync []"

definition NewFilteredSharedInformerFactory ::
    "'cl \<Rightarrow> int \<Rightarrow> string \<Rightarrow> tweak option \<Rightarrow> 'cl sharedInformerFactory" where
  "NewFilteredSharedInformerFactory client defaultResync namespace tweakListOptions =
     NewSharedInformerFactoryWithOptions client defaultResync
       [WithNamespace namespace, WithTweakListOptions tweakListOptions]"

text \<open>
  \<open>Start\<close>: the loop over the map, in the order \<open>order\<close> in which the types of the map happen to
  be visited.
\<close>

fun Start ::
    "handle \<Rightarrow> rtype list \<Rightarrow> 'cl sharedInformerFactory \<Rightarrow> 'cl world \<Rightarrow>
       'cl sharedInformerFactory \<times> 'cl world" where
  "Start stopCh [] f w = (f, w)"
| "Start stopCh (informerType # order) f w =
     (case f_informers f informerType of
        None \<Rightarrow> Start stopCh order f w
      | Some informer \<Rightarrow>
          if \<not> f_startedInformers f informerType then
            Start stopCh order
              (f\<lparr>f_startedInformers := (f_startedInformers f)(informerType := True)\<rparr>)
              (w\<lparr>w_run := w_run w @ [(informer, stopCh)]\<rparr>)
          else Start stopCh order f w)"

text \<open>
  \<open>WaitForCacheSync\<close>; \<open>wait\<close> is \<open>cache.WaitForCacheSync(stopCh, informer.HasSynced)\<close> for the given
  informer.
\<close>

definition WaitForCacheSync ::
    "(nat \<Rightarrow> bool) \<Rightarrow> 'cl sharedInformerFactory \<Rightarrow> (rtype \<rightharpoonup> bool)" where
  "WaitForCacheSync wait f =
     (let informers = (\<lambda>informerType. if f_startedInformers f informerType
                                       then f_informers f informerType else None)
      in (\<lambda>informType. map_option wait (informers informType)))"

definition InformerFor ::
    "'cl sharedInformerFactory \<Rightarrow> rtype \<Rightarrow> 'cl new_informer_func \<Rightarrow> 'cl world \<Rightarrow>
       nat \<times> 'cl sharedInformerFactory \<times> 'cl world" where
  "InformerFor f informerType newFunc w =
     (case f_informers f informerType of
        Some informer \<Rightarrow> (informer, f, w)
      | None \<Rightarrow>
          (let resyncPeriod = (case f_customResync f informerType of
                                 Some p \<Rightarrow> p
                               | None \<Rightarrow> f_defaultResync f);
               (informer, w1) = newFunc (f_client f) resyncPeriod w
           in (informer, f\<lparr>f_informers := (f_informers f)(informerType \<mapsto> informer)\<rparr>, w1)))"

section \<open>The accessors\<close>

text \<open>
  \<open>group\<close>, \<open>version\<close> and \<open>codeEngineTaskInformer\<close> hold the factory, a pointer; here the factory is
  passed as state.  The types of the first two each have a function \<open>New\<close> in their package.
\<close>

record informer_group =
  gp_namespace :: string
  gp_tweakListOptions :: "tweak option"

record informer_version =
  ve_namespace :: string
  ve_tweakListOptions :: "tweak option"

record access =
  a_namespace :: string
  a_tweakListOptions :: "tweak option"

definition New_group :: "string \<Rightarrow> tweak option \<Rightarrow> informer_group" where
  [simp]: "New_group namespace tweakListOptions =
     \<lparr>gp_namespace = namespace, gp_tweakListOptions = tweakListOptions\<rparr>"

definition New_version :: "string \<Rightarrow> tweak option \<Rightarrow> informer_version" where
  [simp]: "New_version namespace tweakListOptions =
     \<lparr>ve_namespace = namespace, ve_tweakListOptions = tweakListOptions\<rparr>"

definition Custom :: "'cl sharedInformerFactory \<Rightarrow> informer_group" where
  "Custom f = New_group (f_namespace f) (f_tweakListOptions f)"

definition V1alpha1 :: "informer_group \<Rightarrow> informer_version" where
  "V1alpha1 g = New_version (gp_namespace g) (gp_tweakListOptions g)"

definition CodeEngineTasks :: "informer_version \<Rightarrow> access" where
  "CodeEngineTasks v = \<lparr>a_namespace = ve_namespace v, a_tweakListOptions = ve_tweakListOptions v\<rparr>"

definition apply_tweak :: "tweak option \<Rightarrow> tweak" where
  "apply_tweak tweakListOptions \<sigma> options =
     (case tweakListOptions of None \<Rightarrow> options | Some t \<Rightarrow> t \<sigma> options)"

definition NewFilteredCodeEngineTaskInformer ::
    "string \<Rightarrow> (string \<times> handle) list \<Rightarrow> tweak option \<Rightarrow> 'cl new_informer_func" where
  "NewFilteredCodeEngineTaskInformer namespace indexers tweakListOptions client resyncPeriod w =
     NewSharedIndexInformer
       (Some \<lparr>ListFunc = (\<lambda>\<sigma> options. ListCall client namespace (apply_tweak tweakListOptions \<sigma> options)),
              WatchFunc = (\<lambda>\<sigma> options. WatchCall client namespace (apply_tweak tweakListOptions \<sigma> options))\<rparr>)
       (PtrTo CodeEngineTaskType) resyncPeriod indexers w"

definition NewCodeEngineTaskInformer ::
    "string \<Rightarrow> (string \<times> handle) list \<Rightarrow> 'cl new_informer_func" where
  "NewCodeEngineTaskInformer namespace indexers client resyncPeriod w =
     NewFilteredCodeEngineTaskInformer namespace indexers None client resyncPeriod w"

definition NamespaceIndexers :: "(string \<times> handle) list" where
  "NamespaceIndexers = [(''namespace'', ''MetaNamespaceIndexFunc'')]"

definition defaultInformer :: "access \<Rightarrow> 'cl new_informer_func" where
  "defaultInformer i client resyncPeriod w =
     NewFilteredCodeEngineTaskInformer (a_namespace i) NamespaceIndexers (a_tweakListOptions i)
       client resyncPeriod w"

definition Informer ::
    "access \<Rightarrow> 'cl sharedInformerFactory \<Rightarrow> 'cl world \<Rightarrow> nat \<times> 'cl sharedInformerFactory \<times> 'cl world" where
  "Informer i f w = InformerFor f (PtrTo CodeEngineTaskType) (defaultInformer i) w"

text \<open>\<open>getIndexer\<close> is \<open>GetIndexer()\<close> of the informer.\<close>

definition Lister ::
    "(nat \<Rightarrow> indexer) \<Rightarrow> access \<Rightarrow> 'cl sharedInformerFactory \<Rightarrow> 'cl world \<Rightarrow>
       codeEngineTaskLister \<times> 'cl sharedInformerFactory \<times> 'cl world" where
  "Lister getIndexer i f w =
     (let (informer, f1, w1) = Informer i f w
      in (NewCodeEngineTaskLister (getIndexer informer), f1, w1))"

record genericInformer =
  gi_informer :: nat
  gi_resource :: GroupResource

definition ForResource ::
    "'z schema_lib_scheme \<Rightarrow> GroupVersionResource \<Rightarrow> 'cl sharedInformerFactory \<Rightarrow> 'cl world \<Rightarrow>
       (error + genericInformer) \<times> 'cl sharedInformerFactory \<times> 'cl world" where
  "ForResource L resource f w =
     (if resource = WithResource L SchemeGroupVersion ''codeenginetasks'' then
        (let (informer, f1, w1) = Informer (CodeEngineTasks (V1alpha1 (Custom f))) f w
         in (Inr \<lparr>gi_informer = informer, gi_resource = GVR_GroupResource L resource\<rparr>, f1, w1))
      else (Inl (Errorf ''no informer found for %v'' [ArgStr (GVR_String L resource)]), f, w))"

definition genericInformer_Informer :: "genericInformer \<Rightarrow> nat" where
  "genericInformer_Informer g = gi_informer g"

definition genericInformer_Lister ::
    "(indexer \<Rightarrow> GroupResource \<Rightarrow> 'gl) \<Rightarrow> (nat \<Rightarrow> indexer) \<Rightarrow> genericInformer \<Rightarrow> 'gl" where
  "genericInformer_Lister newGenericLister getIndexer g =
     newGenericLister (getIndexer (genericInformer_Informer g)) (gi_resource g)"

section \<open>The contract of a factory\<close>

text \<open>
  \<open>internalinterfaces.SharedInformerFactory\<close> as its users see it: there is one informer per type,
  made on the first request and returned by every later one.
\<close>

locale informer_factory =
  fixes informer_for :: "'f \<Rightarrow> 't \<Rightarrow> 'n \<Rightarrow> 'w \<Rightarrow> 'i \<times> 'f \<times> 'w"
    and registered :: "'f \<Rightarrow> 't \<rightharpoonup> 'i"
  assumes existing: "registered f t = Some i \<Longrightarrow> informer_for f t nf w = (i, f, w)"
    and registers: "informer_for f t nf w = (i, f', w') \<Longrightarrow> registered f' t = Some i"
    and frame: "informer_for f t nf w = (i, f', w') \<Longrightarrow> t' \<noteq> t \<Longrightarrow> registered f' t' = registered f t'"
begin

lemma idempotent:
  "informer_for f t nf w = (i, f', w') \<Longrightarrow> informer_for f' t nf' w'' = (i, f', w'')"
  by (rule existing) (rule registers)

lemma keeps_registered:
  assumes "informer_for f t nf w = (i, f', w')" and "registered f t' = Some j"
  shows "registered f' t' = Some j"
proof (cases "t' = t")
  case True
  with assms existing [of f t j nf w] show ?thesis by simp
next
  case False
  with assms frame [OF assms(1)] show ?thesis by simp
qed

end

interpretation shared: informer_factory InformerFor f_informers
proof (unfold_locales, goal_cases)
  case (1 f t i nf w)
  then show ?case by (simp add: InformerFor_def)
next
  case (2 f t nf w i f' w')
  then show ?case by (auto simp: InformerFor_def Let_def split: option.splits prod.splits)
next
  case (3 f t nf w i f' w' t')
  then show ?case by (auto simp: InformerFor_def Let_def split: option.splits prod.splits)
qed

end
