(* ===== verification/RestClient.thy ===== *)
theory RestClient
  imports ApiTypes
begin

text \<open>
  The typed client of \<open>src/pkg/client/clientset/versioned/typed/codeenginetask/v1alpha1\<close>: every
  method builds one request with the request builder of client-go and sends it.  A request is
  its verb and the builder calls in order; sending it and decoding the answer are the record
  \<open>rest_client\<close>.  Timeouts are \<open>time.Duration\<close>, 64-bit integers that wrap around.
\<close>

section \<open>Requests\<close>

datatype call_options =
    GetOpts GetOptions
  | ListOpts ListOptions
  | CreateOpts handle
  | UpdateOpts handle
  | PatchOpts handle

datatype body = TaskBody CodeEngineTask | DeleteBody handle | BytesBody string

datatype req_step =
    Namespace string
  | ReqResource string
  | ReqName string
  | SubResource "string list"
  | VersionedParams call_options
  | Timeout "64 word"
  | Body body

datatype verb = VGet | VPost | VPut | VDelete | VPatch string

record request =
  rq_Verb :: verb
  rq_Steps :: "req_step list"

text \<open>
  \<open>Into\<close> decodes into the object it is given and may leave it changed when it fails.
\<close>

record ('res, 'w) rest_client =
  rc_Do :: "request \<Rightarrow> 'w \<Rightarrow> 'res \<times> 'w"
  rc_IntoTask :: "'res \<Rightarrow> CodeEngineTask \<Rightarrow> error option \<times> CodeEngineTask"
  rc_IntoList :: "'res \<Rightarrow> CodeEngineTaskList \<Rightarrow> error option \<times> CodeEngineTaskList"
  rc_Error :: "'res \<Rightarrow> error option"
  rc_Watch :: "request \<Rightarrow> 'w \<Rightarrow> (error + handle) \<times> 'w"

record ('res, 'w) codeEngineTasks =
  ct_client :: "('res, 'w) rest_client"
  ct_ns :: string

section \<open>The methods\<close>

text \<open>\<open>time.Duration(*opts.TimeoutSeconds) * time.Second\<close>, and zero without a timeout.\<close>

definition timeout_of :: "64 word option \<Rightarrow> 64 word" where
  "timeout_of ts = (case ts of None \<Rightarrow> 0 | Some s \<Rightarrow> s * 1000000000)"

definition get_request :: "string \<Rightarrow> string \<Rightarrow> GetOptions \<Rightarrow> request" where
  "get_request ns name options =
     \<lparr>rq_Verb = VGet, rq_Steps = [Namespace ns, ReqResource ''codeenginetasks'', ReqName name,
        VersionedParams (GetOpts options)]\<rparr>"

definition Get ::
    "('res, 'w) codeEngineTasks \<Rightarrow> string \<Rightarrow> GetOptions \<Rightarrow> 'w \<Rightarrow>
       (CodeEngineTask \<times> error option) \<times> 'w" where
  "Get c name options w =
     (let (res, w1) = rc_Do (ct_client c) (get_request (ct_ns c) name options) w;
          (err, result) = rc_IntoTask (ct_client c) res zero_CodeEngineTask
      in ((result, err), w1))"

definition list_request :: "string \<Rightarrow> ListOptions \<Rightarrow> request" where
  "list_request ns opts =
     \<lparr>rq_Verb = VGet, rq_Steps = [Namespace ns, ReqResource ''codeenginetasks'',
        VersionedParams (ListOpts opts), Timeout (timeout_of (lo_TimeoutSeconds opts))]\<rparr>"

definition List ::
    "('res, 'w) codeEngineTasks \<Rightarrow> ListOptions \<Rightarrow> 'w \<Rightarrow> (CodeEngineTaskList \<times> error option) \<times> 'w" where
  "List c opts w =
     (let (res, w1) = rc_Do (ct_client c) (list_request (ct_ns c) opts) w;
          (err, result) = rc_IntoList (ct_client c) res zero_CodeEngineTaskList
      in ((result, err), w1))"

definition watch_request :: "string \<Rightarrow> ListOptions \<Rightarrow> request" where
  "watch_request ns opts =
     \<lparr>rq_Verb = VGet, rq_Steps = [Namespace ns, ReqResource ''codeenginetasks'',
        VersionedParams (ListOpts (opts\<lparr>lo_Watch := True\<rparr>)),
        Timeout (timeout_of (lo_TimeoutSeconds opts))]\<rparr>"

definition Watch ::
    "('res, 'w) codeEngineTasks \<Rightarrow> ListOptions \<Rightarrow> 'w \<Rightarrow> (error + handle) \<times> 'w" where
  "Watch c opts w = rc_Watch (ct_client c) (watch_request (ct_ns c) opts) w"

definition create_request :: "string \<Rightarrow> CodeEngineTask \<Rightarrow> handle \<Rightarrow> request" where
  "create_request ns t opts =
     \<lparr>rq_Verb = VPost, rq_Steps = [Namespace ns, ReqResource ''codeenginetasks'',
        VersionedParams (CreateOpts opts), Body (TaskBody t)]\<rparr>"

definition Create ::
    "('res, 'w) codeEngineTasks \<Rightarrow> CodeEngineTask \<Rightarrow> handle \<Rightarrow> 'w \<Rightarrow>
       (CodeEngineTask \<times> error option) \<times> 'w" where
  "Create c t opts w =
     (let (res, w1) = rc_Do (ct_client c) (create_request (ct_ns c) t opts) w;
          (err, result) = rc_IntoTask (ct_client c) res zero_CodeEngineTask
      in ((result, err), w1))"

definition update_request :: "string \<Rightarrow> CodeEngineTask \<Rightarrow> handle \<Rightarrow> request" where
  "update_request ns t opts =
     \<lparr>rq_Verb = VPut, rq_Steps = [Namespace ns, ReqResource ''codeenginetasks'',
        ReqName (om_Name (t_ObjectMeta t)), VersionedParams (UpdateOpts opts), Body (TaskBody t)]\<rparr>"

definition Update ::
    "('res, 'w) codeEngineTasks \<Rightarrow> CodeEngineTask \<Rightarrow> handle \<Rightarrow> 'w \<Rightarrow>
       (CodeEngineTask \<times> error option) \<times> 'w" where
  "Update c t opts w =
     (let (res, w1) = rc_Do (ct_client c) (update_request (ct_ns c) t opts) w;
          (err, result) = rc_IntoTask (ct_client c) res zero_CodeEngineTask
      in ((result, err), w1))"

definition update_status_request :: "string \<Rightarrow> CodeEngineTask \<Rightarrow> handle \<Rightarrow> request" where
  "update_status_request ns t opts =
     \<lparr>rq_Verb = VPut, rq_Steps = [Namespace ns, ReqResource ''codeenginetasks'',
        ReqName (om_Name (t_ObjectMeta t)), SubResource [''status''],
        VersionedParams (UpdateOpts opts), Body (TaskBody t)]\<rparr>"

definition UpdateStatus ::
    "('res, 'w) codeEngineTasks \<Rightarrow> CodeEngineTask \<Rightarrow> handle \<Rightarrow> 'w \<Rightarrow>
       (CodeEngineTask \<times> error option) \<times> 'w" where
  "UpdateStatus c t opts w =
     (let (res, w1) = rc_Do (ct_client c) (update_status_request (ct_ns c) t opts) w;
          (err, result) = rc_IntoTask (ct_client c) res zero_CodeEngineTask
      in ((result, err), w1))"

definition delete_request :: "string \<Rightarrow> string \<Rightarrow> handle \<Rightarrow> request" where
  "delete_request ns name opts =
     \<lparr>rq_Verb = VDelete, rq_Steps = [Namespace ns, ReqResource ''codeenginetasks'', ReqName name,
        Body (DeleteBody opts)]\<rparr>"

definition Delete ::
    "('res, 'w) codeEngineTasks \<Rightarrow> string \<Rightarrow> handle \<Rightarrow> 'w \<Rightarrow> error option \<times> 'w" where
  "Delete c name opts w =
     (let (res, w1) = rc_Do (ct_client c) (delete_request (ct_ns c) name opts) w
      in (rc_Error (ct_client c) res, w1))"

definition delete_collection_request :: "string \<Rightarrow> handle \<Rightarrow> ListOptions \<Rightarrow> request" where
  "delete_collection_request ns opts listOpts =
     \<lparr>rq_Verb = VDelete, rq_Steps = [Namespace ns, ReqResource ''codeenginetasks'',
        VersionedParams (ListOpts listOpts), Timeout (timeout_of (lo_TimeoutSeconds listOpts)),
        Body (DeleteBody opts)]\<rparr>"

definition DeleteCollection ::
    "('res, 'w) codeEngineTasks \<Rightarrow> handle \<Rightarrow> ListOptions \<Rightarrow> 'w \<Rightarrow> error option \<times> 'w" where
  "DeleteCollection c opts listOpts w =
     (let (res, w1) = rc_Do (ct_client c) (delete_collection_request (ct_ns c) opts listOpts) w
      in (rc_Error (ct_client c) res, w1))"

definition patch_request ::
    "string \<Rightarrow> string \<Rightarrow> string \<Rightarrow> string \<Rightarrow> handle \<Rightarrow> string list \<Rightarrow> request" where
  "patch_request ns name pt data opts subresources =
     \<lparr>rq_Verb = VPatch pt, rq_Steps = [Namespace ns, ReqResource ''codeenginetasks'', ReqName name,
        SubResource subresources, VersionedParams (PatchOpts opts), Body (BytesBody data)]\<rparr>"

definition Patch ::
    "('res, 'w) codeEngineTasks \<Rightarrow> string \<Rightarrow> string \<Rightarrow> string \<Rightarrow> handle \<Rightarrow> string list \<Rightarrow> 'w \<Rightarrow>
       (CodeEngineTask \<times> error option) \<times> 'w" where
  "Patch c name pt data opts subresources w =
     (let (res, w1) = rc_Do (ct_client c) (patch_request (ct_ns c) name pt data opts subresources) w;
          (err, result) = rc_IntoTask (ct_client c) res zero_CodeEngineTask
      in ((result, err), w1))"

section \<open>The interface\<close>

text \<open>
  \<open>CodeEngineTaskInterface\<close>, which the typed client, the dynamic client and the fake client
  implement; a result is a pointer, that may be nil, and an error.
\<close>

type_synonym task_result = "CodeEngineTask option \<times> error option"

record 'w task_interface =
  ti_Create :: "CodeEngineTask \<Rightarrow> handle \<Rightarrow> 'w \<Rightarrow> task_result \<times> 'w"
  ti_Update :: "CodeEngineTask \<Rightarrow> handle \<Rightarrow> 'w \<Rightarrow> task_result \<times> 'w"
  ti_UpdateStatus :: "CodeEngineTask \<Rightarrow> handle \<Rightarrow> 'w \<Rightarrow> task_result \<times> 'w"
  ti_Delete :: "string \<Rightarrow> handle \<Rightarrow> 'w \<Rightarrow> error option \<times> 'w"
  ti_DeleteCollection :: "handle \<Rightarrow> ListOptions \<Rightarrow> 'w \<Rightarrow> error option \<times> 'w"
  ti_Get :: "string \<Rightarrow> GetOptions \<Rightarrow> 'w \<Rightarrow> task_result \<times> 'w"
  ti_List :: "ListOptions \<Rightarrow> 'w \<Rightarrow> (CodeEngineTaskList option \<times> error option) \<times> 'w"
  ti_Watch :: "ListOptions \<Rightarrow> 'w \<Rightarrow> (error + handle) \<times> 'w"
  ti_Patch :: "string \<Rightarrow> string \<Rightarrow> string \<Rightarrow> handle \<Rightarrow> string list \<Rightarrow> 'w \<Rightarrow> task_result \<times> 'w"

definition pointed :: "('a \<times> error option) \<times> 'w \<Rightarrow> ('a option \<times> error option) \<times> 'w" where
  "pointed r = (case r of ((x, err), w) \<Rightarrow> ((Some x, err), w))"

definition typed_interface :: "('res, 'w) codeEngineTasks \<Rightarrow> 'w task_interface" where
  "typed_interface c =
     \<lparr>ti_Create = (\<lambda>t opts w. pointed (Create c t opts w)),
      ti_Update = (\<lambda>t opts w. pointed (Update c t opts w)),
      ti_UpdateStatus = (\<lambda>t opts w. pointed (UpdateStatus c t opts w)),
      ti_Delete = Delete c,
      ti_DeleteCollection = DeleteCollection c,
      ti_Get = (\<lambda>name options w. pointed (Get c name options w)),
      ti_List = (\<lambda>opts w. pointed (List c opts w)),
      ti_Watch = Watch c,
      ti_Patch = (\<lambda>name pt data opts subresources w. pointed (Patch c name pt data opts subresources w))\<rparr>"

section \<open>Timeouts\<close>












end
