(* ===== verification/Clientset.thy ===== *)
theory Clientset
  imports RestClient
begin

text \<open>
  Building the clients: \<open>clientset.go\<close> and \<open>codeenginetask_client.go\<close> under
  \<open>src/pkg/client/clientset/versioned\<close>.  A configuration is a record, copied where the source
  copies the struct; client-go's constructors are the record \<open>rest_lib\<close>.  The type \<open>'q\<close> is that
  of the rate \<open>QPS\<close>, a \<open>float32\<close>.
\<close>

section \<open>Configurations\<close>

record 'q Config =
  cfg_UserAgent :: string
  cfg_QPS :: 'q
  cfg_Burst :: int
  cfg_RateLimiter :: "handle option"
  cfg_GroupVersion :: "GroupVersion option"
  cfg_APIPath :: string
  cfg_NegotiatedSerializer :: handle
  cfg_Rest :: handle

record ('q, 'h, 'rc, 'd) rest_lib =
  QPS_positive :: "'q \<Rightarrow> bool"
  DefaultKubernetesUserAgent :: string
  CodecsWithoutConversion :: handle
  HTTPClientFor :: "'q Config \<Rightarrow> error + 'h"
  NewTokenBucketRateLimiter :: "'q \<Rightarrow> int \<Rightarrow> handle"
  RESTClientForConfigAndClient :: "'q Config \<Rightarrow> 'h \<Rightarrow> error + 'rc"
  NewDiscoveryClientForConfigAndClient :: "'q Config \<Rightarrow> 'h \<Rightarrow> error + 'd"
  NewDiscoveryClient :: "'rc \<Rightarrow> 'd"

section \<open>The group client\<close>

text \<open>The client of the group; a pointer to it that may be nil is an option.\<close>

record 'rc CustomV1alpha1Client =
  cc_restClient :: 'rc

definition setConfigDefaults ::
    "('q, 'h, 'rc, 'd) rest_lib \<Rightarrow> 'q Config \<Rightarrow> error option \<times> 'q Config" where
  "setConfigDefaults RL config =
     (let c1 = config\<lparr>cfg_GroupVersion := Some SchemeGroupVersion\<rparr>;
          c2 = c1\<lparr>cfg_APIPath := ''/apis''\<rparr>;
          c3 = c2\<lparr>cfg_NegotiatedSerializer := CodecsWithoutConversion RL\<rparr>;
          c4 = (if cfg_UserAgent c3 = [] then c3\<lparr>cfg_UserAgent := DefaultKubernetesUserAgent RL\<rparr> else c3)
      in (None, c4))"

definition group_NewForConfigAndClient ::
    "('q, 'h, 'rc, 'd) rest_lib \<Rightarrow> 'q Config \<Rightarrow> 'h \<Rightarrow> error + 'rc CustomV1alpha1Client" where
  "group_NewForConfigAndClient RL c h =
     (case setConfigDefaults RL c of
        (Some err, _) \<Rightarrow> Inl err
      | (None, config) \<Rightarrow>
          (case RESTClientForConfigAndClient RL config h of
             Inl err \<Rightarrow> Inl err
           | Inr client \<Rightarrow> Inr \<lparr>cc_restClient = client\<rparr>))"

definition group_NewForConfig ::
    "('q, 'h, 'rc, 'd) rest_lib \<Rightarrow> 'q Config \<Rightarrow> error + 'rc CustomV1alpha1Client" where
  "group_NewForConfig RL c =
     (case setConfigDefaults RL c of
        (Some err, _) \<Rightarrow> Inl err
      | (None, config) \<Rightarrow>
          (case HTTPClientFor RL config of
             Inl err \<Rightarrow> Inl err
           | Inr httpClient \<Rightarrow> group_NewForConfigAndClient RL config httpClient))"

definition or_die :: "error + 'a \<Rightarrow> 'a outcome" where
  "or_die r = (case r of Inl err \<Rightarrow> Panic (PanicError err) | Inr x \<Rightarrow> Return x)"

definition group_NewForConfigOrDie ::
    "('q, 'h, 'rc, 'd) rest_lib \<Rightarrow> 'q Config \<Rightarrow> 'rc CustomV1alpha1Client outcome" where
  "group_NewForConfigOrDie RL c = or_die (group_NewForConfig RL c)"

definition group_New :: "'rc \<Rightarrow> 'rc CustomV1alpha1Client" where
  "group_New c = \<lparr>cc_restClient = c\<rparr>"

text \<open>\<open>RESTClient\<close> on a nil pointer returns nil, and so \<open>CodeEngineTasks\<close> works on one.\<close>

definition RESTClient :: "'rc CustomV1alpha1Client option \<Rightarrow> 'rc option" where
  "RESTClient c = (case c of None \<Rightarrow> None | Some x \<Rightarrow> Some (cc_restClient x))"

record 'rc task_getter =
  tg_client :: "'rc option"
  tg_ns :: string

definition newCodeEngineTasks :: "'rc CustomV1alpha1Client option \<Rightarrow> string \<Rightarrow> 'rc task_getter" where
  "newCodeEngineTasks c namespace = \<lparr>tg_client = RESTClient c, tg_ns = namespace\<rparr>"

definition group_CodeEngineTasks :: "'rc CustomV1alpha1Client option \<Rightarrow> string \<Rightarrow> 'rc task_getter" where
  "group_CodeEngineTasks c namespace = newCodeEngineTasks c namespace"

section \<open>The clientset\<close>

record ('rc, 'd) Clientset =
  cs_DiscoveryClient :: 'd
  cs_customV1alpha1 :: "'rc CustomV1alpha1Client"

definition CustomV1alpha1 ::
    "('rc, 'd) Clientset option \<Rightarrow> 'rc CustomV1alpha1Client outcome" where
  "CustomV1alpha1 c = (case c of None \<Rightarrow> Panic NilDereference | Some cs \<Rightarrow> Return (cs_customV1alpha1 cs))"

definition Discovery :: "('rc, 'd) Clientset option \<Rightarrow> 'd option" where
  "Discovery c = (case c of None \<Rightarrow> None | Some cs \<Rightarrow> Some (cs_DiscoveryClient cs))"

definition NewForConfigAndClient ::
    "('q, 'h, 'rc, 'd) rest_lib \<Rightarrow> 'q Config \<Rightarrow> 'h \<Rightarrow> error + ('rc, 'd) Clientset" where
  "NewForConfigAndClient RL c httpClient =
     (let build = (\<lambda>configShallowCopy.
            (case group_NewForConfigAndClient RL configShallowCopy httpClient of
               Inl err \<Rightarrow> Inl err
             | Inr custom \<Rightarrow>
                 (case NewDiscoveryClientForConfigAndClient RL configShallowCopy httpClient of
                    Inl err \<Rightarrow> Inl err
                  | Inr discovery \<Rightarrow>
                      Inr \<lparr>cs_DiscoveryClient = discovery, cs_customV1alpha1 = custom\<rparr>)))
      in if cfg_RateLimiter c = None \<and> QPS_positive RL (cfg_QPS c) then
           (if cfg_Burst c \<le> 0 then
              Inl (Errorf ''burst is required to be greater than 0 when RateLimiter is not set and QPS is set to greater than 0'' [])
            else build (c\<lparr>cfg_RateLimiter := Some (NewTokenBucketRateLimiter RL (cfg_QPS c) (cfg_Burst c))\<rparr>))
         else build c)"

definition NewForConfig ::
    "('q, 'h, 'rc, 'd) rest_lib \<Rightarrow> 'q Config \<Rightarrow> error + ('rc, 'd) Clientset" where
  "NewForConfig RL c =
     (let configShallowCopy = (if cfg_UserAgent c = []
            then c\<lparr>cfg_UserAgent := DefaultKubernetesUserAgent RL\<rparr> else c)
      in (case HTTPClientFor RL configShallowCopy of
            Inl err \<Rightarrow> Inl err
          | Inr httpClient \<Rightarrow> NewForConfigAndClient RL configShallowCopy httpClient))"

definition NewForConfigOrDie ::
    "('q, 'h, 'rc, 'd) rest_lib \<Rightarrow> 'q Config \<Rightarrow> ('rc, 'd) Clientset outcome" where
  "NewForConfigOrDie RL c = or_die (NewForConfig RL c)"

definition New :: "('q, 'h, 'rc, 'd) rest_lib \<Rightarrow> 'rc \<Rightarrow> ('rc, 'd) Clientset" where
  "New RL c = \<lparr>cs_DiscoveryClient = NewDiscoveryClient RL c, cs_customV1alpha1 = group_New c\<rparr>"

section \<open>Properties\<close>

text \<open>The configuration the clients share: user agent and rate limiter filled in.\<close>

definition effective_config :: "('q, 'h, 'rc, 'd) rest_lib \<Rightarrow> 'q Config \<Rightarrow> 'q Config" where
  "effective_config RL c =
     c\<lparr>cfg_UserAgent := (if cfg_UserAgent c = [] then DefaultKubernetesUserAgent RL else cfg_UserAgent c),
       cfg_RateLimiter := (if cfg_RateLimiter c = None \<and> QPS_positive RL (cfg_QPS c)
         then Some (NewTokenBucketRateLimiter RL (cfg_QPS c) (cfg_Burst c)) else cfg_RateLimiter c)\<rparr>"

lemma effective_config_defaults:
  "setConfigDefaults RL (effective_config RL c) = (None, (effective_config RL c)
     \<lparr>cfg_GroupVersion := Some SchemeGroupVersion, cfg_APIPath := ''/apis'',
      cfg_NegotiatedSerializer := CodecsWithoutConversion RL\<rparr>)"
  by (cases c) (simp add: setConfigDefaults_def effective_config_def Let_def)

lemma NewForConfigAndClient_Inr:
  assumes "NewForConfigAndClient RL
    (c\<lparr>cfg_UserAgent := cfg_UserAgent (effective_config RL c)\<rparr>) h = Inr cs"
  shows "group_NewForConfigAndClient RL (effective_config RL c) h = Inr (cs_customV1alpha1 cs) \<and>
    NewDiscoveryClientForConfigAndClient RL (effective_config RL c) h = Inr (cs_DiscoveryClient cs)"
proof -
  let ?c = "c\<lparr>cfg_UserAgent := cfg_UserAgent (effective_config RL c)\<rparr>"
  let ?build = "\<lambda>cfg. (case group_NewForConfigAndClient RL cfg h of
      Inl err \<Rightarrow> Inl err
    | Inr custom \<Rightarrow>
        (case NewDiscoveryClientForConfigAndClient RL cfg h of
           Inl err \<Rightarrow> Inl err
         | Inr discovery \<Rightarrow> Inr \<lparr>cs_DiscoveryClient = discovery, cs_customV1alpha1 = custom\<rparr>))"
  have "?build (effective_config RL c) = Inr cs"
  proof (cases "cfg_RateLimiter c = None \<and> QPS_positive RL (cfg_QPS c)")
    case True
    have "?c\<lparr>cfg_RateLimiter := Some (NewTokenBucketRateLimiter RL (cfg_QPS ?c) (cfg_Burst ?c))\<rparr> =
        effective_config RL c"
      using True by (simp add: effective_config_def)
    moreover have "NewForConfigAndClient RL ?c h = ?build
        (?c\<lparr>cfg_RateLimiter := Some (NewTokenBucketRateLimiter RL (cfg_QPS ?c) (cfg_Burst ?c))\<rparr>)"
      using True assms unfolding NewForConfigAndClient_def Let_def by (simp split: if_splits)
    ultimately show ?thesis using assms by (simp only:)
  next
    case False
    then have "?c = effective_config RL c" by (cases c) (auto simp: effective_config_def)
    moreover have "NewForConfigAndClient RL ?c h = ?build ?c"
    proof -
      have "\<not> (cfg_RateLimiter ?c = None \<and> QPS_positive RL (cfg_QPS ?c))" using False by simp
      then show ?thesis unfolding NewForConfigAndClient_def Let_def by (rule if_not_P)
    qed
    ultimately show ?thesis using assms by (simp only:)
  qed
  then show ?thesis by (auto split: sum.splits)
qed

lemma NewForConfig_Inr:
  assumes "NewForConfig RL c = Inr cs"
  shows "\<exists>h. HTTPClientFor RL (c\<lparr>cfg_UserAgent := cfg_UserAgent (effective_config RL c)\<rparr>) = Inr h \<and>
    NewForConfigAndClient RL (c\<lparr>cfg_UserAgent := cfg_UserAgent (effective_config RL c)\<rparr>) h = Inr cs"
proof -
  have "(if cfg_UserAgent c = [] then c\<lparr>cfg_UserAgent := DefaultKubernetesUserAgent RL\<rparr> else c) =
      c\<lparr>cfg_UserAgent := cfg_UserAgent (effective_config RL c)\<rparr>"
    by (simp add: effective_config_def)
  with assms show ?thesis by (simp add: NewForConfig_def Let_def split: sum.splits)
qed

text \<open>The sample library of the witness: a client is the configuration it was made from.\<close>

definition sample_rest_lib :: "(int, string, int Config, int Config) rest_lib" where
  "sample_rest_lib =
     \<lparr>QPS_positive = (\<lambda>q. q > 0), DefaultKubernetesUserAgent = ''agent'',
      CodecsWithoutConversion = ''codecs'', HTTPClientFor = (\<lambda>c. Inr ''http''),
      NewTokenBucketRateLimiter = (\<lambda>q b. show_int q @ show_int b),
      RESTClientForConfigAndClient = (\<lambda>c h. Inr c),
      NewDiscoveryClientForConfigAndClient = (\<lambda>c h. Inr c),
      NewDiscoveryClient = (\<lambda>c. c)\<rparr>"

definition sample_config :: "int Config" where
  "sample_config = \<lparr>cfg_UserAgent = [], cfg_QPS = 5, cfg_Burst = 10, cfg_RateLimiter = None,
     cfg_GroupVersion = None, cfg_APIPath = [], cfg_NegotiatedSerializer = [], cfg_Rest = []\<rparr>"

text \<open>
  A rate without a limiter needs a positive burst.  A clientset that \<open>NewForConfig\<close> returns
  has both clients on one HTTP client and one configuration with the default user agent and one
  shared rate limiter; the group client adds the group version, its serializer and the path
  \<open>/apis\<close>.
\<close>

theorem clientset_shares_config:
  "(cfg_RateLimiter c = None \<and> QPS_positive RL (cfg_QPS c) \<and> cfg_Burst c \<le> 0 \<longrightarrow> isl (NewForConfig RL c)) \<and>
   (NewForConfig RL c = Inr cs \<longrightarrow>
      (\<exists>h. HTTPClientFor RL (c\<lparr>cfg_UserAgent := cfg_UserAgent (effective_config RL c)\<rparr>) = Inr h \<and>
         NewDiscoveryClientForConfigAndClient RL (effective_config RL c) h = Inr (cs_DiscoveryClient cs) \<and>
         RESTClientForConfigAndClient RL
           ((effective_config RL c)\<lparr>cfg_GroupVersion := Some SchemeGroupVersion, cfg_APIPath := ''/apis'',
              cfg_NegotiatedSerializer := CodecsWithoutConversion RL\<rparr>) h =
           Inr (cc_restClient (cs_customV1alpha1 cs))))"
proof (intro conjI impI)
  assume "cfg_RateLimiter c = None \<and> QPS_positive RL (cfg_QPS c) \<and> cfg_Burst c \<le> 0"
  then show "isl (NewForConfig RL c)"
    by (simp add: NewForConfig_def NewForConfigAndClient_def Let_def split: sum.split)
next
  assume "NewForConfig RL c = Inr cs"
  then obtain h where h: "HTTPClientFor RL (c\<lparr>cfg_UserAgent := cfg_UserAgent (effective_config RL c)\<rparr>) = Inr h"
    "NewForConfigAndClient RL (c\<lparr>cfg_UserAgent := cfg_UserAgent (effective_config RL c)\<rparr>) h = Inr cs"
    using NewForConfig_Inr by blast
  note G = NewForConfigAndClient_Inr [OF h(2)]
  then have "\<exists>x. RESTClientForConfigAndClient RL
      ((effective_config RL c)\<lparr>cfg_GroupVersion := Some SchemeGroupVersion, cfg_APIPath := ''/apis'',
         cfg_NegotiatedSerializer := CodecsWithoutConversion RL\<rparr>) h = Inr x \<and>
      \<lparr>cc_restClient = x\<rparr> = cs_customV1alpha1 cs"
    by (auto simp: group_NewForConfigAndClient_def effective_config_defaults split: sum.splits)
  then have "RESTClientForConfigAndClient RL
      ((effective_config RL c)\<lparr>cfg_GroupVersion := Some SchemeGroupVersion, cfg_APIPath := ''/apis'',
         cfg_NegotiatedSerializer := CodecsWithoutConversion RL\<rparr>) h =
      Inr (cc_restClient (cs_customV1alpha1 cs))"
    by (metis CustomV1alpha1Client.select_convs(1))
  with h(1) G show "\<exists>h. HTTPClientFor RL (c\<lparr>cfg_UserAgent := cfg_UserAgent (effective_config RL c)\<rparr>) = Inr h \<and>
         NewDiscoveryClientForConfigAndClient RL (effective_config RL c) h = Inr (cs_DiscoveryClient cs) \<and>
         RESTClientForConfigAndClient RL
           ((effective_config RL c)\<lparr>cfg_GroupVersion := Some SchemeGroupVersion, cfg_APIPath := ''/apis'',
              cfg_NegotiatedSerializer := CodecsWithoutConversion RL\<rparr>) h =
           Inr (cc_restClient (cs_customV1alpha1 cs))" by blast
qed

lemma clientset_shares_config_witness:
  "\<exists>cs. NewForConfig sample_rest_lib sample_config = Inr cs \<and>
     cfg_APIPath (cc_restClient (cs_customV1alpha1 cs)) = ''/apis'' \<and>
     cfg_RateLimiter (cs_DiscoveryClient cs) = cfg_RateLimiter (cc_restClient (cs_customV1alpha1 cs))"
proof -
  obtain cs where cs: "NewForConfig sample_rest_lib sample_config = Inr cs"
    by (simp add: NewForConfig_def NewForConfigAndClient_def Let_def sample_rest_lib_def
        sample_config_def group_NewForConfigAndClient_def setConfigDefaults_def)
  from clientset_shares_config [of sample_config sample_rest_lib cs] cs show ?thesis
    by (auto simp: sample_rest_lib_def dest!: sym [of _ "cs_DiscoveryClient cs"] sym [of _ "cc_restClient (cs_customV1alpha1 cs)"])
qed

end
