(* ===== verification/Injection.thy ===== *)
theory Injection
  imports GoContext InformerFactory Clientset
begin

text \<open>
  The injection glue of \<open>src/pkg/client/injection\<close>: clients, informer factories and task informers
  kept in a context.  Factories are objects on a heap, because the context holds pointers to them;
  knative's injection package is the record \<open>injection_lib\<close>.

  The locale \<open>injected\<close> is the contract of the typed getters.
\<close>

section \<open>Values in the context\<close>

text \<open>The three implementations of \<open>versioned.Interface\<close>.\<close>

datatype ('cs, 'dyn, 'fk) versioned_interface =
    RealClientset 'cs
  | WrapClient 'dyn
  | FakeClientset 'fk

text \<open>
  The two structs \<open>wrapper\<close> of the dynamic informers, without and with selector, and the
  implementations of \<open>CodeEngineTaskInformer\<close>: the accessor of a factory, which is named by its
  position on the heap, and pointers to the wrappers.
\<close>

record 'c wrapper =
  wr_client :: 'c
  wr_namespace :: string
  wr_resourceVersion :: string

record 'c filtered_wrapper =
  fw_client :: 'c
  fw_namespace :: string
  fw_selector :: string

datatype 'c task_informer =
    FactoryInformer nat access
  | WrapperInformer "'c wrapper"
  | FilteredWrapperInformer "'c filtered_wrapper"

datatype 'c inj_any =
    AnyClient 'c
  | AnyFactory nat
  | AnySelectors "string list"
  | AnyTaskInformer "'c task_informer"
  | AnyOther handle

type_synonym ('cl, 'di, 'ri, 'c) app_ctx = "('cl, 'di, 'ri, 'c inj_any) ce_any ctx"

text \<open>
  The heap: the informers, the factories, and the store with its next unused cell, for the Go
  variables that closures capture.
\<close>

record 'c inj_world =
  iw_informers :: "'c world"
  iw_factories :: "'c sharedInformerFactory list"
  iw_store :: store
  iw_fresh :: nat

record ('v, 'cfg, 'dyn) injection_lib =
  HasNamespaceScope :: "'v ctx \<Rightarrow> bool"
  GetNamespaceScope :: "'v ctx \<Rightarrow> string"
  GetResyncPeriod :: "'v ctx \<Rightarrow> int"
  GetInjectionConfig :: "'v ctx \<Rightarrow> 'cfg option"
  GetResourceVersion :: "'v ctx \<Rightarrow> string"
  DynamicClientGet :: "'v ctx \<Rightarrow> 'dyn outcome"

section \<open>Clients\<close>

definition withClientFromConfig ::
    "('q, 'h, 'rc, 'd) rest_lib \<Rightarrow> ('cl, 'di, 'ri, (('rc, 'd) Clientset, 'dyn, 'fk) versioned_interface) app_ctx \<Rightarrow>
       'q Config \<Rightarrow> ('cl, 'di, 'ri, (('rc, 'd) Clientset, 'dyn, 'fk) versioned_interface) app_ctx outcome" where
  "withClientFromConfig RL ctx cfg =
     (case NewForConfigOrDie RL cfg of
        Panic p \<Rightarrow> Panic p
      | Return cs \<Rightarrow> Return (WithValue ctx ClientKey (AnyForeign (AnyClient (RealClientset cs)))))"

definition withClientFromDynamic ::
    "(('cl, 'di, 'ri, ('cs, 'dyn, 'fk) versioned_interface inj_any) ce_any, 'cfg, 'dyn) injection_lib \<Rightarrow>
       ('cl, 'di, 'ri, ('cs, 'dyn, 'fk) versioned_interface) app_ctx \<Rightarrow>
       ('cl, 'di, 'ri, ('cs, 'dyn, 'fk) versioned_interface) app_ctx outcome" where
  "withClientFromDynamic I ctx =
     (case DynamicClientGet I ctx of
        Panic p \<Rightarrow> Panic p
      | Return dyn \<Rightarrow> Return (WithValue ctx ClientKey (AnyForeign (AnyClient (WrapClient dyn)))))"

definition client_Get ::
    "(('cl, 'di, 'ri, 'c inj_any) ce_any, 'cfg, 'dyn) injection_lib \<Rightarrow>
       ('cl, 'di, 'ri, 'c) app_ctx \<Rightarrow> 'c outcome" where
  "client_Get I ctx =
     (case Value ctx ClientKey of
        None \<Rightarrow>
          if GetInjectionConfig I ctx = None then
            Panic (PanicValue ''Unable to fetch github.com/rafalbigaj/tekton-code-engine/pkg/client/clientset/versioned.Interface from context. This context is not the application context (which is typically given to constructors via sharedmain).'')
          else
            Panic (PanicValue ''Unable to fetch github.com/rafalbigaj/tekton-code-engine/pkg/client/clientset/versioned.Interface from context.'')
      | Some (AnyForeign (AnyClient c)) \<Rightarrow> Return c
      | Some _ \<Rightarrow> Panic FailedTypeAssertion)"

section \<open>The informer factory\<close>

definition new_factory ::
    "'c sharedInformerFactory \<Rightarrow> 'c inj_world \<Rightarrow> nat \<times> 'c inj_world" where
  "new_factory f w = (length (iw_factories w), w\<lparr>iw_factories := iw_factories w @ [f]\<rparr>)"

definition scope_options ::
    "('v, 'cfg, 'dyn) injection_lib \<Rightarrow> 'v ctx \<Rightarrow> 'c SharedInformerOption list" where
  "scope_options I ctx =
     (if HasNamespaceScope I ctx then [WithNamespace (GetNamespaceScope I ctx)] else [])"

definition withInformerFactory ::
    "(('cl, 'di, 'ri, 'c inj_any) ce_any, 'cfg, 'dyn) injection_lib \<Rightarrow> ('cl, 'di, 'ri, 'c) app_ctx \<Rightarrow>
       'c inj_world \<Rightarrow> ('cl, 'di, 'ri, 'c) app_ctx outcome \<times> 'c inj_world" where
  "withInformerFactory I ctx w =
     (case client_Get I ctx of
        Panic p \<Rightarrow> (Panic p, w)
      | Return c \<Rightarrow>
          (let opts = scope_options I ctx;
               (f, w1) = new_factory (NewSharedInformerFactoryWithOptions c (GetResyncPeriod I ctx) opts) w
           in (Return (WithValue ctx FactoryKey (AnyForeign (AnyFactory f))), w1)))"

definition factory_Get :: "('cl, 'di, 'ri, 'c) app_ctx \<Rightarrow> nat outcome" where
  "factory_Get ctx =
     (case Value ctx FactoryKey of
        None \<Rightarrow> Panic (PanicValue ''Unable to fetch github.com/rafalbigaj/tekton-code-engine/pkg/client/informers/externalversions.SharedInformerFactory from context.'')
      | Some (AnyForeign (AnyFactory f)) \<Rightarrow> Return f
      | Some _ \<Rightarrow> Panic FailedTypeAssertion)"

section \<open>The filtered informer factories\<close>

definition WithSelectors ::
    "('cl, 'di, 'ri, 'c) app_ctx \<Rightarrow> string list \<Rightarrow> ('cl, 'di, 'ri, 'c) app_ctx" where
  "WithSelectors ctx selector = WithValue ctx LabelKey (AnyForeign (AnySelectors selector))"

definition label_selectors :: "('cl, 'di, 'ri, 'c) app_ctx \<Rightarrow> string list outcome" where
  "label_selectors ctx =
     (case Value ctx LabelKey of
        None \<Rightarrow> Panic (PanicValue ''Unable to fetch labelkey from context.'')
      | Some (AnyForeign (AnySelectors ss)) \<Rightarrow> Return ss
      | Some _ \<Rightarrow> Panic FailedTypeAssertion)"

text \<open>
  The loop has one variable \<open>selector\<close>, the cell, which each iteration assigns and which the
  function given to \<open>WithTweakListOptions\<close> captures.
\<close>

definition selector_tweak :: "nat \<Rightarrow> tweak" where
  "selector_tweak cell = (\<lambda>\<sigma> l. l\<lparr>lo_LabelSelector := \<sigma> cell\<rparr>)"

fun filtered_factories ::
    "(('cl, 'di, 'ri, 'c inj_any) ce_any, 'cfg, 'dyn) injection_lib \<Rightarrow> 'c \<Rightarrow> nat \<Rightarrow> string list \<Rightarrow>
       ('cl, 'di, 'ri, 'c) app_ctx \<Rightarrow> 'c inj_world \<Rightarrow> ('cl, 'di, 'ri, 'c) app_ctx \<times> 'c inj_world" where
  "filtered_factories I c cell [] ctx w = (ctx, w)"
| "filtered_factories I c cell (selector # rest) ctx w =
     (let w1 = w\<lparr>iw_store := (iw_store w)(cell := selector)\<rparr>;
          opts = scope_options I ctx @ [WithTweakListOptions (Some (selector_tweak cell))];
          (f, w2) = new_factory (NewSharedInformerFactoryWithOptions c (GetResyncPeriod I ctx) opts) w1
      in filtered_factories I c cell rest
           (WithValue ctx (FilteredFactoryKey selector) (AnyForeign (AnyFactory f))) w2)"

definition filtered_withInformerFactory ::
    "(('cl, 'di, 'ri, 'c inj_any) ce_any, 'cfg, 'dyn) injection_lib \<Rightarrow> ('cl, 'di, 'ri, 'c) app_ctx \<Rightarrow>
       'c inj_world \<Rightarrow> ('cl, 'di, 'ri, 'c) app_ctx outcome \<times> 'c inj_world" where
  "filtered_withInformerFactory I ctx w =
     (case client_Get I ctx of
        Panic p \<Rightarrow> (Panic p, w)
      | Return c \<Rightarrow>
          (case label_selectors ctx of
             Panic p \<Rightarrow> (Panic p, w)
           | Return labelSelectors \<Rightarrow>
               (let (ctx1, w1) = filtered_factories I c (iw_fresh w) labelSelectors ctx
                                   (w\<lparr>iw_fresh := Suc (iw_fresh w)\<rparr>)
                in (Return ctx1, w1))))"

definition filtered_factory_Get :: "('cl, 'di, 'ri, 'c) app_ctx \<Rightarrow> string \<Rightarrow> nat outcome" where
  "filtered_factory_Get ctx selector =
     (case Value ctx (FilteredFactoryKey selector) of
        None \<Rightarrow> Panic (PanicValue
          (''Unable to fetch github.com/rafalbigaj/tekton-code-engine/pkg/client/informers/externalversions.SharedInformerFactory with selector ''
           @ selector @ '' from context.''))
      | Some (AnyForeign (AnyFactory f)) \<Rightarrow> Return f
      | Some _ \<Rightarrow> Panic FailedTypeAssertion)"

end
