(* ===== verification/TaskInformers.thy ===== *)
theory TaskInformers
  imports Injection RestClient
begin

text \<open>
  The injected task informers of
  \<open>src/pkg/client/injection/informers/codeenginetask/v1alpha1/codeenginetask\<close>, plain and filtered:
  the informer of the injected factory, and the dynamic \<open>wrapper\<close>, which is informer and lister in
  one and asks the API server for every call.  \<open>tasks\<close> is
  \<open>client.CustomV1alpha1().CodeEngineTasks(namespace)\<close>.
\<close>

section \<open>Selectors\<close>

text \<open>The label selectors of \<open>apimachinery\<close>; \<open>'req\<close> is a requirement.\<close>

record ('sel, 'req) labels_lib =
  Sel_String :: "'sel \<Rightarrow> string"
  Sel_Matches :: "'sel \<Rightarrow> label_map \<Rightarrow> bool"
  Sel_Add :: "'sel \<Rightarrow> 'req list \<Rightarrow> 'sel"
  Req_Matches :: "'req \<Rightarrow> label_map \<Rightarrow> bool"
  Everything :: 'sel
  ParseToRequirements :: "string \<Rightarrow> error + 'req list"

section \<open>The wrappers\<close>

datatype 'c task_lister =
    IndexerLister codeEngineTaskLister
  | WrapperLister "'c wrapper"
  | FilteredWrapperLister "'c filtered_wrapper"

definition wrapper_Informer :: "'c wrapper \<Rightarrow> 'c world \<Rightarrow> nat \<times> 'c world" where
  "wrapper_Informer wr w = NewSharedIndexInformer None (PtrTo CodeEngineTaskType) 0 [] w"

definition wrapper_Lister :: "'c wrapper \<Rightarrow> 'c task_lister" where
  "wrapper_Lister wr = WrapperLister wr"

definition wrapper_CodeEngineTasks :: "'c wrapper \<Rightarrow> string \<Rightarrow> 'c wrapper" where
  "wrapper_CodeEngineTasks wr namespace =
     \<lparr>wr_client = wr_client wr, wr_namespace = namespace, wr_resourceVersion = wr_resourceVersion wr\<rparr>"

definition SetResourceVersion :: "string \<Rightarrow> 'c wrapper \<Rightarrow> 'c wrapper" where
  "SetResourceVersion resourceVersion wr = wr\<lparr>wr_resourceVersion := resourceVersion\<rparr>"

text \<open>The loop over the items of the list that the server returned, after the error check.\<close>

definition list_items ::
    "CodeEngineTaskList option \<times> error option \<Rightarrow> (CodeEngineTask list \<times> error option) outcome" where
  "list_items r =
     (case r of
        (_, Some err) \<Rightarrow> Return ([], Some err)
      | (None, None) \<Rightarrow> Panic NilDereference
      | (Some lo, None) \<Rightarrow> Return (foldl (\<lambda>ret item. ret @ [item]) [] (tl_Items lo), None))"

definition wrapper_List ::
    "('sel, 'req) labels_lib \<Rightarrow> ('c \<Rightarrow> string \<Rightarrow> 'w task_interface) \<Rightarrow> 'c wrapper \<Rightarrow> 'sel \<Rightarrow> 'w \<Rightarrow>
       (CodeEngineTask list \<times> error option) outcome \<times> 'w" where
  "wrapper_List S tasks wr selector w =
     (let (lo, w1) = ti_List (tasks (wr_client wr) (wr_namespace wr))
                       (zero_ListOptions\<lparr>lo_LabelSelector := Sel_String S selector,
                                         lo_ResourceVersion := wr_resourceVersion wr\<rparr>) w
      in (list_items lo, w1))"

definition wrapper_Get ::
    "('c \<Rightarrow> string \<Rightarrow> 'w task_interface) \<Rightarrow> 'c wrapper \<Rightarrow> string \<Rightarrow> 'w \<Rightarrow> task_result \<times> 'w" where
  "wrapper_Get tasks wr name w =
     ti_Get (tasks (wr_client wr) (wr_namespace wr)) name
       (zero_GetOptions\<lparr>go_ResourceVersion := wr_resourceVersion wr\<rparr>) w"

definition filtered_wrapper_Informer :: "'c filtered_wrapper \<Rightarrow> 'c world \<Rightarrow> nat \<times> 'c world" where
  "filtered_wrapper_Informer fw w = NewSharedIndexInformer None (PtrTo CodeEngineTaskType) 0 [] w"

definition filtered_wrapper_Lister :: "'c filtered_wrapper \<Rightarrow> 'c task_lister" where
  "filtered_wrapper_Lister fw = FilteredWrapperLister fw"

definition filtered_wrapper_CodeEngineTasks ::
    "'c filtered_wrapper \<Rightarrow> string \<Rightarrow> 'c filtered_wrapper" where
  "filtered_wrapper_CodeEngineTasks fw namespace =
     \<lparr>fw_client = fw_client fw, fw_namespace = namespace, fw_selector = fw_selector fw\<rparr>"

definition filtered_wrapper_List ::
    "('sel, 'req) labels_lib \<Rightarrow> ('c \<Rightarrow> string \<Rightarrow> 'w task_interface) \<Rightarrow> 'c filtered_wrapper \<Rightarrow> 'sel \<Rightarrow>
       'w \<Rightarrow> (CodeEngineTask list \<times> error option) outcome \<times> 'w" where
  "filtered_wrapper_List S tasks fw selector w =
     (case ParseToRequirements S (fw_selector fw) of
        Inl err \<Rightarrow> (Return ([], Some err), w)
      | Inr reqs \<Rightarrow>
          (let selector1 = Sel_Add S selector reqs;
               (lo, w1) = ti_List (tasks (fw_client fw) (fw_namespace fw))
                            (zero_ListOptions\<lparr>lo_LabelSelector := Sel_String S selector1\<rparr>) w
           in (list_items lo, w1)))"

definition filtered_wrapper_Get ::
    "('c \<Rightarrow> string \<Rightarrow> 'w task_interface) \<Rightarrow> 'c filtered_wrapper \<Rightarrow> string \<Rightarrow> 'w \<Rightarrow> task_result \<times> 'w" where
  "filtered_wrapper_Get tasks fw name w =
     ti_Get (tasks (fw_client fw) (fw_namespace fw)) name zero_GetOptions w"

section \<open>The informer interface\<close>

text \<open>
  \<open>Informer()\<close> and \<open>Lister()\<close> of a \<open>CodeEngineTaskInformer\<close>, by the kind of the value.  A factory
  named by a context is on the heap.
\<close>

definition task_informer_Informer ::
    "'c task_informer \<Rightarrow> 'c inj_world \<Rightarrow> nat \<times> 'c inj_world" where
  "task_informer_Informer ti w =
     (case ti of
        FactoryInformer f acc \<Rightarrow>
          (let (i, f1, w1) = Informer acc (iw_factories w ! f) (iw_informers w)
           in (i, w\<lparr>iw_factories := (iw_factories w)[f := f1], iw_informers := w1\<rparr>))
      | WrapperInformer wr \<Rightarrow>
          (let (i, w1) = wrapper_Informer wr (iw_informers w) in (i, w\<lparr>iw_informers := w1\<rparr>))
      | FilteredWrapperInformer fw \<Rightarrow>
          (let (i, w1) = filtered_wrapper_Informer fw (iw_informers w) in (i, w\<lparr>iw_informers := w1\<rparr>)))"

definition task_informer_Lister ::
    "(nat \<Rightarrow> indexer) \<Rightarrow> 'c task_informer \<Rightarrow> 'c inj_world \<Rightarrow> 'c task_lister \<times> 'c inj_world" where
  "task_informer_Lister getIndexer ti w =
     (case ti of
        FactoryInformer f acc \<Rightarrow>
          (let (l, f1, w1) = Lister getIndexer acc (iw_factories w ! f) (iw_informers w)
           in (IndexerLister l, w\<lparr>iw_factories := (iw_factories w)[f := f1], iw_informers := w1\<rparr>))
      | WrapperInformer wr \<Rightarrow> (wrapper_Lister wr, w)
      | FilteredWrapperInformer fw \<Rightarrow> (filtered_wrapper_Lister fw, w))"

text \<open>
  \<open>CodeEngineTasks(namespace).Get(name)\<close> on a lister, with the API server in the state \<open>w\<close>; the
  caller of a lister dereferences the task it gets without error.
\<close>

definition deref_task :: "task_result \<Rightarrow> (error + CodeEngineTask) outcome" where
  "deref_task r =
     (case r of
        (_, Some err) \<Rightarrow> Return (Inl err)
      | (Some t, None) \<Rightarrow> Return (Inr t)
      | (None, None) \<Rightarrow> Panic NilDereference)"

definition task_lister_calls ::
    "'z schema_lib_scheme \<Rightarrow> ('c \<Rightarrow> string \<Rightarrow> 'w task_interface) \<Rightarrow> 'w \<Rightarrow> 'c task_lister \<Rightarrow> string \<Rightarrow>
       string \<Rightarrow> (error + CodeEngineTask) outcome" where
  "task_lister_calls L tasks w l namespace name =
     (case l of
        IndexerLister s \<Rightarrow> indexer_task_lister L s namespace name
      | WrapperLister wr \<Rightarrow>
          deref_task (fst (wrapper_Get tasks (wrapper_CodeEngineTasks wr namespace) name w))
      | FilteredWrapperLister fw \<Rightarrow>
          deref_task (fst (filtered_wrapper_Get tasks (filtered_wrapper_CodeEngineTasks fw namespace) name w)))"

section \<open>Injection\<close>

definition factory_task_informer :: "'c inj_world \<Rightarrow> nat \<Rightarrow> 'c task_informer" where
  "factory_task_informer w f =
     FactoryInformer f (CodeEngineTasks (V1alpha1 (Custom (iw_factories w ! f))))"

definition withInformer ::
    "('cl, 'di, 'ri, 'c) app_ctx \<Rightarrow> 'c inj_world \<Rightarrow>
       (('cl, 'di, 'ri, 'c) app_ctx \<times> nat) outcome \<times> 'c inj_world" where
  "withInformer ctx w =
     (case factory_Get ctx of
        Panic p \<Rightarrow> (Panic p, w)
      | Return f \<Rightarrow>
          (let ti = factory_task_informer w f;
               ctx1 = WithValue ctx TaskInformerKey (AnyForeign (AnyTaskInformer ti));
               (i, w1) = task_informer_Informer ti w
           in (Return (ctx1, i), w1)))"

definition withDynamicInformer ::
    "(('cl, 'di, 'ri, 'c inj_any) ce_any, 'cfg, 'dyn) injection_lib \<Rightarrow> ('cl, 'di, 'ri, 'c) app_ctx \<Rightarrow>
       ('cl, 'di, 'ri, 'c) app_ctx outcome" where
  "withDynamicInformer I ctx =
     (case client_Get I ctx of
        Panic p \<Rightarrow> Panic p
      | Return c \<Rightarrow>
          (let ti = WrapperInformer \<lparr>wr_client = c, wr_namespace = [],
                       wr_resourceVersion = GetResourceVersion I ctx\<rparr>
           in Return (WithValue ctx TaskInformerKey (AnyForeign (AnyTaskInformer ti)))))"

definition informer_Get :: "('cl, 'di, 'ri, 'c) app_ctx \<Rightarrow> 'c task_informer outcome" where
  "informer_Get ctx =
     (case Value ctx TaskInformerKey of
        None \<Rightarrow> Panic (PanicValue ''Unable to fetch github.com/rafalbigaj/tekton-code-engine/pkg/client/informers/externalversions/codeenginetask/v1alpha1.CodeEngineTaskInformer from context.'')
      | Some (AnyForeign (AnyTaskInformer i)) \<Rightarrow> Return i
      | Some _ \<Rightarrow> Panic FailedTypeAssertion)"

fun filtered_informers ::
    "string list \<Rightarrow> ('cl, 'di, 'ri, 'c) app_ctx \<Rightarrow> nat list \<Rightarrow> 'c inj_world \<Rightarrow>
       (('cl, 'di, 'ri, 'c) app_ctx \<times> nat list) outcome \<times> 'c inj_world" where
  "filtered_informers [] ctx infs w = (Return (ctx, infs), w)"
| "filtered_informers (selector # rest) ctx infs w =
     (case filtered_factory_Get ctx selector of
        Panic p \<Rightarrow> (Panic p, w)
      | Return f \<Rightarrow>
          (let ti = factory_task_informer w f;
               ctx1 = WithValue ctx (FilteredTaskInformerKey selector) (AnyForeign (AnyTaskInformer ti));
               (i, w1) = task_informer_Informer ti w
           in filtered_informers rest ctx1 (infs @ [i]) w1))"

definition filtered_withInformer ::
    "('cl, 'di, 'ri, 'c) app_ctx \<Rightarrow> 'c inj_world \<Rightarrow>
       (('cl, 'di, 'ri, 'c) app_ctx \<times> nat list) outcome \<times> 'c inj_world" where
  "filtered_withInformer ctx w =
     (case label_selectors ctx of
        Panic p \<Rightarrow> (Panic p, w)
      | Return labelSelectors \<Rightarrow> filtered_informers labelSelectors ctx [] w)"

fun filtered_dynamic_informers ::
    "(('cl, 'di, 'ri, 'c inj_any) ce_any, 'cfg, 'dyn) injection_lib \<Rightarrow> string list \<Rightarrow>
       ('cl, 'di, 'ri, 'c) app_ctx \<Rightarrow> ('cl, 'di, 'ri, 'c) app_ctx outcome" where
  "filtered_dynamic_informers I [] ctx = Return ctx"
| "filtered_dynamic_informers I (selector # rest) ctx =
     (case client_Get I ctx of
        Panic p \<Rightarrow> Panic p
      | Return c \<Rightarrow>
          (let ti = FilteredWrapperInformer \<lparr>fw_client = c, fw_namespace = [], fw_selector = selector\<rparr>
           in filtered_dynamic_informers I rest
                (WithValue ctx (FilteredTaskInformerKey selector) (AnyForeign (AnyTaskInformer ti)))))"

definition filtered_withDynamicInformer ::
    "(('cl, 'di, 'ri, 'c inj_any) ce_any, 'cfg, 'dyn) injection_lib \<Rightarrow> ('cl, 'di, 'ri, 'c) app_ctx \<Rightarrow>
       ('cl, 'di, 'ri, 'c) app_ctx outcome" where
  "filtered_withDynamicInformer I ctx =
     (case label_selectors ctx of
        Panic p \<Rightarrow> Panic p
      | Return labelSelectors \<Rightarrow> filtered_dynamic_informers I labelSelectors ctx)"

definition filtered_informer_Get ::
    "('cl, 'di, 'ri, 'c) app_ctx \<Rightarrow> string \<Rightarrow> 'c task_informer outcome" where
  "filtered_informer_Get ctx selector =
     (case Value ctx (FilteredTaskInformerKey selector) of
        None \<Rightarrow> Panic (PanicValue
          (''Unable to fetch github.com/rafalbigaj/tekton-code-engine/pkg/client/informers/externalversions/codeenginetask/v1alpha1.CodeEngineTaskInformer with selector ''
           @ selector @ '' from context.''))
      | Some (AnyForeign (AnyTaskInformer i)) \<Rightarrow> Return i
      | Some _ \<Rightarrow> Panic FailedTypeAssertion)"

end
