(* ===== verification/Controller.thy ===== *)
theory Controller
  imports Reconciler CEContext TaskInformers
begin

text \<open>
  \<open>src/pkg/reconciler/codeenginetask/controller.go\<close>: how the reconciler is put together from the
  context, and how events of Code Engine job runs are mapped to Runs.  The getters of Tekton and
  knative, the listers behind the informers of the Code Engine client, \<open>gocache.New\<close> and
  \<open>runreconciler.NewImpl\<close> are the record \<open>controller_lib\<close>.
\<close>

section \<open>Job run events\<close>

text \<open>An object of an informer, an \<open>interface{}\<close>: a \<open>*JobRun\<close> or something else.\<close>

datatype 'x ce_object = JobRunObj "'x JobRun" | ForeignObj handle

record NamespacedName =
  nn_Namespace :: string
  nn_Name :: string

definition filterJobRunRef :: "'x ce_object \<Rightarrow> bool" where
  "filterJobRunRef obj =
     (case obj of
        JobRunObj jobRun \<Rightarrow>
          (let hasOwnerLabel = jr_Labels jobRun jobRunOwnerLabelKey \<noteq> None;
               hasOwnerNamespaceLabel = jr_Labels jobRun jobRunOwnerNamespaceLabelKey \<noteq> None
           in hasOwnerLabel \<and> hasOwnerNamespaceLabel)
      | ForeignObj _ \<Rightarrow> False)"

text \<open>The call \<open>impl.EnqueueKey(key)\<close> that the returned function makes.\<close>

definition jobRunEnqueueFunc :: "'impl \<Rightarrow> 'x ce_object \<Rightarrow> ('impl \<times> NamespacedName) outcome" where
  "jobRunEnqueueFunc impl obj =
     (case obj of
        JobRunObj jobRun \<Rightarrow>
          (let runName = map_get (jr_Labels jobRun) jobRunOwnerLabelKey;
               runNamespace = map_get (jr_Labels jobRun) jobRunOwnerNamespaceLabelKey
           in Return (impl, \<lparr>nn_Namespace = runNamespace, nn_Name = runName\<rparr>))
      | ForeignObj _ \<Rightarrow> Panic FailedTypeAssertion)"

section \<open>The controller\<close>

text \<open>
  What is registered with an informer: on the Runs the filter \<open>FilterRunRef(apiVersion, kind)\<close> and
  \<open>impl.Enqueue\<close>, on the job runs a filter and a handler of this package.
\<close>

datatype ('x, 'ri, 'impl) registration =
    RegisterRuns handle string string 'impl
  | RegisterJobRuns 'ri "'x ce_object \<Rightarrow> bool" "'x ce_object \<Rightarrow> ('impl \<times> NamespacedName) outcome"

text \<open>
  \<open>CE_JobRuns_of\<close> is \<open>CodeengineV1beta1().JobRuns(ns)\<close>, called on a pointer that may be nil.  A lister
  is given by what it answers.
\<close>

record ('v, 'x, 'jd, 'w, 'cl, 'di, 'ri, 'impl) controller_lib =
  RunInformerGet :: "'v ctx \<Rightarrow> handle outcome"
  SecretInformerGet :: "'v ctx \<Rightarrow> handle outcome"
  KubeClientGet :: "'v ctx \<Rightarrow> handle outcome"
  InformerLister :: "handle \<Rightarrow> handle"
  CE_JobRuns_of :: "'cl option \<Rightarrow> string \<Rightarrow> ('x JobRun \<Rightarrow> 'w \<Rightarrow> (error + 'x JobRun) \<times> 'w) outcome"
  CE_JobDefinitionLister :: "'di \<Rightarrow> string \<Rightarrow> string \<Rightarrow> error + 'jd"
  CE_JobRunLister :: "'ri \<Rightarrow> string \<Rightarrow> string \<Rightarrow> error + 'x JobRun"
  gocache_New :: "int \<Rightarrow> int \<Rightarrow> string \<Rightarrow> bool"
  NewImpl :: "'v ctx \<Rightarrow> ('x, 'jd, 'w) Reconciler \<Rightarrow> string \<Rightarrow> 'impl outcome"

record ('x, 'jd, 'w, 'ri, 'impl) controller =
  ctl_reconciler :: "('x, 'jd, 'w) Reconciler"
  ctl_impl :: 'impl
  ctl_registrations :: "('x, 'ri, 'impl) registration list"

text \<open>The method \<open>Lister\<close> of an informer that may be a nil interface.\<close>

definition lister_of :: "('i \<Rightarrow> 'l) \<Rightarrow> 'i option \<Rightarrow> 'l outcome" where
  "lister_of lister i = (case i of None \<Rightarrow> Panic NilDereference | Some x \<Rightarrow> Return (lister x))"

definition NewController ::
    "'z schema_lib_scheme \<Rightarrow>
       (('cl, 'di, 'ri, 'c inj_any) ce_any, 'x, 'jd, 'w, 'cl, 'di, 'ri, 'impl) controller_lib \<Rightarrow>
       (nat \<Rightarrow> indexer) \<Rightarrow> ('c task_lister \<Rightarrow> string \<Rightarrow> string \<Rightarrow> (error + CodeEngineTask) outcome) \<Rightarrow>
       ('cl, 'di, 'ri, 'c) app_ctx \<Rightarrow> 'c inj_world \<Rightarrow>
       ('x, 'jd, 'w, 'ri, 'impl) controller outcome \<times> 'c inj_world" where
  "NewController L CL getIndexer answers ctx w =
     (case RunInformerGet CL ctx of Panic p \<Rightarrow> (Panic p, w) | Return runInformer \<Rightarrow>
     (case SecretInformerGet CL ctx of Panic p \<Rightarrow> (Panic p, w) | Return secretInformer \<Rightarrow>
     (case informer_Get ctx of Panic p \<Rightarrow> (Panic p, w) | Return taskInformer \<Rightarrow>
     (case GetJobDefinitionInformer ctx of Panic p \<Rightarrow> (Panic p, w) | Return jobDefinitionInformer \<Rightarrow>
     (case GetJobRunInformer ctx of Panic p \<Rightarrow> (Panic p, w) | Return jobRunInformer \<Rightarrow>
     (case GetJobRunsClient (CE_JobRuns_of CL) ctx of Panic p \<Rightarrow> (Panic p, w) | Return jobRunsClient \<Rightarrow>
     (case GetNamespace ctx of Panic p \<Rightarrow> (Panic p, w) | Return codeEngineNamespace \<Rightarrow>
     (case KubeClientGet CL ctx of Panic p \<Rightarrow> (Panic p, w) | Return kubeclient \<Rightarrow>
     (let (taskLister, w1) = task_informer_Lister getIndexer taskInformer w in
     (case lister_of (CE_JobRunLister CL) jobRunInformer of Panic p \<Rightarrow> (Panic p, w1) | Return jobRunLister \<Rightarrow>
     (case lister_of (CE_JobDefinitionLister CL) jobDefinitionInformer of
        Panic p \<Rightarrow> (Panic p, w1) | Return jobDefinitionLister \<Rightarrow>
     (let r = \<lparr>r_kubeclient = kubeclient,
               r_runLister = InformerLister CL runInformer,
               r_secretLister = InformerLister CL secretInformer,
               r_taskLister = answers taskLister,
               r_jobDefinitionLister = jobDefinitionLister,
               r_jobRunLister = jobRunLister,
               r_jobRunsClient = jobRunsClient,
               r_codeEngineNamespace = codeEngineNamespace,
               r_createdJobRuns = gocache_New CL 300000000000 300000000000\<rparr> in
     (case NewImpl CL ctx r ''run-code-engine-task'' of Panic p \<Rightarrow> (Panic p, w1) | Return impl \<Rightarrow>
        (Return
           \<lparr>ctl_reconciler = r, ctl_impl = impl,
            ctl_registrations =
              [RegisterRuns runInformer (GV_String L SchemeGroupVersion) CustomTaskKind impl,
               RegisterJobRuns (the jobRunInformer) filterJobRunRef (jobRunEnqueueFunc impl)]\<rparr>, w1))))))))))))))"

end
