(* ===== verification/FactoryRuns.thy ===== *)
theory FactoryRuns
  imports InformerFactory
begin

text \<open>
  The informer factory over any sequence of requests and starts, as a step relation with its
  invariant: at most one informer per type, and every informer runs at most once, however often
  and in whatever order \<open>Start\<close> visits the map.
\<close>

section \<open>One call of \<open>Start\<close>\<close>

definition pending :: "'cl sharedInformerFactory \<Rightarrow> rtype list \<Rightarrow> rtype list" where
  "pending f order = filter (\<lambda>t. f_informers f t \<noteq> None \<and> \<not> f_startedInformers f t) order"

lemma Start_eq:
  assumes "distinct order"
  shows "Start stopCh order f w =
    (f\<lparr>f_startedInformers := (\<lambda>t. f_startedInformers f t \<or> t \<in> set (pending f order))\<rparr>,
     w\<lparr>w_run := w_run w @ map (\<lambda>t. (the (f_informers f t), stopCh)) (pending f order)\<rparr>)"
  using assms
proof (induction order arbitrary: f w)
  case Nil
  then show ?case by (simp add: pending_def)
next
  case (Cons t order)
  show ?case
  proof (cases "f_informers f t = None \<or> f_startedInformers f t")
    case True
    with Cons show ?thesis by (auto simp: pending_def split: option.split)
  next
    case False
    then obtain i where i: "f_informers f t = Some i" "\<not> f_startedInformers f t" by auto
    define f1 where "f1 = f\<lparr>f_startedInformers := (f_startedInformers f)(t := True)\<rparr>"
    have pend: "pending f1 order = pending f order"
      using Cons.prems by (auto simp: pending_def f1_def intro: filter_cong)
    have started: "(\<lambda>u. f_startedInformers f1 u \<or> u \<in> set (pending f1 order)) =
        (\<lambda>u. f_startedInformers f u \<or> u \<in> set (pending f (t # order)))"
      using i by (auto simp: pend f1_def) (auto simp: pending_def)
    have "Start stopCh (t # order) f w = Start stopCh order f1 (w\<lparr>w_run := w_run w @ [(i, stopCh)]\<rparr>)"
      using i by (simp add: f1_def)
    also have "\<dots> = (f1\<lparr>f_startedInformers := (\<lambda>u. f_startedInformers f1 u \<or> u \<in> set (pending f1 order))\<rparr>,
        w\<lparr>w_run := w_run w @ (i, stopCh) # map (\<lambda>u. (the (f_informers f u), stopCh)) (pending f1 order)\<rparr>)"
      using Cons.IH [of f1] Cons.prems by (simp add: f1_def)
    also have "\<dots> = (f\<lparr>f_startedInformers := (\<lambda>u. f_startedInformers f u \<or> u \<in> set (pending f (t # order)))\<rparr>,
        w\<lparr>w_run := w_run w @ map (\<lambda>u. (the (f_informers f u), stopCh)) (pending f (t # order))\<rparr>)"
      unfolding started using i by (simp add: f1_def pend [unfolded f1_def]) (simp add: pending_def)
    finally show ?thesis .
  qed
qed

section \<open>The machine\<close>

text \<open>A \<open>NewInformerFunc\<close> makes one new informer and does nothing else.\<close>

definition makes_one :: "'cl new_informer_func \<Rightarrow> bool" where
  "makes_one newFunc \<longleftrightarrow>
     (\<forall>c p w. \<exists>x. newFunc c p w = (length (w_made w), w\<lparr>w_made := w_made w @ [x]\<rparr>))"

lemma makes_one_defaultInformer: "makes_one (defaultInformer i)"
  unfolding makes_one_def defaultInformer_def NewFilteredCodeEngineTaskInformer_def
    NewSharedIndexInformer_def by blast

inductive factory_step ::
    "'cl sharedInformerFactory \<times> 'cl world \<Rightarrow> 'cl sharedInformerFactory \<times> 'cl world \<Rightarrow> bool" where
  request: "makes_one newFunc \<Longrightarrow> InformerFor f t newFunc w = (i, f', w') \<Longrightarrow>
    factory_step (f, w) (f', w')"
| start: "distinct order \<Longrightarrow> set order = dom (f_informers f) \<Longrightarrow>
    Start stopCh order f w = (f', w') \<Longrightarrow> factory_step (f, w) (f', w')"
| elsewhere: "factory_step (f, w) (f, w\<lparr>w_made := w_made w @ xs\<rparr>)"

inductive factory_steps ::
    "'cl sharedInformerFactory \<times> 'cl world \<Rightarrow> 'cl sharedInformerFactory \<times> 'cl world \<Rightarrow> bool" where
  steps_refl: "factory_steps s s"
| steps_step: "factory_steps s t \<Longrightarrow> factory_step t u \<Longrightarrow> factory_steps s u"

definition factory_inv :: "'cl sharedInformerFactory \<times> 'cl world \<Rightarrow> bool" where
  "factory_inv s \<longleftrightarrow> (case s of (f, w) \<Rightarrow>
     (\<forall>t i. f_informers f t = Some i \<longrightarrow> i < length (w_made w)) \<and>
     (\<forall>t t' i. f_informers f t = Some i \<longrightarrow> f_informers f t' = Some i \<longrightarrow> t = t') \<and>
     (\<forall>t. f_startedInformers f t \<longrightarrow> t \<in> dom (f_informers f)) \<and>
     distinct (map fst (w_run w)) \<and>
     set (map fst (w_run w)) = {i. \<exists>t. f_startedInformers f t \<and> f_informers f t = Some i})"

lemma factory_invD:
  assumes "factory_inv (f, w)"
  shows "f_informers f t = Some i \<Longrightarrow> i < length (w_made w)"
    and "f_informers f t = Some i \<Longrightarrow> f_informers f t' = Some i \<Longrightarrow> t = t'"
    and "f_startedInformers f t \<Longrightarrow> \<exists>i. f_informers f t = Some i"
    and "distinct (map fst (w_run w))"
    and "set (map fst (w_run w)) = {i. \<exists>t. f_startedInformers f t \<and> f_informers f t = Some i}"
  using assms by (auto simp: factory_inv_def)

lemma factory_inv_request:
  assumes inv: "factory_inv (f, w)" and one: "makes_one newFunc"
    and call: "InformerFor f t newFunc w = (i, f', w')"
  shows "factory_inv (f', w')"
proof (cases "f_informers f t")
  case (Some j)
  with call inv show ?thesis by (simp add: InformerFor_def)
next
  case None
  define p where "p = (case f_customResync f t of Some p \<Rightarrow> p | None \<Rightarrow> f_defaultResync f)"
  obtain x where "newFunc (f_client f) p w = (length (w_made w), w\<lparr>w_made := w_made w @ [x]\<rparr>)"
    using one unfolding makes_one_def by blast
  with call None have f': "f' = f\<lparr>f_informers := (f_informers f)(t \<mapsto> length (w_made w))\<rparr>"
    and w': "w' = w\<lparr>w_made := w_made w @ [x]\<rparr>"
    by (auto simp: InformerFor_def p_def Let_def)
  have fresh: "\<not> f_startedInformers f t" using factory_invD(3) [OF inv, of t] None by auto
  have old: "f_informers f u = Some j \<Longrightarrow> j < length (w_made w)" for u j
    using factory_invD(1) [OF inv] .
  then have unused: "f_informers f u \<noteq> Some (length (w_made w))" for u by blast
  have runs: "{i. \<exists>u. f_startedInformers f u \<and> f_informers f' u = Some i} =
      {i. \<exists>u. f_startedInformers f u \<and> f_informers f u = Some i}"
    using fresh by (auto simp: f')
  show ?thesis
    using factory_invD [OF inv] old runs
    by (auto simp: factory_inv_def f' w' less_Suc_eq unused)
qed

lemma factory_inv_start:
  assumes inv: "factory_inv (f, w)" and order: "distinct order" "set order = dom (f_informers f)"
    and call: "Start stopCh order f w = (f', w')"
  shows "factory_inv (f', w')"
    and "f_informers f' t = Some i \<Longrightarrow> f_startedInformers f' t"
proof -
  from call have f': "f' = f\<lparr>f_startedInformers := (\<lambda>t. f_startedInformers f t \<or> t \<in> set (pending f order))\<rparr>"
    and w': "w' = w\<lparr>w_run := w_run w @ map (\<lambda>t. (the (f_informers f t), stopCh)) (pending f order)\<rparr>"
    by (simp_all add: Start_eq [OF order(1)])
  have pend: "t \<in> set (pending f order) \<longleftrightarrow> f_informers f t \<noteq> None \<and> \<not> f_startedInformers f t" for t
    using order(2) by (auto simp: pending_def)
  have inj: "inj_on (\<lambda>t. the (f_informers f t)) (set (pending f order))"
    using factory_invD(2) [OF inv] by (auto simp: inj_on_def pend)
  have "distinct (pending f order)" using order(1) by (simp add: pending_def)
  with inj have d: "distinct (map (\<lambda>t. the (f_informers f t)) (pending f order))"
    by (simp add: distinct_map)
  have disj: "set (map fst (w_run w)) \<inter> set (map (\<lambda>t. the (f_informers f t)) (pending f order)) = {}"
    unfolding factory_invD(5) [OF inv] by (auto simp: pend dest: factory_invD(2) [OF inv])
  have runs: "set (map fst (w_run w')) = {i. \<exists>t. f_startedInformers f' t \<and> f_informers f' t = Some i}"
  proof -
    have new: "(\<lambda>t. the (f_informers f t)) ` set (pending f order) =
        {i. \<exists>t. t \<in> set (pending f order) \<and> f_informers f t = Some i}"
      by (force simp: pend)
    have "set (map fst (w_run w')) =
        set (map fst (w_run w)) \<union> (\<lambda>t. the (f_informers f t)) ` set (pending f order)"
      by (simp add: w' image_Un image_image)
    then show ?thesis unfolding new factory_invD(5) [OF inv] by (auto simp: f')
  qed
  have "distinct (map fst (w_run w'))"
    using factory_invD(4) [OF inv] d disj by (simp add: w' comp_def)
  moreover have "f_informers f' = f_informers f" and "w_made w' = w_made w" by (simp_all add: f' w')
  moreover have "f_startedInformers f' t \<Longrightarrow> t \<in> dom (f_informers f)" for t
    using factory_invD(3) [OF inv] by (auto simp: f' pend)
  ultimately show "factory_inv (f', w')"
    using factory_invD(1,2) [OF inv] runs unfolding factory_inv_def prod.case by metis
  show "f_startedInformers f' t" if "f_informers f' t = Some i"
    using that by (simp add: f' pend)
qed

lemma factory_step_inv: "factory_step s t \<Longrightarrow> factory_inv s \<Longrightarrow> factory_inv t"
proof (induction rule: factory_step.induct)
  case (request newFunc f t w i f' w')
  then show ?case using factory_inv_request by blast
next
  case (start order f stopCh w f' w')
  then show ?case using factory_inv_start(1) by blast
next
  case (elsewhere f w xs)
  then show ?case by (fastforce simp: factory_inv_def)
qed

lemma factory_steps_inv: "factory_steps s t \<Longrightarrow> factory_inv s \<Longrightarrow> factory_inv t"
  by (induction rule: factory_steps.induct) (auto intro: factory_step_inv)

text \<open>A registered informer stays registered, and stays started.\<close>

lemma factory_step_grows:
  assumes "factory_step (f, w) (f', w')"
  shows "f_informers f t = Some i \<Longrightarrow> f_informers f' t = Some i"
  using assms
proof (cases rule: factory_step.cases)
  case (request newFunc u j)
  then show "f_informers f t = Some i \<Longrightarrow> f_informers f' t = Some i"
    using shared.keeps_registered [OF request(2)] by blast
next
  case (start order stopCh)
  then show "f_informers f t = Some i \<Longrightarrow> f_informers f' t = Some i"
    by (auto simp: Start_eq)
qed simp_all

lemma factory_steps_grows:
  "factory_steps s s' \<Longrightarrow> f_informers (fst s) t = Some i \<Longrightarrow> f_informers (fst s') t = Some i"
  by (induction rule: factory_steps.induct) (metis factory_step_grows prod.collapse)+

text \<open>A new factory, whatever its options, has no informers.\<close>

definition plain_option :: "'cl SharedInformerOption \<Rightarrow> bool" where
  "plain_option opt \<longleftrightarrow>
     (\<forall>f. f_informers (opt f) = f_informers f \<and> f_startedInformers (opt f) = f_startedInformers f \<and>
        f_client (opt f) = f_client f)"

lemma WithCustomResyncConfig_frame:
  "f_informers (WithCustomResyncConfig cfg f) = f_informers f"
  "f_startedInformers (WithCustomResyncConfig cfg f) = f_startedInformers f"
  "f_client (WithCustomResyncConfig cfg f) = f_client f"
  by (induction cfg f rule: WithCustomResyncConfig.induct) simp_all

lemma plain_options [simp]:
  "plain_option (WithNamespace ns)" "plain_option (WithTweakListOptions tw)"
  "plain_option (WithCustomResyncConfig cfg)"
  by (simp_all add: plain_option_def WithNamespace_def WithTweakListOptions_def
      WithCustomResyncConfig_frame)

lemma foldl_options:
  assumes "list_all plain_option options"
  shows "f_informers (foldl (\<lambda>f opt. opt f) f options) = f_informers f \<and>
    f_startedInformers (foldl (\<lambda>f opt. opt f) f options) = f_startedInformers f \<and>
    f_client (foldl (\<lambda>f opt. opt f) f options) = f_client f"
  using assms by (induction options arbitrary: f) (simp_all add: plain_option_def)

lemma NewFactory_inv:
  assumes "list_all plain_option options"
  shows "factory_inv (NewSharedInformerFactoryWithOptions c d options, \<lparr>w_made = xs, w_run = []\<rparr>)"
    and "f_client (NewSharedInformerFactoryWithOptions c d options) = c"
  using foldl_options [OF assms]
  by (simp_all add: factory_inv_def NewSharedInformerFactoryWithOptions_def)

section \<open>Properties\<close>

lemma distinct_singleton_set: "distinct xs \<Longrightarrow> set xs = {x} \<Longrightarrow> xs = [x]"
  by (cases xs) (auto simp: subset_singleton_iff)

text \<open>
  C33: over any sequence of requests and starts of a new factory, every informer runs at most once
  and only registered ones run; a type never gets a second informer; and after one more
  \<open>Start\<close>, in whatever order it visits the map, every registered informer is running.
\<close>

theorem informers_run_at_most_once:
  assumes "list_all plain_option options"
    and "factory_steps (NewSharedInformerFactoryWithOptions c d options, \<lparr>w_made = xs, w_run = []\<rparr>) (f, w)"
    and "factory_steps (f, w) (f1, w1)"
    and "distinct order" and "set order = dom (f_informers f1)"
    and "Start stopCh order f1 w1 = (f2, w2)"
  shows "distinct (map fst (w_run w2)) \<and>
    set (map fst (w_run w2)) = {i. \<exists>t. f_informers f2 t = Some i} \<and>
    (\<forall>t i. f_informers f t = Some i \<longrightarrow> f_informers f2 t = Some i)"
proof -
  have inv: "factory_inv (f1, w1)"
    by (rule factory_steps_inv [OF assms(3) factory_steps_inv [OF assms(2) NewFactory_inv(1) [OF assms(1)]]])
  note S = factory_inv_start [OF inv assms(4-6)]
  have "f_informers f2 = f_informers f1" using assms(6) by (auto simp: Start_eq [OF assms(4)])
  moreover have "{i. \<exists>t. f_startedInformers f2 t \<and> f_informers f2 t = Some i} =
      {i. \<exists>t. f_informers f2 t = Some i}"
    using S(2) by blast
  ultimately show ?thesis
    using factory_steps_grows [OF assms(3)] factory_invD(4,5) [OF S(1)] by simp
qed

text \<open>
  A factory whose task informer is requested, started, requested again and started again: its one
  informer runs once.
\<close>

lemma informers_run_at_most_once_witness:
  "let f0 = NewSharedInformerFactoryWithOptions ''client'' 36000 [WithNamespace ''ns''];
       access = CodeEngineTasks (V1alpha1 (Custom f0));
       (i, f1, w1) = Informer access f0 \<lparr>w_made = [], w_run = []\<rparr>;
       (f2, w2) = Start ''stop'' [PtrTo CodeEngineTaskType] f1 w1;
       (i', f3, w3) = Informer access f2 w2;
       (f4, w4) = Start ''stop'' [PtrTo CodeEngineTaskType] f3 w3
   in map fst (w_run w4) = [i] \<and> i' = i \<and> length (w_made w4) = 1"
proof -
  let ?t = "PtrTo CodeEngineTaskType"
  define f0 where "f0 = NewSharedInformerFactoryWithOptions ''client'' 36000 [WithNamespace ''ns'']"
  define access where "access = CodeEngineTasks (V1alpha1 (Custom f0))"
  obtain i f1 w1 where r1: "Informer access f0 \<lparr>w_made = [], w_run = []\<rparr> = (i, f1, w1)" by (metis prod.exhaust)
  obtain f2 w2 where s1: "Start ''stop'' [?t] f1 w1 = (f2, w2)" by (rule prod.exhaust)
  obtain i' f3 w3 where r2: "Informer access f2 w2 = (i', f3, w3)" by (metis prod.exhaust)
  obtain f4 w4 where s2: "Start ''stop'' [?t] f3 w3 = (f4, w4)" by (rule prod.exhaust)
  have new: "f_informers f0 = Map.empty" "f_startedInformers f0 = (\<lambda>_. False)"
    by (simp_all add: f0_def NewSharedInformerFactoryWithOptions_def WithNamespace_def)
  have one: "i = 0" "f_informers f1 = [?t \<mapsto> 0]" "length (w_made w1) = 1"
    using r1 by (auto simp: Informer_def InformerFor_def defaultInformer_def
        NewFilteredCodeEngineTaskInformer_def NewSharedIndexInformer_def new)
  have two: "f_informers f2 = [?t \<mapsto> 0]" "w_made w2 = w_made w1"
    using s1 one(2) by (auto split: if_splits)
  have three: "i' = 0" "f3 = f2" "w3 = w2" using r2 two(1) by (auto simp: Informer_def InformerFor_def)
  have four: "f_informers f4 = [?t \<mapsto> 0]" "w_made w4 = w_made w1"
    using s2 two by (auto simp: three split: if_splits)
  have order: "distinct [?t]" "set [?t] = dom (f_informers f1)" "set [?t] = dom (f_informers f3)"
    by (simp_all add: one(2) two(1) three)
  note request = factory_step.request [OF makes_one_defaultInformer]
  have "factory_step (f0, \<lparr>w_made = [], w_run = []\<rparr>) (f1, w1)" "factory_step (f2, w2) (f3, w3)"
    by (rule request [OF r1 [unfolded Informer_def]], rule request [OF r2 [unfolded Informer_def]])
  moreover have "factory_step (f1, w1) (f2, w2)" by (rule factory_step.start [OF order(1,2) s1])
  ultimately have steps: "factory_steps (f0, \<lparr>w_made = [], w_run = []\<rparr>) (f2, w2)"
      "factory_steps (f2, w2) (f3, w3)"
    by (meson steps_refl steps_step)+
  have plain: "list_all plain_option [WithNamespace ''ns'' :: string SharedInformerOption]" by simp
  have "distinct (map fst (w_run w4)) \<and> set (map fst (w_run w4)) = {0}"
    using informers_run_at_most_once [OF plain steps(1) [unfolded f0_def] steps(2) order(1,3) s2]
    by (simp add: four(1))
  then have "map fst (w_run w4) = [0]"
    by (elim conjE) (rule distinct_singleton_set)
  then show ?thesis
    unfolding Let_def f0_def [symmetric] access_def [symmetric] r1 prod.case s1 r2 s2
    using one three four(2) by simp
qed

text \<open>
  The task informer of a factory with a namespace and list options: it is made once, with the
  default resync period and the namespace index, it lists and watches in that namespace with the
  tweaked options, and later requests return it unchanged.
\<close>

theorem task_informer_of_factory:
  "let f = NewFilteredSharedInformerFactory client resync ns tweak;
       access = CodeEngineTasks (V1alpha1 (Custom f));
       (i, f1, w1) = Informer access f w
   in i = length (w_made w) \<and> w_run w1 = w_run w \<and>
      (\<exists>inf lw. w_made w1 = w_made w @ [inf] \<and> si_ListerWatcher inf = Some lw \<and>
         ListFunc lw \<sigma> options = ListCall client ns (apply_tweak tweak \<sigma> options) \<and>
         WatchFunc lw \<sigma> options = WatchCall client ns (apply_tweak tweak \<sigma> options) \<and>
         si_Object inf = PtrTo CodeEngineTaskType \<and> si_Resync inf = resync \<and>
         si_Indexers inf = NamespaceIndexers) \<and>
      Informer access f1 w2 = (i, f1, w2) \<and>
      Lister getIndexer access f1 w2 = (NewCodeEngineTaskLister (getIndexer i), f1, w2)"
  by (simp add: NewFilteredSharedInformerFactory_def NewSharedInformerFactoryWithOptions_def
      WithNamespace_def WithTweakListOptions_def Informer_def InformerFor_def defaultInformer_def
      NewFilteredCodeEngineTaskInformer_def NewSharedIndexInformer_def Lister_def Custom_def
      V1alpha1_def CodeEngineTasks_def)

text \<open>
  \<open>ForResource\<close> answers for the one resource of the API group, with the very informer the typed
  accessor gives, and reports every other resource as an error without touching the factory.
\<close>

theorem for_resource_shares_informer:
  assumes "schema_laws L" and "Informer (CodeEngineTasks (V1alpha1 (Custom f))) f w = (i, f1, w1)"
  shows "ForResource L \<lparr>gvr_Group = ''custom.tekton.dev'', gvr_Version = ''v1alpha1'',
      gvr_Resource = ''codeenginetasks''\<rparr> f w =
      (Inr \<lparr>gi_informer = i, gi_resource = \<lparr>gr_Group = ''custom.tekton.dev'',
         gr_Resource = ''codeenginetasks''\<rparr>\<rparr>, f1, w1) \<and>
    (\<forall>r. r \<noteq> \<lparr>gvr_Group = ''custom.tekton.dev'', gvr_Version = ''v1alpha1'',
        gvr_Resource = ''codeenginetasks''\<rparr> \<longrightarrow>
      ForResource L r f w = (Inl (Errorf ''no informer found for %v'' [ArgStr (GVR_String L r)]), f, w))"
proof -
  have "WithResource L SchemeGroupVersion ''codeenginetasks'' = \<lparr>gvr_Group = ''custom.tekton.dev'',
      gvr_Version = ''v1alpha1'', gvr_Resource = ''codeenginetasks''\<rparr>"
    using assms(1) by (simp add: schema_laws_def SchemeGroupVersion_def GroupName_def)
  then show ?thesis using assms by (simp add: ForResource_def schema_laws_def)
qed

text \<open>A schema library, for the witness.\<close>

definition plain_schema :: schema_lib where
  "plain_schema =
     \<lparr>GV_String = (\<lambda>gv. gv_Group gv @ ''/'' @ gv_Version gv),
      WithKind = (\<lambda>gv k. \<lparr>gvk_Group = gv_Group gv, gvk_Version = gv_Version gv, gvk_Kind = k\<rparr>),
      WithResource = (\<lambda>gv r. \<lparr>gvr_Group = gv_Group gv, gvr_Version = gv_Version gv, gvr_Resource = r\<rparr>),
      GVK_GroupKind = (\<lambda>k. \<lparr>gk_Group = gvk_Group k, gk_Kind = gvk_Kind k\<rparr>),
      GVR_GroupResource = (\<lambda>r. \<lparr>gr_Group = gvr_Group r, gr_Resource = gvr_Resource r\<rparr>),
      GVR_String = gvr_Resource,
      NewNotFound = (\<lambda>gr n. Foreign n),
      IsNotFound = (\<lambda>e. True)\<rparr>"

lemma plain_schema_laws: "schema_laws plain_schema"
  by (simp add: schema_laws_def plain_schema_def)

lemma for_resource_shares_informer_witness:
  "\<exists>f1 w1. ForResource plain_schema \<lparr>gvr_Group = ''custom.tekton.dev'', gvr_Version = ''v1alpha1'',
      gvr_Resource = ''codeenginetasks''\<rparr> (NewSharedInformerFactory ''client'' 36000)
      \<lparr>w_made = [], w_run = []\<rparr> =
    (Inr \<lparr>gi_informer = 0, gi_resource = \<lparr>gr_Group = ''custom.tekton.dev'',
       gr_Resource = ''codeenginetasks''\<rparr>\<rparr>, f1, w1)"
proof -
  let ?f = "NewSharedInformerFactory ''client'' 36000"
  obtain f1 w1 where "Informer (CodeEngineTasks (V1alpha1 (Custom ?f))) ?f \<lparr>w_made = [], w_run = []\<rparr> =
      (0, f1, w1)"
    by (simp add: NewSharedInformerFactory_def NewSharedInformerFactoryWithOptions_def Informer_def
        InformerFor_def defaultInformer_def NewFilteredCodeEngineTaskInformer_def
        NewSharedIndexInformer_def)
  from for_resource_shares_informer [OF plain_schema_laws this] show ?thesis by blast
qed

end
