(* ===== verification/InjectionRuns.thy ===== *)
theory InjectionRuns
  imports TaskInformers FactoryRuns
begin

text \<open>
  What the injection glue gives its users: the getters return what was injected, the injected task
  informer is the one of the injected factory, and what the filtered factories do with their
  selectors.
\<close>

section \<open>The slots of the injection packages\<close>

interpretation factory_slot: context_slot FactoryKey
    "\<lambda>ctx f. WithValue ctx FactoryKey (AnyForeign (AnyFactory f))" factory_Get Return
  by unfold_locales (simp_all add: factory_Get_def)

interpretation selectors_slot: context_slot LabelKey WithSelectors label_selectors Return
  by unfold_locales (simp_all add: label_selectors_def WithSelectors_def)

interpretation filtered_factory_slot: context_slot "FilteredFactoryKey selector"
    "\<lambda>ctx f. WithValue ctx (FilteredFactoryKey selector) (AnyForeign (AnyFactory f))"
    "\<lambda>ctx. filtered_factory_Get ctx selector" Return for selector
  by unfold_locales (simp_all add: filtered_factory_Get_def)

interpretation task_informer_slot: context_slot TaskInformerKey
    "\<lambda>ctx i. WithValue ctx TaskInformerKey (AnyForeign (AnyTaskInformer i))" informer_Get Return
  by unfold_locales (simp_all add: informer_Get_def)

interpretation filtered_task_informer_slot: context_slot "FilteredTaskInformerKey selector"
    "\<lambda>ctx i. WithValue ctx (FilteredTaskInformerKey selector) (AnyForeign (AnyTaskInformer i))"
    "\<lambda>ctx. filtered_informer_Get ctx selector" Return for selector
  by unfold_locales (simp_all add: filtered_informer_Get_def)

text \<open>
  knative's injection package reads its own keys only, so the bindings of this program do not
  change what it answers.
\<close>

fun own_key :: "ctx_key \<Rightarrow> bool" where
  "own_key (OtherKey _) = False"
| "own_key _ = True"

definition injection_laws :: "('v, 'cfg, 'dyn) injection_lib \<Rightarrow> bool" where
  "injection_laws I \<longleftrightarrow>
     (\<forall>ctx k v. own_key k \<longrightarrow>
        HasNamespaceScope I (WithValue ctx k v) = HasNamespaceScope I ctx \<and>
        GetNamespaceScope I (WithValue ctx k v) = GetNamespaceScope I ctx \<and>
        GetResyncPeriod I (WithValue ctx k v) = GetResyncPeriod I ctx \<and>
        GetInjectionConfig I (WithValue ctx k v) = GetInjectionConfig I ctx \<and>
        GetResourceVersion I (WithValue ctx k v) = GetResourceVersion I ctx)"

lemma injection_scope:
  assumes "injection_laws I" and "own_key k"
  shows "scope_options I (WithValue ctx k v) = scope_options I ctx"
    and "GetResyncPeriod I (WithValue ctx k v) = GetResyncPeriod I ctx"
  using assms by (simp_all add: injection_laws_def scope_options_def)

text \<open>The namespace that the factories are restricted to; the empty one is all namespaces.\<close>

definition scope_namespace :: "('v, 'cfg, 'dyn) injection_lib \<Rightarrow> 'v ctx \<Rightarrow> string" where
  "scope_namespace I ctx = (if HasNamespaceScope I ctx then GetNamespaceScope I ctx else [])"

definition scoped_factory ::
    "('v, 'cfg, 'dyn) injection_lib \<Rightarrow> 'v ctx \<Rightarrow> 'c \<Rightarrow> tweak option \<Rightarrow> 'c sharedInformerFactory" where
  "scoped_factory I ctx c tweak =
     \<lparr>f_client = c, f_namespace = scope_namespace I ctx, f_tweakListOptions = tweak,
      f_defaultResync = GetResyncPeriod I ctx, f_customResync = Map.empty,
      f_informers = Map.empty, f_startedInformers = (\<lambda>_. False)\<rparr>"

lemma scoped_factory:
  "NewSharedInformerFactoryWithOptions c (GetResyncPeriod I ctx) (scope_options I ctx) =
     scoped_factory I ctx c None"
  "NewSharedInformerFactoryWithOptions c (GetResyncPeriod I ctx)
       (scope_options I ctx @ [WithTweakListOptions (Some tw)]) = scoped_factory I ctx c (Some tw)"
  by (simp_all add: NewSharedInformerFactoryWithOptions_def scope_options_def scoped_factory_def
      scope_namespace_def WithNamespace_def WithTweakListOptions_def)

text \<open>The informer that a scoped factory makes on the first request.\<close>

definition scoped_informer ::
    "('v, 'cfg, 'dyn) injection_lib \<Rightarrow> 'v ctx \<Rightarrow> 'c \<Rightarrow> tweak option \<Rightarrow> 'c shared_informer" where
  "scoped_informer I ctx c tweak =
     \<lparr>si_ListerWatcher = Some
        \<lparr>ListFunc = (\<lambda>\<sigma> options. ListCall c (scope_namespace I ctx) (apply_tweak tweak \<sigma> options)),
         WatchFunc = (\<lambda>\<sigma> options. WatchCall c (scope_namespace I ctx) (apply_tweak tweak \<sigma> options))\<rparr>,
      si_Object = PtrTo CodeEngineTaskType, si_Resync = GetResyncPeriod I ctx,
      si_Indexers = NamespaceIndexers\<rparr>"

abbreviation task_access :: "'c sharedInformerFactory \<Rightarrow> access" where
  "task_access f \<equiv> CodeEngineTasks (V1alpha1 (Custom f))"

lemma scoped_factory_Informer:
  "Informer (task_access (scoped_factory I ctx c tweak)) (scoped_factory I ctx c tweak) u =
     (length (w_made u),
      (scoped_factory I ctx c tweak)\<lparr>f_informers := [PtrTo CodeEngineTaskType \<mapsto> length (w_made u)]\<rparr>,
      u\<lparr>w_made := w_made u @ [scoped_informer I ctx c tweak]\<rparr>)"
  by (simp add: scoped_factory_def scoped_informer_def Informer_def InformerFor_def defaultInformer_def
      NewFilteredCodeEngineTaskInformer_def NewSharedIndexInformer_def Custom_def V1alpha1_def
      CodeEngineTasks_def)

section \<open>The injected informer\<close>

definition sample_injection :: "(('cl, 'di, 'ri, 'o) ce_any, string, string) injection_lib" where
  "sample_injection =
     \<lparr>HasNamespaceScope = (\<lambda>ctx. True), GetNamespaceScope = (\<lambda>ctx. ''scope''),
      GetResyncPeriod = (\<lambda>ctx. 36000), GetInjectionConfig = (\<lambda>ctx. Some ''config''),
      GetResourceVersion = (\<lambda>ctx. ''7''), DynamicClientGet = (\<lambda>ctx. Return ''dynamic'')\<rparr>"

lemma sample_injection_laws: "injection_laws sample_injection"
  by (simp add: injection_laws_def sample_injection_def)

definition empty_world :: "'c inj_world" where
  "empty_world = \<lparr>iw_informers = \<lparr>w_made = [], w_run = []\<rparr>, iw_factories = [], iw_store = (\<lambda>_. []), iw_fresh = 0\<rparr>"

definition client_ctx :: "'c \<Rightarrow> ('cl, 'di, 'ri, 'c) app_ctx" where
  "client_ctx c = [(ClientKey, AnyForeign (AnyClient c))]"

lemma client_Get_client_ctx [simp]: "client_Get I (client_ctx c) = Return c"
  by (simp add: client_Get_def client_ctx_def Value_def)

definition sample_ctx :: "(string, string, string, string) app_ctx" where
  "sample_ctx = client_ctx ''client''"

lemma client_Get_sample_ctx [simp]: "client_Get I sample_ctx = Return ''client''"
  by (simp add: sample_ctx_def)

text \<open>
  The informer of the injected factory; other injectors may work in between, as long as they leave
  the keys of the factory and of the informer alone.
\<close>

lemma injected_informer:
  assumes client: "client_Get I ctx = Return c"
    and factory: "withInformerFactory I ctx w = (Return ctx1, w1)"
    and between: "Value ctx1' FactoryKey = Value ctx1 FactoryKey"
    and informer: "withInformer ctx1' w1 = (Return (ctx2, i), w2)"
    and later: "Value ctx3 TaskInformerKey = Value ctx2 TaskInformerKey"
  shows "\<exists>ti lw. informer_Get ctx3 = Return ti \<and> task_informer_Informer ti w2 = (i, w2) \<and>
    task_informer_Lister getIndexer ti w2 = (IndexerLister (NewCodeEngineTaskLister (getIndexer i)), w2) \<and>
    length (w_made (iw_informers w2)) = Suc (length (w_made (iw_informers w))) \<and>
    si_ListerWatcher (w_made (iw_informers w2) ! i) = Some lw \<and>
    si_Resync (w_made (iw_informers w2) ! i) = GetResyncPeriod I ctx \<and>
    ListFunc lw (iw_store w2) options = ListCall c (scope_namespace I ctx) options \<and>
    WatchFunc lw (iw_store w2) options = WatchCall c (scope_namespace I ctx) options"
proof -
  let ?F = "scoped_factory I ctx c None"
  let ?f = "length (iw_factories w)"
  from client factory have ctx1: "ctx1 = WithValue ctx FactoryKey (AnyForeign (AnyFactory ?f))"
    and w1: "w1 = w\<lparr>iw_factories := iw_factories w @ [?F]\<rparr>"
    by (simp_all add: withInformerFactory_def scoped_factory new_factory_def)
  have get: "factory_Get ctx1' = Return ?f"
    by (rule factory_slot.get_after) (use between ctx1 in simp)
  from informer have ctx2: "ctx2 = WithValue ctx1' TaskInformerKey
        (AnyForeign (AnyTaskInformer (FactoryInformer ?f (task_access ?F))))"
    and i: "i = length (w_made (iw_informers w))"
    and w2: "w2 = w1\<lparr>iw_factories := iw_factories w @
        [?F\<lparr>f_informers := [PtrTo CodeEngineTaskType \<mapsto> i]\<rparr>],
      iw_informers := (iw_informers w)\<lparr>w_made := w_made (iw_informers w) @ [scoped_informer I ctx c None]\<rparr>\<rparr>"
    by (auto simp: withInformer_def get factory_task_informer_def task_informer_Informer_def w1
        scoped_factory_Informer)
  have "informer_Get ctx3 = Return (FactoryInformer ?f (task_access ?F))"
    by (rule task_informer_slot.get_after) (use later ctx2 in simp)
  then show ?thesis
    by (simp add: i w2 task_informer_Informer_def task_informer_Lister_def Lister_def
        Informer_def InformerFor_def scoped_informer_def apply_tweak_def)
qed

text \<open>
  Injecting the factory and then the task informer makes one informer, that lists and watches
  through the injected client in the namespace of the scope with the options it is given; the
  getter returns an informer that stands for it at any later time, also through its lister.
\<close>

theorem injected_task_informer:
  assumes "client_Get I ctx = Return c"
    and factory: "withInformerFactory I ctx w = (Return ctx1, w1)"
    and informer: "withInformer ctx1 w1 = (Return (ctx2, i), w2)"
  shows "\<exists>ti lw. informer_Get ctx2 = Return ti \<and> task_informer_Informer ti w2 = (i, w2) \<and>
    task_informer_Lister getIndexer ti w2 = (IndexerLister (NewCodeEngineTaskLister (getIndexer i)), w2) \<and>
    length (w_made (iw_informers w2)) = Suc (length (w_made (iw_informers w))) \<and>
    si_ListerWatcher (w_made (iw_informers w2) ! i) = Some lw \<and>
    si_Resync (w_made (iw_informers w2) ! i) = GetResyncPeriod I ctx \<and>
    ListFunc lw (iw_store w2) options = ListCall c (scope_namespace I ctx) options \<and>
    WatchFunc lw (iw_store w2) options = WatchCall c (scope_namespace I ctx) options"
  by (rule injected_informer [OF assms(1) factory refl informer refl])

lemma injected_task_informer_witness:
  "\<exists>ctx2 w2 ti. withInformer
      (WithValue sample_ctx FactoryKey (AnyForeign (AnyFactory 0)))
      (empty_world\<lparr>iw_factories := [scoped_factory sample_injection sample_ctx ''client'' None]\<rparr>) =
      (Return (ctx2, 0), w2) \<and> informer_Get ctx2 = Return ti \<and> task_informer_Informer ti w2 = (0, w2)"
proof -
  let ?w1 = "empty_world\<lparr>iw_factories := [scoped_factory sample_injection sample_ctx ''client'' None]\<rparr>"
  have factory: "withInformerFactory sample_injection sample_ctx empty_world =
      (Return (WithValue sample_ctx FactoryKey (AnyForeign (AnyFactory 0))), ?w1)"
    by (simp add: withInformerFactory_def scoped_factory new_factory_def empty_world_def)
  obtain ctx2 w2 where informer: "withInformer (WithValue sample_ctx FactoryKey (AnyForeign (AnyFactory 0))) ?w1 =
      (Return (ctx2, 0), w2)"
    by (simp add: withInformer_def factory_Get_def factory_task_informer_def task_informer_Informer_def
        scoped_factory_Informer empty_world_def)
  from injected_task_informer [OF client_Get_sample_ctx factory informer] informer show ?thesis by blast
qed

section \<open>The filtered factories\<close>

lemma scoped_factory_WithValue:
  "injection_laws I \<Longrightarrow> own_key k \<Longrightarrow>
     scoped_factory I (WithValue ctx k v) c tweak = scoped_factory I ctx c tweak"
  by (simp add: injection_laws_def scoped_factory_def scope_namespace_def)

text \<open>
  The loop: every factory is the same but for its place in the context, since all of them tweak
  through the one cell, and the cell ends with the last selector.
\<close>

lemma filtered_factories_effect:
  assumes "injection_laws I" and "filtered_factories I c cell sels ctx w = (ctx', w')"
  shows "iw_factories w' = iw_factories w @
      replicate (length sels) (scoped_factory I ctx c (Some (selector_tweak cell)))"
    and "sels \<noteq> [] \<Longrightarrow> iw_store w' cell = last sels"
    and "iw_informers w' = iw_informers w" and "iw_fresh w' = iw_fresh w"
    and "s \<in> set sels \<Longrightarrow> \<exists>f. filtered_factory_Get ctx' s = Return f \<and>
      length (iw_factories w) \<le> f \<and> f < length (iw_factories w')"
    and "\<forall>s\<in>set sels. k \<noteq> FilteredFactoryKey s \<Longrightarrow> Value ctx' k = Value ctx k"
proof -
  let ?P = "\<lambda>sels ctx (w :: _ inj_world) ctx' w'. iw_factories w' = iw_factories w @
      replicate (length sels) (scoped_factory I ctx c (Some (selector_tweak cell))) \<and>
    (sels \<noteq> [] \<longrightarrow> iw_store w' cell = last sels) \<and>
    iw_informers w' = iw_informers w \<and> iw_fresh w' = iw_fresh w \<and>
    (\<forall>s\<in>set sels. \<exists>f. filtered_factory_Get ctx' s = Return f \<and>
      length (iw_factories w) \<le> f \<and> f < length (iw_factories w')) \<and>
    (\<forall>k. (\<forall>s\<in>set sels. k \<noteq> FilteredFactoryKey s) \<longrightarrow> Value ctx' k = Value ctx k)"
  have "?P sels ctx w ctx' w'"
    using assms(2)
  proof (induction sels arbitrary: ctx w)
    case Nil
    then show ?case by simp
  next
    case (Cons sel sels)
    define F where "F = scoped_factory I ctx c (Some (selector_tweak cell))"
    define ctx1 where "ctx1 = WithValue ctx (FilteredFactoryKey sel)
      (AnyForeign (AnyFactory (length (iw_factories w))))"
    define w1 where "w1 = w\<lparr>iw_store := (iw_store w)(cell := sel), iw_factories := iw_factories w @ [F]\<rparr>"
    have rest: "filtered_factories I c cell sels ctx1 w1 = (ctx', w')"
      using Cons.prems by (simp add: scoped_factory new_factory_def F_def ctx1_def w1_def)
    have F1: "scoped_factory I ctx1 c (Some (selector_tweak cell)) = F"
      unfolding ctx1_def F_def by (rule scoped_factory_WithValue [OF assms(1)]) simp
    note IH = Cons.IH [OF rest, unfolded F1]
    have cell: "sels = [] \<Longrightarrow> iw_store w' cell = sel" using rest by (auto simp: w1_def)
    have here: "\<exists>f. filtered_factory_Get ctx' sel = Return f \<and> length (iw_factories w) \<le> f \<and>
        f < length (iw_factories w')"
    proof (cases "sel \<in> set sels")
      case True
      with IH show ?thesis by (force simp: w1_def)
    next
      case False
      then have "Value ctx' (FilteredFactoryKey sel) = Value ctx1 (FilteredFactoryKey sel)"
        using IH by auto
      then have "filtered_factory_Get ctx' sel = Return (length (iw_factories w))"
        using filtered_factory_slot.get_after unfolding ctx1_def by blast
      with IH show ?thesis by (simp add: w1_def)
    qed
    have there: "\<exists>f. filtered_factory_Get ctx' s = Return f \<and> length (iw_factories w) \<le> f \<and>
        f < length (iw_factories w')" if "s \<in> set sels" for s
      using IH that by (force simp: w1_def)
    show ?case
      using IH cell here there by (auto simp: w1_def ctx1_def F_def [symmetric])
  qed
  then show "iw_factories w' = iw_factories w @
      replicate (length sels) (scoped_factory I ctx c (Some (selector_tweak cell)))"
    and "sels \<noteq> [] \<Longrightarrow> iw_store w' cell = last sels"
    and "iw_informers w' = iw_informers w" and "iw_fresh w' = iw_fresh w"
    and "s \<in> set sels \<Longrightarrow> \<exists>f. filtered_factory_Get ctx' s = Return f \<and>
      length (iw_factories w) \<le> f \<and> f < length (iw_factories w')"
    and "\<forall>s\<in>set sels. k \<noteq> FilteredFactoryKey s \<Longrightarrow> Value ctx' k = Value ctx k"
    by auto
qed

text \<open>
  C32: the filtered factories share the variable of the loop that makes them.  With several
  selectors, the factory got for any of them makes an informer that lists and watches with the last
  selector, not with its own.
\<close>

theorem filtered_factories_share_last_selector:
  assumes laws: "injection_laws I" and "client_Get I ctx = Return c"
    and "label_selectors ctx = Return selectors" and s: "s \<in> set selectors"
    and call: "filtered_withInformerFactory I ctx w = (Return ctx', w')"
  shows "\<exists>f F i F' u lw. filtered_factory_Get ctx' s = Return f \<and> iw_factories w' ! f = F \<and>
    Informer (CodeEngineTasks (V1alpha1 (Custom F))) F (iw_informers w') = (i, F', u) \<and>
    si_ListerWatcher (w_made u ! i) = Some lw \<and>
    ListFunc lw (iw_store w') options =
      ListCall c (scope_namespace I ctx) (options\<lparr>lo_LabelSelector := last selectors\<rparr>) \<and>
    WatchFunc lw (iw_store w') options =
      WatchCall c (scope_namespace I ctx) (options\<lparr>lo_LabelSelector := last selectors\<rparr>)"
proof -
  let ?cell = "iw_fresh w"
  let ?F = "scoped_factory I ctx c (Some (selector_tweak ?cell))"
  have loop: "filtered_factories I c ?cell selectors ctx (w\<lparr>iw_fresh := Suc ?cell\<rparr>) = (ctx', w')"
    using assms by (simp add: filtered_withInformerFactory_def split: prod.splits)
  note E = filtered_factories_effect [OF laws loop]
  obtain f where f: "filtered_factory_Get ctx' s = Return f" "length (iw_factories w) \<le> f"
    "f < length (iw_factories w')" using E(5) [OF s] by auto
  have F: "iw_factories w' ! f = ?F"
    using f(2,3) by (simp add: E(1) nth_append)
  have last: "iw_store w' ?cell = last selectors" using E(2) s by fastforce
  show ?thesis
    by (rule exI [of _ f], rule exI [of _ ?F], simp only: f(1) F scoped_factory_Informer)
      (simp add: scoped_informer_def apply_tweak_def selector_tweak_def last)
qed

lemma filtered_factories_share_last_selector_witness:
  "\<exists>ctx' w' f. filtered_withInformerFactory sample_injection
      (WithSelectors sample_ctx [''app=a'', ''app=b'']) empty_world = (Return ctx', w') \<and>
     filtered_factory_Get ctx' ''app=a'' = Return f"
proof -
  let ?ctx = "WithSelectors sample_ctx [''app=a'', ''app=b'']"
  have client: "client_Get sample_injection ?ctx = Return ''client''"
    by (simp add: client_Get_def WithSelectors_def sample_ctx_def client_ctx_def Value_def WithValue_def)
  have sels: "label_selectors ?ctx = Return [''app=a'', ''app=b'']" by (rule selectors_slot.get_put)
  obtain ctx' w' where call: "filtered_withInformerFactory sample_injection ?ctx empty_world = (Return ctx', w')"
    by (cases "filtered_factories sample_injection ''client'' 0 [''app=a'', ''app=b''] ?ctx
          (empty_world\<lparr>iw_fresh := Suc 0\<rparr>)")
      (simp add: filtered_withInformerFactory_def client sels empty_world_def)
  from filtered_factories_share_last_selector [OF sample_injection_laws client sels _ call, of "''app=a''"]
  obtain f where "filtered_factory_Get ctx' ''app=a'' = Return f" by auto
  with call show ?thesis by blast
qed

end
