(* ===== verification/DynamicListers.thy ===== *)
theory DynamicListers
  imports TaskInformers FactoryRuns
begin

text \<open>
  The dynamic listers against the API server: what the server documents for get and list
  (\<open>server_laws\<close>), the wrapper as a second provider of the lister interface, its agreement with the
  lister of the informer cache, and the filtered wrapper.
\<close>

section \<open>The server\<close>

text \<open>
  In the state \<open>w\<close> the server holds the tasks \<open>contents\<close> of the namespace: getting a name gives the
  task or a NotFound error.  The server knows a selector only as the text that is sent: listing gives
  the tasks whose labels match what it reads there, \<open>reads text\<close>.  For most selectors that is the
  selector itself; \<open>labels.Nothing()\<close> has the empty text, which the server reads as no restriction.
\<close>

definition server_laws ::
    "(error \<Rightarrow> bool) \<Rightarrow> (string \<Rightarrow> label_selector) \<Rightarrow> ('sel, 'req) labels_lib \<Rightarrow> 'w task_interface \<Rightarrow>
       string \<Rightarrow> (string \<rightharpoonup> CodeEngineTask) \<Rightarrow> 'w \<Rightarrow> bool" where
  "server_laws nf reads S api version contents w \<longleftrightarrow>
     (\<forall>name. fst (ti_Get api name (zero_GetOptions\<lparr>go_ResourceVersion := version\<rparr>) w) \<in>
        (case contents name of
           Some t \<Rightarrow> {(Some t, None)}
         | None \<Rightarrow> {(x, Some e) | x e. nf e})) \<and>
     (\<forall>sel. \<exists>lo. fst (ti_List api (zero_ListOptions\<lparr>lo_LabelSelector := Sel_String S sel,
                                      lo_ResourceVersion := version\<rparr>) w) = (Some lo, None) \<and>
        set (tl_Items lo) = {t \<in> ran contents. reads (Sel_String S sel) (task_labels t)})"

lemma server_Get:
  assumes "server_laws nf reads S api v contents w"
  shows "contents n = Some t \<Longrightarrow>
      fst (ti_Get api n (zero_GetOptions\<lparr>go_ResourceVersion := v\<rparr>) w) = (Some t, None)"
    and "contents n = None \<Longrightarrow>
      \<exists>x e. fst (ti_Get api n (zero_GetOptions\<lparr>go_ResourceVersion := v\<rparr>) w) = (x, Some e) \<and> nf e"
  using assms unfolding server_laws_def by (auto split: option.splits dest!: spec [of _ n])

lemma list_items_Some [simp]: "list_items (Some lo, None) = Return (tl_Items lo, None)"
proof -
  have "foldl (\<lambda>ret item. ret @ [item]) xs ys = xs @ ys" for xs ys :: "CodeEngineTask list"
    by (induction ys arbitrary: xs) simp_all
  then show ?thesis by (simp add: list_items_def)
qed

lemma server_List:
  assumes "server_laws nf reads S api v contents w"
  shows "\<exists>ts. list_items (fst (ti_List api (zero_ListOptions\<lparr>lo_LabelSelector := Sel_String S sel,
        lo_ResourceVersion := v\<rparr>) w)) = Return (ts, None) \<and>
      set ts = {t \<in> ran contents. reads (Sel_String S sel) (task_labels t)}"
proof -
  obtain lo where "fst (ti_List api (zero_ListOptions\<lparr>lo_LabelSelector := Sel_String S sel,
        lo_ResourceVersion := v\<rparr>) w) = (Some lo, None)"
    and "set (tl_Items lo) = {t \<in> ran contents. reads (Sel_String S sel) (task_labels t)}"
    using assms unfolding server_laws_def by blast
  then show ?thesis by simp
qed

lemma deref_task_simps [simp]:
  "deref_task (x, Some e) = Return (Inl e)" "deref_task (Some t, None) = Return (Inr t)"
  by (simp_all add: deref_task_def split: option.split)

section \<open>The wrapper is a lister\<close>

text \<open>A wrapper, with everything its methods depend on.\<close>

record ('c, 'sel, 'req, 'w) dynamic_lister =
  dl_not_found :: "error \<Rightarrow> bool"
  dl_reads :: "string \<Rightarrow> label_selector"
  dl_labels :: "('sel, 'req) labels_lib"
  dl_tasks :: "'c \<Rightarrow> string \<Rightarrow> 'w task_interface"
  dl_wrapper :: "'c wrapper"
  dl_server :: "string \<rightharpoonup> CodeEngineTask"
  dl_world :: 'w

definition dynamic_laws :: "('c, 'sel, 'req, 'w) dynamic_lister \<Rightarrow> bool" where
  "dynamic_laws l \<longleftrightarrow>
     server_laws (dl_not_found l) (dl_reads l) (dl_labels l)
       (dl_tasks l (wr_client (dl_wrapper l)) (wr_namespace (dl_wrapper l)))
       (wr_resourceVersion (dl_wrapper l)) (dl_server l) (dl_world l)"

definition dynamic_get :: "('c, 'sel, 'req, 'w) dynamic_lister \<Rightarrow> string \<Rightarrow> (error + CodeEngineTask) outcome" where
  "dynamic_get l n = deref_task (fst (wrapper_Get (dl_tasks l) (dl_wrapper l) n (dl_world l)))"

definition dynamic_select ::
    "('c, 'sel, 'req, 'w) dynamic_lister \<Rightarrow> 'sel \<Rightarrow> (CodeEngineTask list \<times> error option) outcome" where
  "dynamic_select l sel = fst (wrapper_List (dl_labels l) (dl_tasks l) (dl_wrapper l) sel (dl_world l))"

interpretation dynamic_task_lister: namespace_lister dynamic_laws dynamic_get dynamic_select
    "\<lambda>l sel. dl_reads l (Sel_String (dl_labels l) sel)" dl_server task_labels dl_not_found
proof (unfold_locales, goal_cases)
  case (1 l n t)
  then show ?case
    by (simp add: dynamic_laws_def dynamic_get_def wrapper_Get_def server_Get(1))
next
  case (2 l n)
  then obtain x e where "fst (wrapper_Get (dl_tasks l) (dl_wrapper l) n (dl_world l)) = (x, Some e)"
    and "dl_not_found l e"
    unfolding wrapper_Get_def using server_Get(2) [OF 2(1) [unfolded dynamic_laws_def] 2(2)] by blast
  then show ?case by (auto simp: dynamic_get_def)
next
  case (3 l sel)
  have "dynamic_select l sel = list_items (fst (ti_List
      (dl_tasks l (wr_client (dl_wrapper l)) (wr_namespace (dl_wrapper l)))
      (zero_ListOptions\<lparr>lo_LabelSelector := Sel_String (dl_labels l) sel,
        lo_ResourceVersion := wr_resourceVersion (dl_wrapper l)\<rparr>) (dl_world l)))"
    by (simp add: dynamic_select_def wrapper_List_def case_prod_unfold Let_def)
  with server_List [OF 3 [unfolded dynamic_laws_def], of sel] show ?case by simp
qed

section \<open>A sample server\<close>

text \<open>
  A server with one task, for the witnesses.  A selector is a list of one-letter labels that have
  to be present, and is its own text; or, as in \<open>labels.Nothing()\<close>, nothing, with an empty text.
\<close>

definition one_task :: CodeEngineTask where
  "one_task = zero_CodeEngineTask\<lparr>t_ObjectMeta := zero_ObjectMeta\<lparr>om_Name := ''one'',
     om_Namespace := ''ns'', om_Labels := [''a'' \<mapsto> ''x'']\<rparr>\<rparr>"

definition letter_reads :: "string \<Rightarrow> label_selector" where
  "letter_reads text m \<longleftrightarrow> (\<forall>k\<in>set text. m [k] \<noteq> None)"

definition letter_labels :: "(string option, char) labels_lib" where
  "letter_labels =
     \<lparr>Sel_String = (\<lambda>s. case s of None \<Rightarrow> [] | Some text \<Rightarrow> text),
      Sel_Matches = (\<lambda>s m. case s of None \<Rightarrow> False | Some text \<Rightarrow> letter_reads text m),
      Sel_Add = (\<lambda>s reqs. map_option (\<lambda>text. text @ reqs) s), Req_Matches = (\<lambda>k m. m [k] \<noteq> None),
      Everything = Some [], ParseToRequirements = Inr\<rparr>"

definition one_task_server :: "unit task_interface" where
  "one_task_server =
     \<lparr>ti_Create = (\<lambda>t opts w. ((None, Some (Foreign ''read only'')), w)),
      ti_Update = (\<lambda>t opts w. ((None, Some (Foreign ''read only'')), w)),
      ti_UpdateStatus = (\<lambda>t opts w. ((None, Some (Foreign ''read only'')), w)),
      ti_Delete = (\<lambda>name opts w. (Some (Foreign ''read only''), w)),
      ti_DeleteCollection = (\<lambda>opts listOpts w. (Some (Foreign ''read only''), w)),
      ti_Get = (\<lambda>name opts w.
        (if name = ''one'' then (Some one_task, None) else (None, Some (Foreign ''not found'')), w)),
      ti_List = (\<lambda>opts w. ((Some (zero_CodeEngineTaskList\<lparr>tl_Items :=
        (if letter_reads (lo_LabelSelector opts) (task_labels one_task) then [one_task] else [])\<rparr>),
        None), w)),
      ti_Watch = (\<lambda>opts w. (Inl (Foreign ''no watch''), w)),
      ti_Patch = (\<lambda>name pt data opts subresources w. ((None, Some (Foreign ''read only'')), w))\<rparr>"

lemma one_task_server_laws:
  "server_laws (\<lambda>e. e = Foreign ''not found'') letter_reads letter_labels one_task_server v [''one'' \<mapsto> one_task] ()"
  by (auto simp: server_laws_def one_task_server_def zero_ListOptions_def
      zero_CodeEngineTaskList_def)

definition one_task_indexer :: indexer where
  "one_task_indexer =
     \<lparr>GetByKey = (\<lambda>key. Inr (if key = ''ns/one'' then Some (TaskObj one_task) else None)),
      ListAll = (\<lambda>sel. (if sel (task_labels one_task) then [TaskObj one_task] else [], None)),
      ListAllByNamespace = (\<lambda>ns sel. (if sel (task_labels one_task) then [TaskObj one_task] else [], None))\<rparr>"

lemma one_task_indexed: "indexed_task one_task_indexer ''ns'' = [''one'' \<mapsto> one_task]"
  by (rule ext) (simp add: indexed_task_def one_task_indexer_def object_key_def)

lemma one_task_indexer_laws: "indexer_laws one_task_indexer ''ns''"
proof -
  have "\<exists>ts. ListAllByNamespace one_task_indexer ''ns'' sel = (map TaskObj ts, None) \<and>
      set ts = {t \<in> ran [''one'' \<mapsto> one_task]. sel (task_labels t)}" for sel
    by (rule exI [of _ "if sel (task_labels one_task) then [one_task] else []"])
      (auto simp: one_task_indexer_def)
  then show ?thesis
    by (simp add: indexer_laws_def one_task_indexed) (simp add: one_task_indexer_def object_key_def)
qed

section \<open>Agreement with the cache\<close>

text \<open>
  C34: the dynamic lister of a namespace against the lister of the informer cache, when the cache holds
  what the server holds.  Both give the same task for a name, or none.  For a selector the cache lists
  the tasks the selector matches, the wrapper those that match what the server reads in its text: the
  same tasks exactly when server and selector agree on the tasks of the namespace.  Where the text says
  nothing, as that of \<open>labels.Nothing()\<close>, the wrapper lists every task.
\<close>

theorem dynamic_lister_agrees:
  assumes schema: "schema_laws L"
    and cache: "indexer_laws ix ns" "indexed_task ix ns = contents"
    and server: "server_laws nf reads S (tasks c ns) v contents w"
  shows "(task_lister_calls L tasks w (IndexerLister (NewCodeEngineTaskLister ix)) ns name = Return (Inr t) \<longleftrightarrow>
      task_lister_calls L tasks w
        (wrapper_Lister \<lparr>wr_client = c, wr_namespace = ns', wr_resourceVersion = v\<rparr>) ns name = Return (Inr t)) \<and>
    (\<exists>ts ts'. NamespaceLister_List (Lister_CodeEngineTasks (NewCodeEngineTaskLister ix) ns)
        (Sel_Matches S sel) = Return (ts, None) \<and>
      fst (wrapper_List S tasks (wrapper_CodeEngineTasks
        \<lparr>wr_client = c, wr_namespace = ns', wr_resourceVersion = v\<rparr> ns) sel w) = Return (ts', None) \<and>
      set ts = {t \<in> ran contents. Sel_Matches S sel (task_labels t)} \<and>
      (set ts' = set ts \<longleftrightarrow> (\<forall>t \<in> ran contents.
         reads (Sel_String S sel) (task_labels t) = Sel_Matches S sel (task_labels t))) \<and>
      (Sel_String S sel = [] \<and> reads [] = (\<lambda>_. True) \<longrightarrow> set ts' = ran contents))"
proof -
  define l where "l = (L, Lister_CodeEngineTasks (NewCodeEngineTaskLister ix) ns)"
  define d where "d = \<lparr>dl_not_found = nf, dl_reads = reads, dl_labels = S, dl_tasks = tasks,
    dl_wrapper = \<lparr>wr_client = c, wr_namespace = ns, wr_resourceVersion = v\<rparr>,
    dl_server = contents, dl_world = w\<rparr>"
  have l: "lister_laws l" "indexed_task (nl_indexer (snd l)) (nl_namespace (snd l)) = contents"
    using schema cache by (simp_all add: l_def lister_laws_def Lister_CodeEngineTasks_def
        NewCodeEngineTaskLister_def)
  have d: "dynamic_laws d" "dl_server d = contents"
    using server by (simp_all add: d_def dynamic_laws_def)
  have "NamespaceLister_Get L (snd l) name = Return (Inr t) \<longleftrightarrow> dynamic_get d name = Return (Inr t)"
    using task_lister.get_iff [OF l(1), of name t] dynamic_task_lister.get_iff [OF d(1), of name t] l(2) d(2)
    by (simp add: l_def)
  moreover obtain ts where ts: "NamespaceLister_List (snd l) (Sel_Matches S sel) = Return (ts, None)"
    "set ts = {t \<in> ran contents. Sel_Matches S sel (task_labels t)}"
    using task_lister.select_matching [OF l(1), of "Sel_Matches S sel"] l(2) by auto
  moreover obtain ts' where ts': "dynamic_select d sel = Return (ts', None)"
    "set ts' = {t \<in> ran contents. reads (Sel_String S sel) (task_labels t)}"
    using dynamic_task_lister.select_matching [OF d(1), of sel] d(2) by (auto simp: d_def)
  moreover have "set ts' = set ts \<longleftrightarrow> (\<forall>t \<in> ran contents.
      reads (Sel_String S sel) (task_labels t) = Sel_Matches S sel (task_labels t))"
    unfolding ts(2) ts'(2) by blast
  moreover have "set ts' = ran contents" if "Sel_String S sel = []" "reads [] = (\<lambda>_. True)"
    using that by (simp add: ts'(2))
  ultimately show ?thesis
    by (simp add: l_def d_def task_lister_calls_def indexer_task_lister_def wrapper_Lister_def
        dynamic_get_def dynamic_select_def wrapper_CodeEngineTasks_def)
qed

text \<open>The lister of the sample server finds its task, and lists it even for the selector of nothing.\<close>

lemma dynamic_lister_agrees_witness:
  "task_lister_calls plain_schema (\<lambda>(c :: unit) ns. one_task_server) ()
     (wrapper_Lister \<lparr>wr_client = (), wr_namespace = [], wr_resourceVersion = []\<rparr>) ''ns'' ''one'' =
     Return (Inr one_task) \<and>
   (\<exists>ts. fst (wrapper_List letter_labels (\<lambda>(c :: unit) ns. one_task_server) (wrapper_CodeEngineTasks
        \<lparr>wr_client = (), wr_namespace = [], wr_resourceVersion = []\<rparr> ''ns'') None ()) = Return (ts, None) \<and>
      set ts = {one_task})"
proof -
  have server: "server_laws (\<lambda>e. e = Foreign ''not found'') letter_reads letter_labels
      ((\<lambda>(c :: unit) ns. one_task_server) () ''ns'') [] [''one'' \<mapsto> one_task] ()"
    by (rule one_task_server_laws)
  note agree = dynamic_lister_agrees [where tasks = "\<lambda>(c :: unit) ns. one_task_server" and c = "()"
      and ns' = "[]" and name = "''one''" and t = one_task and sel = None,
      OF plain_schema_laws one_task_indexer_laws one_task_indexed server]
  have "task_lister_calls plain_schema (\<lambda>(c :: unit) ns. one_task_server) ()
      (IndexerLister (NewCodeEngineTaskLister one_task_indexer)) ''ns'' ''one'' = Return (Inr one_task)"
    by (simp add: task_lister_calls_def indexer_task_lister_def Lister_CodeEngineTasks_def
        NewCodeEngineTaskLister_def NamespaceLister_Get_def one_task_indexer_def object_key_def)
  moreover have "Sel_String letter_labels None = []" "letter_reads [] = (\<lambda>_. True)"
    by (simp_all add: letter_labels_def fun_eq_iff letter_reads_def)
  ultimately show ?thesis using agree by auto
qed

section \<open>The filtered wrapper\<close>

definition labels_laws :: "('sel, 'req) labels_lib \<Rightarrow> bool" where
  "labels_laws S \<longleftrightarrow>
     (\<forall>sel reqs m. Sel_Matches S (Sel_Add S sel reqs) m \<longleftrightarrow>
        Sel_Matches S sel m \<and> (\<forall>r\<in>set reqs. Req_Matches S r m))"

text \<open>
  C35: a filtered dynamic lister lists the tasks that match both selectors, the caller's and its own,
  where the server reads the text of the two together as what they mean, and reports a selector of its
  own that does not parse without asking the server; but getting by name ignores its selector, and
  gives tasks that it never lists.
\<close>

theorem filtered_get_ignores_selector:
  assumes labels: "labels_laws S" and server: "server_laws nf reads S (tasks c ns) [] contents w"
    and fw: "fw = \<lparr>fw_client = c, fw_namespace = ns, fw_selector = own\<rparr>"
    and present: "contents name = Some t"
    and read_back: "\<And>reqs. ParseToRequirements S own = Inr reqs \<Longrightarrow>
      reads (Sel_String S (Sel_Add S sel reqs)) = Sel_Matches S (Sel_Add S sel reqs)"
  shows "deref_task (fst (filtered_wrapper_Get tasks fw name w)) = Return (Inr t) \<and>
    (case ParseToRequirements S own of
       Inl e \<Rightarrow> filtered_wrapper_List S tasks fw sel w = (Return ([], Some e), w)
     | Inr reqs \<Rightarrow> \<exists>ts. fst (filtered_wrapper_List S tasks fw sel w) = Return (ts, None) \<and>
         (t \<in> set ts \<longleftrightarrow> Sel_Matches S sel (task_labels t) \<and>
            (\<forall>r\<in>set reqs. Req_Matches S r (task_labels t))))"
proof (intro conjI)
  have zero: "zero_GetOptions\<lparr>go_ResourceVersion := []\<rparr> = zero_GetOptions"
    by (simp add: zero_GetOptions_def)
  show "deref_task (fst (filtered_wrapper_Get tasks fw name w)) = Return (Inr t)"
    using server_Get(1) [OF server present] by (simp add: fw filtered_wrapper_Get_def zero)
next
  show "case ParseToRequirements S own of
       Inl e \<Rightarrow> filtered_wrapper_List S tasks fw sel w = (Return ([], Some e), w)
     | Inr reqs \<Rightarrow> \<exists>ts. fst (filtered_wrapper_List S tasks fw sel w) = Return (ts, None) \<and>
         (t \<in> set ts \<longleftrightarrow> Sel_Matches S sel (task_labels t) \<and>
            (\<forall>r\<in>set reqs. Req_Matches S r (task_labels t)))"
  proof (cases "ParseToRequirements S own")
    case (Inl e)
    then show ?thesis by (simp add: fw filtered_wrapper_List_def)
  next
    case (Inr reqs)
    let ?opts = "zero_ListOptions\<lparr>lo_LabelSelector := Sel_String S (Sel_Add S sel reqs)\<rparr>"
    have "?opts = zero_ListOptions\<lparr>lo_LabelSelector := Sel_String S (Sel_Add S sel reqs),
        lo_ResourceVersion := []\<rparr>" by (simp add: zero_ListOptions_def)
    with server_List [OF server, of "Sel_Add S sel reqs"] obtain ts where
      ts: "list_items (fst (ti_List (tasks c ns) ?opts w)) = Return (ts, None)"
        "set ts = {t \<in> ran contents. Sel_Matches S (Sel_Add S sel reqs) (task_labels t)}"
      using read_back [OF Inr] by auto
    have "fst (filtered_wrapper_List S tasks fw sel w) = Return (ts, None)"
      by (simp add: fw filtered_wrapper_List_def Inr case_prod_unfold Let_def ts(1))
    moreover have "t \<in> ran contents" using present by (auto simp: ran_def)
    ultimately show ?thesis using labels by (simp add: Inr ts(2) labels_laws_def)
  qed
qed

lemma filtered_get_ignores_selector_witness:
  "deref_task (fst (filtered_wrapper_Get (\<lambda>(c :: unit) ns. one_task_server)
       \<lparr>fw_client = (), fw_namespace = ''ns'', fw_selector = ''b''\<rparr> ''one'' ())) = Return (Inr one_task) \<and>
   (\<exists>ts. fst (filtered_wrapper_List letter_labels (\<lambda>(c :: unit) ns. one_task_server)
       \<lparr>fw_client = (), fw_namespace = ''ns'', fw_selector = ''b''\<rparr> (Some []) ()) = Return (ts, None) \<and>
      one_task \<notin> set ts)"
proof -
  have laws: "labels_laws letter_labels"
    by (auto simp: labels_laws_def letter_labels_def letter_reads_def split: option.splits)
  have server: "server_laws (\<lambda>e. e = Foreign ''not found'') letter_reads letter_labels
      ((\<lambda>(c :: unit) ns. one_task_server) () ''ns'') [] [''one'' \<mapsto> one_task] ()"
    by (rule one_task_server_laws)
  have read: "letter_reads (Sel_String letter_labels (Sel_Add letter_labels (Some []) reqs)) =
      Sel_Matches letter_labels (Sel_Add letter_labels (Some []) reqs)" for reqs
    by (rule ext) (simp add: letter_labels_def)
  have "task_labels one_task ''b'' = None"
    by (simp add: task_labels_def one_task_def zero_ObjectMeta_def)
  with filtered_get_ignores_selector [where tasks = "\<lambda>(c :: unit) ns. one_task_server" and c = "()"
      and name = "''one''" and t = one_task and sel = "Some []" and own = "''b''", OF laws server refl _ read]
  show ?thesis by (simp add: letter_labels_def)
qed

end
