(* ===== verification/ControllerRuns.thy ===== *)
theory ControllerRuns
  imports Controller RunHistory RunGuards InjectionRuns DynamicListers
begin

text \<open>
  The controller against the rest of the program: the labels that the reconciler puts on a job run
  are the ones by which its events come back to the Run, and the controller that \<open>NewController\<close>
  builds is connected to what \<open>WithClientAndInformers\<close> put into the context.
\<close>

section \<open>Labels of created job runs\<close>

definition owner_labels :: "'st Run \<Rightarrow> label_map" where
  "owner_labels run = [jobRunOwnerLabelKey \<mapsto> run_Name run,
                       jobRunOwnerNamespaceLabelKey \<mapsto> run_Namespace run]"

definition creates_owned :: "'st Run \<Rightarrow> ('st, 'x) effect list \<Rightarrow> bool" where
  "creates_owned run es \<longleftrightarrow> (\<forall>jr res. CreateCall jr res \<in> set es \<longrightarrow> jr_Labels jr = owner_labels run)"

lemma creates_owned_simps [simp]:
  "creates_owned run []"
  "creates_owned run (EmitEvent a b c # es) = creates_owned run es"
  "creates_owned run (CreateCall jr res # es) \<longleftrightarrow> jr_Labels jr = owner_labels run \<and> creates_owned run es"
  "creates_owned run (es @ es') \<longleftrightarrow> creates_owned run es \<and> creates_owned run es'"
  by (auto simp: creates_owned_def)

lemma owner_labels_identity: "same_identity run run' \<Longrightarrow> owner_labels run' = owner_labels run"
  by (simp add: owner_labels_def same_identity_fields)

lemma creates_owned_identity:
  "same_identity run run' \<Longrightarrow> creates_owned run' es = creates_owned run es"
  by (simp add: creates_owned_def owner_labels_identity)

lemma new_job_run_labels:
  "ce_laws L \<Longrightarrow> jr_Labels (SetDefaultsFromJobDefinition L (new_job_run L run jobName) jd) = owner_labels run"
  by (simp add: ce_laws_def new_job_run_def owner_labels_def)

lemma runCodeEngineJob_owned:
  assumes "ce_laws L" and "runCodeEngineJob L r s = (out, s')"
    and "creates_owned (rs_run s) (rs_effects s)"
  shows "creates_owned (rs_run s) (rs_effects s')"
  using assms(2) by (cases rule: runCodeEngineJob_cases) (use assms(1,3) new_job_run_labels in auto)

lemma reconcile_owned:
  assumes laws: "run_laws L" "ce_laws L" and call: "reconcile L r s = (out, s')"
    and owned: "creates_owned (rs_run s) (rs_effects s)"
  shows "creates_owned (rs_run s) (rs_effects s')"
  using call
proof (cases rule: reconcile_cases)
  case (job_stops task s2)
  with runCodeEngineJob_owned [OF laws(2) job_stops(3)] owned show ?thesis by simp
next
  case (checked task s2 s3 err)
  with runCodeEngineJob_owned [OF laws(2) checked(3)] check_frame(4) [OF laws(1) checked(4)] owned
  show ?thesis by simp
qed (use getCodeEngineTask_frame(4) [OF laws(1)] owned in force)+

lemma reconcile_undone_owned:
  assumes "run_laws L" and "ce_laws L" and call: "reconcile_undone L r s = (out, s')"
    and "creates_owned (rs_run s) (rs_effects s)"
  shows "creates_owned (rs_run s) (rs_effects s')"
  using call
proof (cases rule: reconcile_undone_cases)
  case (stopped status)
  with reconcile_owned [OF assms(1,2) stopped(2)] assms(4) show ?thesis by simp
next
  case (encoded status s1 err run1)
  with reconcile_owned [OF assms(1,2) encoded(2)] assms(4) show ?thesis by simp
qed (use assms(4) in simp)

lemma ReconcileKind_owned:
  fixes L :: "('st, 'x, 'jd, 'z) ce_lib_scheme" and api :: 'w
  assumes laws: "run_laws L" "ce_laws L" and call: "ReconcileKind L r now run api = (out, s')"
  shows "creates_owned run (rs_effects s')"
  using call
proof (cases rule: ReconcileKind_cases)
  case (accepted s1)
  let ?s = "\<lparr>rs_run = run, rs_status = zero_CodeEngineTaskStatus, rs_api = api, rs_effects = []\<rparr>
    :: ('st, 'x, 'w) rstate"
  have "creates_owned run (rs_effects s1)"
  proof (cases "HasStarted L (run_Status run)")
    case True
    with accepted(2) reconcile_undone_owned [OF laws, of r ?s] show ?thesis
      by (auto simp: reconcile_body_def finalizeRun_def split: if_splits)
  next
    case False
    have "\<exists>st e. initializeRun L now ?s =
        (Return (), emit (EmitEvent None e (run\<lparr>run_Status := st\<rparr>)) (set_run_status st ?s))"
      using initializeRun_eq [OF laws(1), of ?s now] False by (simp only: rstate.select_convs) blast
    then obtain s0 where s0: "initializeRun L now ?s = (Return (), s0)" "same_identity run (rs_run s0)"
      "creates_owned run (rs_effects s0)" by force
    with accepted(2) False reconcile_undone_owned [OF laws, of r s0] show ?thesis
      by (auto simp: reconcile_body_def finalizeRun_def creates_owned_identity split: if_splits)
  qed
  with accepted(3) show ?thesis by simp
qed simp_all

text \<open>A job run with the labels of a Run passes the filter and enqueues the key of the Run.\<close>

definition run_key :: "'st Run \<Rightarrow> NamespacedName" where
  "run_key run = \<lparr>nn_Namespace = run_Namespace run, nn_Name = run_Name run\<rparr>"

lemma run_key_identity: "same_identity run run' \<Longrightarrow> run_key run' = run_key run"
  by (simp add: run_key_def same_identity_fields)

lemma owned_job_run_event:
  assumes "jr_Labels jr = owner_labels run"
  shows "filterJobRunRef (JobRunObj jr)"
    and "jobRunEnqueueFunc impl (JobRunObj jr) =
      Return (impl, \<lparr>nn_Namespace = run_Namespace run, nn_Name = run_Name run\<rparr>)"
  using assms by (simp_all add: filterJobRunRef_def jobRunEnqueueFunc_def owner_labels_def map_get_def)

lemma filtered_job_run_event: "filterJobRunRef obj \<Longrightarrow> \<not> is_panic (jobRunEnqueueFunc impl obj)"
  by (simp add: filterJobRunRef_def jobRunEnqueueFunc_def Let_def split: ce_object.splits)

text \<open>
  Every job run that a reconciliation asks for comes back to its Run.  As long as the API keeps
  the labels, an event of the job run passes the filter, and the handler enqueues the key of the Run
  the reconciliation was for; the handler never panics on an object that passes the filter.
\<close>

theorem job_run_events_reach_run:
  assumes "run_laws L" and "ce_laws L"
    and "ReconcileKind L r now run api = (out, s')"
    and "CreateCall requested res \<in> set (rs_effects s')"
    and "jr_Labels seen = jr_Labels requested"
  shows "filterJobRunRef (JobRunObj seen) \<and>
    jobRunEnqueueFunc impl (JobRunObj seen) =
      Return (impl, \<lparr>nn_Namespace = run_Namespace run, nn_Name = run_Name run\<rparr>) \<and>
    (filterJobRunRef obj \<longrightarrow> \<not> is_panic (jobRunEnqueueFunc impl obj))"
proof -
  have "jr_Labels requested = owner_labels run"
    using ReconcileKind_owned [OF assms(1-3)] assms(4) unfolding creates_owned_def by blast
  then have "jr_Labels seen = owner_labels run" using assms(5) by simp
  then show ?thesis by (simp add: owned_job_run_event filtered_job_run_event)
qed

lemma job_run_events_reach_run_witness:
  "jobRunEnqueueFunc ''impl'' (JobRunObj first_job_run) =
     Return (''impl'', \<lparr>nn_Namespace = ''ns'', nn_Name = run_Name fresh_run\<rparr>)"
proof -
  obtain out s' where call: "ReconcileKind sample_lib (sample_reconciler no_job_runs) 100 fresh_run 0 = (out, s')"
    by (rule prod.exhaust)
  have "filter is_create (rs_effects s') =
      [CreateCall (requested_job_run sample_lib fresh_run
         (effective_spec zero_CodeEngineTaskStatus \<lparr>JobName = ''train''\<rparr>) ''image'') (Inr first_job_run)]"
    by (rule will_create_creates_one(3) [OF sample_run_laws _ sample_verify sample_undone
          sample_stored(1) sample_names(1) sample_task_spec sample_will_create call]) simp
  then have "CreateCall (requested_job_run sample_lib fresh_run
      (effective_spec zero_CodeEngineTaskStatus \<lparr>JobName = ''train''\<rparr>) ''image'') (Inr first_job_run)
      \<in> set (filter is_create (rs_effects s'))" by simp
  then have "CreateCall (requested_job_run sample_lib fresh_run
      (effective_spec zero_CodeEngineTaskStatus \<lparr>JobName = ''train''\<rparr>) ''image'') (Inr first_job_run)
      \<in> set (rs_effects s')" unfolding set_filter by blast
  from job_run_events_reach_run [OF sample_run_laws sample_ce_laws call this, of first_job_run "''impl''"
      "JobRunObj first_job_run"]
  show ?thesis by (simp add: first_job_run_def sample_effective sample_run_def)
qed

end
