(* ===== verification/Cluster.thy ===== *)
theory Cluster
  imports ControllerRuns RunProvenance
begin

text \<open>
  Many Runs at once.  The controller of knative keeps a queue of keys without duplicates; an event of
  a Run, or of a job run that passes the filter of this program, puts a key there, and each key is
  reconciled on the Run stored under it.  The step relation interleaves these with Runs that users
  create and delete and with an API that moves on its own; a reconciliation is one step, as knative
  gives a key to one worker at a time.  The Run given to a reconciliation is the stored one, not an
  older copy.
\<close>

section \<open>The cluster\<close>

text \<open>
  \<open>cl_known\<close> holds the keys ever used: the name of a deleted Run is not given again.  Users create
  Runs without a recorded job run.
\<close>

record ('st, 'x, 'w) cluster =
  cl_runs :: "NamespacedName \<Rightarrow> 'st Run option"
  cl_known :: "NamespacedName set"
  cl_queue :: "NamespacedName list"
  cl_api :: 'w
  cl_trace :: "('st, 'x) effect list"

definition enqueue_key :: "NamespacedName \<Rightarrow> NamespacedName list \<Rightarrow> NamespacedName list" where
  "enqueue_key k q = (if k \<in> set q then q else q @ [k])"

definition unsubmitted :: "('st, 'z) run_lib_scheme \<Rightarrow> 'st Run \<Rightarrow> bool" where
  "unsubmitted L run \<longleftrightarrow>
     (case stored_status L (run_Status run) of None \<Rightarrow> True | Some st \<Rightarrow> ts_JobRunName st = [])"

text \<open>What a worker does with a key: a failed or crashed call puts it back.\<close>

definition worked ::
    "NamespacedName \<Rightarrow> 'st Run \<Rightarrow> error option outcome \<Rightarrow> ('st, 'x, 'w) rstate \<Rightarrow>
       ('st, 'x, 'w) cluster \<Rightarrow> ('st, 'x, 'w) cluster" where
  "worked k run out s c =
     c\<lparr>cl_runs := (cl_runs c)(k \<mapsto> write_back run out s),
       cl_queue := (let q = remove1 k (cl_queue c) in if out = Return None then q else enqueue_key k q),
       cl_api := rs_api s,
       cl_trace := cl_trace c @ rs_effects s\<rparr>"

inductive cluster_step ::
    "('st, 'x, 'jd, 'z) ce_lib_scheme \<Rightarrow> ('st, 'x, 'w) cluster \<Rightarrow> ('st, 'x, 'w) cluster \<Rightarrow> bool"
  for L where
  create_run: "run_key run \<notin> cl_known c \<Longrightarrow> unsubmitted L run \<Longrightarrow>
    cluster_step L c (c\<lparr>cl_runs := (cl_runs c)(run_key run \<mapsto> run),
      cl_known := insert (run_key run) (cl_known c),
      cl_queue := enqueue_key (run_key run) (cl_queue c)\<rparr>)"
| delete_run: "cluster_step L c (c\<lparr>cl_runs := (cl_runs c)(k := None)\<rparr>)"
| run_event: "cl_runs c k = Some run \<Longrightarrow>
    cluster_step L c (c\<lparr>cl_queue := enqueue_key k (cl_queue c)\<rparr>)"
| job_run_event: "filterJobRunRef (JobRunObj jr :: 'x ce_object) \<Longrightarrow>
    jobRunEnqueueFunc () (JobRunObj jr) = Return ((), k) \<Longrightarrow>
    cluster_step L c (c\<lparr>cl_queue := enqueue_key k (cl_queue c)\<rparr>)"
| api_moves: "cluster_step L c (c\<lparr>cl_api := w\<rparr>)"
| key_gone: "k \<in> set (cl_queue c) \<Longrightarrow> cl_runs c k = None \<Longrightarrow>
    cluster_step L c (c\<lparr>cl_queue := remove1 k (cl_queue c)\<rparr>)"
| work: "k \<in> set (cl_queue c) \<Longrightarrow> cl_runs c k = Some run \<Longrightarrow>
    reliable L r \<Longrightarrow> 0 < now \<Longrightarrow>
    ReconcileKind L r now run (cl_api c) = (out, s) \<Longrightarrow> cluster_step L c (worked k run out s c)"

definition empty_cluster :: "'w \<Rightarrow> ('st, 'x, 'w) cluster" where
  "empty_cluster w =
     \<lparr>cl_runs = Map.empty, cl_known = {}, cl_queue = [], cl_api = w, cl_trace = []\<rparr>"

inductive cluster_reach ::
    "('st, 'x, 'jd, 'z) ce_lib_scheme \<Rightarrow> ('st, 'x, 'w) cluster \<Rightarrow> bool"
  for L where
  reach_empty: "cluster_reach L (empty_cluster w)"
| reach_step: "cluster_reach L c \<Longrightarrow> cluster_step L c c' \<Longrightarrow> cluster_reach L c'"

section \<open>Requests per Run\<close>

definition key_labels :: "NamespacedName \<Rightarrow> label_map" where
  "key_labels k = [jobRunOwnerLabelKey \<mapsto> nn_Name k, jobRunOwnerNamespaceLabelKey \<mapsto> nn_Namespace k]"

lemma key_labels_run_key: "key_labels (run_key run) = owner_labels run"
  by (simp add: key_labels_def run_key_def owner_labels_def)

lemma key_labels_inject [simp]: "key_labels k = key_labels k' \<longleftrightarrow> k = k'"
proof
  assume eq: "key_labels k = key_labels k'"
  have "key_labels k jobRunOwnerLabelKey = key_labels k' jobRunOwnerLabelKey"
    "key_labels k jobRunOwnerNamespaceLabelKey = key_labels k' jobRunOwnerNamespaceLabelKey"
    by (simp_all only: eq)
  then show "k = k'" by (simp add: key_labels_def)
qed simp

fun requested_by :: "NamespacedName \<Rightarrow> ('st, 'x) effect \<Rightarrow> bool" where
  "requested_by k (CreateCall jr _) = (jr_Labels jr = key_labels k)"
| "requested_by k (EmitEvent _ _ _) = False"

definition requests :: "NamespacedName \<Rightarrow> ('st, 'x) effect list \<Rightarrow> nat" where
  "requests k es = length (filter (requested_by k) es)"

lemma requests_append [simp]: "requests k (es @ fs) = requests k es + requests k fs"
  by (simp add: requests_def)

lemma requests_owned:
  assumes "creates_owned run es"
  shows "requests k es = (if k = run_key run then creations es else 0)"
proof -
  have "requested_by k e \<longleftrightarrow> k = run_key run \<and> is_create e" if "e \<in> set es" for e
    using assms that
    by (cases e) (auto simp: creates_owned_def key_labels_run_key [symmetric])
  then have "filter (requested_by k) es = filter (\<lambda>e. k = run_key run \<and> is_create e) es"
    by (rule filter_cong [OF refl])
  then show ?thesis by (simp add: requests_def creations_def)
qed

lemma keyed_job_run_event:
  assumes "jr_Labels jr = key_labels k"
  shows "filterJobRunRef (JobRunObj jr) \<and> jobRunEnqueueFunc impl (JobRunObj jr) = Return (impl, k)"
  using assms by (simp add: filterJobRunRef_def jobRunEnqueueFunc_def key_labels_def map_get_def)

section \<open>The invariant\<close>

text \<open>
  Per key: at most one job run was asked for, and none before the key was used; the Run stored under
  the key has that key, and once its job run was asked for it is past the creation for good.
\<close>

definition key_ok :: "('st, 'z) run_lib_scheme \<Rightarrow> ('st, 'x, 'w) cluster \<Rightarrow> NamespacedName \<Rightarrow> bool" where
  "key_ok L c k \<longleftrightarrow>
     requests k (cl_trace c) \<le> 1 \<and>
     (k \<notin> cl_known c \<longrightarrow> requests k (cl_trace c) = 0 \<and> cl_runs c k = None) \<and>
     (\<forall>run. cl_runs c k = Some run \<longrightarrow>
        run_key run = k \<and> (requests k (cl_trace c) = 1 \<longrightarrow> Submitted \<le> run_phase L run))"

text \<open>Every creation call is for a Run that the cluster knows.\<close>

definition trace_ok :: "('st, 'x, 'w) cluster \<Rightarrow> bool" where
  "trace_ok c \<longleftrightarrow>
     (\<forall>jr res. CreateCall jr res \<in> set (cl_trace c) \<longrightarrow> (\<exists>k\<in>cl_known c. jr_Labels jr = key_labels k))"

lemma key_ok_frame:
  assumes "key_ok L c k"
    and "cl_trace c' = cl_trace c" "cl_known c' = cl_known c" "cl_runs c' k = cl_runs c k"
  shows "key_ok L c' k"
  using assms by (simp add: key_ok_def)

lemma key_ok_create:
  assumes "key_ok L c k" and "run_key run \<notin> cl_known c"
  shows "key_ok L (c\<lparr>cl_runs := (cl_runs c)(run_key run \<mapsto> run),
    cl_known := insert (run_key run) (cl_known c), cl_queue := q\<rparr>) k"
proof (cases "k = run_key run")
  case True
  then have "requests (run_key run) (cl_trace c) = 0" using assms by (simp add: key_ok_def)
  with True show ?thesis by (simp add: key_ok_def)
next
  case False
  with assms(1) show ?thesis by (simp add: key_ok_def)
qed

lemma key_ok_delete: "key_ok L c k \<Longrightarrow> key_ok L (c\<lparr>cl_runs := (cl_runs c)(k' := None)\<rparr>) k"
  by (simp add: key_ok_def)

text \<open>One reconciliation keeps the key of its Run in order.\<close>

lemma call_requests:
  assumes laws: "run_laws L" "ce_laws L" and now: "0 < now" and rel: "reliable L r"
    and call: "ReconcileKind L r now run api = (out, s)"
  shows "requests (run_key run) (rs_effects s) = 0 \<or>
      requests (run_key run) (rs_effects s) = 1 \<and> run_phase L run < Submitted \<and>
      Submitted \<le> run_phase L (write_back run out s)"
    and "run_phase L run \<le> run_phase L (write_back run out s)"
    and "k \<noteq> run_key run \<Longrightarrow> requests k (rs_effects s) = 0"
proof -
  note R = requests_owned [OF ReconcileKind_owned [OF laws call]]
  show "k \<noteq> run_key run \<Longrightarrow> requests k (rs_effects s) = 0" by (simp add: R)
  from call_lifecycle [OF laws(1) now call] rel
  consider (step) b where "creations (rs_effects s) = of_bool b"
      "lifecycle True (run_phase L run) b (run_phase L (write_back run out s))"
    | (idle) "creations (rs_effects s) = 0" "write_back run out s = run" by auto
  then have "(creations (rs_effects s) = 0 \<or> creations (rs_effects s) = 1 \<and>
      run_phase L run < Submitted \<and> Submitted \<le> run_phase L (write_back run out s)) \<and>
      run_phase L run \<le> run_phase L (write_back run out s)"
  proof cases
    case step
    then show ?thesis using lifecycle_create_once [OF step(2)] lifecycle_mono [OF step(2)]
      by (cases b) simp_all
  qed simp
  then show "requests (run_key run) (rs_effects s) = 0 \<or>
      requests (run_key run) (rs_effects s) = 1 \<and> run_phase L run < Submitted \<and>
      Submitted \<le> run_phase L (write_back run out s)"
    and "run_phase L run \<le> run_phase L (write_back run out s)" by (simp_all add: R)
qed

lemma worked_simps [simp]:
  "cl_runs (worked k run out s c) = (cl_runs c)(k \<mapsto> write_back run out s)"
  "cl_known (worked k run out s c) = cl_known c"
  "cl_trace (worked k run out s c) = cl_trace c @ rs_effects s"
  by (simp_all add: worked_def)

lemma key_ok_work:
  assumes laws: "run_laws L" "ce_laws L" and ok: "key_ok L c k" "key_ok L c k'"
    and run: "cl_runs c k = Some run" and env: "reliable L r" "0 < now"
    and call: "ReconcileKind L r now run (cl_api c) = (out, s)"
  shows "key_ok L (worked k run out s c) k'"
proof -
  have key: "run_key run = k" using ok(1) run by (simp add: key_ok_def)
  note C = call_requests [OF laws env(2,1) call]
  show ?thesis
  proof (cases "k' = k")
    case False
    with C(3) ok(2) show ?thesis by (simp add: key_ok_def key)
  next
    case True
    have "run_key (write_back run out s) = k"
      using run_key_identity [OF ReconcileKind_frame(1) [OF laws(1) env(2) call]] key
      by (simp add: write_back_def)
    moreover have "k \<in> cl_known c" using ok(1) run by (auto simp: key_ok_def)
    moreover have before: "requests k (cl_trace c) \<le> 1"
      "requests k (cl_trace c) = 1 \<Longrightarrow> Submitted \<le> run_phase L run"
      using ok(1) run by (simp_all add: key_ok_def)
    have "requests k (cl_trace c @ rs_effects s) \<le> 1 \<and>
        (requests k (cl_trace c @ rs_effects s) = 1 \<longrightarrow> Submitted \<le> run_phase L (write_back run out s))"
      using C(1) [unfolded key]
    proof (elim disjE conjE)
      assume "requests k (rs_effects s) = 0"
      with before C(2) show ?thesis using order_trans by fastforce
    next
      assume "requests k (rs_effects s) = 1" "run_phase L run < Submitted"
        "Submitted \<le> run_phase L (write_back run out s)"
      moreover have "requests k (cl_trace c) = 0"
        using before calculation(2) by (metis One_nat_def le_Suc_eq le_zero_eq leD)
      ultimately show ?thesis by simp
    qed
    ultimately show ?thesis by (simp add: True key_ok_def)
  qed
qed

lemma trace_ok_work:
  assumes laws: "run_laws L" "ce_laws L" and ok: "key_ok L c k" "trace_ok c"
    and run: "cl_runs c k = Some run" and call: "ReconcileKind L r now run (cl_api c) = (out, s)"
  shows "trace_ok (worked k run out s c)"
proof -
  have "run_key run = k" "k \<in> cl_known c" using ok(1) run by (auto simp: key_ok_def)
  moreover have "creates_owned run (rs_effects s)" by (rule ReconcileKind_owned [OF laws call])
  ultimately show ?thesis
    using ok(2) by (auto simp: trace_ok_def creates_owned_def key_labels_run_key [symmetric])
qed

text \<open>A recorded job run was created for the key of the Run that records it.\<close>

definition created_as ::
    "NamespacedName \<Rightarrow> string \<Rightarrow> ('st, 'x) effect list \<Rightarrow> bool" where
  "created_as k name es \<longleftrightarrow>
     (\<exists>jr jr'. CreateCall jr (Inr jr') \<in> set es \<and> jr_Labels jr = key_labels k \<and> jr_Name jr' = name)"

definition record_ok :: "('st, 'z) run_lib_scheme \<Rightarrow> ('st, 'x, 'w) cluster \<Rightarrow> NamespacedName \<Rightarrow> bool" where
  "record_ok L c k \<longleftrightarrow>
     (\<forall>run st. cl_runs c k = Some run \<longrightarrow> stored_status L (run_Status run) = Some st \<longrightarrow>
        ts_JobRunName st \<noteq> [] \<longrightarrow> created_as k (ts_JobRunName st) (cl_trace c))"

lemma created_as_append: "created_as k n es \<or> created_as k n fs \<Longrightarrow> created_as k n (es @ fs)"
  by (auto simp: created_as_def)

lemma created_for_as:
  assumes "ce_laws L" and "created_for L run spec n es"
  shows "created_as (run_key run) n es"
proof -
  obtain sp jd jr where "CreateCall (requested_job_run L run sp jd) (Inr jr) \<in> set es" "jr_Name jr = n"
    using assms(2) by (auto simp: created_for_def)
  moreover have "jr_Labels (requested_job_run L run sp jd) = key_labels (run_key run)"
    by (simp add: requested_job_run_def new_job_run_labels [OF assms(1)] key_labels_run_key)
  ultimately show ?thesis unfolding created_as_def by blast
qed

lemma record_ok_create:
  assumes "record_ok L c k" and "unsubmitted L run"
  shows "record_ok L (c\<lparr>cl_runs := (cl_runs c)(run_key run \<mapsto> run), cl_known := ks, cl_queue := q\<rparr>) k"
  using assms by (cases "k = run_key run") (simp_all add: record_ok_def unsubmitted_def split: option.splits)

lemma record_ok_delete: "record_ok L c k \<Longrightarrow> record_ok L (c\<lparr>cl_runs := (cl_runs c)(k' := None)\<rparr>) k"
  by (simp add: record_ok_def)

lemma record_ok_work:
  assumes laws: "run_laws L" "ce_laws L" and ok: "key_ok L c k" "record_ok L c k" "record_ok L c k'"
    and run: "cl_runs c k = Some run" and now: "0 < now"
    and call: "ReconcileKind L r now run (cl_api c) = (out, s)"
  shows "record_ok L (worked k run out s c) k'"
proof (cases "k' = k")
  case False
  with ok(3) show ?thesis by (simp add: record_ok_def created_as_append)
next
  case True
  have key: "run_key run = k" using ok(1) run by (simp add: key_ok_def)
  have "created_as k (ts_JobRunName st) (cl_trace c @ rs_effects s)"
    if st: "stored_status L (run_Status (write_back run out s)) = Some st" "ts_JobRunName st \<noteq> []" for st
  proof -
    from from_call_write_back [OF laws(1) now call] st(1)
    have "stored_status L (run_Status run) = Some st \<or>
        sourced L run (stored_status L (run_Status run)) (rs_effects s) st"
      unfolding from_call_def by blast
    then have "(\<exists>s0. stored_status L (run_Status run) = Some s0 \<and> ts_JobRunName s0 = ts_JobRunName st) \<or>
        created_for L run (ts_CodeEngineTaskSpec st) (ts_JobRunName st) (rs_effects s)"
      using st(2) by (auto simp: sourced_def)
    then show ?thesis
    proof
      assume "\<exists>s0. stored_status L (run_Status run) = Some s0 \<and> ts_JobRunName s0 = ts_JobRunName st"
      then obtain s0 where "stored_status L (run_Status run) = Some s0" "ts_JobRunName s0 = ts_JobRunName st"
        by blast
      with ok(2) run st(2) have "created_as k (ts_JobRunName st) (cl_trace c)"
        unfolding record_ok_def by metis
      then show ?thesis by (simp add: created_as_append)
    next
      assume "created_for L run (ts_CodeEngineTaskSpec st) (ts_JobRunName st) (rs_effects s)"
      from created_for_as [OF laws(2) this] show ?thesis by (simp add: key created_as_append)
    qed
  qed
  then show ?thesis by (simp add: record_ok_def True)
qed

text \<open>All of it, in every reachable cluster.\<close>

definition cluster_ok :: "('st, 'z) run_lib_scheme \<Rightarrow> ('st, 'x, 'w) cluster \<Rightarrow> bool" where
  "cluster_ok L c \<longleftrightarrow> (\<forall>k. key_ok L c k) \<and> (\<forall>k. record_ok L c k) \<and> trace_ok c"

lemma cluster_step_ok:
  assumes laws: "run_laws L" "ce_laws L" and step: "cluster_step L c c'" and ok: "cluster_ok L c"
  shows "cluster_ok L c'"
  using step
proof (cases rule: cluster_step.cases)
  case (create_run run)
  with ok show ?thesis by (auto simp: cluster_ok_def trace_ok_def intro: key_ok_create record_ok_create)
next
  case (delete_run k)
  with ok show ?thesis by (auto simp: cluster_ok_def trace_ok_def intro: key_ok_delete record_ok_delete)
next
  case (work k run r now out s)
  have ok': "key_ok L c k'" "record_ok L c k'" "trace_ok c" for k'
    using ok by (simp_all add: cluster_ok_def)
  show ?thesis
    using key_ok_work [OF laws ok'(1) ok'(1) work(3-6)]
      record_ok_work [OF laws ok'(1,2) ok'(2) work(3,5,6)]
      trace_ok_work [OF laws ok'(1,3) work(3,6)]
    by (simp add: cluster_ok_def work(1))
qed (use ok in \<open>auto simp: cluster_ok_def key_ok_def record_ok_def trace_ok_def\<close>)

lemma cluster_reach_ok:
  assumes laws: "run_laws L" "ce_laws L" and "cluster_reach L c"
  shows "cluster_ok L c"
  using assms(3)
proof (induction rule: cluster_reach.induct)
  case (reach_empty w)
  show ?case
    by (simp add: cluster_ok_def empty_cluster_def key_ok_def record_ok_def trace_ok_def requests_def)
next
  case (reach_step c c')
  then show ?case using cluster_step_ok [OF laws] by blast
qed

lemma requests_positive:
  assumes "CreateCall jr res \<in> set es" and "jr_Labels jr = key_labels k"
  shows "0 < requests k es"
proof -
  have "CreateCall jr res \<in> set (filter (requested_by k) es)" using assms by simp
  then show ?thesis unfolding requests_def by (metis length_greater_0_conv list.set(1) empty_iff)
qed

section \<open>One job run per Run\<close>

text \<open>
  C5: however the Runs of a cluster are interleaved, with reliable environments at most one job run
  is ever asked for on behalf of a Run.  Every job run asked for comes back: its events pass the
  filter and enqueue the key of the one Run it was asked for.  And a Run records only a job run that
  was created for it.
\<close>

theorem cluster_one_job_run:
  assumes laws: "run_laws L" "ce_laws L" and reach: "cluster_reach L c"
  shows "requests k (cl_trace c) \<le> 1 \<and>
    (\<forall>jr res. CreateCall jr res \<in> set (cl_trace c) \<longrightarrow>
       filterJobRunRef (JobRunObj jr) \<and>
       (\<exists>key\<in>cl_known c. jobRunEnqueueFunc impl (JobRunObj jr) = Return (impl, key) \<and>
          requests key (cl_trace c) = 1)) \<and>
    (\<forall>run st. cl_runs c k = Some run \<longrightarrow> stored_status L (run_Status run) = Some st \<longrightarrow>
       ts_JobRunName st \<noteq> [] \<longrightarrow> created_as k (ts_JobRunName st) (cl_trace c))"
proof -
  note ok = cluster_reach_ok [OF laws reach, unfolded cluster_ok_def]
  have once: "requests key (cl_trace c) \<le> 1" for key using ok by (auto simp: key_ok_def)
  have "filterJobRunRef (JobRunObj jr) \<and>
      (\<exists>key\<in>cl_known c. jobRunEnqueueFunc impl (JobRunObj jr) = Return (impl, key) \<and>
         requests key (cl_trace c) = 1)"
    if create: "CreateCall jr res \<in> set (cl_trace c)" for jr res
  proof -
    obtain key where key: "key \<in> cl_known c" "jr_Labels jr = key_labels key"
      using ok create unfolding trace_ok_def by blast
    have "requests key (cl_trace c) = 1"
      using once [of key] requests_positive [OF create key(2)] by linarith
    with key(1) keyed_job_run_event [OF key(2), of impl] show ?thesis
      by (intro conjI bexI [of _ key]) simp_all
  qed
  moreover have "record_ok L c k" using ok by blast
  ultimately show ?thesis using once by (simp add: record_ok_def)
qed

text \<open>A user creates the sample Run, and a worker reconciles it.\<close>

lemma cluster_one_job_run_witness:
  "\<exists>c. cluster_reach sample_lib (c :: (sample_st, string, nat) cluster) \<and>
     cl_runs c (run_key fresh_run) \<noteq> None \<and> requests (run_key fresh_run) (cl_trace c) = 1 \<and>
     jobRunEnqueueFunc ''impl'' (JobRunObj (requested_job_run sample_lib fresh_run
       (effective_spec zero_CodeEngineTaskStatus \<lparr>JobName = ''train''\<rparr>) ''image'')) =
     Return (''impl'', run_key fresh_run)"
proof -
  let ?k = "run_key fresh_run"
  let ?jr = "requested_job_run sample_lib fresh_run
    (effective_spec zero_CodeEngineTaskStatus \<lparr>JobName = ''train''\<rparr>) ''image''"
  define c1 :: "(sample_st, string, nat) cluster" where
    "c1 = (empty_cluster 0)\<lparr>cl_runs := (cl_runs (empty_cluster 0 :: (sample_st, string, nat) cluster))(?k \<mapsto> fresh_run),
       cl_known := insert ?k (cl_known (empty_cluster 0 :: (sample_st, string, nat) cluster)),
       cl_queue := enqueue_key ?k (cl_queue (empty_cluster 0 :: (sample_st, string, nat) cluster))\<rparr>"
  have "unsubmitted sample_lib fresh_run"
    unfolding unsubmitted_def sample_stored by (simp add: sample_names)
  then have "cluster_step sample_lib (empty_cluster 0) c1"
    unfolding c1_def by (intro cluster_step.create_run) (simp_all add: empty_cluster_def)
  then have c1: "cluster_reach sample_lib c1" by (rule reach_step [OF reach_empty])
  obtain out s where call: "ReconcileKind sample_lib (sample_reconciler no_job_runs) 100 fresh_run (cl_api c1) =
      (out, s)" by (rule prod.exhaust)
  have c1_simps: "cl_api c1 = 0" "cl_runs c1 ?k = Some fresh_run" "?k \<in> set (cl_queue c1)" "cl_trace c1 = []"
    by (simp_all add: c1_def empty_cluster_def enqueue_key_def)
  have c2: "cluster_reach sample_lib (worked ?k fresh_run out s c1)"
    by (rule reach_step [OF c1 cluster_step.work [OF c1_simps(3,2) _ _ call]]) (simp_all add: sample_simps)
  have "filter is_create (rs_effects s) = [CreateCall ?jr (Inr first_job_run)]"
    by (rule will_create_creates_one(3) [OF sample_run_laws _ sample_verify sample_undone
          sample_stored(1) sample_names(1) sample_task_spec sample_will_create call [unfolded c1_simps(1)]]) simp
  then have "CreateCall ?jr (Inr first_job_run) \<in> set (filter is_create (rs_effects s))" by simp
  then have create: "CreateCall ?jr (Inr first_job_run) \<in> set (cl_trace (worked ?k fresh_run out s c1))"
    by (simp add: c1_simps(4))
  have known: "cl_known (worked ?k fresh_run out s c1) = {?k}" by (simp add: c1_def empty_cluster_def)
  note P = cluster_one_job_run [OF sample_run_laws sample_ce_laws c2, of ?k "''impl''"]
  have "\<exists>key\<in>{?k}. jobRunEnqueueFunc ''impl'' (JobRunObj ?jr) = Return (''impl'', key) \<and>
      requests key (cl_trace (worked ?k fresh_run out s c1)) = 1"
    using conjunct1 [OF conjunct2 [OF P], rule_format, OF create] unfolding known by blast
  then have "requests ?k (cl_trace (worked ?k fresh_run out s c1)) = 1 \<and>
      jobRunEnqueueFunc ''impl'' (JobRunObj ?jr) = Return (''impl'', ?k)" by simp
  moreover have "cl_runs (worked ?k fresh_run out s c1) ?k \<noteq> None" by simp
  ultimately show ?thesis using c2 by blast
qed

end
