(* ===== verification/ClusterRuns.thy ===== *)
theory ClusterRuns
  imports Cluster
begin

text \<open>
  Executions of the cluster.  The steps of \<open>cluster_step\<close> get names, so that an infinite execution is a
  sequence of actions and the states it visits are computed; on it stand the two sides of progress: the
  queue never loses a Run whose job run is still to be created, and in a fair execution whose
  environment gets well every accepted Run is decided.
\<close>

section \<open>Actions\<close>

datatype ('st, 'x, 'jd, 'w) action =
    CreateRun "'st Run"
  | DeleteRun NamespacedName
  | RunEvent NamespacedName
  | JobRunEvent "'x JobRun"
  | ApiMoves 'w
  | KeyGone NamespacedName
  | Work NamespacedName "('x, 'jd, 'w) Reconciler" instant

fun allowed ::
    "('st, 'x, 'jd, 'z) ce_lib_scheme \<Rightarrow> ('st, 'x, 'jd, 'w) action \<Rightarrow> ('st, 'x, 'w) cluster \<Rightarrow> bool" where
  "allowed L (CreateRun run) c \<longleftrightarrow> run_key run \<notin> cl_known c \<and> unsubmitted L run"
| "allowed L (DeleteRun k) c \<longleftrightarrow> True"
| "allowed L (RunEvent k) c \<longleftrightarrow> cl_runs c k \<noteq> None"
| "allowed L (JobRunEvent jr) c \<longleftrightarrow> filterJobRunRef (JobRunObj jr)"
| "allowed L (ApiMoves w) c \<longleftrightarrow> True"
| "allowed L (KeyGone k) c \<longleftrightarrow> k \<in> set (cl_queue c) \<and> cl_runs c k = None"
| "allowed L (Work k r now) c \<longleftrightarrow>
     k \<in> set (cl_queue c) \<and> cl_runs c k \<noteq> None \<and> reliable L r \<and> 0 < now"

fun act ::
    "('st, 'x, 'jd, 'z) ce_lib_scheme \<Rightarrow> ('st, 'x, 'jd, 'w) action \<Rightarrow> ('st, 'x, 'w) cluster \<Rightarrow>
       ('st, 'x, 'w) cluster" where
  "act L (CreateRun run) c =
     c\<lparr>cl_runs := (cl_runs c)(run_key run \<mapsto> run), cl_known := insert (run_key run) (cl_known c),
       cl_queue := enqueue_key (run_key run) (cl_queue c)\<rparr>"
| "act L (DeleteRun k) c = c\<lparr>cl_runs := (cl_runs c)(k := None)\<rparr>"
| "act L (RunEvent k) c = c\<lparr>cl_queue := enqueue_key k (cl_queue c)\<rparr>"
| "act L (JobRunEvent jr) c =
     (case jobRunEnqueueFunc () (JobRunObj jr) of
        Return (_, k) \<Rightarrow> c\<lparr>cl_queue := enqueue_key k (cl_queue c)\<rparr>
      | Panic p \<Rightarrow> c)"
| "act L (ApiMoves w) c = c\<lparr>cl_api := w\<rparr>"
| "act L (KeyGone k) c = c\<lparr>cl_queue := remove1 k (cl_queue c)\<rparr>"
| "act L (Work k r now) c =
     (case cl_runs c k of
        None \<Rightarrow> c
      | Some run \<Rightarrow> (let (out, s) = ReconcileKind L r now run (cl_api c) in worked k run out s c))"

lemma act_is_step: "allowed L a c \<Longrightarrow> cluster_step L c (act L a c)"
proof (cases a)
  case (JobRunEvent jr)
  assume "allowed L a c"
  then have filtered: "filterJobRunRef (JobRunObj jr)" by (simp add: JobRunEvent)
  obtain k where "jobRunEnqueueFunc () (JobRunObj jr) = Return ((), k)"
    using filtered_job_run_event [OF filtered, of "()"]
    by (cases "jobRunEnqueueFunc () (JobRunObj jr)") auto
  with filtered show ?thesis by (simp add: JobRunEvent cluster_step.job_run_event)
qed (auto intro: cluster_step.intros split: prod.split)

lemma step_is_act:
  assumes "cluster_step L c c'"
  shows "\<exists>a. allowed L a c \<and> c' = act L a c"
  using assms
proof (cases rule: cluster_step.cases)
  case (create_run run)
  then show ?thesis by (intro exI [of _ "CreateRun run"]) simp
next
  case (delete_run k)
  then show ?thesis by (intro exI [of _ "DeleteRun k"]) simp
next
  case (run_event k run)
  then show ?thesis by (intro exI [of _ "RunEvent k"]) simp
next
  case (job_run_event jr k)
  then show ?thesis by (intro exI [of _ "JobRunEvent jr"]) simp
next
  case (api_moves w)
  then show ?thesis by (intro exI [of _ "ApiMoves w"]) simp
next
  case (key_gone k)
  then show ?thesis by (intro exI [of _ "KeyGone k"]) simp
next
  case (work k run r now out s)
  then show ?thesis by (intro exI [of _ "Work k r now"]) simp
qed

lemma cluster_step_iff: "cluster_step L c c' \<longleftrightarrow> (\<exists>a. allowed L a c \<and> c' = act L a c)"
  using act_is_step step_is_act by blast

section \<open>The queue forgets no Run\<close>

lemma set_enqueue_key [simp]: "set (enqueue_key k q) = insert k (set q)"
  by (auto simp: enqueue_key_def)

lemma distinct_enqueue_key [simp]: "distinct (enqueue_key k q) = distinct q"
  by (simp add: enqueue_key_def)

lemma cl_queue_worked:
  "cl_queue (worked k run out s c) =
     (if out = Return None then remove1 k (cl_queue c) else enqueue_key k (remove1 k (cl_queue c)))"
  by (simp add: worked_def Let_def)

text \<open>A call that returns without an error leaves a job run recorded, or the Run decided.\<close>

lemma returned_submitted:
  assumes laws: "run_laws L" and now: "0 < now" and rel: "reliable L r"
    and verified: "verifyCodeEngineSpec L run = Return True"
    and call: "ReconcileKind L r now run api = (Return None, s)"
  shows "Submitted \<le> run_phase L (rs_run s)"
  using call
proof (cases rule: ReconcileKind_cases)
  case (accepted s1)
  let ?s = "\<lparr>rs_run = run, rs_status = zero_CodeEngineTaskStatus, rs_api = api, rs_effects = []\<rparr>"
  have result: "rs_run s = rs_run s1" by (simp add: accepted(3))
  show ?thesis
  proof (cases "IsDone L (run_Status run)")
    case True
    obtain b where "lifecycle (reliable L r) (run_phase L run) b (run_phase L (rs_run s))"
      using ReconcileKind_lifecycle [OF laws now verified call] by blast
    moreover have "run_phase L run = Finished" using True by (simp add: phase_of_def)
    ultimately have "run_phase L (rs_run s) = Finished" by simp
    then show ?thesis by simp
  next
    case False
    then obtain s2 where s2: "begun L ?s s2" "reconcile_body L r now ?s = reconcile_undone L r s2"
      using reconcile_body_begun [OF laws now, of ?s r] by auto
    from accepted(2) s2(2) have "reconcile_undone L r s2 = (Return None, s1)" by simp
    then show ?thesis
    proof (cases rule: reconcile_undone_cases)
      case (encoded status s3 err run1)
      have "ts_JobRunName (rs_status s3) \<noteq> []"
        using reconcile_ok [OF laws encoded(2)] rel by (cases "ts_JobRunName status = []") auto
      moreover have "HasStarted L (run_Status (rs_run s3))"
        using HasStarted_keeps [OF laws reconcile_keeps [OF laws encoded(2)]] begunD(1) [OF s2(1)] by simp
      ultimately show ?thesis
        using phase_Encode [OF laws encoded(3)] encoded(4,5) by (simp add: result)
    qed simp_all
  qed
qed (use assms in simp_all)

text \<open>The invariant of the queue.\<close>

definition queue_ok :: "('st, 'z) run_lib_scheme \<Rightarrow> ('st, 'x, 'w) cluster \<Rightarrow> bool" where
  "queue_ok L c \<longleftrightarrow> distinct (cl_queue c) \<and>
     (\<forall>k run. cl_runs c k = Some run \<longrightarrow> verifyCodeEngineSpec L run = Return True \<longrightarrow>
        run_phase L run < Submitted \<longrightarrow> k \<in> set (cl_queue c))"

lemma queue_ok_work:
  assumes laws: "run_laws L" and ok: "queue_ok L c"
    and run: "cl_runs c k = Some run" and env: "reliable L r" "0 < now"
    and call: "ReconcileKind L r now run (cl_api c) = (out, s)"
  shows "queue_ok L (worked k run out s c)"
proof -
  have "k \<in> set (cl_queue (worked k run out s c))"
    if undecided: "run_phase L (write_back run out s) < Submitted"
      and verified: "verifyCodeEngineSpec L (write_back run out s) = Return True"
  proof (cases "out = Return None")
    case True
    have "same_identity run (rs_run s)" by (rule ReconcileKind_frame(1) [OF laws env(2) call])
    with verified have "verifyCodeEngineSpec L run = Return True"
      by (simp add: True write_back_def verify_identity)
    then have "Submitted \<le> run_phase L (rs_run s)"
      using returned_submitted [OF laws env(2,1)] call True by blast
    with undecided show ?thesis by (simp add: True write_back_def)
  qed (simp add: cl_queue_worked)
  moreover have "set (cl_queue c) - {k} \<subseteq> set (cl_queue (worked k run out s c))"
    using ok by (auto simp: cl_queue_worked queue_ok_def)
  ultimately show ?thesis
    using ok by (auto simp: queue_ok_def cl_queue_worked split: if_splits)
qed

lemma queue_ok_step:
  assumes laws: "run_laws L" and step: "cluster_step L c c'" and ok: "queue_ok L c"
  shows "queue_ok L c'"
  using step
proof (cases rule: cluster_step.cases)
  case (work k run r now out s)
  show ?thesis using queue_ok_work [OF laws ok work(3-6)] by (simp only: work(1))
qed (use ok in \<open>auto simp: queue_ok_def\<close>)

lemma cluster_reach_queue_ok:
  assumes laws: "run_laws L" and "cluster_reach L c"
  shows "queue_ok L c"
  using assms(2)
proof (induction rule: cluster_reach.induct)
  case (reach_empty w)
  show ?case by (simp add: queue_ok_def empty_cluster_def)
next
  case (reach_step c c')
  then show ?case using queue_ok_step [OF laws] by blast
qed

lemma unsubmitted_phase:
  "unsubmitted L run \<Longrightarrow> \<not> IsDone L (run_Status run) \<Longrightarrow> run_phase L run < Submitted"
  by (simp add: unsubmitted_def phase_of_def submitted_def split: option.splits)

text \<open>The call that finds its Run in the cache of created job runs, but not the name in its status.\<close>

lemma requeue_call:
  assumes laws: "run_laws L" and now: "0 < now"
    and accepted: "verifyCodeEngineSpec L run = Return True"
    and undone: "\<not> IsDone L (run_Status run)"
    and stored: "stored_status L (run_Status run) = Some status" "ts_JobRunName status = []"
    and task: "task_spec_of r run tls"
    and cached: "r_createdJobRuns r (object_key (run_Namespace run) (run_Name run))"
    and call: "ReconcileKind L r now run api = (out, s')"
  shows "out = Return (Some RequeueImmediately)"
    and "stored_status L (run_Status (rs_run s')) = Some status" and "\<not> IsDone L (run_Status (rs_run s'))"
proof -
  obtain s1 s2 where s1: "begun L \<lparr>rs_run = run, rs_status = zero_CodeEngineTaskStatus,
        rs_api = api, rs_effects = []\<rparr> s1"
    and s2: "reconcile_undone L r s1 = (out, s2)" "rs_run s' = rs_run s2"
    using ReconcileKind_undone [OF laws now accepted undone call] by metis
  note W = begun_work [OF s1 stored(1)]
  have id: "same_identity run (rs_run s1)" using begunD(3) [OF s1] by simp
  have "task_spec_of r (rs_run (s1\<lparr>rs_status := status\<rparr>)) tls"
    using task by (simp add: task_spec_of_identity [OF id])
  then obtain t where t: "getCodeEngineTask L r (s1\<lparr>rs_status := status\<rparr>) = (Return (Inr t), s1\<lparr>rs_status := status\<rparr>)"
    using getCodeEngineTask_resolves by blast
  obtain s3 where s3: "reconcile L r (s1\<lparr>rs_status := status\<rparr>) = (Return (Some RequeueImmediately), s3)"
    "rs_run s3 = rs_run s1"
    using stored(2) cached by (simp add: reconcile_def t runCodeEngineJob_def same_identity_fields [OF id])
  with s2(1) reconcile_undone_error [OF W(1)]
  have result: "out = Return (Some RequeueImmediately)" "s2 = s3" by simp_all
  then show "out = Return (Some RequeueImmediately)" by simp
  show "stored_status L (run_Status (rs_run s')) = Some status" and "\<not> IsDone L (run_Status (rs_run s'))"
    using W(1) begunD(2) [OF s1] by (simp_all add: s2(2) result(2) s3(2))
qed

lemma phase_Submitted:
  "Submitted \<le> run_phase L run \<longleftrightarrow>
     IsDone L (run_Status run) \<or> HasStarted L (run_Status run) \<and> \<not> unsubmitted L run"
  by (auto simp: phase_of_def submitted_def unsubmitted_def split: option.splits)

text \<open>
  C6: no Run is forgotten, in an environment whose job run lister fails with NotFound only and whose API
  names the job runs it creates.  In every reachable cluster the queue holds the key of every stored
  Run that the reconciler accepts while that Run has neither a recorded job run nor a verdict.  And a
  call on an accepted Run returns without an error, which takes the key off the queue, only when it
  leaves the Run decided or with a recorded job run.
\<close>

theorem unsubmitted_run_queued:
  assumes "run_laws L" and "cluster_reach L c"
  shows "(\<forall>k run. cl_runs c k = Some run \<and> verifyCodeEngineSpec L run = Return True \<and>
       \<not> IsDone L (run_Status run) \<and> unsubmitted L run \<longrightarrow> k \<in> set (cl_queue c)) \<and>
    (\<forall>r now run api s. reliable L r \<and> 0 < now \<and> verifyCodeEngineSpec L run = Return True \<and>
       ReconcileKind L r now run (api :: 'w) = (Return None, (s :: ('st, 'x, 'w) rstate)) \<longrightarrow>
       IsDone L (run_Status (rs_run s)) \<or>
       (\<exists>status. stored_status L (run_Status (rs_run s)) = Some status \<and> ts_JobRunName status \<noteq> []))"
proof (intro conjI allI impI; elim conjE)
  fix k run
  assume "cl_runs c k = Some run" "verifyCodeEngineSpec L run = Return True"
    "\<not> IsDone L (run_Status run)" "unsubmitted L run"
  then show "k \<in> set (cl_queue c)"
    using cluster_reach_queue_ok [OF assms] unsubmitted_phase unfolding queue_ok_def by blast
next
  fix r now run and api :: 'w and s :: "('st, 'x, 'w) rstate"
  assume a: "reliable L r" "0 < now" "verifyCodeEngineSpec L run = Return True"
    "ReconcileKind L r now run api = (Return None, s)"
  have "Submitted \<le> run_phase L (rs_run s)" by (rule returned_submitted [OF assms(1) a(2,1,3,4)])
  then show "IsDone L (run_Status (rs_run s)) \<or>
      (\<exists>status. stored_status L (run_Status (rs_run s)) = Some status \<and> ts_JobRunName status \<noteq> [])"
    by (auto simp: phase_Submitted unsubmitted_def split: option.splits)
qed

text \<open>
  A Run is created and reconciled by a reconciler that has it in its cache of created job runs: the call
  asks to be called again, and the key is still there.
\<close>

definition cached_reconciler :: "(string, string, nat) Reconciler" where
  "cached_reconciler = (sample_reconciler no_job_runs)\<lparr>r_createdJobRuns := \<lambda>_. True\<rparr>"

lemma unsubmitted_run_queued_witness:
  "fst (ReconcileKind sample_lib cached_reconciler 100 fresh_run 0) = Return (Some RequeueImmediately) \<and>
   run_key fresh_run \<in> set (cl_queue (act sample_lib (Work (run_key fresh_run) cached_reconciler 100)
     (act sample_lib (CreateRun fresh_run) (empty_cluster 0))))"
proof -
  let ?k = "run_key fresh_run"
  let ?start = "act sample_lib (CreateRun fresh_run :: (sample_st, string, string, nat) action) (empty_cluster 0)"
  let ?c = "act sample_lib (Work ?k cached_reconciler 100) ?start"
  have new: "unsubmitted sample_lib fresh_run"
    unfolding unsubmitted_def sample_stored by (simp add: sample_names)
  have rel: "reliable sample_lib cached_reconciler"
    using sample_reliable(1) by (simp add: reliable_def cached_reconciler_def)
  have "cluster_reach sample_lib ?start"
    by (rule reach_step [OF reach_empty act_is_step]) (simp add: new empty_cluster_def)
  then have reach: "cluster_reach sample_lib ?c"
    by (rule reach_step [OF _ act_is_step]) (simp add: rel)
  obtain out s where call: "ReconcileKind sample_lib cached_reconciler 100 fresh_run 0 = (out, s)"
    by (rule prod.exhaust)
  have task: "task_spec_of cached_reconciler fresh_run \<lparr>JobName = ''train''\<rparr>"
    by (rule sample_task_spec_of) (simp add: cached_reconciler_def sample_reconciler_def)
  have cached: "r_createdJobRuns cached_reconciler (object_key (run_Namespace fresh_run) (run_Name fresh_run))"
    by (simp add: cached_reconciler_def)
  note R = requeue_call [OF sample_run_laws _ sample_verify sample_undone sample_stored(1) sample_names(1)
      task cached call, simplified]
  have id: "same_identity fresh_run (rs_run s)"
    by (rule ReconcileKind_frame(1) [OF sample_run_laws _ call]) simp
  have "cl_runs ?c ?k = Some (rs_run s)"
    using call R(1) by (simp add: write_back_def empty_cluster_def)
  moreover have "unsubmitted sample_lib (rs_run s)" by (simp add: unsubmitted_def R(2) sample_names)
  moreover have "verifyCodeEngineSpec sample_lib (rs_run s) = Return True"
    using sample_verify by (simp add: verify_identity [OF id])
  ultimately have "?k \<in> set (cl_queue ?c)"
    using unsubmitted_run_queued [OF sample_run_laws reach] R(3) by blast
  then show ?thesis using call R(1) by simp
qed

end
