(* ===== verification/ClusterProgress.thy ===== *)
theory ClusterProgress
  imports ClusterRuns RunFinishes
begin

text \<open>
  Infinite executions of the cluster: under fair workers, an environment that gets well and job runs that
  finish, every accepted Run that is kept is decided and stays decided.
\<close>

section \<open>Executions\<close>

primrec visited ::
    "('st, 'x, 'jd, 'z) ce_lib_scheme \<Rightarrow> (nat \<Rightarrow> ('st, 'x, 'jd, 'w) action) \<Rightarrow> ('st, 'x, 'w) cluster \<Rightarrow>
       nat \<Rightarrow> ('st, 'x, 'w) cluster" where
  "visited L acts c 0 = c"
| "visited L acts c (Suc n) = act L (acts n) (visited L acts c n)"

definition execution ::
    "('st, 'x, 'jd, 'z) ce_lib_scheme \<Rightarrow> (nat \<Rightarrow> ('st, 'x, 'jd, 'w) action) \<Rightarrow> ('st, 'x, 'w) cluster \<Rightarrow>
       bool" where
  "execution L acts c \<longleftrightarrow> cluster_reach L c \<and> (\<forall>n. allowed L (acts n) (visited L acts c n))"

lemma visited_reach: "execution L acts c \<Longrightarrow> cluster_reach L (visited L acts c n)"
proof (induction n)
  case (Suc n)
  then show ?case using reach_step act_is_step unfolding execution_def by fastforce
qed (simp add: execution_def)

text \<open>A key in the queue is worked on at some later time.\<close>

fun works_on :: "NamespacedName \<Rightarrow> ('st, 'x, 'jd, 'w) action \<Rightarrow> bool" where
  "works_on k (Work k' r now) = (k = k')"
| "works_on k _ = False"

lemma works_on_iff: "works_on k a \<longleftrightarrow> (\<exists>r now. a = Work k r now)"
  by (cases a) auto

definition fair_workers ::
    "('st, 'x, 'jd, 'z) ce_lib_scheme \<Rightarrow> (nat \<Rightarrow> ('st, 'x, 'jd, 'w) action) \<Rightarrow> ('st, 'x, 'w) cluster \<Rightarrow>
       NamespacedName \<Rightarrow> bool" where
  "fair_workers L acts c k \<longleftrightarrow>
     (\<forall>n. k \<in> set (cl_queue (visited L acts c n)) \<longrightarrow> (\<exists>m\<ge>n. works_on k (acts m)))"

text \<open>
  From the time \<open>N\<close> on the lookups of a call on the Run answer: its task resolves, and a job run that is
  still to be created can be.
\<close>

definition helpful ::
    "('st, 'x, 'jd, 'z) ce_lib_scheme \<Rightarrow> ('x, 'jd, 'w) Reconciler \<Rightarrow> 'st Run \<Rightarrow> 'w \<Rightarrow> bool" where
  "helpful L r run api \<longleftrightarrow>
     (\<exists>tls. task_spec_of r run tls \<and>
        (\<forall>status. stored_status L (run_Status run) = Some status \<longrightarrow> ts_JobRunName status = [] \<longrightarrow>
           (\<exists>jd jr api'. will_create L r run api (effective_spec status tls) jd jr api')))"

definition healthy_from ::
    "nat \<Rightarrow> ('st, 'x, 'jd, 'z) ce_lib_scheme \<Rightarrow> (nat \<Rightarrow> ('st, 'x, 'jd, 'w) action) \<Rightarrow>
       ('st, 'x, 'w) cluster \<Rightarrow> NamespacedName \<Rightarrow> bool" where
  "healthy_from N L acts c k \<longleftrightarrow>
     (\<forall>n\<ge>N. \<forall>r now run. acts n = Work k r now \<longrightarrow> cl_runs (visited L acts c n) k = Some run \<longrightarrow>
        helpful L r run (cl_api (visited L acts c n)))"

text \<open>
  A job run that was created for \<open>k\<close> finishes: at some later time an event of it arrives, with the labels
  it was created with, and from then on the cache shows it finished.
\<close>

definition job_runs_finish ::
    "('st, 'x, 'jd, 'z) ce_lib_scheme \<Rightarrow> (nat \<Rightarrow> ('st, 'x, 'jd, 'w) action) \<Rightarrow> ('st, 'x, 'w) cluster \<Rightarrow>
       NamespacedName \<Rightarrow> bool" where
  "job_runs_finish L acts c k \<longleftrightarrow>
     (\<forall>n requested jr. CreateCall requested (Inr jr) \<in> set (cl_trace (visited L acts c n)) \<longrightarrow>
        jr_Labels requested = key_labels k \<longrightarrow>
        (\<exists>m\<ge>n. (\<exists>seen. acts m = JobRunEvent seen \<and> jr_Labels seen = jr_Labels requested) \<and>
           (\<forall>n'\<ge>m. \<forall>r now. acts n' = Work k r now \<longrightarrow>
              finished_job L (r_jobRunLister r (r_codeEngineNamespace r) (jr_Name jr)))))"

section \<open>One Run along an execution\<close>

definition evolves :: "('st, 'z) run_lib_scheme \<Rightarrow> 'st Run \<Rightarrow> 'st Run \<Rightarrow> bool" where
  "evolves L run run' \<longleftrightarrow>
     same_identity run run' \<and>
     grows (stored_status L (run_Status run)) (stored_status L (run_Status run')) \<and>
     run_phase L run \<le> run_phase L run'"

lemma evolves_refl [simp]: "evolves L run run"
  by (simp add: evolves_def)

lemma evolves_trans: "evolves L a b \<Longrightarrow> evolves L b c \<Longrightarrow> evolves L a c"
  unfolding evolves_def using same_identity_trans grows_trans order_trans by blast

lemma evolves_verify: "evolves L run run' \<Longrightarrow> verifyCodeEngineSpec L' run' = verifyCodeEngineSpec L' run"
  by (simp add: evolves_def verify_identity)

lemma finished_iff: "run_phase L run = Finished \<longleftrightarrow> IsDone L (run_Status run)"
  by (simp add: phase_of_def)

lemma evolves_done: "evolves L run run' \<Longrightarrow> IsDone L (run_Status run) \<Longrightarrow> IsDone L (run_Status run')"
  unfolding evolves_def finished_iff [symmetric] by (cases "run_phase L run'") simp_all

lemma write_back_evolves:
  assumes laws: "run_laws L" "ce_laws L" and env: "0 < now" "reliable L r"
    and call: "ReconcileKind L r now run api = (out, s)"
  shows "evolves L run (write_back run out s)"
  using ReconcileKind_frame(1,2) [OF laws(1) env(1) call] call_requests(2) [OF laws env call]
  by (simp add: evolves_def write_back_def)

text \<open>An action of an execution either leaves the Run alone or is a call on it.\<close>

lemma act_on_run:
  assumes known: "key_ok L c k" and run: "cl_runs c k = Some run"
    and allowed: "allowed L a c" and kept: "a \<noteq> DeleteRun k"
  obtains (idle) "\<not> works_on k a" "cl_runs (act L a c) k = Some run"
  | (called) r now out s where "a = Work k r now" "reliable L r" "0 < now"
      "ReconcileKind L r now run (cl_api c) = (out, s)"
      "cl_runs (act L a c) k = Some (write_back run out s)"
proof (cases "works_on k a")
  case True
  then obtain r now where a: "a = Work k r now" by (auto simp: works_on_iff)
  obtain out s where call: "ReconcileKind L r now run (cl_api c) = (out, s)" by (rule prod.exhaust)
  show thesis by (rule called [OF a _ _ call]) (use allowed run call in \<open>simp_all add: a\<close>)
next
  case False
  have "k \<in> cl_known c" using known run by (auto simp: key_ok_def)
  then have "cl_runs (act L a c) k = Some run"
    using False run allowed kept by (cases a) (auto split: outcome.splits option.splits prod.splits)
  with False show thesis by (rule idle)
qed

text \<open>A call whose lookups answer submits the Run, or decides it.\<close>

lemma helpful_call:
  assumes laws: "run_laws L" "encodes L" and env: "0 < now" "reliable L r"
    and verified: "verifyCodeEngineSpec L run = Return True" and helps: "helpful L r run api"
    and call: "ReconcileKind L r now run api = (out, s)"
  shows "Submitted \<le> run_phase L (write_back run out s)"
proof (cases "IsDone L (run_Status run)")
  case True
  have "run_phase L run \<le> run_phase L (write_back run out s)"
    using call_lifecycle [OF laws(1) env(1) call] by (auto dest: lifecycle_mono)
  moreover have "run_phase L run = Finished" using True by (simp add: finished_iff)
  ultimately show ?thesis by (cases "run_phase L (write_back run out s)") simp_all
next
  case False
  obtain s1 s2 where s1: "begun L \<lparr>rs_run = run, rs_status = zero_CodeEngineTaskStatus,
        rs_api = api, rs_effects = []\<rparr> s1"
    and s2: "reconcile_undone L r s1 = (out, s2)" "rs_run s = rs_run s2"
    using ReconcileKind_undone [OF laws(1) env(1) verified False call] by metis
  obtain tls where tls: "task_spec_of r run tls"
    "\<forall>status. stored_status L (run_Status run) = Some status \<longrightarrow> ts_JobRunName status = [] \<longrightarrow>
       (\<exists>jd jr api'. will_create L r run api (effective_spec status tls) jd jr api')"
    using helps by (auto simp: helpful_def)
  show ?thesis
  proof (cases "stored_status L (run_Status run)")
    case None
    then have "stored_status L (run_Status (rs_run s1)) = None" using begunD(5) [OF s1] by simp
    then obtain e run' where dec: "DecodeStatusFromRun L (rs_run s1) = (Inl e, run')"
      by (cases "DecodeStatusFromRun L (rs_run s1)"; cases "fst (DecodeStatusFromRun L (rs_run s1))")
        (auto dest: stored_status_Decode)
    have "IsDone L (run_Status run')" by (rule run_store.load_err [OF laws(1) dec])
    moreover have "out = Return (Some e)" "rs_run s = run'" using s2 dec by (auto simp: reconcile_undone_def)
    ultimately have "run_phase L (write_back run out s) = Finished"
      by (simp add: write_back_def finished_iff)
    then show ?thesis by simp
  next
    case (Some status)
    note W = begun_work [OF s1 Some]
    have "\<exists>s3. reconcile L r (s1\<lparr>rs_status := status\<rparr>) = (Return None, s3)"
    proof (cases "ts_JobRunName status = []")
      case True
      then obtain jd jr api' where "will_create L r run api (effective_spec status tls) jd jr api'"
        using tls(2) Some by blast
      then obtain s3 where s3: "reconcile L r (s1\<lparr>rs_status := status\<rparr>) =
          (case checkCodeEngineJobRunStatus L r s3 of (err, s4) \<Rightarrow> (Return err, s4))"
        using reconcile_creates [of r "s1\<lparr>rs_status := status\<rparr>" tls L jd jr api'] tls(1) True
        by (auto simp: W)
      obtain err s4 where check: "checkCodeEngineJobRunStatus L r s3 = (err, s4)" by (rule prod.exhaust)
      have "err = None" using check_error [of L r s3 _ s4] check env(2) by (cases err) auto
      with s3 check show ?thesis by simp
    next
      case False
      then show ?thesis
        using reconcile_recorded [of r "s1\<lparr>rs_status := status\<rparr>" tls L] tls(1) reliable_lister [OF env(2)]
        by (auto simp: W)
    qed
    then obtain s3 where s3: "reconcile L r (s1\<lparr>rs_status := status\<rparr>) = (Return None, s3)" by blast
    from reconcile_undone_encodes [OF laws W(2) s3] s2(1) have "out = Return None" by (metis prod.inject)
    with returned_submitted [OF laws(1) env verified] call show ?thesis by (simp add: write_back_def)
  qed
qed


section \<open>Progress\<close>

lemma execution_ok:
  assumes "run_laws L" and "ce_laws L" and "execution L acts c"
  shows "key_ok L (visited L acts c n) k"
  using cluster_reach_ok [OF assms(1,2) visited_reach [OF assms(3)]] by (simp add: cluster_ok_def)

lemma execution_allowed: "execution L acts c \<Longrightarrow> allowed L (acts n) (visited L acts c n)"
  by (simp add: execution_def)

lemma visited_evolves:
  assumes laws: "run_laws L" "ce_laws L" and exec: "execution L acts c"
    and kept: "\<forall>n. acts n \<noteq> DeleteRun k" and "n \<le> m"
    and run: "cl_runs (visited L acts c n) k = Some run"
  shows "\<exists>run'. cl_runs (visited L acts c m) k = Some run' \<and> evolves L run run'"
  using assms(5)
proof (induction m rule: dec_induct)
  case base
  then show ?case using run by simp
next
  case (step m)
  then obtain run1 where run1: "cl_runs (visited L acts c m) k = Some run1" "evolves L run run1" by blast
  have "acts m \<noteq> DeleteRun k" using kept by blast
  with execution_ok [OF laws exec] run1(1) execution_allowed [OF exec] show ?case
  proof (cases rule: act_on_run)
    case idle
    with run1(2) show ?thesis by simp
  next
    case (called r now out s)
    with write_back_evolves [OF laws called(3,2,4)] evolves_trans [OF run1(2)] show ?thesis by simp
  qed
qed

text \<open>The call on the Run that a fair execution makes while its key is queued.\<close>

lemma fair_call:
  assumes laws: "run_laws L" "ce_laws L" and exec: "execution L acts c"
    and kept: "\<forall>n. acts n \<noteq> DeleteRun k" and fair: "fair_workers L acts c k"
    and run: "cl_runs (visited L acts c n) k = Some run" and queued: "k \<in> set (cl_queue (visited L acts c n))"
  obtains m r now run1 out s where "n \<le> m" "acts m = Work k r now" "0 < now" "reliable L r"
    and "cl_runs (visited L acts c m) k = Some run1" "evolves L run run1"
    and "ReconcileKind L r now run1 (cl_api (visited L acts c m)) = (out, s)"
    and "cl_runs (visited L acts c (Suc m)) k = Some (write_back run1 out s)"
proof -
  obtain m r now where m: "n \<le> m" "acts m = Work k r now"
    using fair queued unfolding fair_workers_def works_on_iff by blast
  obtain run1 where run1: "cl_runs (visited L acts c m) k = Some run1" "evolves L run run1"
    using visited_evolves [OF laws exec kept m(1) run] by blast
  have "acts m \<noteq> DeleteRun k" using kept by blast
  with execution_ok [OF laws exec] run1(1) execution_allowed [OF exec] show thesis
  proof (cases rule: act_on_run)
    case idle
    with m(2) show ?thesis by simp
  next
    case (called r' now' out s)
    with m run1 that [of m r now run1 out s] show ?thesis by simp
  qed
qed

lemma eventually_submitted:
  assumes laws: "run_laws L" "ce_laws L" "encodes L" and exec: "execution L acts c"
    and kept: "\<forall>n. acts n \<noteq> DeleteRun k" and fair: "fair_workers L acts c k"
    and healthy: "healthy_from N L acts c k" and "N \<le> n"
    and run: "cl_runs (visited L acts c n) k = Some run"
    and verified: "verifyCodeEngineSpec L run = Return True"
  shows "\<exists>m\<ge>n. \<exists>run'. cl_runs (visited L acts c m) k = Some run' \<and> Submitted \<le> run_phase L run'"
proof (cases "Submitted \<le> run_phase L run")
  case True
  with run show ?thesis by blast
next
  case False
  then have "k \<in> set (cl_queue (visited L acts c n))"
    using cluster_reach_queue_ok [OF laws(1) visited_reach [OF exec, of n]] run verified
    by (simp add: queue_ok_def not_le)
  then obtain m r now run1 out s where m: "n \<le> m" "acts m = Work k r now" "0 < now" "reliable L r"
    "cl_runs (visited L acts c m) k = Some run1" "evolves L run run1"
    "ReconcileKind L r now run1 (cl_api (visited L acts c m)) = (out, s)"
    "cl_runs (visited L acts c (Suc m)) k = Some (write_back run1 out s)"
    by (rule fair_call [OF laws(1,2) exec kept fair run])
  have "helpful L r run1 (cl_api (visited L acts c m))"
    using healthy m(1,2,5) \<open>N \<le> n\<close> unfolding healthy_from_def by (meson order_trans)
  moreover have "verifyCodeEngineSpec L run1 = Return True"
    using verified by (simp add: evolves_verify [OF m(6)])
  ultimately have "Submitted \<le> run_phase L (write_back run1 out s)"
    using helpful_call [OF laws(1,3) m(3,4) _ _ m(7)] by blast
  with m(1,8) show ?thesis by (meson le_SucI)
qed

lemma eventually_decided:
  assumes laws: "run_laws L" "ce_laws L" "encodes L" and exec: "execution L acts c"
    and kept: "\<forall>n. acts n \<noteq> DeleteRun k" and fair: "fair_workers L acts c k"
    and healthy: "healthy_from N L acts c k" and finish: "job_runs_finish L acts c k" and "N \<le> n"
    and run: "cl_runs (visited L acts c n) k = Some run" and phase: "run_phase L run = Submitted"
    and verified: "verifyCodeEngineSpec L run = Return True"
  shows "\<exists>m\<ge>n. \<exists>run'. cl_runs (visited L acts c m) k = Some run' \<and> IsDone L (run_Status run')"
proof -
  obtain status where status: "stored_status L (run_Status run) = Some status" "ts_JobRunName status \<noteq> []"
    using phase by (auto simp: phase_of_def submitted_def split: if_splits option.splits)
  have "record_ok L (visited L acts c n) k"
    using cluster_reach_ok [OF laws(1,2) visited_reach [OF exec]] by (simp add: cluster_ok_def)
  then obtain requested jr where "CreateCall requested (Inr jr) \<in> set (cl_trace (visited L acts c n))"
    "jr_Labels requested = key_labels k" "jr_Name jr = ts_JobRunName status"
    using run status unfolding record_ok_def created_as_def by blast
  then obtain m seen where m: "n \<le> m" "acts m = JobRunEvent seen" "jr_Labels seen = key_labels k"
    and shown: "\<forall>n'\<ge>m. \<forall>r now. acts n' = Work k r now \<longrightarrow>
      finished_job L (r_jobRunLister r (r_codeEngineNamespace r) (ts_JobRunName status))"
    using finish unfolding job_runs_finish_def by metis
  have queued: "k \<in> set (cl_queue (visited L acts c (Suc m)))"
    using keyed_job_run_event [OF m(3), of "()"] by (simp add: m(2))
  obtain run1 where run1: "cl_runs (visited L acts c (Suc m)) k = Some run1" "evolves L run run1"
    using visited_evolves [OF laws(1,2) exec kept _ run, of "Suc m"] m(1) by auto
  obtain i r now run2 out s where i: "Suc m \<le> i" "acts i = Work k r now" "0 < now" "reliable L r"
    "cl_runs (visited L acts c i) k = Some run2" "evolves L run1 run2"
    "ReconcileKind L r now run2 (cl_api (visited L acts c i)) = (out, s)"
    "cl_runs (visited L acts c (Suc i)) k = Some (write_back run2 out s)"
    by (rule fair_call [OF laws(1,2) exec kept fair run1(1) queued])
  have run2: "evolves L run run2" by (rule evolves_trans [OF run1(2) i(6)])
  have "IsDone L (run_Status (write_back run2 out s))"
  proof (cases "IsDone L (run_Status run2)")
    case True
    then show ?thesis by (rule evolves_done [OF write_back_evolves [OF laws(1,2) i(3,4,7)]])
  next
    case False
    obtain status2 where status2: "stored_status L (run_Status run2) = Some status2"
      "ts_JobRunName status2 = ts_JobRunName status"
      using run2 status by (auto simp: evolves_def grows_def)
    have "N \<le> i" using \<open>N \<le> n\<close> m(1) i(1) by simp
    then obtain tls where tls: "task_spec_of r run2 tls"
      using healthy i(2,5) unfolding healthy_from_def helpful_def by blast
    have "finished_job L (r_jobRunLister r (r_codeEngineNamespace r) (ts_JobRunName status2))"
      using shown [rule_format, OF _ i(2)] i(1) by (simp add: status2(2))
    moreover note C = recorded_call [OF laws(1,3) i(3) _ False status2(1) _ tls _ i(7)]
    have "verifyCodeEngineSpec L run2 = Return True" using verified by (simp add: evolves_verify [OF run2])
    ultimately show ?thesis
      using C(1,5) status(2) status2(2) reliable_lister [OF i(4)] by (simp add: write_back_def)
  qed
  with i(8) show ?thesis using i(1) m(1) by (meson Suc_leD le_SucI order_trans)
qed

text \<open>
  C4: in a fair execution every accepted Run that is kept gets its verdict.  The workers take every queued
  key at some time; from some time on the lookups of a call on the Run answer; a job run that was created
  for the Run finishes, which one later event with the labels of its creation announces.  Calls may fail
  in any way before, other Runs may come and go, and the API may move at any time.  Then the Run is done
  from some time on, with its identity unchanged.
\<close>

theorem cluster_run_finishes:
  assumes laws: "run_laws L" "ce_laws L" "encodes L" and exec: "execution L acts c"
    and run: "cl_runs (visited L acts c n) k = Some run" "verifyCodeEngineSpec L run = Return True"
    and kept: "\<forall>n. acts n \<noteq> DeleteRun k" and fair: "fair_workers L acts c k"
    and healthy: "healthy_from N L acts c k" and finish: "job_runs_finish L acts c k"
  shows "\<exists>m. \<forall>i\<ge>m. \<exists>run'. cl_runs (visited L acts c i) k = Some run' \<and> same_identity run run' \<and>
    IsDone L (run_Status run')"
proof -
  note E = visited_evolves [OF laws(1,2) exec kept, rotated]
  obtain run0 where run0: "cl_runs (visited L acts c (max n N)) k = Some run0" "evolves L run run0"
    using E [OF run(1), of "max n N"] by auto
  have "verifyCodeEngineSpec L run0 = Return True" using run(2) by (simp add: evolves_verify [OF run0(2)])
  from eventually_submitted [OF laws exec kept fair healthy _ run0(1) this]
  obtain m run1 where run1: "max n N \<le> m" "cl_runs (visited L acts c m) k = Some run1"
    "Submitted \<le> run_phase L run1" by auto
  have "evolves L run0 run1" using E [OF run0(1) run1(1)] run1(2) by auto
  then have verified: "verifyCodeEngineSpec L run1 = Return True"
    using run(2) by (simp add: evolves_verify [OF run0(2)] evolves_verify)
  have "\<exists>i\<ge>m. \<exists>run'. cl_runs (visited L acts c i) k = Some run' \<and> IsDone L (run_Status run')"
  proof (cases "run_phase L run1")
    case Submitted
    show ?thesis
      by (rule eventually_decided [OF laws exec kept fair healthy finish _ run1(2) Submitted verified])
        (use run1(1) in simp)
  qed (use run1 finished_iff [of L run1] in auto)
  then obtain i run2 where run2: "m \<le> i" "cl_runs (visited L acts c i) k = Some run2"
    "IsDone L (run_Status run2)" by blast
  have "\<exists>run'. cl_runs (visited L acts c j) k = Some run' \<and> same_identity run run' \<and> IsDone L (run_Status run')"
    if later: "i \<le> j" for j
  proof -
    obtain run3 where run3: "cl_runs (visited L acts c j) k = Some run3" "evolves L run2 run3"
      using visited_evolves [OF laws(1,2) exec kept later run2(2)] by blast
    moreover have "evolves L run run3" using E [OF run(1), of j] run3(1) run1(1) run2(1) later by auto
    ultimately show ?thesis using evolves_done run2(3) unfolding evolves_def by blast
  qed
  then show ?thesis by blast
qed


section \<open>A fair execution\<close>

text \<open>
  The sample Run is created and reconciled; from then on events of its job run and calls that see it
  complete alternate for ever.
\<close>

definition sample_actions :: "nat \<Rightarrow> (sample_st, string, string, nat) action" where
  "sample_actions n =
     (if n = 0 then CreateRun fresh_run
      else if n = 1 then Work (run_key fresh_run) (sample_reconciler no_job_runs) 100
      else if even n then JobRunEvent (requested_job_run sample_lib fresh_run
        (effective_spec zero_CodeEngineTaskStatus \<lparr>JobName = ''train''\<rparr>) ''image'')
      else Work (run_key fresh_run) (sample_reconciler (one_job_run ''Complete'')) 200)"

abbreviation sample_visited :: "nat \<Rightarrow> (sample_st, string, nat) cluster" where
  "sample_visited \<equiv> visited sample_lib sample_actions (empty_cluster 0)"

lemma sample_actions_later:
  "sample_actions n \<noteq> DeleteRun k"
  "2 \<le> n \<Longrightarrow> odd n \<Longrightarrow> sample_actions n = Work (run_key fresh_run) (sample_reconciler (one_job_run ''Complete'')) 200"
  by (simp_all add: sample_actions_def)

lemma sample_labels:
  "jr_Labels (requested_job_run sample_lib fresh_run sp jd) = key_labels (run_key fresh_run)"
  by (simp add: requested_job_run_def new_job_run_labels [OF sample_ce_laws] key_labels_run_key)

lemma sample_visited_1:
  "cl_runs (sample_visited 1) (run_key fresh_run) = Some fresh_run"
  "run_key fresh_run \<in> set (cl_queue (sample_visited 1))"
  "cl_api (sample_visited 1) = 0" "cl_trace (sample_visited 1) = []"
  by (simp_all add: sample_actions_def empty_cluster_def)

lemma sample_visited_2:
  "\<exists>run status. cl_runs (sample_visited 2) (run_key fresh_run) = Some run \<and>
     stored_status sample_lib (run_Status run) = Some status \<and> ts_JobRunName status = ''train-0'' \<and>
     (\<exists>req. CreateCall req (Inr first_job_run) \<in> set (cl_trace (sample_visited 2)) \<and>
        jr_Labels req = key_labels (run_key fresh_run))"
proof -
  obtain out s where call: "ReconcileKind sample_lib (sample_reconciler no_job_runs) 100 fresh_run 0 = (out, s)"
    by (rule prod.exhaust)
  have lister: "r_jobRunLister (sample_reconciler no_job_runs)
      (r_codeEngineNamespace (sample_reconciler no_job_runs)) (jr_Name first_job_run) =
      Inl (Foreign (''not found: '' @ jr_Name first_job_run))"
    by (simp add: sample_job_run_lister(1) no_job_runs_def)
  have name: "jr_Name first_job_run \<noteq> []" by (simp add: first_job_run_Name)
  note F = first_call [OF sample_run_laws sample_encodes _ sample_verify sample_undone sample_stored(1)
      sample_names(1) sample_task_spec sample_will_create name lister sample_job_run_lister(2) call]
  have v2: "sample_visited 2 = worked (run_key fresh_run) fresh_run out s (sample_visited 1)"
    using sample_visited_1(1,3) call by (simp add: numeral_2_eq_2 sample_actions_def)
  obtain status where "stored_status sample_lib (run_Status (rs_run s)) = Some status"
    "ts_JobRunName status = ''train-0''" using F by (auto simp: first_job_run_Name)
  moreover have "CreateCall (requested_job_run sample_lib fresh_run
      (effective_spec zero_CodeEngineTaskStatus \<lparr>JobName = ''train''\<rparr>) ''image'') (Inr first_job_run)
      \<in> set (filter is_create (rs_effects s))" using F by simp
  moreover have "out = Return None" using F by simp
  ultimately show ?thesis using sample_labels by (auto simp: v2 write_back_def simp del: One_nat_def)
qed

lemma act_keeps_run:
  "cl_runs c k \<noteq> None \<Longrightarrow> a \<noteq> DeleteRun k \<Longrightarrow> cl_runs (act L a c) k \<noteq> None"
  by (cases a) (auto split: outcome.splits option.splits prod.splits)

lemma sample_run_stays: "1 \<le> n \<Longrightarrow> cl_runs (sample_visited n) (run_key fresh_run) \<noteq> None"
proof (induction n rule: dec_induct)
  case base
  show ?case using sample_visited_1(1) by simp
next
  case (step n)
  then show ?case using act_keeps_run sample_actions_later(1) by fastforce
qed

lemma sample_execution: "execution sample_lib sample_actions (empty_cluster 0)"
  unfolding execution_def
proof (intro conjI allI)
  show "cluster_reach sample_lib (empty_cluster 0 :: (sample_st, string, nat) cluster)" by (rule reach_empty)
  show "allowed sample_lib (sample_actions n) (sample_visited n)" for n
  proof -
    consider "n = 0" | "n = 1" | "2 \<le> n" "even n" | m where "n = Suc m" "2 \<le> m" "even m"
      by (cases n; cases "n = 1"; cases "even n") fastforce+
    then show ?thesis
    proof cases
      case 1
      have "unsubmitted sample_lib fresh_run"
        unfolding unsubmitted_def sample_stored by (simp add: sample_names)
      then show ?thesis by (simp add: 1 sample_actions_def empty_cluster_def)
    next
      case 2
      then show ?thesis
        using sample_visited_1 by (simp add: sample_actions_def sample_simps del: visited.simps)
    next
      case 3
      then show ?thesis
        using keyed_job_run_event [OF sample_labels, where impl = "()"] by (simp add: sample_actions_def)
    next
      case 4
      then show ?thesis
        using keyed_job_run_event [OF sample_labels, where impl = "()"] sample_run_stays [of n]
        by (auto simp: sample_actions_def sample_simps)
    qed
  qed
qed

lemma sample_fair: "fair_workers sample_lib sample_actions (empty_cluster 0) (run_key fresh_run)"
  unfolding fair_workers_def
proof (intro allI impI)
  fix n
  have "works_on (run_key fresh_run) (sample_actions (2 * n + 3))" by (simp add: sample_actions_later(2))
  then show "\<exists>m\<ge>n. works_on (run_key fresh_run) (sample_actions m)" by (intro exI [of _ "2 * n + 3"]) simp
qed


lemma sample_later_run:
  assumes "2 \<le> n"
  shows "\<exists>run status. cl_runs (sample_visited n) (run_key fresh_run) = Some run \<and>
     stored_status sample_lib (run_Status run) = Some status \<and> ts_JobRunName status = ''train-0'' \<and>
     (\<exists>st. run = sample_run ''task'' st)"
proof -
  note E = visited_evolves [OF sample_run_laws sample_ce_laws sample_execution, of "run_key fresh_run"]
  obtain run status where run: "cl_runs (sample_visited 2) (run_key fresh_run) = Some run"
    "stored_status sample_lib (run_Status run) = Some status" "ts_JobRunName status = ''train-0''"
    using sample_visited_2 by blast
  obtain run' where run': "cl_runs (sample_visited n) (run_key fresh_run) = Some run'" "evolves sample_lib run run'"
    using E [OF _ assms run(1)] sample_actions_later(1) by blast
  have "evolves sample_lib fresh_run run'"
    using E [OF _ _ sample_visited_1(1), of n] sample_actions_later(1) assms run'(1) by fastforce
  then have "\<exists>st. run' = sample_run ''task'' st" by (auto simp: evolves_def same_identity_def sample_run_def)
  moreover have "\<exists>status'. stored_status sample_lib (run_Status run') = Some status' \<and>
      ts_JobRunName status' = ''train-0''"
    using run'(2) run(2,3) by (auto simp: evolves_def grows_def)
  ultimately show ?thesis using run'(1) by blast
qed

lemma sample_healthy: "healthy_from 2 sample_lib sample_actions (empty_cluster 0) (run_key fresh_run)"
  unfolding healthy_from_def helpful_def
proof (intro allI impI)
  fix n r now run
  assume n: "2 \<le> n" and work: "sample_actions n = Work (run_key fresh_run) r now"
    and run: "cl_runs (sample_visited n) (run_key fresh_run) = Some run"
  obtain st status where st: "run = sample_run ''task'' st"
    "stored_status sample_lib (run_Status run) = Some status" "ts_JobRunName status = ''train-0''"
    using sample_later_run [OF n] run by auto
  have "r = sample_reconciler (one_job_run ''Complete'')"
    using work n by (auto simp: sample_actions_def split: if_splits)
  then show "\<exists>tls. task_spec_of r run tls \<and> (\<forall>status. stored_status sample_lib (run_Status run) = Some status \<longrightarrow>
      ts_JobRunName status = [] \<longrightarrow> (\<exists>jd jr api'. will_create sample_lib r run
        (cl_api (sample_visited n)) (effective_spec status tls) jd jr api'))"
    using sample_task_spec st by fastforce
qed

text \<open>The one job run asked for is the one created first.\<close>

lemma requests_unique:
  assumes "requests k es \<le> 1" and "CreateCall jr res \<in> set es" "jr_Labels jr = key_labels k"
    and "CreateCall jr' res' \<in> set es" "jr_Labels jr' = key_labels k"
  shows "res = res'"
proof -
  have "CreateCall jr res \<in> set (filter (requested_by k) es)"
    "CreateCall jr' res' \<in> set (filter (requested_by k) es)" using assms(2-5) by simp_all
  moreover have "length (filter (requested_by k) es) \<le> 1" using assms(1) by (simp add: requests_def)
  ultimately show ?thesis by (cases "filter (requested_by k) es") auto
qed

lemma trace_grows: "set (cl_trace (visited L acts c n)) \<subseteq> set (cl_trace (visited L acts c (Suc n)))"
  by (cases "acts n") (auto simp: worked_def split: outcome.splits option.splits prod.splits)

lemma trace_mono: "n \<le> m \<Longrightarrow> set (cl_trace (visited L acts c n)) \<subseteq> set (cl_trace (visited L acts c m))"
  using trace_grows by (rule lift_Suc_mono_le)

lemma sample_finish: "job_runs_finish sample_lib sample_actions (empty_cluster 0) (run_key fresh_run)"
  unfolding job_runs_finish_def
proof (intro allI impI)
  fix n :: nat and requested jr
  assume create: "CreateCall requested (Inr jr) \<in> set (cl_trace (sample_visited n))"
    and labels: "jr_Labels requested = key_labels (run_key fresh_run)"
  let ?m = "2 * n + 2"
  have "requests (run_key fresh_run) (cl_trace (sample_visited ?m)) \<le> 1"
    using execution_ok [OF sample_run_laws sample_ce_laws sample_execution] unfolding key_ok_def by blast
  moreover obtain req where "CreateCall req (Inr first_job_run) \<in> set (cl_trace (sample_visited ?m))"
    "jr_Labels req = key_labels (run_key fresh_run)"
    using sample_visited_2 trace_mono [of 2 ?m sample_lib sample_actions "empty_cluster 0"] by auto
  moreover have "CreateCall requested (Inr jr) \<in> set (cl_trace (sample_visited ?m))"
    using create trace_mono [of n ?m sample_lib sample_actions "empty_cluster 0"] by auto
  ultimately have "jr = first_job_run" using requests_unique labels by (metis sum.inject(2))
  moreover have "finished_job sample_lib (r_jobRunLister (sample_reconciler (one_job_run ''Complete''))
      (r_codeEngineNamespace (sample_reconciler (one_job_run ''Complete''))) ''train-0'')"
    by (simp add: finished_job_def sample_job_run_lister(1) one_job_run_def sample_lib_simps sample_job_run_def)
  moreover have "r = sample_reconciler (one_job_run ''Complete'')"
    if "?m \<le> n'" "sample_actions n' = Work (run_key fresh_run) r now" for n' r now
    using that by (auto simp: sample_actions_def split: if_splits)
  moreover have "\<exists>seen. sample_actions ?m = JobRunEvent seen \<and> jr_Labels seen = jr_Labels requested"
    using sample_labels labels by (simp add: sample_actions_def)
  ultimately show "\<exists>m\<ge>n. (\<exists>seen. sample_actions m = JobRunEvent seen \<and> jr_Labels seen = jr_Labels requested) \<and>
      (\<forall>n'\<ge>m. \<forall>r now. sample_actions n' = Work (run_key fresh_run) r now \<longrightarrow>
        finished_job sample_lib (r_jobRunLister r (r_codeEngineNamespace r) (jr_Name jr)))"
    by (intro exI [of _ ?m]) (auto simp: first_job_run_Name)
qed

lemma cluster_run_finishes_witness:
  "\<exists>m. \<forall>i\<ge>m. \<exists>run. cl_runs (sample_visited i) (run_key fresh_run) = Some run \<and>
     same_identity fresh_run run \<and> IsDone sample_lib (run_Status run)"
  using cluster_run_finishes [OF sample_run_laws sample_ce_laws sample_encodes sample_execution
      sample_visited_1(1) sample_verify _ sample_fair sample_healthy sample_finish]
    sample_actions_later(1) by blast

end
