(* ===== verification/Commands.thy ===== *)
theory Commands
  imports Controller
begin

text \<open>
  The two processes: \<open>src/cmd/controller/main.go\<close> and \<open>src/cmd/webhook/main.go\<close>.  What they hand to
  knative's \<open>sharedmain\<close> and to its admission controllers is their result; zap is the record
  \<open>zap_lib\<close>, the rest of the libraries \<open>main_lib\<close> and \<open>webhook_lib\<close>.
\<close>

section \<open>The controller process\<close>

record 'lvl zap_config =
  zc_Level :: 'lvl
  zc_Rest :: handle

record ('lvl, 'log) zap_lib =
  NewProductionConfig :: "'lvl zap_config"
  ParseAtomicLevel :: "string \<Rightarrow> error + 'lvl"
  BuildLogger :: "'lvl zap_config \<Rightarrow> error + 'log"
  ErrorText :: "error \<Rightarrow> string"

record ('v, 'log) main_lib =
  SignalContext :: "'v ctx"
  WithLogger :: "'v ctx \<Rightarrow> 'log \<Rightarrow> 'v ctx"

text \<open>The arguments of \<open>sharedmain.MainWithContext\<close>.\<close>

record ('v, 'ctor) shared_main =
  sm_ctx :: "'v ctx"
  sm_component :: string
  sm_constructors :: "'ctor list"

definition LogLevelEnv :: string where "LogLevelEnv = ''LOG_LEVEL''"

definition initLogger :: "(string \<Rightarrow> string) \<Rightarrow> ('lvl, 'log) zap_lib \<Rightarrow> 'log outcome" where
  "initLogger getenv Z =
     (let logLevel = getenv LogLevelEnv;
          config = NewProductionConfig Z
      in (case ParseAtomicLevel Z logLevel of
            Inl err \<Rightarrow> Panic (PanicError err)
          | Inr lvl \<Rightarrow>
              (case BuildLogger Z (config\<lparr>zc_Level := lvl\<rparr>) of
                 Inl err \<Rightarrow> Panic (PanicValue (''Cannot initialize logger: '' @ ErrorText Z err))
               | Inr logger \<Rightarrow> Return logger)))"

definition controller_main ::
    "'z schema_lib_scheme \<Rightarrow> ('lvl, 'log) zap_lib \<Rightarrow>
       (('cl, 'di, 'ri, 'c inj_any) ce_any, 'log) main_lib \<Rightarrow>
       ('ce, 'cfg, 'rc, 'cl, 'f, 'di, 'ri, 'c inj_any) ce_sdk \<Rightarrow>
       (('cl, 'di, 'ri, 'c inj_any) ce_any, 'x, 'jd, 'w, 'cl, 'di, 'ri, 'impl) controller_lib \<Rightarrow>
       (nat \<Rightarrow> indexer) \<Rightarrow> ('c task_lister \<Rightarrow> string \<Rightarrow> string \<Rightarrow> (error + CodeEngineTask) outcome) \<Rightarrow>
       (('cl, 'di, 'ri, 'c inj_any) ce_any,
        ('cl, 'di, 'ri, 'c) app_ctx \<Rightarrow> 'c inj_world \<Rightarrow>
          ('x, 'jd, 'w, 'ri, 'impl) controller outcome \<times> 'c inj_world) shared_main outcome" where
  "controller_main L Z M S CL getIndexer answers =
     (case initLogger (Getenv S) Z of
        Panic p \<Rightarrow> Panic p
      | Return logger \<Rightarrow>
          (let ctx = SignalContext M;
               ctx1 = WithLogger M ctx logger
           in (case WithClientAndInformers S ctx1 of
                 Panic p \<Rightarrow> Panic p
               | Return ctx2 \<Rightarrow>
                   Return \<lparr>sm_ctx = ctx2, sm_component = ''controller'',
                           sm_constructors = [NewController L CL getIndexer answers]\<rparr>)))"

section \<open>The webhook process\<close>

text \<open>
  The arguments of the three constructors of admission controllers; \<open>aw_types\<close> are the resources,
  each with the Go type whose methods handle it.
\<close>

record 'v resource_webhook =
  aw_name :: string
  aw_path :: string
  aw_types :: "GroupVersionKind \<rightharpoonup> go_type"
  aw_infuse :: "'v ctx \<Rightarrow> 'v ctx"
  aw_disallowUnknownFields :: bool
  aw_callbacks :: "GroupVersionKind \<rightharpoonup> handle"

record config_webhook =
  cw_name :: string
  cw_path :: string
  cw_constructors :: "string \<rightharpoonup> handle"

text \<open>\<open>SystemNamespace\<close> panics without its variable in the environment.\<close>

record webhook_lib =
  SystemNamespace :: "string outcome"
  LoggingConfigMapName :: string
  MetricsConfigMapName :: string
  NewLoggingConfig :: handle
  NewObservabilityConfig :: handle

definition webhook_types :: "'z schema_lib_scheme \<Rightarrow> GroupVersionKind \<rightharpoonup> go_type" where
  "webhook_types L = [WithKind L SchemeGroupVersion ''CodeEngineTask'' \<mapsto> CodeEngineTaskType]"

definition webhook_callbacks :: "GroupVersionKind \<rightharpoonup> handle" where
  "webhook_callbacks = Map.empty"

text \<open>The constructor of the defaulting webhook takes no callbacks.\<close>

definition NewDefaultingAdmissionController ::
    "'z schema_lib_scheme \<Rightarrow> webhook_lib \<Rightarrow> 'v resource_webhook outcome" where
  "NewDefaultingAdmissionController L W =
     (case SystemNamespace W of
        Panic p \<Rightarrow> Panic p
      | Return ns \<Rightarrow>
          Return \<lparr>aw_name = ''defaulting.webhook.'' @ ns @ ''.custom.tekton.dev'',
                  aw_path = ''/defaulting'', aw_types = webhook_types L, aw_infuse = (\<lambda>ctx. ctx),
                  aw_disallowUnknownFields = True, aw_callbacks = Map.empty\<rparr>)"

definition NewValidationAdmissionController ::
    "'z schema_lib_scheme \<Rightarrow> webhook_lib \<Rightarrow> 'v resource_webhook outcome" where
  "NewValidationAdmissionController L W =
     (case SystemNamespace W of
        Panic p \<Rightarrow> Panic p
      | Return ns \<Rightarrow>
          Return \<lparr>aw_name = ''validation.webhook.'' @ ns @ ''.custom.tekton.dev'',
                  aw_path = ''/resource-validation'', aw_types = webhook_types L,
                  aw_infuse = (\<lambda>ctx. ctx), aw_disallowUnknownFields = True,
                  aw_callbacks = webhook_callbacks\<rparr>)"

definition NewConfigValidationController :: "webhook_lib \<Rightarrow> config_webhook outcome" where
  "NewConfigValidationController W =
     (case SystemNamespace W of
        Panic p \<Rightarrow> Panic p
      | Return ns \<Rightarrow>
          Return \<lparr>cw_name = ''config.webhook.'' @ ns @ ''.custom.tekton.dev'',
                  cw_path = ''/config-validation'',
                  cw_constructors = [LoggingConfigMapName W \<mapsto> NewLoggingConfig W,
                                     MetricsConfigMapName W \<mapsto> NewObservabilityConfig W]\<rparr>)"

text \<open>The options and the constructors \<open>main\<close> hands to \<open>sharedmain.WebhookMainWithContext\<close>.\<close>

record webhook_options =
  wo_ServiceName :: string
  wo_Port :: int
  wo_SecretName :: string

datatype webhook_constructor =
    CertificatesController | DefaultingController | ValidationController | ConfigController

definition webhook_main ::
    "('v ctx \<Rightarrow> webhook_options \<Rightarrow> 'v ctx) \<Rightarrow> 'v ctx \<Rightarrow> ('v, webhook_constructor) shared_main" where
  "webhook_main WithOptions signals =
     (let ctx = WithOptions signals
            \<lparr>wo_ServiceName = ''tekton-code-engine-webhook'', wo_Port = 8443,
             wo_SecretName = ''tekton-code-engine-webhook-certs''\<rparr>
      in \<lparr>sm_ctx = ctx, sm_component = ''tekton-code-engine-webhook'',
          sm_constructors = [CertificatesController, DefaultingController, ValidationController,
                             ConfigController]\<rparr>)"

end
