(* ===== verification/CommandRuns.thy ===== *)
theory CommandRuns
  imports Commands ControllerRuns
begin

text \<open>
  The two processes at work: the controller that \<open>main\<close> of \<open>src/cmd/controller\<close> connects to the Code
  Engine project, and the tasks that the webhook of \<open>src/cmd/webhook\<close> admits.
\<close>

section \<open>The connected controller\<close>

text \<open>What \<open>NewController\<close> reads from the context, when it returns.\<close>

lemma NewController_reads:
  assumes "NewController L CL getIndexer answers ctx w = (Return ctl, w')"
  obtains runInformer ti di ri jc ns impl where
    "RunInformerGet CL ctx = Return runInformer" and "informer_Get ctx = Return ti"
    and "GetJobDefinitionInformer ctx = Return (Some di)" and "GetJobRunInformer ctx = Return (Some ri)"
    and "GetJobRunsClient (CE_JobRuns_of CL) ctx = Return jc" and "GetNamespace ctx = Return ns"
    and "r_taskLister (ctl_reconciler ctl) = answers (fst (task_informer_Lister getIndexer ti w))"
    and "w' = snd (task_informer_Lister getIndexer ti w)"
    and "r_jobDefinitionLister (ctl_reconciler ctl) = CE_JobDefinitionLister CL di"
    and "r_jobRunLister (ctl_reconciler ctl) = CE_JobRunLister CL ri"
    and "r_jobRunsClient (ctl_reconciler ctl) = jc" and "r_codeEngineNamespace (ctl_reconciler ctl) = ns"
    and "r_createdJobRuns (ctl_reconciler ctl) = gocache_New CL 300000000000 300000000000"
    and "ctl_registrations ctl =
      [RegisterRuns runInformer (GV_String L SchemeGroupVersion) CustomTaskKind impl,
       RegisterJobRuns ri filterJobRunRef (jobRunEnqueueFunc impl)]"
  using assms
  by (auto simp: NewController_def lister_of_def Let_def split: outcome.splits option.splits prod.splits)

text \<open>\<open>NewController\<close> in a context that keeps what \<open>WithClientAndInformers\<close> put there.\<close>

lemma NewController_connected:
  assumes start: "WithClientAndInformers S ctx = Return ctx1"
    and kept: "\<forall>k\<in>{NamespaceKey, CEClientKey, JobDefinitionInformerKey, JobRunInformerKey}.
        Value ctx2 k = Value ctx1 k"
    and new: "NewController L CL getIndexer answers ctx2 w = (Return ctl, w')"
  shows "\<exists>cfg rc ns client f ti ri impl. fst (getCodeEngineKubeConfig S) = Return (Inr cfg) \<and>
      ClientConfig S cfg = Inr rc \<and> CE_NewForConfigOrDie S rc = Return client \<and>
      ConfigNamespace S cfg = Inr ns \<and>
      f = CE_NewFactory S client (CE_ResyncPeriod S (withClient ctx client)) ns \<and>
      CE_JobRuns_of CL (Some client) ns = Return (r_jobRunsClient (ctl_reconciler ctl)) \<and>
      r_codeEngineNamespace (ctl_reconciler ctl) = ns \<and>
      r_jobDefinitionLister (ctl_reconciler ctl) = CE_JobDefinitionLister CL (CE_JobDefinitions S f) \<and>
      r_jobRunLister (ctl_reconciler ctl) = CE_JobRunLister CL (CE_JobRuns S f) \<and>
      r_createdJobRuns (ctl_reconciler ctl) = gocache_New CL 300000000000 300000000000 \<and>
      informer_Get ctx2 = Return ti \<and>
      r_taskLister (ctl_reconciler ctl) = answers (fst (task_informer_Lister getIndexer ti w)) \<and>
      ctl_registrations ctl =
        [RegisterRuns ri (GV_String L SchemeGroupVersion) CustomTaskKind impl,
         RegisterJobRuns (CE_JobRuns S f) filterJobRunRef (jobRunEnqueueFunc impl)]"
proof -
  from start obtain cfg rc client ns f where cfg: "fst (getCodeEngineKubeConfig S) = Return (Inr cfg)"
      "ClientConfig S cfg = Inr rc" "CE_NewForConfigOrDie S rc = Return client"
      "ConfigNamespace S cfg = Inr ns"
    and f: "f = CE_NewFactory S client (CE_ResyncPeriod S (withClient ctx client)) ns"
    and ctx1: "ctx1 = withInformers (withNamespace (withClient ctx client) ns)
           (CE_JobDefinitions S f) (CE_JobRuns S f)"
    by (rule start_context)
  have got: "GetNamespace ctx2 = Return ns" "GetClient ctx2 = Return (Some client)"
    "GetJobDefinitionInformer ctx2 = Return (Some (CE_JobDefinitions S f))"
    "GetJobRunInformer ctx2 = Return (Some (CE_JobRuns S f))"
    using kept by (simp_all add: ctx1 ce_slot_defs)
  then have client: "GetJobRunsClient (CE_JobRuns_of CL) ctx2 = CE_JobRuns_of CL (Some client) ns"
    by (simp add: GetJobRunsClient_def)
  show ?thesis
    using new
  proof (cases rule: NewController_reads)
    case (1 runInformer ti di ri jc ns1 impl)
    with got client cfg show ?thesis
      by (intro exI [of _ cfg] exI [of _ rc] exI [of _ ns] exI [of _ client] exI [of _ f]
          exI [of _ ti] exI [of _ runInformer] exI [of _ impl]) (simp add: f)
  qed
qed

text \<open>
  C14: the controller process is connected to the Code Engine project.  When \<open>main\<close> gets to
  \<open>sharedmain\<close>, its one constructor, called in any context that keeps the Code Engine keys of the
  context of \<open>main\<close>, builds a controller whose reconciler creates job runs with the client made from
  the kube config of the project in the namespace of that config, reads job definitions and job runs
  from the two informers of one factory over that client and namespace, starts with what
  \<open>gocache.New\<close> gives for five minutes, and sends the events of that job run informer to the label
  filter and the enqueue function.  A context without the informers makes it panic.  A \<open>LOG_LEVEL\<close>
  that does not parse makes \<open>main\<close> panic with that error whatever else the process finds, also where
  connecting to the project would end it in another way.
\<close>

theorem controller_connected:
  assumes main: "controller_main L Z M S CL getIndexer answers = Return call"
    and kept: "\<forall>k\<in>{NamespaceKey, CEClientKey, JobDefinitionInformerKey, JobRunInformerKey}.
        Value ctx2 k = Value (sm_ctx call) k"
    and build: "build \<in> set (sm_constructors call)" and new: "build ctx2 w = (Return ctl, w')"
    and missing: "GetJobRunInformer ctx3 = Return None \<or> GetJobDefinitionInformer ctx3 = Return None"
    and level: "ParseAtomicLevel Z1 (Getenv S1 ''LOG_LEVEL'') = Inl err"
  shows "(\<exists>logger cfg rc ns client f ti ri impl. initLogger (Getenv S) Z = Return logger \<and>
      fst (getCodeEngineKubeConfig S) = Return (Inr cfg) \<and>
      ClientConfig S cfg = Inr rc \<and> CE_NewForConfigOrDie S rc = Return client \<and>
      ConfigNamespace S cfg = Inr ns \<and>
      f = CE_NewFactory S client
        (CE_ResyncPeriod S (withClient (WithLogger M (SignalContext M) logger) client)) ns \<and>
      CE_JobRuns_of CL (Some client) ns = Return (r_jobRunsClient (ctl_reconciler ctl)) \<and>
      r_codeEngineNamespace (ctl_reconciler ctl) = ns \<and>
      r_jobDefinitionLister (ctl_reconciler ctl) = CE_JobDefinitionLister CL (CE_JobDefinitions S f) \<and>
      r_jobRunLister (ctl_reconciler ctl) = CE_JobRunLister CL (CE_JobRuns S f) \<and>
      r_createdJobRuns (ctl_reconciler ctl) = gocache_New CL 300000000000 300000000000 \<and>
      informer_Get ctx2 = Return ti \<and>
      r_taskLister (ctl_reconciler ctl) = answers (fst (task_informer_Lister getIndexer ti w)) \<and>
      ctl_registrations ctl =
        [RegisterRuns ri (GV_String L SchemeGroupVersion) CustomTaskKind impl,
         RegisterJobRuns (CE_JobRuns S f) filterJobRunRef (jobRunEnqueueFunc impl)]) \<and>
    is_panic (fst (build ctx3 w)) \<and>
    controller_main L Z1 M1 S1 CL getIndexer answers = Panic (PanicError err)"
proof (intro conjI)
  from main obtain logger where start: "WithClientAndInformers S (WithLogger M (SignalContext M) logger) =
      Return (sm_ctx call)" and logger: "initLogger (Getenv S) Z = Return logger" and ctors: "sm_constructors call = [NewController L CL getIndexer answers]"
    by (auto simp: controller_main_def Let_def split: outcome.splits)
  with build have build': "build = NewController L CL getIndexer answers" by simp
  show "\<exists>logger cfg rc ns client f ti ri impl. initLogger (Getenv S) Z = Return logger \<and>
      fst (getCodeEngineKubeConfig S) = Return (Inr cfg) \<and>
      ClientConfig S cfg = Inr rc \<and> CE_NewForConfigOrDie S rc = Return client \<and>
      ConfigNamespace S cfg = Inr ns \<and>
      f = CE_NewFactory S client
        (CE_ResyncPeriod S (withClient (WithLogger M (SignalContext M) logger) client)) ns \<and>
      CE_JobRuns_of CL (Some client) ns = Return (r_jobRunsClient (ctl_reconciler ctl)) \<and>
      r_codeEngineNamespace (ctl_reconciler ctl) = ns \<and>
      r_jobDefinitionLister (ctl_reconciler ctl) = CE_JobDefinitionLister CL (CE_JobDefinitions S f) \<and>
      r_jobRunLister (ctl_reconciler ctl) = CE_JobRunLister CL (CE_JobRuns S f) \<and>
      r_createdJobRuns (ctl_reconciler ctl) = gocache_New CL 300000000000 300000000000 \<and>
      informer_Get ctx2 = Return ti \<and>
      r_taskLister (ctl_reconciler ctl) = answers (fst (task_informer_Lister getIndexer ti w)) \<and>
      ctl_registrations ctl =
        [RegisterRuns ri (GV_String L SchemeGroupVersion) CustomTaskKind impl,
         RegisterJobRuns (CE_JobRuns S f) filterJobRunRef (jobRunEnqueueFunc impl)]"
    using NewController_connected [OF start kept new [unfolded build']] logger by blast
  show "is_panic (fst (build ctx3 w))"
    using missing
    by (auto simp: build' NewController_def lister_of_def Let_def
        split: outcome.split option.split prod.split)
  show "controller_main L Z1 M1 S1 CL getIndexer answers = Panic (PanicError err)"
    using level by (simp add: controller_main_def initLogger_def LogLevelEnv_def)
qed

definition sample_controller_lib ::
    "((string, string, string, 'o) ce_any, string, string, nat, string, string, string, string) controller_lib" where
  "sample_controller_lib =
     \<lparr>RunInformerGet = (\<lambda>ctx. Return ''runs''), SecretInformerGet = (\<lambda>ctx. Return ''secrets''),
      KubeClientGet = (\<lambda>ctx. Return ''kube''), InformerLister = (\<lambda>i. ''lister of '' @ i),
      CE_JobRuns_of = (\<lambda>client ns. case client of
        None \<Rightarrow> Panic NilDereference
      | Some c \<Rightarrow> Return (r_jobRunsClient (sample_reconciler no_job_runs))),
      CE_JobDefinitionLister = (\<lambda>i. r_jobDefinitionLister (sample_reconciler no_job_runs)),
      CE_JobRunLister = (\<lambda>i. no_job_runs),
      gocache_New = (\<lambda>expiration interval key. False),
      NewImpl = (\<lambda>ctx r agent. Return agent)\<rparr>"

abbreviation sample_answers :: "string task_lister \<Rightarrow> string \<Rightarrow> string \<Rightarrow> (error + CodeEngineTask) outcome" where
  "sample_answers l ns name \<equiv> Return (Inl (Foreign name))"

definition sample_app_ctx :: "(string, string, string, string) app_ctx \<Rightarrow> (string, string, string, string) app_ctx" where
  "sample_app_ctx ctx = WithValue ctx TaskInformerKey (AnyForeign (AnyTaskInformer (WrapperInformer
     \<lparr>wr_client = ''c'', wr_namespace = [], wr_resourceVersion = []\<rparr>)))"

definition sample_zap :: "(string, string) zap_lib" where
  "sample_zap = \<lparr>NewProductionConfig = \<lparr>zc_Level = ''info'', zc_Rest = ''json''\<rparr>,
     ParseAtomicLevel = Inr,
     BuildLogger = (\<lambda>c. Inr (zc_Level c)), ErrorText = (\<lambda>e. [])\<rparr>"

definition sample_main :: "((string, string, string, 'c inj_any) ce_any, string) main_lib" where
  "sample_main = \<lparr>SignalContext = [], WithLogger = (\<lambda>ctx l. WithValue ctx (OtherKey ''logger'') (AnyString l))\<rparr>"

lemma sample_Getenv: "Getenv (sample_sdk code body) ''LOG_LEVEL'' = ''x''"
  by (simp add: sample_sdk_def CEProjectIdEnv_def)

lemma controller_connected_witness:
  "\<exists>call ctl w'. controller_main plain_schema sample_zap sample_main (sample_sdk 200 ''{}'')
       sample_controller_lib (\<lambda>i. one_task_indexer) sample_answers = Return call \<and>
     NewController plain_schema sample_controller_lib (\<lambda>i. one_task_indexer) sample_answers
       (sample_app_ctx (sm_ctx call)) empty_world = (Return ctl, w') \<and>
     r_codeEngineNamespace (ctl_reconciler ctl) = ''ce-ns'' \<and>
     controller_main plain_schema (sample_zap\<lparr>ParseAtomicLevel := \<lambda>s. Inl (Foreign s)\<rparr>) sample_main
       ((sample_sdk 200 ''{}'')\<lparr>Getenv := \<lambda>n. []\<rparr>)
       sample_controller_lib (\<lambda>i. one_task_indexer) sample_answers = Panic (PanicError (Foreign []))"
proof -
  obtain ctx1 :: "(string, string, string, string) app_ctx"
    where start: "WithClientAndInformers (sample_sdk 200 ''{}'')
      (WithValue [] (OtherKey ''logger'') (AnyString ''x'')) = Return ctx1"
    by (simp add: WithClientAndInformers_def startCodeEngineInformers_def getCodeEngineKubeConfig_def
        sample_sdk_def http_NewRequest_def Let_def)
  define call where "call = \<lparr>sm_ctx = ctx1, sm_component = ''controller'', sm_constructors =
      [NewController plain_schema sample_controller_lib (\<lambda>i. one_task_indexer) sample_answers]\<rparr>"
  have main: "controller_main plain_schema sample_zap sample_main (sample_sdk 200 ''{}'')
       sample_controller_lib (\<lambda>i. one_task_indexer) sample_answers = Return call"
    using start
    by (simp add: call_def controller_main_def initLogger_def LogLevelEnv_def sample_zap_def sample_main_def
        sample_Getenv)
  have kept: "\<forall>k\<in>{NamespaceKey, CEClientKey, JobDefinitionInformerKey, JobRunInformerKey}.
      Value (sample_app_ctx ctx1) k = Value (sm_ctx call) k" by (simp add: sample_app_ctx_def call_def)
  obtain ctl w' where new: "NewController plain_schema sample_controller_lib (\<lambda>i. one_task_indexer)
      sample_answers (sample_app_ctx ctx1) empty_world = (Return ctl, w')"
    using start
    by (cases rule: start_context)
      (simp add: NewController_def sample_controller_lib_def sample_app_ctx_def ce_slot_defs
        informer_Get_def GetJobRunsClient_def lister_of_def task_informer_Lister_def wrapper_Lister_def)
  have missing: "GetJobRunInformer ([] :: (string, string, string, string) app_ctx) = Return None"
    by (simp add: GetJobRunInformer_def Value_def)
  have level: "ParseAtomicLevel (sample_zap\<lparr>ParseAtomicLevel := \<lambda>s. Inl (Foreign s)\<rparr>)
      (Getenv ((sample_sdk 200 ''{}'')\<lparr>Getenv := \<lambda>n. []\<rparr>) ''LOG_LEVEL'') = Inl (Foreign [])" by simp
  have build: "NewController plain_schema sample_controller_lib (\<lambda>i. one_task_indexer) sample_answers
      \<in> set (sm_constructors call)" by (simp add: call_def)
  note C = controller_connected [OF main kept build new disjI1 [OF missing] level]
  have "r_codeEngineNamespace (ctl_reconciler ctl) = ''ce-ns''"
    using conjunct1 [OF C] by (auto simp: sample_sdk_def)
  moreover have "sm_ctx call = ctx1" by (simp add: call_def)
  ultimately show ?thesis using main new C [THEN conjunct2, THEN conjunct2] by blast
qed

section \<open>What the webhook admits\<close>

lemma empty_spec_decodes: "Unmarshal_TaskSpec ''{}'' zero_CodeEngineTaskSpec = (None, zero_CodeEngineTaskSpec)"
  by code_simp

lemma zero_spec_refused: "field_error_laws FL \<Longrightarrow> t_Spec t = zero_CodeEngineTaskSpec \<Longrightarrow> Validate FL t \<noteq> None"
  by (simp add: Validate_iff zero_CodeEngineTaskSpec_def)

text \<open>
  C27: the webhook guards the stored tasks, and only those.  Both admission controllers handle exactly
  the kind \<open>CodeEngineTask\<close> of the API version, as the type of that name, which is the kind the
  reconciler takes; defaulting leaves a task as it is, and validation admits exactly the tasks that
  name a job.  So where all stored tasks were admitted a referenced task names its job.  An embedded
  spec passes no webhook: the reconciler takes the empty object, a task that the webhook refuses.
\<close>

theorem embedded_spec_not_admitted:
  assumes laws: "schema_laws L" "field_error_laws FL"
    and hooks: "NewDefaultingAdmissionController L W = Return d"
      "NewValidationAdmissionController L W = Return v"
    and stored: "\<forall>ns n t. r_taskLister r ns n = Return (Inr t) \<longrightarrow> Validate FL (SetDefaults t) = None"
    and ref: "run_Spec (rs_run s) = None" "getCodeEngineTask L r s = (Return (Inr t), s')"
    and embedded: "run_Ref (rs_run s2) = None" "run_Spec (rs_run s2) = Some es" "es_Raw es = ''{}''"
      "\<not> foreign_type L (es_APIVersion es) (es_Kind es)"
  shows "aw_types d = aw_types v \<and> aw_path d \<noteq> aw_path v \<and>
    (\<forall>gvk ty. aw_types v gvk = Some ty \<longleftrightarrow> ty = CodeEngineTaskType \<and>
       gvk = \<lparr>gvk_Group = ''custom.tekton.dev'', gvk_Version = ''v1alpha1'', gvk_Kind = ''CodeEngineTask''\<rparr>) \<and>
    \<not> foreign_type L ''custom.tekton.dev/v1alpha1'' ''CodeEngineTask'' \<and>
    (\<forall>x. SetDefaults x = x) \<and> (\<forall>x. Validate FL x = None \<longleftrightarrow> JobName (t_Spec x) \<noteq> []) \<and>
    JobName (t_Spec t) \<noteq> [] \<and>
    (\<exists>t2. verifyCodeEngineSpec L (rs_run s2) = Return True \<and>
       getCodeEngineTask L r s2 = (Return (Inr t2), s2) \<and> Validate FL (SetDefaults t2) \<noteq> None)"
proof (intro conjI)
  have types: "aw_types d = webhook_types L" "aw_types v = webhook_types L"
    and "aw_path d = ''/defaulting''" "aw_path v = ''/resource-validation''"
    using hooks
    by (auto simp: NewDefaultingAdmissionController_def NewValidationAdmissionController_def
        split: outcome.splits)
  then show "aw_types d = aw_types v" and "aw_path d \<noteq> aw_path v" by simp_all
  show "\<forall>gvk ty. aw_types v gvk = Some ty \<longleftrightarrow> ty = CodeEngineTaskType \<and>
      gvk = \<lparr>gvk_Group = ''custom.tekton.dev'', gvk_Version = ''v1alpha1'', gvk_Kind = ''CodeEngineTask''\<rparr>"
    using laws(1) by (auto simp: types webhook_types_def schema_laws_def SchemeGroupVersion_def GroupName_def)
  show "\<not> foreign_type L ''custom.tekton.dev/v1alpha1'' ''CodeEngineTask''"
    by (simp add: foreign_type_def SchemeGroupVersion_String [OF laws(1)] CustomTaskKind_def)
  show "\<forall>x. SetDefaults x = x" by (simp add: SetDefaults_def)
  show "\<forall>x. Validate FL x = None \<longleftrightarrow> JobName (t_Spec x) \<noteq> []" by (simp add: Validate_iff [OF laws(2)])
  from ref obtain n where "r_taskLister r (run_Namespace (rs_run s)) n = Return (Inr t)"
    by (auto simp: getCodeEngineTask_def Let_def split: option.splits if_splits outcome.splits sum.splits)
  with stored show "JobName (t_Spec t) \<noteq> []" using Validate_iff [OF laws(2)] by auto
  have "task_spec_of r (rs_run s2) zero_CodeEngineTaskSpec"
    by (simp add: task_spec_of_def embedded empty_spec_decodes)
  from getCodeEngineTask_resolves [OF this] zero_spec_refused [OF laws(2)]
  have "\<exists>t2. getCodeEngineTask L r s2 = (Return (Inr t2), s2) \<and> Validate FL (SetDefaults t2) \<noteq> None"
    by fastforce
  then show "\<exists>t2. verifyCodeEngineSpec L (rs_run s2) = Return True \<and>
      getCodeEngineTask L r s2 = (Return (Inr t2), s2) \<and> Validate FL (SetDefaults t2) \<noteq> None"
    using embedded(1,2,4) by (simp add: verifyCodeEngineSpec_def)
qed

definition sample_field_errors :: "string field_error_lib" where
  "sample_field_errors = \<lparr>ErrMissingField = (\<lambda>f. f), ViaField = (\<lambda>e f. map_option (\<lambda>x. f @ ''.'' @ x) e)\<rparr>"

definition sample_webhook :: webhook_lib where
  "sample_webhook = \<lparr>SystemNamespace = Return ''tekton-pipelines'',
     LoggingConfigMapName = ''config-logging'', MetricsConfigMapName = ''config-observability'',
     NewLoggingConfig = ''logging'', NewObservabilityConfig = ''observability''\<rparr>"

abbreviation sample_state :: "sample_st Run \<Rightarrow> (sample_st, string, nat) rstate" where
  "sample_state run \<equiv> \<lparr>rs_run = run, rs_status = zero_CodeEngineTaskStatus, rs_api = 0, rs_effects = []\<rparr>"

definition admitted_reconciler :: "(string, string, nat) Reconciler" where
  "admitted_reconciler =
     (sample_reconciler no_job_runs)\<lparr>r_taskLister := \<lambda>ns n. Return (Inr sample_task)\<rparr>"

abbreviation empty_spec_run :: "sample_st Run" where
  "empty_spec_run \<equiv> embedded_run ''custom.tekton.dev/v1alpha1'' ''{}'' (sample_status None None)"

lemma embedded_spec_not_admitted_witness:
  "\<exists>t2. getCodeEngineTask sample_lib admitted_reconciler (sample_state empty_spec_run) =
       (Return (Inr t2), sample_state empty_spec_run) \<and>
     Validate sample_field_errors (SetDefaults t2) \<noteq> None"
proof -
  have fields: "field_error_laws sample_field_errors"
    by (simp add: field_error_laws_def sample_field_errors_def)
  obtain d v :: "string resource_webhook" where hooks:
    "NewDefaultingAdmissionController sample_lib sample_webhook = Return d"
    "NewValidationAdmissionController sample_lib sample_webhook = Return v"
    by (simp add: NewDefaultingAdmissionController_def NewValidationAdmissionController_def sample_webhook_def)
  have stored: "\<forall>ns n t. r_taskLister admitted_reconciler ns n = Return (Inr t) \<longrightarrow>
      Validate sample_field_errors (SetDefaults t) = None"
    by (simp add: admitted_reconciler_def sample_task_def Validate_iff [OF fields])
  have task: "getCodeEngineTask sample_lib admitted_reconciler (sample_state fresh_run) =
      (Return (Inr sample_task), sample_state fresh_run)"
    by (simp add: getCodeEngineTask_def sample_run_def sample_ref_def admitted_reconciler_def Let_def)
  have reference: "run_Spec (rs_run (sample_state fresh_run)) = None" by (simp add: sample_run_def)
  have embedded: "run_Ref (rs_run (sample_state empty_spec_run)) = None"
    "run_Spec (rs_run (sample_state empty_spec_run)) =
      Some \<lparr>es_APIVersion = ''custom.tekton.dev/v1alpha1'', es_Kind = ''CodeEngineTask'',
            es_Labels = Map.empty, es_Annotations = Map.empty, es_Raw = ''{}''\<rparr>"
    by (simp_all add: embedded_run_def)
  have raw: "es_Raw \<lparr>es_APIVersion = ''custom.tekton.dev/v1alpha1'', es_Kind = ''CodeEngineTask'',
      es_Labels = Map.empty, es_Annotations = Map.empty, es_Raw = ''{}''\<rparr> = ''{}''"
    "\<not> foreign_type sample_lib (es_APIVersion \<lparr>es_APIVersion = ''custom.tekton.dev/v1alpha1'',
       es_Kind = ''CodeEngineTask'', es_Labels = Map.empty, es_Annotations = Map.empty, es_Raw = ''{}''\<rparr>)
      (es_Kind \<lparr>es_APIVersion = ''custom.tekton.dev/v1alpha1'', es_Kind = ''CodeEngineTask'',
       es_Labels = Map.empty, es_Annotations = Map.empty, es_Raw = ''{}''\<rparr>)"
    by (simp_all add: foreign_type_def sample_version CustomTaskKind_def)
  from embedded_spec_not_admitted [OF sample_schema_laws fields hooks stored reference task embedded raw]
  show ?thesis by blast
qed

end
