(* ===== verification/FakeClient.thy ===== *)
theory FakeClient
  imports InjectionRuns
begin

text \<open>
  The fakes that tests are given: the fake typed client and clientset of
  \<open>src/pkg/client/clientset/versioned/.../fake\<close> and the fake injection glue of the \<open>fake\<close> packages
  under \<open>src/pkg/client/injection\<close>.  The object tracker and the reactor chain of client-go's
  \<open>testing\<close> package are the record \<open>testing_lib\<close>.
\<close>

section \<open>Actions\<close>

datatype fake_action =
    GetAction GroupVersionResource string string
  | ListAction GroupVersionResource GroupVersionKind string ListOptions
  | WatchAction GroupVersionResource string ListOptions
  | CreateAction GroupVersionResource string CodeEngineTask
  | UpdateAction GroupVersionResource string CodeEngineTask
  | UpdateSubresourceAction GroupVersionResource string string CodeEngineTask
  | DeleteActionWithOptions GroupVersionResource string string handle
  | DeleteCollectionAction GroupVersionResource string ListOptions
  | PatchSubresourceAction GroupVersionResource string string string string "string list"

text \<open>A \<open>runtime.Object\<close>; nil is \<open>None\<close> of an option.\<close>

datatype robject =
    TaskObject CodeEngineTask
  | TaskListObject CodeEngineTaskList
  | OtherObject handle

text \<open>
  \<open>Invokes\<close> runs the reactors on an action and gives the object and the error of the one that handles
  it, or the default object.  \<open>ExtractLabel\<close> is the label selector of
  \<open>ExtractFromListOptions\<close>, which may be nil.
\<close>

record ('sel, 'req, 'o, 'w) testing_lib =
  Invokes :: "fake_action \<Rightarrow> robject \<Rightarrow> 'w \<Rightarrow> (robject option \<times> error option) \<times> 'w"
  InvokesWatch :: "fake_action \<Rightarrow> 'w \<Rightarrow> (error + handle) \<times> 'w"
  ExtractLabel :: "ListOptions \<Rightarrow> 'sel option"
  Labels :: "('sel, 'req) labels_lib"
  NewObjectTracker :: 'o
  Tracker_Add :: "robject \<Rightarrow> 'o \<Rightarrow> error option \<times> 'o"
  Tracker_Watch :: "'o \<Rightarrow> GroupVersionResource \<Rightarrow> string \<Rightarrow> error + handle"

section \<open>The fake typed client\<close>

text \<open>A \<open>FakeCodeEngineTasks\<close> is its namespace; the \<open>Fake\<close> it points to is the library and its world.\<close>

record FakeCodeEngineTasks =
  fc_ns :: string

definition fake_CodeEngineTasks :: "string \<Rightarrow> FakeCodeEngineTasks" where
  "fake_CodeEngineTasks namespace = \<lparr>fc_ns = namespace\<rparr>"

definition codeenginetasksResource :: GroupVersionResource where
  "codeenginetasksResource = \<lparr>gvr_Group = ''custom.tekton.dev'', gvr_Version = ''v1alpha1'',
     gvr_Resource = ''codeenginetasks''\<rparr>"

definition codeenginetasksKind :: GroupVersionKind where
  "codeenginetasksKind = \<lparr>gvk_Group = ''custom.tekton.dev'', gvk_Version = ''v1alpha1'',
     gvk_Kind = ''CodeEngineTask''\<rparr>"

text \<open>The end of the methods that return a task: nil, or the object asserted to be a task.\<close>

definition asserted_task :: "(robject option \<times> error option) \<times> 'w \<Rightarrow> task_result outcome \<times> 'w" where
  "asserted_task r =
     (case r of
        ((None, err), w1) \<Rightarrow> (Return (None, err), w1)
      | ((Some (TaskObject t), err), w1) \<Rightarrow> (Return (Some t, err), w1)
      | (_, w1) \<Rightarrow> (Panic FailedTypeAssertion, w1))"

definition fake_task_Get ::
    "('sel, 'req, 'o, 'w) testing_lib \<Rightarrow> FakeCodeEngineTasks \<Rightarrow> string \<Rightarrow> GetOptions \<Rightarrow> 'w \<Rightarrow>
       task_result outcome \<times> 'w" where
  "fake_task_Get T c name options w =
     asserted_task (Invokes T (GetAction codeenginetasksResource (fc_ns c) name)
                      (TaskObject zero_CodeEngineTask) w)"

text \<open>The loop over the items of the list that was returned.\<close>

fun matching_items ::
    "('sel, 'req) labels_lib \<Rightarrow> 'sel \<Rightarrow> CodeEngineTask list \<Rightarrow> CodeEngineTask list \<Rightarrow> CodeEngineTask list" where
  "matching_items S label [] acc = acc"
| "matching_items S label (item # items) acc =
     (if Sel_Matches S label (om_Labels (t_ObjectMeta item))
      then matching_items S label items (acc @ [item])
      else matching_items S label items acc)"

definition fake_task_List ::
    "('sel, 'req, 'o, 'w) testing_lib \<Rightarrow> FakeCodeEngineTasks \<Rightarrow> ListOptions \<Rightarrow> 'w \<Rightarrow>
       (CodeEngineTaskList option \<times> error option) outcome \<times> 'w" where
  "fake_task_List T c opts w =
     (case Invokes T (ListAction codeenginetasksResource codeenginetasksKind (fc_ns c) opts)
             (TaskListObject zero_CodeEngineTaskList) w of
        ((None, err), w1) \<Rightarrow> (Return (None, err), w1)
      | ((Some obj, err), w1) \<Rightarrow>
          (let label = (case ExtractLabel T opts of None \<Rightarrow> Everything (Labels T) | Some l \<Rightarrow> l)
           in (case obj of
                 TaskListObject l \<Rightarrow>
                   (let lst = zero_CodeEngineTaskList\<lparr>tl_ListMeta := tl_ListMeta l\<rparr>
                    in (Return (Some (lst\<lparr>tl_Items := matching_items (Labels T) label (tl_Items l) []\<rparr>), err),
                        w1))
               | _ \<Rightarrow> (Panic FailedTypeAssertion, w1))))"

definition fake_task_Watch ::
    "('sel, 'req, 'o, 'w) testing_lib \<Rightarrow> FakeCodeEngineTasks \<Rightarrow> ListOptions \<Rightarrow> 'w \<Rightarrow> (error + handle) \<times> 'w" where
  "fake_task_Watch T c opts w = InvokesWatch T (WatchAction codeenginetasksResource (fc_ns c) opts) w"

definition fake_task_Create ::
    "('sel, 'req, 'o, 'w) testing_lib \<Rightarrow> FakeCodeEngineTasks \<Rightarrow> CodeEngineTask \<Rightarrow> handle \<Rightarrow> 'w \<Rightarrow>
       task_result outcome \<times> 'w" where
  "fake_task_Create T c t opts w =
     asserted_task (Invokes T (CreateAction codeenginetasksResource (fc_ns c) t)
                      (TaskObject zero_CodeEngineTask) w)"

definition fake_task_Update ::
    "('sel, 'req, 'o, 'w) testing_lib \<Rightarrow> FakeCodeEngineTasks \<Rightarrow> CodeEngineTask \<Rightarrow> handle \<Rightarrow> 'w \<Rightarrow>
       task_result outcome \<times> 'w" where
  "fake_task_Update T c t opts w =
     asserted_task (Invokes T (UpdateAction codeenginetasksResource (fc_ns c) t)
                      (TaskObject zero_CodeEngineTask) w)"

definition fake_task_UpdateStatus ::
    "('sel, 'req, 'o, 'w) testing_lib \<Rightarrow> FakeCodeEngineTasks \<Rightarrow> CodeEngineTask \<Rightarrow> handle \<Rightarrow> 'w \<Rightarrow>
       task_result outcome \<times> 'w" where
  "fake_task_UpdateStatus T c t opts w =
     asserted_task (Invokes T (UpdateSubresourceAction codeenginetasksResource ''status'' (fc_ns c) t)
                      (TaskObject zero_CodeEngineTask) w)"

definition fake_task_Delete ::
    "('sel, 'req, 'o, 'w) testing_lib \<Rightarrow> FakeCodeEngineTasks \<Rightarrow> string \<Rightarrow> handle \<Rightarrow> 'w \<Rightarrow> error option \<times> 'w" where
  "fake_task_Delete T c name opts w =
     (case Invokes T (DeleteActionWithOptions codeenginetasksResource (fc_ns c) name opts)
             (TaskObject zero_CodeEngineTask) w of ((_, err), w1) \<Rightarrow> (err, w1))"

definition fake_task_DeleteCollection ::
    "('sel, 'req, 'o, 'w) testing_lib \<Rightarrow> FakeCodeEngineTasks \<Rightarrow> handle \<Rightarrow> ListOptions \<Rightarrow> 'w \<Rightarrow>
       error option \<times> 'w" where
  "fake_task_DeleteCollection T c opts listOpts w =
     (case Invokes T (DeleteCollectionAction codeenginetasksResource (fc_ns c) listOpts)
             (TaskListObject zero_CodeEngineTaskList) w of ((_, err), w1) \<Rightarrow> (err, w1))"

definition fake_task_Patch ::
    "('sel, 'req, 'o, 'w) testing_lib \<Rightarrow> FakeCodeEngineTasks \<Rightarrow> string \<Rightarrow> string \<Rightarrow> string \<Rightarrow> handle \<Rightarrow>
       string list \<Rightarrow> 'w \<Rightarrow> task_result outcome \<times> 'w" where
  "fake_task_Patch T c name pt data opts subresources w =
     asserted_task (Invokes T (PatchSubresourceAction codeenginetasksResource (fc_ns c) name pt data subresources)
                      (TaskObject zero_CodeEngineTask) w)"

section \<open>The fake clientset\<close>

text \<open>
  The reactors are tried in order; \<open>ObjectReaction\<close> answers from the tracker, and the watch reactor
  is the closure below.  The tracker is shared by reference, so it is named by its value at the
  end of the construction, after which only the reactors write it.
\<close>

text \<open>The discovery client is made over the \<open>Fake\<close> of the clientset itself; its pointer may be nil.\<close>

datatype fake_discovery = DiscoveryOfOwnFake

record 'o fake_clientset =
  fk_discovery :: "fake_discovery option"
  fk_tracker :: 'o
  fk_reactors :: "(string \<times> string \<times> 'o) list"
  fk_watch_reactors :: "(string \<times> 'o) list"

fun add_objects :: "('sel, 'req, 'o, 'w) testing_lib \<Rightarrow> robject list \<Rightarrow> 'o \<Rightarrow> 'o outcome" where
  "add_objects T [] tracker = Return tracker"
| "add_objects T (obj # objects) tracker =
     (case Tracker_Add T obj tracker of
        (Some err, _) \<Rightarrow> Panic (PanicError err)
      | (None, tracker1) \<Rightarrow> add_objects T objects tracker1)"

definition NewSimpleClientset ::
    "('sel, 'req, 'o, 'w) testing_lib \<Rightarrow> robject list \<Rightarrow> 'o fake_clientset outcome" where
  "NewSimpleClientset T objects =
     (case add_objects T objects (NewObjectTracker T) of
        Panic p \<Rightarrow> Panic p
      | Return tracker \<Rightarrow>
          Return \<lparr>fk_discovery = Some DiscoveryOfOwnFake, fk_tracker = tracker, fk_reactors = [(''*'', ''*'', tracker)],
                  fk_watch_reactors = [(''*'', tracker)]\<rparr>)"

definition watch_reaction ::
    "('sel, 'req, 'o, 'w) testing_lib \<Rightarrow> 'o \<Rightarrow> GroupVersionResource \<Rightarrow> string \<Rightarrow>
       bool \<times> handle option \<times> error option" where
  "watch_reaction T tracker gvr ns =
     (case Tracker_Watch T tracker gvr ns of
        Inl err \<Rightarrow> (False, None, Some err)
      | Inr watch \<Rightarrow> (True, Some watch, None))"

definition fake_Discovery :: "'o fake_clientset \<Rightarrow> fake_discovery option" where
  "fake_Discovery c = fk_discovery c"

definition fake_Tracker :: "'o fake_clientset \<Rightarrow> 'o" where
  "fake_Tracker c = fk_tracker c"

text \<open>
  The fake group client points to the \<open>Fake\<close> of the clientset it comes from, so it is named by that
  clientset.  Its \<open>RESTClient\<close> is an interface that holds a nil pointer, which is not a nil interface.
\<close>

record 'o FakeCustomV1alpha1 =
  fg_Fake :: "'o fake_clientset"

definition fake_CustomV1alpha1 :: "'o fake_clientset \<Rightarrow> 'o FakeCustomV1alpha1" where
  "fake_CustomV1alpha1 c = \<lparr>fg_Fake = c\<rparr>"

definition fake_RESTClient :: "'o FakeCustomV1alpha1 \<Rightarrow> 'rc option option" where
  "fake_RESTClient c = (let ret = None in Some ret)"

section \<open>The fake injection\<close>

type_synonym ('cl, 'di, 'ri, 'cs, 'dyn, 'fk) fake_ctx =
  "('cl, 'di, 'ri, ('cs, 'dyn, 'fk) versioned_interface) app_ctx"

definition fake_With ::
    "('sel, 'req, 'o, 'w) testing_lib \<Rightarrow> ('cl, 'di, 'ri, 'cs, 'dyn, 'o fake_clientset) fake_ctx \<Rightarrow>
       robject list \<Rightarrow> (('cl, 'di, 'ri, 'cs, 'dyn, 'o fake_clientset) fake_ctx \<times> 'o fake_clientset) outcome" where
  "fake_With T ctx objects =
     (case NewSimpleClientset T objects of
        Panic p \<Rightarrow> Panic p
      | Return cs \<Rightarrow> Return (WithValue ctx ClientKey (AnyForeign (AnyClient (FakeClientset cs))), cs))"

definition fake_withClient ::
    "('sel, 'req, 'o, 'w) testing_lib \<Rightarrow> ('cl, 'di, 'ri, 'cs, 'dyn, 'o fake_clientset) fake_ctx \<Rightarrow>
       ('cl, 'di, 'ri, 'cs, 'dyn, 'o fake_clientset) fake_ctx outcome" where
  "fake_withClient T ctx =
     (case fake_With T ctx [] of Panic p \<Rightarrow> Panic p | Return (ctx1, _) \<Rightarrow> Return ctx1)"

definition fake_client_Get :: "('cl, 'di, 'ri, 'cs, 'dyn, 'fk) fake_ctx \<Rightarrow> 'fk outcome" where
  "fake_client_Get ctx =
     (case Value ctx ClientKey of
        None \<Rightarrow> Panic (PanicValue ''Unable to fetch github.com/rafalbigaj/tekton-code-engine/pkg/client/clientset/versioned/fake.Clientset from context.'')
      | Some (AnyForeign (AnyClient (FakeClientset cs))) \<Rightarrow> Return cs
      | Some _ \<Rightarrow> Panic FailedTypeAssertion)"

definition fake_withInformerFactory ::
    "(('cl, 'di, 'ri, ('cs, 'dyn, 'fk) versioned_interface inj_any) ce_any, 'cfg, 'dyn) injection_lib \<Rightarrow>
       ('cl, 'di, 'ri, 'cs, 'dyn, 'fk) fake_ctx \<Rightarrow> ('cs, 'dyn, 'fk) versioned_interface inj_world \<Rightarrow>
       ('cl, 'di, 'ri, 'cs, 'dyn, 'fk) fake_ctx outcome \<times> ('cs, 'dyn, 'fk) versioned_interface inj_world" where
  "fake_withInformerFactory I ctx w =
     (case fake_client_Get ctx of
        Panic p \<Rightarrow> (Panic p, w)
      | Return c \<Rightarrow>
          (let opts = scope_options I ctx;
               (f, w1) = new_factory
                 (NewSharedInformerFactoryWithOptions (FakeClientset c) (GetResyncPeriod I ctx) opts) w
           in (Return (WithValue ctx FactoryKey (AnyForeign (AnyFactory f))), w1)))"

definition fake_filtered_withInformerFactory ::
    "(('cl, 'di, 'ri, ('cs, 'dyn, 'fk) versioned_interface inj_any) ce_any, 'cfg, 'dyn) injection_lib \<Rightarrow>
       ('cl, 'di, 'ri, 'cs, 'dyn, 'fk) fake_ctx \<Rightarrow> ('cs, 'dyn, 'fk) versioned_interface inj_world \<Rightarrow>
       ('cl, 'di, 'ri, 'cs, 'dyn, 'fk) fake_ctx outcome \<times> ('cs, 'dyn, 'fk) versioned_interface inj_world" where
  "fake_filtered_withInformerFactory I ctx w =
     (case fake_client_Get ctx of
        Panic p \<Rightarrow> (Panic p, w)
      | Return c \<Rightarrow>
          (case label_selectors ctx of
             Panic p \<Rightarrow> (Panic p, w)
           | Return labelSelectors \<Rightarrow>
               (let (ctx1, w1) = filtered_factories I (FakeClientset c) (iw_fresh w) labelSelectors ctx
                                   (w\<lparr>iw_fresh := Suc (iw_fresh w)\<rparr>)
                in (Return ctx1, w1))))"

text \<open>\<open>Get\<close> of the fake packages is that of the real ones, and so are the informers made from it.\<close>

definition fake_withInformer ::
    "('cl, 'di, 'ri, 'c) app_ctx \<Rightarrow> 'c inj_world \<Rightarrow>
       (('cl, 'di, 'ri, 'c) app_ctx \<times> nat) outcome \<times> 'c inj_world" where
  "fake_withInformer ctx w =
     (case factory_Get ctx of
        Panic p \<Rightarrow> (Panic p, w)
      | Return f \<Rightarrow>
          (let ti = factory_task_informer w f;
               ctx1 = WithValue ctx TaskInformerKey (AnyForeign (AnyTaskInformer ti));
               (i, w1) = task_informer_Informer ti w
           in (Return (ctx1, i), w1)))"

definition fake_filtered_withInformer ::
    "('cl, 'di, 'ri, 'c) app_ctx \<Rightarrow> 'c inj_world \<Rightarrow>
       (('cl, 'di, 'ri, 'c) app_ctx \<times> nat list) outcome \<times> 'c inj_world" where
  "fake_filtered_withInformer ctx w =
     (case label_selectors ctx of
        Panic p \<Rightarrow> (Panic p, w)
      | Return labelSelectors \<Rightarrow> filtered_informers labelSelectors ctx [] w)"

end
