(* ===== verification/FakeRuns.thy ===== *)
theory FakeRuns
  imports FakeClient
begin

text \<open>
  The fakes against what they stand for: the fake list filters by labels like a server, the fake
  clientset holds what it was given, and the fake injection does what the real one does with a fake
  client in the context.
\<close>

section \<open>The fake clientset\<close>

lemma matching_items_filter:
  "matching_items S label items acc =
     acc @ filter (\<lambda>t. Sel_Matches S label (task_labels t)) items"
  by (induction S label items acc rule: matching_items.induct) (simp_all add: task_labels_def)

lemma add_objects_append:
  "add_objects T (xs @ ys) tr =
     (case add_objects T xs tr of Panic p \<Rightarrow> Panic p | Return tr1 \<Rightarrow> add_objects T ys tr1)"
  by (induction T xs tr rule: add_objects.induct) (auto split: prod.split option.split)

lemma add_objects_Panic:
  "add_objects T objects tr = Panic p \<Longrightarrow>
     \<exists>before obj after tr1 err. objects = before @ obj # after \<and> add_objects T before tr = Return tr1 \<and>
       fst (Tracker_Add T obj tr1) = Some err \<and> p = PanicError err"
proof (induction objects arbitrary: tr)
  case (Cons obj objects)
  obtain e tr1 where add: "Tracker_Add T obj tr = (e, tr1)" by (rule prod.exhaust)
  show ?case
  proof (cases e)
    case (Some err)
    with add Cons.prems show ?thesis 
      by (intro exI [of _ "[]"] exI [of _ obj] exI [of _ objects] exI [of _ tr]) simp
  next
    case None
    with add Cons.prems Cons.IH [of tr1] obtain before obj1 after tr2 err where
      "objects = before @ obj1 # after" "add_objects T before tr1 = Return tr2"
      "fst (Tracker_Add T obj1 tr2) = Some err" "p = PanicError err" by auto
    with add None show ?thesis 
      by (intro exI [of _ "obj # before"] exI [of _ obj1] exI [of _ after] exI [of _ tr2]) simp
  qed
qed simp

text \<open>An object that the tracker refuses makes the constructor panic with the tracker's error.\<close>

lemma NewSimpleClientset_panics:
  assumes "add_objects T before (NewObjectTracker T) = Return tr1"
    and "fst (Tracker_Add T obj tr1) = Some err"
  shows "NewSimpleClientset T (before @ obj # after) = Panic (PanicError err)"
  using assms by (auto simp: NewSimpleClientset_def add_objects_append split: prod.splits)

interpretation fake_client_slot: context_slot ClientKey
    "\<lambda>ctx c. WithValue ctx ClientKey (AnyForeign (AnyClient (FakeClientset c)))" fake_client_Get Return
  by unfold_locales (simp_all add: fake_client_Get_def)

text \<open>
  The fake client lists like a server.  It gives the objects of the reactor chain whose labels
  match the selector of the options, all of them without a selector, in their order and with the
  metadata of the list; a nil object is returned as nil with the error.
\<close>

theorem fake_list_filters:
  "Invokes T (ListAction codeenginetasksResource codeenginetasksKind ns opts)
       (TaskListObject zero_CodeEngineTaskList) w = ((obj, err), w1) \<Longrightarrow>
   fake_task_List T (fake_CodeEngineTasks ns) opts w =
     (case obj of
        None \<Rightarrow> (Return (None, err), w1)
      | Some (TaskListObject l) \<Rightarrow>
          (Return (Some (zero_CodeEngineTaskList\<lparr>tl_ListMeta := tl_ListMeta l,
             tl_Items := filter (\<lambda>t. Sel_Matches (Labels T)
               (case ExtractLabel T opts of None \<Rightarrow> Everything (Labels T) | Some s \<Rightarrow> s) (task_labels t))
               (tl_Items l)\<rparr>), err), w1)
      | Some _ \<Rightarrow> (Panic FailedTypeAssertion, w1))"
  by (simp add: fake_task_List_def fake_CodeEngineTasks_def matching_items_filter Let_def
      split: option.split robject.split)

text \<open>A tracker of tasks, for the witnesses; a selector is a label that has to be present.\<close>

definition label_lib :: "(string, string) labels_lib" where
  "label_lib =
     \<lparr>Sel_String = (\<lambda>s. s), Sel_Matches = (\<lambda>s m. s = [] \<or> m s \<noteq> None), Sel_Add = (\<lambda>s reqs. s),
      Req_Matches = (\<lambda>r m. m r \<noteq> None), Everything = [], ParseToRequirements = (\<lambda>s. Inr [s])\<rparr>"

definition sample_testing :: "(string, string, CodeEngineTask list, CodeEngineTask list) testing_lib" where
  "sample_testing =
     \<lparr>Invokes = (\<lambda>a obj w. case a of
        ListAction _ _ _ _ \<Rightarrow> ((Some (TaskListObject (zero_CodeEngineTaskList\<lparr>tl_Items := w\<rparr>)), None), w)
      | _ \<Rightarrow> ((None, Some (Foreign ''no reaction'')), w)),
      InvokesWatch = (\<lambda>a w. (Inl (Foreign ''no reaction''), w)),
      ExtractLabel = (\<lambda>opts. if lo_LabelSelector opts = [] then None else Some (lo_LabelSelector opts)),
      Labels = label_lib, NewObjectTracker = [],
      Tracker_Add = (\<lambda>obj o1. case obj of
        TaskObject t \<Rightarrow> (None, o1 @ [t]) | _ \<Rightarrow> (Some (Foreign ''unknown type''), o1)),
      Tracker_Watch = (\<lambda>o1 gvr ns. Inr ''watch'')\<rparr>"

definition labelled_task :: "string \<Rightarrow> CodeEngineTask" where
  "labelled_task l = zero_CodeEngineTask\<lparr>t_ObjectMeta := zero_ObjectMeta\<lparr>om_Labels := [l \<mapsto> ''x'']\<rparr>\<rparr>"

lemma fake_list_filters_witness:
  "fake_task_List sample_testing (fake_CodeEngineTasks ''ns'') (zero_ListOptions\<lparr>lo_LabelSelector := ''a''\<rparr>)
     [labelled_task ''a'', labelled_task ''b''] =
   (Return (Some (zero_CodeEngineTaskList\<lparr>tl_Items := [labelled_task ''a'']\<rparr>), None),
    [labelled_task ''a'', labelled_task ''b''])"
proof -
  let ?w = "[labelled_task ''a'', labelled_task ''b'']"
  let ?opts = "zero_ListOptions\<lparr>lo_LabelSelector := ''a''\<rparr>"
  have "Invokes sample_testing (ListAction codeenginetasksResource codeenginetasksKind ''ns'' ?opts)
      (TaskListObject zero_CodeEngineTaskList) ?w =
      ((Some (TaskListObject (zero_CodeEngineTaskList\<lparr>tl_Items := ?w\<rparr>)), None), ?w)"
    by (simp add: sample_testing_def)
  from fake_list_filters [OF this] show ?thesis
    by (simp add: sample_testing_def label_lib_def labelled_task_def task_labels_def
        zero_CodeEngineTaskList_def zero_ObjectMeta_def)
qed

text \<open>
  The fake injection is the real one with a fake client.  In a context made by the fake \<open>With\<close>
  the fake getter returns the new clientset and the real getter the same client, and the fake
  factory, filtered factories and informers are exactly the real ones; with a real client in the
  context the fake getter fails its type assertion.
\<close>

theorem fake_injection_is_real:
  assumes "fake_With T ctx objects = Return (ctx1, cs)"
    and later: "Value ctx2 ClientKey = Value ctx1 ClientKey"
  shows "fake_client_Get ctx2 = Return cs \<and> client_Get I ctx2 = Return (FakeClientset cs) \<and>
    fake_withInformerFactory I ctx2 w = withInformerFactory I ctx2 w \<and>
    fake_filtered_withInformerFactory I ctx2 w = filtered_withInformerFactory I ctx2 w \<and>
    fake_withInformer ctx2 w = withInformer ctx2 w \<and>
    fake_filtered_withInformer ctx2 w = filtered_withInformer ctx2 w \<and>
    fake_client_Get (WithValue ctx2 ClientKey (AnyForeign (AnyClient (RealClientset real)))) =
      Panic FailedTypeAssertion"
proof -
  have ctx1: "ctx1 = WithValue ctx ClientKey (AnyForeign (AnyClient (FakeClientset cs)))"
    using assms(1) by (auto simp: fake_With_def split: outcome.splits)
  have fake: "fake_client_Get ctx2 = Return cs"
    by (rule fake_client_slot.get_after [of _ ctx]) (simp add: later ctx1)
  have real: "client_Get I ctx2 = Return (FakeClientset cs)"
    by (simp add: client_Get_def later ctx1)
  have "fake_client_Get (WithValue ctx2 ClientKey (AnyForeign (AnyClient (RealClientset real)))) =
      Panic FailedTypeAssertion" by (simp add: fake_client_Get_def)
  then show ?thesis
    by (simp add: fake real fake_withInformerFactory_def withInformerFactory_def
        fake_filtered_withInformerFactory_def filtered_withInformerFactory_def
        fake_withInformer_def withInformer_def fake_filtered_withInformer_def filtered_withInformer_def)
qed

lemma fake_injection_is_real_witness:
  "\<exists>ctx cs. fake_With sample_testing ([] :: (string, string, string, string, string, CodeEngineTask list fake_clientset) fake_ctx)
       [TaskObject (labelled_task ''a'')] = Return (ctx, cs) \<and>
     fake_client_Get ctx = Return cs \<and> fake_Tracker cs = [labelled_task ''a'']"
proof -
  obtain ctx cs where made: "fake_With sample_testing
      ([] :: (string, string, string, string, string, CodeEngineTask list fake_clientset) fake_ctx)
      [TaskObject (labelled_task ''a'')] = Return (ctx, cs)" and "fake_Tracker cs = [labelled_task ''a'']"
    by (simp add: fake_With_def NewSimpleClientset_def sample_testing_def fake_Tracker_def)
  with fake_injection_is_real [OF made refl] show ?thesis by blast
qed

end
