(* ===== verification/Registration.thy ===== *)
theory Registration
  imports CommandRuns FakeRuns
begin

text \<open>
  The \<open>init\<close> functions of \<open>src/pkg/client/injection\<close>: what linking each package registers with
  knative's injection, and the controller process from \<open>main\<close> through the set-up of the injection to
  the constructor.  \<open>SetupInformers\<close> of knative is a parameter, with its documented order as
  hypothesis.
\<close>

section \<open>The registries of knative\<close>

text \<open>
  An informer that an injector hands to the controller: one of this program, by its place on the
  heap, or one of another package.
\<close>

datatype started_informer = OwnInformer nat | OtherInformer handle

record ('q, 'ctx, 'w, 'o) injectors =
  in_clients :: "('ctx \<Rightarrow> 'q Config \<Rightarrow> 'ctx outcome) list"
  in_fetchers :: "('ctx \<Rightarrow> 'o outcome) list"
  in_factories :: "('ctx \<Rightarrow> 'w \<Rightarrow> 'ctx outcome \<times> 'w) list"
  in_informers :: "('ctx \<Rightarrow> 'w \<Rightarrow> ('ctx \<times> started_informer) outcome \<times> 'w) list"
  in_filtered :: "('ctx \<Rightarrow> 'w \<Rightarrow> ('ctx \<times> started_informer list) outcome \<times> 'w) list"

record 'ctx dynamic_injectors =
  dy_clients :: "('ctx \<Rightarrow> 'ctx outcome) list"
  dy_informers :: "('ctx \<Rightarrow> 'ctx outcome) list"

text \<open>The three registries of the package, \<open>Default\<close>, \<open>Dynamic\<close> and \<open>Fake\<close>.\<close>

record ('q, 'ctx, 'w, 'o) injection_registry =
  reg_Default :: "('q, 'ctx, 'w, 'o) injectors"
  reg_Dynamic :: "'ctx dynamic_injectors"
  reg_Fake :: "('q, 'ctx, 'w, 'o) injectors"

text \<open>Their methods, each documented to add an injector.\<close>

definition RegisterClient ::
    "('ctx \<Rightarrow> 'q Config \<Rightarrow> 'ctx outcome) \<Rightarrow> ('q, 'ctx, 'w, 'o) injectors \<Rightarrow> ('q, 'ctx, 'w, 'o) injectors" where
  "RegisterClient f r = r\<lparr>in_clients := in_clients r @ [f]\<rparr>"

definition RegisterClientFetcher ::
    "('ctx \<Rightarrow> 'o outcome) \<Rightarrow> ('q, 'ctx, 'w, 'o) injectors \<Rightarrow> ('q, 'ctx, 'w, 'o) injectors" where
  "RegisterClientFetcher f r = r\<lparr>in_fetchers := in_fetchers r @ [f]\<rparr>"

definition RegisterInformerFactory ::
    "('ctx \<Rightarrow> 'w \<Rightarrow> 'ctx outcome \<times> 'w) \<Rightarrow> ('q, 'ctx, 'w, 'o) injectors \<Rightarrow> ('q, 'ctx, 'w, 'o) injectors" where
  "RegisterInformerFactory f r = r\<lparr>in_factories := in_factories r @ [f]\<rparr>"

definition RegisterInformer ::
    "('ctx \<Rightarrow> 'w \<Rightarrow> ('ctx \<times> started_informer) outcome \<times> 'w) \<Rightarrow> ('q, 'ctx, 'w, 'o) injectors \<Rightarrow>
       ('q, 'ctx, 'w, 'o) injectors" where
  "RegisterInformer f r = r\<lparr>in_informers := in_informers r @ [f]\<rparr>"

definition RegisterFilteredInformers ::
    "('ctx \<Rightarrow> 'w \<Rightarrow> ('ctx \<times> started_informer list) outcome \<times> 'w) \<Rightarrow> ('q, 'ctx, 'w, 'o) injectors \<Rightarrow>
       ('q, 'ctx, 'w, 'o) injectors" where
  "RegisterFilteredInformers f r = r\<lparr>in_filtered := in_filtered r @ [f]\<rparr>"

definition RegisterDynamicClient ::
    "('ctx \<Rightarrow> 'ctx outcome) \<Rightarrow> 'ctx dynamic_injectors \<Rightarrow> 'ctx dynamic_injectors" where
  "RegisterDynamicClient f r = r\<lparr>dy_clients := dy_clients r @ [f]\<rparr>"

definition RegisterDynamicInformer ::
    "('ctx \<Rightarrow> 'ctx outcome) \<Rightarrow> 'ctx dynamic_injectors \<Rightarrow> 'ctx dynamic_injectors" where
  "RegisterDynamicInformer f r = r\<lparr>dy_informers := dy_informers r @ [f]\<rparr>"

lemmas register_defs =
  RegisterClient_def RegisterClientFetcher_def RegisterInformerFactory_def RegisterInformer_def
  RegisterFilteredInformers_def RegisterDynamicClient_def RegisterDynamicInformer_def

section \<open>The \<open>init\<close> functions\<close>

text \<open>The informers of this program as what the controller gets.\<close>

definition own_informer :: "('ctx \<times> nat) outcome \<times> 'w \<Rightarrow> ('ctx \<times> started_informer) outcome \<times> 'w" where
  "own_informer r =
     (case r of
        (Panic p, w) \<Rightarrow> (Panic p, w)
      | (Return (ctx, i), w) \<Rightarrow> (Return (ctx, OwnInformer i), w))"

definition own_informers ::
    "('ctx \<times> nat list) outcome \<times> 'w \<Rightarrow> ('ctx \<times> started_informer list) outcome \<times> 'w" where
  "own_informers r =
     (case r of
        (Panic p, w) \<Rightarrow> (Panic p, w)
      | (Return (ctx, is), w) \<Rightarrow> (Return (ctx, map OwnInformer is), w))"

type_synonym ('cl, 'di, 'ri, 'q, 'c) app_registry =
  "('q, ('cl, 'di, 'ri, 'c) app_ctx, 'c inj_world, 'c inj_any) injection_registry"

text \<open>The fetchers return the client as an \<open>interface{}\<close>.\<close>

definition fetch :: "'c outcome \<Rightarrow> 'c inj_any outcome" where
  "fetch r = (case r of Panic p \<Rightarrow> Panic p | Return c \<Rightarrow> Return (AnyClient c))"

definition client_init ::
    "('q, 'h, 'rc, 'd) rest_lib \<Rightarrow>
       (('cl, 'di, 'ri, (('rc, 'd) Clientset, 'dyn, 'fk) versioned_interface inj_any) ce_any, 'cfg, 'dyn) injection_lib \<Rightarrow>
       ('cl, 'di, 'ri, 'q, (('rc, 'd) Clientset, 'dyn, 'fk) versioned_interface) app_registry \<Rightarrow>
       ('cl, 'di, 'ri, 'q, (('rc, 'd) Clientset, 'dyn, 'fk) versioned_interface) app_registry" where
  "client_init RL I reg =
     (let reg1 = reg\<lparr>reg_Default := RegisterClient (withClientFromConfig RL) (reg_Default reg)\<rparr>;
          reg2 = reg1\<lparr>reg_Default := RegisterClientFetcher (\<lambda>ctx. fetch (client_Get I ctx)) (reg_Default reg1)\<rparr>
      in reg2\<lparr>reg_Dynamic := RegisterDynamicClient (withClientFromDynamic I) (reg_Dynamic reg2)\<rparr>)"

definition factory_init ::
    "(('cl, 'di, 'ri, 'c inj_any) ce_any, 'cfg, 'dyn) injection_lib \<Rightarrow>
       ('cl, 'di, 'ri, 'q, 'c) app_registry \<Rightarrow> ('cl, 'di, 'ri, 'q, 'c) app_registry" where
  "factory_init I reg =
     reg\<lparr>reg_Default := RegisterInformerFactory (withInformerFactory I) (reg_Default reg)\<rparr>"

definition filtered_factory_init ::
    "(('cl, 'di, 'ri, 'c inj_any) ce_any, 'cfg, 'dyn) injection_lib \<Rightarrow>
       ('cl, 'di, 'ri, 'q, 'c) app_registry \<Rightarrow> ('cl, 'di, 'ri, 'q, 'c) app_registry" where
  "filtered_factory_init I reg =
     reg\<lparr>reg_Default := RegisterInformerFactory (filtered_withInformerFactory I) (reg_Default reg)\<rparr>"

definition informer_init ::
    "(('cl, 'di, 'ri, 'c inj_any) ce_any, 'cfg, 'dyn) injection_lib \<Rightarrow>
       ('cl, 'di, 'ri, 'q, 'c) app_registry \<Rightarrow> ('cl, 'di, 'ri, 'q, 'c) app_registry" where
  "informer_init I reg =
     (let reg1 = reg\<lparr>reg_Default :=
            RegisterInformer (\<lambda>ctx w. own_informer (withInformer ctx w)) (reg_Default reg)\<rparr>
      in reg1\<lparr>reg_Dynamic := RegisterDynamicInformer (withDynamicInformer I) (reg_Dynamic reg1)\<rparr>)"

definition filtered_informer_init ::
    "(('cl, 'di, 'ri, 'c inj_any) ce_any, 'cfg, 'dyn) injection_lib \<Rightarrow>
       ('cl, 'di, 'ri, 'q, 'c) app_registry \<Rightarrow> ('cl, 'di, 'ri, 'q, 'c) app_registry" where
  "filtered_informer_init I reg =
     (let reg1 = reg\<lparr>reg_Default :=
            RegisterFilteredInformers (\<lambda>ctx w. own_informers (filtered_withInformer ctx w)) (reg_Default reg)\<rparr>
      in reg1\<lparr>reg_Dynamic := RegisterDynamicInformer (filtered_withDynamicInformer I) (reg_Dynamic reg1)\<rparr>)"

text \<open>The fake packages; a fake client ignores the configuration it is given.\<close>

type_synonym ('cl, 'di, 'ri, 'q, 'cs, 'dyn, 'fk) fake_registry =
  "('cl, 'di, 'ri, 'q, ('cs, 'dyn, 'fk) versioned_interface) app_registry"

definition fake_client_init ::
    "('sel, 'req, 'o, 'w) testing_lib \<Rightarrow>
       ('cl, 'di, 'ri, 'q, 'cs, 'dyn, 'o fake_clientset) fake_registry \<Rightarrow>
       ('cl, 'di, 'ri, 'q, 'cs, 'dyn, 'o fake_clientset) fake_registry" where
  "fake_client_init T reg =
     (let reg1 = reg\<lparr>reg_Fake := RegisterClient (\<lambda>ctx cfg. fake_withClient T ctx) (reg_Fake reg)\<rparr>
      in reg1\<lparr>reg_Fake := RegisterClientFetcher
           (\<lambda>ctx. case fake_client_Get ctx of
              Panic p \<Rightarrow> Panic p | Return cs \<Rightarrow> Return (AnyClient (FakeClientset cs))) (reg_Fake reg1)\<rparr>)"

definition fake_factory_init ::
    "(('cl, 'di, 'ri, ('cs, 'dyn, 'fk) versioned_interface inj_any) ce_any, 'cfg, 'dyn) injection_lib \<Rightarrow>
       ('cl, 'di, 'ri, 'q, 'cs, 'dyn, 'fk) fake_registry \<Rightarrow> ('cl, 'di, 'ri, 'q, 'cs, 'dyn, 'fk) fake_registry" where
  "fake_factory_init I reg =
     reg\<lparr>reg_Fake := RegisterInformerFactory (fake_withInformerFactory I) (reg_Fake reg)\<rparr>"

definition fake_filtered_factory_init ::
    "(('cl, 'di, 'ri, ('cs, 'dyn, 'fk) versioned_interface inj_any) ce_any, 'cfg, 'dyn) injection_lib \<Rightarrow>
       ('cl, 'di, 'ri, 'q, 'cs, 'dyn, 'fk) fake_registry \<Rightarrow> ('cl, 'di, 'ri, 'q, 'cs, 'dyn, 'fk) fake_registry" where
  "fake_filtered_factory_init I reg =
     reg\<lparr>reg_Fake := RegisterInformerFactory (fake_filtered_withInformerFactory I) (reg_Fake reg)\<rparr>"

definition fake_informer_init ::
    "('cl, 'di, 'ri, 'q, 'c) app_registry \<Rightarrow> ('cl, 'di, 'ri, 'q, 'c) app_registry" where
  "fake_informer_init reg =
     reg\<lparr>reg_Fake := RegisterInformer (\<lambda>ctx w. own_informer (fake_withInformer ctx w)) (reg_Fake reg)\<rparr>"

definition fake_filtered_informer_init ::
    "('cl, 'di, 'ri, 'q, 'c) app_registry \<Rightarrow> ('cl, 'di, 'ri, 'q, 'c) app_registry" where
  "fake_filtered_informer_init reg =
     reg\<lparr>reg_Fake :=
       RegisterFilteredInformers (\<lambda>ctx w. own_informers (fake_filtered_withInformer ctx w)) (reg_Fake reg)\<rparr>"

section \<open>The set-up\<close>

text \<open>
  Documented of \<open>SetupInformers\<close>: it runs the injectors against a context, first the clients with
  the given configuration, then the factories, the informers and the filtered informers, each
  group in the order of registration, and returns the context and the informers.
\<close>

fun run_clients :: "('ctx \<Rightarrow> 'q Config \<Rightarrow> 'ctx outcome) list \<Rightarrow> 'q Config \<Rightarrow> 'ctx \<Rightarrow> 'ctx outcome" where
  "run_clients [] cfg ctx = Return ctx"
| "run_clients (f # fs) cfg ctx =
     (case f ctx cfg of Panic p \<Rightarrow> Panic p | Return ctx1 \<Rightarrow> run_clients fs cfg ctx1)"

fun run_factories :: "('ctx \<Rightarrow> 'w \<Rightarrow> 'ctx outcome \<times> 'w) list \<Rightarrow> 'ctx \<Rightarrow> 'w \<Rightarrow> 'ctx outcome \<times> 'w" where
  "run_factories [] ctx w = (Return ctx, w)"
| "run_factories (f # fs) ctx w =
     (case f ctx w of (Panic p, w1) \<Rightarrow> (Panic p, w1) | (Return ctx1, w1) \<Rightarrow> run_factories fs ctx1 w1)"

fun run_informers ::
    "('ctx \<Rightarrow> 'w \<Rightarrow> ('ctx \<times> 'i list) outcome \<times> 'w) list \<Rightarrow> 'ctx \<Rightarrow> 'i list \<Rightarrow> 'w \<Rightarrow>
       ('ctx \<times> 'i list) outcome \<times> 'w" where
  "run_informers [] ctx infs w = (Return (ctx, infs), w)"
| "run_informers (f # fs) ctx infs w =
     (case f ctx w of
        (Panic p, w1) \<Rightarrow> (Panic p, w1)
      | (Return (ctx1, is), w1) \<Rightarrow> run_informers fs ctx1 (infs @ is) w1)"

text \<open>An injector of one informer as one of a list.\<close>

definition single ::
    "('ctx \<Rightarrow> 'w \<Rightarrow> ('ctx \<times> 'i) outcome \<times> 'w) \<Rightarrow> 'ctx \<Rightarrow> 'w \<Rightarrow> ('ctx \<times> 'i list) outcome \<times> 'w" where
  "single f ctx w =
     (case f ctx w of (Panic p, w1) \<Rightarrow> (Panic p, w1) | (Return (ctx1, i), w1) \<Rightarrow> (Return (ctx1, [i]), w1))"

definition run_setup ::
    "('q, 'ctx, 'w, 'o) injectors \<Rightarrow> 'q Config \<Rightarrow> 'ctx \<Rightarrow> 'w \<Rightarrow>
       ('ctx \<times> started_informer list) outcome \<times> 'w" where
  "run_setup r cfg ctx w =
     (case run_clients (in_clients r) cfg ctx of
        Panic p \<Rightarrow> (Panic p, w)
      | Return ctx1 \<Rightarrow>
          (case run_factories (in_factories r) ctx1 w of
             (Panic p, w1) \<Rightarrow> (Panic p, w1)
           | (Return ctx2, w1) \<Rightarrow>
               run_informers (map single (in_informers r) @ in_filtered r) ctx2 [] w1))"

text \<open>
  The injectors of the other packages: when they return, the keys of this program, its heap and
  what knative's injection package answers are as before.
\<close>

definition kept :: "(('cl, 'di, 'ri, 'c inj_any) ce_any, 'cfg, 'dyn) injection_lib \<Rightarrow>
    ('cl, 'di, 'ri, 'c) app_ctx \<Rightarrow> ('cl, 'di, 'ri, 'c) app_ctx \<Rightarrow> bool" where
  "kept I ctx ctx' \<longleftrightarrow>
     (\<forall>k. own_key k \<longrightarrow> Value ctx' k = Value ctx k) \<and>
     scope_namespace I ctx' = scope_namespace I ctx \<and> GetResyncPeriod I ctx' = GetResyncPeriod I ctx"

lemma kept_refl [simp]: "kept I ctx ctx"
  by (simp add: kept_def)

lemma kept_trans: "kept I a b \<Longrightarrow> kept I b c \<Longrightarrow> kept I a c"
  by (simp add: kept_def)

lemma keptD:
  "kept I ctx ctx' \<Longrightarrow> own_key k \<Longrightarrow> Value ctx' k = Value ctx k"
  "kept I ctx ctx' \<Longrightarrow> scope_namespace I ctx' = scope_namespace I ctx"
  "kept I ctx ctx' \<Longrightarrow> GetResyncPeriod I ctx' = GetResyncPeriod I ctx"
  by (simp_all add: kept_def)

definition foreign_injectors ::
    "(('cl, 'di, 'ri, 'c inj_any) ce_any, 'cfg, 'dyn) injection_lib \<Rightarrow>
       ('q, ('cl, 'di, 'ri, 'c) app_ctx, 'c inj_world, 'o) injectors \<Rightarrow> bool" where
  "foreign_injectors I r \<longleftrightarrow>
     (\<forall>f ctx cfg ctx'. f \<in> set (in_clients r) \<longrightarrow> f ctx cfg = Return ctx' \<longrightarrow> kept I ctx ctx') \<and>
     (\<forall>f ctx w ctx' w'. f \<in> set (in_factories r) \<longrightarrow> f ctx w = (Return ctx', w') \<longrightarrow>
        kept I ctx ctx' \<and> w' = w) \<and>
     (\<forall>f ctx w ctx' i w'. f \<in> set (in_informers r) \<longrightarrow> f ctx w = (Return (ctx', i), w') \<longrightarrow>
        kept I ctx ctx' \<and> w' = w) \<and>
     (\<forall>f ctx w ctx' is w'. f \<in> set (in_filtered r) \<longrightarrow> f ctx w = (Return (ctx', is), w') \<longrightarrow>
        kept I ctx ctx' \<and> w' = w)"

lemma run_clients_append:
  "run_clients (fs @ gs) cfg ctx =
     (case run_clients fs cfg ctx of Panic p \<Rightarrow> Panic p | Return ctx1 \<Rightarrow> run_clients gs cfg ctx1)"
  by (induction fs arbitrary: ctx) (auto split: outcome.split)

lemma run_factories_append:
  "run_factories (fs @ gs) ctx w =
     (case run_factories fs ctx w of (Panic p, w1) \<Rightarrow> (Panic p, w1) | (Return ctx1, w1) \<Rightarrow> run_factories gs ctx1 w1)"
  by (induction fs arbitrary: ctx w) (auto split: outcome.split prod.split)

lemma run_informers_append:
  "run_informers (fs @ gs) ctx infs w =
     (case run_informers fs ctx infs w of
        (Panic p, w1) \<Rightarrow> (Panic p, w1)
      | (Return (ctx1, infs1), w1) \<Rightarrow> run_informers gs ctx1 infs1 w1)"
  by (induction fs arbitrary: ctx infs w) (auto split: outcome.split prod.split)

lemma foreign_clients:
  assumes "foreign_injectors I r" and "set fs \<subseteq> set (in_clients r)" and "run_clients fs cfg ctx = Return ctx'"
  shows "kept I ctx ctx'"
  using assms(2,3)
proof (induction fs arbitrary: ctx)
  case (Cons f fs)
  then obtain ctx1 where step: "f ctx cfg = Return ctx1" "run_clients fs cfg ctx1 = Return ctx'"
    by (auto split: outcome.splits)
  have "kept I ctx ctx1" using assms(1) step(1) Cons.prems(1) by (auto simp: foreign_injectors_def)
  with Cons step(2) kept_trans show ?case by fastforce
qed simp

lemma foreign_factories:
  assumes "foreign_injectors I r" and "set fs \<subseteq> set (in_factories r)"
    and "run_factories fs ctx w = (Return ctx', w')"
  shows "kept I ctx ctx' \<and> w' = w"
  using assms(2,3)
proof (induction fs arbitrary: ctx)
  case (Cons f fs)
  from Cons.prems(2) obtain ctx1 w1 where step: "f ctx w = (Return ctx1, w1)"
    "run_factories fs ctx1 w1 = (Return ctx', w')"
    by (auto split: outcome.splits prod.splits)
  have "kept I ctx ctx1 \<and> w1 = w"
    using assms(1) step(1) Cons.prems(1) unfolding foreign_injectors_def by auto
  with Cons step(2) kept_trans show ?case by fastforce
qed simp

lemma foreign_informers:
  assumes "foreign_injectors I r" and "set fs \<subseteq> set (map single (in_informers r) @ in_filtered r)"
    and "run_informers fs ctx infs w = (Return (ctx', infs'), w')"
  shows "kept I ctx ctx' \<and> w' = w \<and> set infs \<subseteq> set infs'"
  using assms(2,3)
proof (induction fs arbitrary: ctx infs)
  case (Cons f fs)
  from Cons.prems(2) obtain ctx1 "is" w1 where step: "f ctx w = (Return (ctx1, is), w1)"
    "run_informers fs ctx1 (infs @ is) w1 = (Return (ctx', infs'), w')"
    by (auto split: outcome.splits prod.splits)
  from Cons.prems(1) have "f \<in> set (in_filtered r) \<or> (\<exists>g \<in> set (in_informers r). f = single g)" by auto
  then have "kept I ctx ctx1 \<and> w1 = w"
  proof
    assume "f \<in> set (in_filtered r)"
    with assms(1) step(1) show ?thesis unfolding foreign_injectors_def by blast
  next
    assume "\<exists>g \<in> set (in_informers r). f = single g"
    then obtain g where g: "g \<in> set (in_informers r)" "f = single g" by blast
    with step(1) obtain i where "g ctx w = (Return (ctx1, i), w1)"
      by (auto simp: single_def split: outcome.splits prod.splits)
    with assms(1) g(1) show ?thesis unfolding foreign_injectors_def by blast
  qed
  with Cons step(2) kept_trans [of I ctx ctx1 ctx'] show ?case by fastforce
qed simp

section \<open>The linked process\<close>

text \<open>
  Package \<open>controller\<close> links the packages of the client, the factory and the task informer, which are
  initialised in this order; \<open>before\<close> and \<open>after\<close> are what the other packages register.
\<close>

definition join_injectors ::
    "('q, 'ctx, 'w, 'o) injectors \<Rightarrow> ('q, 'ctx, 'w, 'o) injectors \<Rightarrow> ('q, 'ctx, 'w, 'o) injectors" where
  "join_injectors r r' =
     \<lparr>in_clients = in_clients r @ in_clients r', in_fetchers = in_fetchers r @ in_fetchers r',
      in_factories = in_factories r @ in_factories r', in_informers = in_informers r @ in_informers r',
      in_filtered = in_filtered r @ in_filtered r'\<rparr>"

definition linked ::
    "('q, 'h, 'rc, 'd) rest_lib \<Rightarrow>
       (('cl, 'di, 'ri, (('rc, 'd) Clientset, 'dyn, 'fk) versioned_interface inj_any) ce_any, 'cfg, 'dyn) injection_lib \<Rightarrow>
       ('cl, 'di, 'ri, 'q, (('rc, 'd) Clientset, 'dyn, 'fk) versioned_interface) app_registry \<Rightarrow>
       ('q, ('cl, 'di, 'ri, (('rc, 'd) Clientset, 'dyn, 'fk) versioned_interface) app_ctx,
        (('rc, 'd) Clientset, 'dyn, 'fk) versioned_interface inj_world,
        (('rc, 'd) Clientset, 'dyn, 'fk) versioned_interface inj_any) injectors \<Rightarrow>
       ('q, ('cl, 'di, 'ri, (('rc, 'd) Clientset, 'dyn, 'fk) versioned_interface) app_ctx,
        (('rc, 'd) Clientset, 'dyn, 'fk) versioned_interface inj_world,
        (('rc, 'd) Clientset, 'dyn, 'fk) versioned_interface inj_any) injectors" where
  "linked RL I before after =
     join_injectors (reg_Default (informer_init I (factory_init I (client_init RL I before)))) after"

lemma foreign_join:
  "foreign_injectors I r \<Longrightarrow> foreign_injectors I r' \<Longrightarrow> foreign_injectors I (join_injectors r r')"
  unfolding foreign_injectors_def join_injectors_def injectors.select_convs set_append Un_iff
  by (elim conjE, intro conjI allI impI; (elim disjE)?; simp)

lemma linked_lists:
  "in_clients (linked RL I before after) =
     in_clients (reg_Default before) @ withClientFromConfig RL # in_clients after"
  "in_factories (linked RL I before after) =
     in_factories (reg_Default before) @ withInformerFactory I # in_factories after"
  "in_informers (linked RL I before after) =
     in_informers (reg_Default before) @ (\<lambda>ctx w. own_informer (withInformer ctx w)) # in_informers after"
  "in_filtered (linked RL I before after) = in_filtered (reg_Default before) @ in_filtered after"
  by (simp_all add: linked_def join_injectors_def client_init_def factory_init_def informer_init_def
      register_defs)

lemma run_clients_around:
  assumes "run_clients (fs @ f # gs) cfg ctx = Return ctx'"
  obtains ctx1 ctx2 where "run_clients fs cfg ctx = Return ctx1" and "f ctx1 cfg = Return ctx2"
    and "run_clients gs cfg ctx2 = Return ctx'"
  using assms by (auto simp: run_clients_append split: outcome.splits)

lemma run_factories_around:
  assumes "run_factories (fs @ f # gs) ctx w = (Return ctx', w')"
  obtains ctx1 w1 ctx2 w2 where "run_factories fs ctx w = (Return ctx1, w1)"
    and "f ctx1 w1 = (Return ctx2, w2)" and "run_factories gs ctx2 w2 = (Return ctx', w')"
  using assms by (auto simp: run_factories_append split: outcome.splits prod.splits)

lemma run_informers_around:
  assumes "run_informers (fs @ f # gs) ctx infs w = (Return (ctx', infs'), w')"
  obtains ctx1 infs1 w1 ctx2 new w2 where "run_informers fs ctx infs w = (Return (ctx1, infs1), w1)"
    and "f ctx1 w1 = (Return (ctx2, new), w2)"
    and "run_informers gs ctx2 (infs1 @ new) w2 = (Return (ctx', infs'), w')"
  using assms by (auto simp: run_informers_append split: outcome.splits prod.splits)

text \<open>What each step of this program's injectors leaves.\<close>

lemma scope_WithValue:
  "injection_laws I \<Longrightarrow> own_key k \<Longrightarrow> scope_namespace I (WithValue ctx k v) = scope_namespace I ctx"
  "injection_laws I \<Longrightarrow> own_key k \<Longrightarrow> GetResyncPeriod I (WithValue ctx k v) = GetResyncPeriod I ctx"
  by (simp_all add: injection_laws_def scope_namespace_def)

lemma client_Get_cong: "Value ctx ClientKey = Some (AnyForeign (AnyClient c)) \<Longrightarrow> client_Get I ctx = Return c"
  by (simp add: client_Get_def)

text \<open>
  The contract of the packages of a client, a factory and a task informer: the client is put under
  the key of the client, and the other two work as the real ones do with such a client.
\<close>

locale injection_packages =
  fixes I :: "(('cl, 'di, 'ri, 'c inj_any) ce_any, 'cfg, 'dyn) injection_lib"
    and inject_client :: "('cl, 'di, 'ri, 'c) app_ctx \<Rightarrow> 'q Config \<Rightarrow> ('cl, 'di, 'ri, 'c) app_ctx outcome"
    and inject_factory :: "('cl, 'di, 'ri, 'c) app_ctx \<Rightarrow> 'c inj_world \<Rightarrow>
      ('cl, 'di, 'ri, 'c) app_ctx outcome \<times> 'c inj_world"
    and inject_informer :: "('cl, 'di, 'ri, 'c) app_ctx \<Rightarrow> 'c inj_world \<Rightarrow>
      (('cl, 'di, 'ri, 'c) app_ctx \<times> nat) outcome \<times> 'c inj_world"
    and makes :: "'q Config \<Rightarrow> 'c \<Rightarrow> bool"
  assumes injected: "inject_client ctx cfg = Return ctx' \<Longrightarrow>
      \<exists>c. makes cfg c \<and> ctx' = WithValue ctx ClientKey (AnyForeign (AnyClient c))"
    and factory_real: "makes cfg c \<Longrightarrow> client_Get I ctx = Return c \<Longrightarrow>
      inject_factory ctx w = withInformerFactory I ctx w"
    and informer_real: "inject_informer ctx w = withInformer ctx w"
begin

lemma setup_task_informer:
  fixes before after :: "('q, ('cl, 'di, 'ri, 'c) app_ctx, 'c inj_world, 'o) injectors"
  assumes laws: "injection_laws I"
    and others: "foreign_injectors I before" "foreign_injectors I after"
    and lists: "in_clients r = in_clients before @ inject_client # in_clients after"
      "in_factories r = in_factories before @ inject_factory # in_factories after"
      "in_informers r = in_informers before @
        (\<lambda>ctx w. own_informer (inject_informer ctx w)) # in_informers after"
      "in_filtered r = in_filtered before @ in_filtered after"
    and run: "run_setup r cfg ctx w = (Return (ctx', infs), w')"
  shows "\<exists>c ti i lw. makes cfg c \<and> client_Get I ctx' = Return c \<and> informer_Get ctx' = Return ti \<and>
    OwnInformer i \<in> set infs \<and>
    task_informer_Lister getIndexer ti w' = (IndexerLister (NewCodeEngineTaskLister (getIndexer i)), w') \<and>
    si_ListerWatcher (w_made (iw_informers w') ! i) = Some lw \<and>
    si_Resync (w_made (iw_informers w') ! i) = GetResyncPeriod I ctx \<and>
    ListFunc lw (iw_store w') options = ListCall c (scope_namespace I ctx) options \<and>
    WatchFunc lw (iw_store w') options = WatchCall c (scope_namespace I ctx) options \<and>
    (\<forall>k. own_key k \<longrightarrow> k \<notin> {ClientKey, FactoryKey, TaskInformerKey} \<longrightarrow> Value ctx' k = Value ctx k)"
proof -
  let ?others = "join_injectors before after"
  note foreign = foreign_join [OF others]
  obtain ctxc ctxf w1 where clients: "run_clients (in_clients r) cfg ctx = Return ctxc"
    and factories: "run_factories (in_factories r) ctxc w = (Return ctxf, w1)"
    and informers: "run_informers (map single (in_informers before) @
        single (\<lambda>ctx w. own_informer (inject_informer ctx w)) #
        (map single (in_informers after) @ in_filtered before @ in_filtered after))
      ctxf [] w1 = (Return (ctx', infs), w')"
    using run by (auto simp: run_setup_def lists(3,4) split: outcome.splits prod.splits)
  obtain a b where c: "run_clients (in_clients before) cfg ctx = Return a"
      "inject_client a cfg = Return b" "run_clients (in_clients after) cfg b = Return ctxc"
    using run_clients_around [OF clients [unfolded lists]] by blast
  have ka: "kept I ctx a" and kb: "kept I b ctxc"
    using foreign_clients [OF foreign _ c(1)] foreign_clients [OF foreign _ c(3)]
    by (simp_all add: join_injectors_def)
  obtain cs where cs: "makes cfg cs" "b = WithValue a ClientKey (AnyForeign (AnyClient cs))"
    using injected [OF c(2)] by blast
  obtain d wd e we where f: "run_factories (in_factories before) ctxc w = (Return d, wd)"
      "inject_factory d wd = (Return e, we)" "run_factories (in_factories after) e we = (Return ctxf, w1)"
    using run_factories_around [OF factories [unfolded lists]] by blast
  have kd: "kept I ctxc d" "wd = w" and ke: "kept I e ctxf" "w1 = we"
    using foreign_factories [OF foreign _ f(1)] foreign_factories [OF foreign _ f(3)]
    by (simp_all add: join_injectors_def)
  have client: "client_Get I d = Return cs"
    using keptD(1) [OF kb, of ClientKey] keptD(1) [OF kd(1), of ClientKey]
    by (intro client_Get_cong) (simp add: cs(2))
  note made = f(2) [unfolded factory_real [OF cs(1) client]]
  have e: "e = WithValue d FactoryKey (AnyForeign (AnyFactory (length (iw_factories wd))))"
    using made client by (simp add: withInformerFactory_def new_factory_def)
  obtain g is1 wg h is2 wh where i: "run_informers (map single (in_informers before)) ctxf [] w1 =
        (Return (g, is1), wg)"
      "single (\<lambda>ctx w. own_informer (inject_informer ctx w)) g wg = (Return (h, is2), wh)"
      "run_informers (map single (in_informers after) @ in_filtered before @ in_filtered after)
         h (is1 @ is2) wh = (Return (ctx', infs), w')"
    using run_informers_around [OF informers] by blast
  have kg: "kept I ctxf g" "wg = w1" and kh: "kept I h ctx'" "w' = wh" "set (is1 @ is2) \<subseteq> set infs"
    using foreign_informers [OF foreign _ i(1)] foreign_informers [OF foreign _ i(3)]
    by (simp_all add: join_injectors_def)
  obtain j where own: "inject_informer g wg = (Return (h, j), wh)" "is2 = [OwnInformer j]"
    using i(2) by (auto simp: single_def own_informer_def split: outcome.splits prod.splits)
  have h: "\<exists>ti. h = WithValue g TaskInformerKey (AnyForeign (AnyTaskInformer ti))"
    using own(1) by (auto simp: informer_real withInformer_def Let_def split: outcome.splits prod.splits)
  have scope: "scope_namespace I d = scope_namespace I ctx" "GetResyncPeriod I d = GetResyncPeriod I ctx"
    by (simp_all add: keptD(2,3) [OF kd(1)] keptD(2,3) [OF kb] cs(2) scope_WithValue [OF laws]
        keptD(2,3) [OF ka])
  have between: "Value g FactoryKey = Value e FactoryKey"
    using keptD(1) [OF ke(1)] keptD(1) [OF kg(1)] by simp
  have later: "Value ctx' TaskInformerKey = Value h TaskInformerKey" using keptD(1) [OF kh(1)] by simp
  have others: "Value ctx' k = Value ctx k"
    if "own_key k" "k \<notin> {ClientKey, FactoryKey, TaskInformerKey}" for k
    using that h keptD(1) [OF ka that(1)] keptD(1) [OF kb that(1)] keptD(1) [OF kd(1) that(1)]
      keptD(1) [OF ke(1) that(1)] keptD(1) [OF kg(1) that(1)] keptD(1) [OF kh(1) that(1)]
    by (auto simp: cs(2) e)
  have "client_Get I ctx' = Return cs"
    using h keptD(1) [OF kb, of ClientKey] keptD(1) [OF kd(1), of ClientKey]
      keptD(1) [OF ke(1), of ClientKey] keptD(1) [OF kg(1), of ClientKey] keptD(1) [OF kh(1), of ClientKey]
    by (intro client_Get_cong) (auto simp: cs(2) e)
  with injected_informer [OF client made between own(1) [unfolded kg(2) ke(2) informer_real] later,
      of getIndexer options] cs(1) others kh(2,3)
  show ?thesis by (auto simp: scope own(2))
qed

end

interpretation real_packages: injection_packages I "withClientFromConfig RL" "withInformerFactory I"
    withInformer "\<lambda>cfg c. \<exists>cs. NewForConfigOrDie RL cfg = Return cs \<and> c = RealClientset cs" for I RL
  by unfold_locales (auto simp: withClientFromConfig_def split: outcome.splits)

interpretation fake_packages: injection_packages I "\<lambda>ctx cfg. fake_withClient T ctx"
    "fake_withInformerFactory I" fake_withInformer
    "\<lambda>cfg c. \<exists>cs. NewSimpleClientset T [] = Return cs \<and> c = FakeClientset cs" for I T
proof (unfold_locales, goal_cases)
  case (1 ctx cfg ctx')
  then show ?case by (auto simp: fake_withClient_def fake_With_def split: outcome.splits)
next
  case (2 cfg c ctx w)
  then show ?case
    by (auto simp: client_Get_def fake_client_Get_def fake_withInformerFactory_def
        withInformerFactory_def split: option.splits ce_any.splits inj_any.splits if_splits)
next
  case (3 ctx w)
  show ?case by (simp add: fake_withInformer_def withInformer_def)
qed

section \<open>The controller process starts\<close>

text \<open>What \<open>NewController\<close> needs from a context to return.\<close>

lemma NewController_returns:
  assumes start: "WithClientAndInformers S ctx0 = Return ctx1"
    and kept: "\<forall>k\<in>{NamespaceKey, CEClientKey, JobDefinitionInformerKey, JobRunInformerKey}.
        Value ctx k = Value ctx1 k"
    and getters: "RunInformerGet CL ctx = Return runs" "SecretInformerGet CL ctx = Return secrets"
      "KubeClientGet CL ctx = Return kube"
    and jobs: "\<forall>client ns. \<exists>jobRuns. CE_JobRuns_of CL (Some client) ns = Return jobRuns"
    and impl: "\<forall>r. \<exists>impl. NewImpl CL ctx r ''run-code-engine-task'' = Return impl"
    and informer: "informer_Get ctx = Return ti" "task_informer_Lister getIndexer ti w = (lister, w1)"
  shows "\<exists>ctl. NewController L CL getIndexer answers ctx w = (Return ctl, w1) \<and>
    r_taskLister (ctl_reconciler ctl) = answers lister"
proof -
  from start obtain client ns f ctx2 where
    ctx1: "ctx1 = withInformers (withNamespace (withClient ctx2 client) ns)
        (CE_JobDefinitions S f) (CE_JobRuns S f)"
    by (rule start_context) blast
  have got: "GetNamespace ctx = Return ns" "GetClient ctx = Return (Some client)"
    "GetJobDefinitionInformer ctx = Return (Some (CE_JobDefinitions S f))"
    "GetJobRunInformer ctx = Return (Some (CE_JobRuns S f))"
    using kept by (simp_all add: ctx1 ce_slot_defs)
  obtain jobRuns where jobRuns: "GetJobRunsClient (CE_JobRuns_of CL) ctx = Return jobRuns"
    using jobs got(1,2) by (auto simp: GetJobRunsClient_def)
  define r where "r = \<lparr>r_kubeclient = kube, r_runLister = InformerLister CL runs,
      r_secretLister = InformerLister CL secrets, r_taskLister = answers lister,
      r_jobDefinitionLister = CE_JobDefinitionLister CL (CE_JobDefinitions S f),
      r_jobRunLister = CE_JobRunLister CL (CE_JobRuns S f), r_jobRunsClient = jobRuns,
      r_codeEngineNamespace = ns,
      r_createdJobRuns = gocache_New CL 300000000000 300000000000\<rparr>"
  obtain impl where impl: "NewImpl CL ctx r ''run-code-engine-task'' = Return impl" using impl by blast
  show ?thesis
    by (simp add: NewController_def getters informer got jobRuns lister_of_def Let_def
        impl [unfolded r_def]) 
qed

text \<open>The controller that the linked process builds.\<close>

lemma linked_controller:
  fixes before :: "('cl, 'di, 'ri, 'q, (('rc, 'd) Clientset, 'dyn, 'fk) versioned_interface) app_registry"
  assumes laws: "injection_laws I" and documented: "\<forall>r cfg ctx w. SetupInformers r cfg ctx w = run_setup r cfg ctx w"
    and others: "foreign_injectors I (reg_Default before)" "foreign_injectors I after"
    and main: "controller_main L Z M S CL getIndexer answers = Return call"
    and started: "SetupInformers (linked RL I before after) cfg (sm_ctx call) w = (Return (ctx, infs), w1)"
    and build: "build \<in> set (sm_constructors call)"
    and getters: "RunInformerGet CL ctx = Return runs" "SecretInformerGet CL ctx = Return secrets"
      "KubeClientGet CL ctx = Return kube"
    and jobs: "\<forall>client ns. \<exists>jobRuns. CE_JobRuns_of CL (Some client) ns = Return jobRuns"
    and impl: "\<forall>r. \<exists>impl. NewImpl CL ctx r ''run-code-engine-task'' = Return impl"
  shows "\<exists>cs ctl i lw runs ri impl. NewForConfigOrDie RL cfg = Return cs \<and> build ctx w1 = (Return ctl, w1) \<and>
    r_taskLister (ctl_reconciler ctl) = answers (IndexerLister (NewCodeEngineTaskLister (getIndexer i))) \<and>
    OwnInformer i \<in> set infs \<and> si_ListerWatcher (w_made (iw_informers w1) ! i) = Some lw \<and>
    ListFunc lw (iw_store w1) options =
      ListCall (RealClientset cs) (scope_namespace I (sm_ctx call)) options \<and>
    WatchFunc lw (iw_store w1) options =
      WatchCall (RealClientset cs) (scope_namespace I (sm_ctx call)) options \<and>
    ctl_registrations ctl =
      [RegisterRuns runs (GV_String L SchemeGroupVersion) CustomTaskKind impl,
       RegisterJobRuns ri filterJobRunRef (jobRunEnqueueFunc impl)]"
proof -
  from main obtain logger where start: "WithClientAndInformers S (WithLogger M (SignalContext M) logger) =
      Return (sm_ctx call)" and ctors: "sm_constructors call = [NewController L CL getIndexer answers]"
    by (auto simp: controller_main_def Let_def split: outcome.splits)
  from real_packages.setup_task_informer [OF laws others linked_lists
      started [unfolded documented [rule_format]], of getIndexer options]
  obtain cs ti i lw where S: "NewForConfigOrDie RL cfg = Return cs" "informer_Get ctx = Return ti"
    "OwnInformer i \<in> set infs"
    "task_informer_Lister getIndexer ti w1 = (IndexerLister (NewCodeEngineTaskLister (getIndexer i)), w1)"
    "si_ListerWatcher (w_made (iw_informers w1) ! i) = Some lw"
    "ListFunc lw (iw_store w1) options = ListCall (RealClientset cs) (scope_namespace I (sm_ctx call)) options"
    "WatchFunc lw (iw_store w1) options = WatchCall (RealClientset cs) (scope_namespace I (sm_ctx call)) options"
    "\<forall>k. own_key k \<longrightarrow> k \<notin> {ClientKey, FactoryKey, TaskInformerKey} \<longrightarrow> Value ctx k = Value (sm_ctx call) k"
    by blast
  have kept: "\<forall>k\<in>{NamespaceKey, CEClientKey, JobDefinitionInformerKey, JobRunInformerKey}.
      Value ctx k = Value (sm_ctx call) k"
    using S(8) by simp
  obtain ctl where ctl: "NewController L CL getIndexer answers ctx w1 = (Return ctl, w1)"
    "r_taskLister (ctl_reconciler ctl) = answers (IndexerLister (NewCodeEngineTaskLister (getIndexer i)))"
    using NewController_returns [OF start kept getters jobs impl S(2,4), of L answers] by blast
  obtain runs ri impl' where "ctl_registrations ctl =
      [RegisterRuns runs (GV_String L SchemeGroupVersion) CustomTaskKind impl',
       RegisterJobRuns ri filterJobRunRef (jobRunEnqueueFunc impl')]"
    using ctl(1) by (rule NewController_reads) blast
  moreover have "build = NewController L CL getIndexer answers" using build ctors by simp
  ultimately show ?thesis
    using S(1,3,5-7) ctl by (intro exI [of _ cs] exI [of _ ctl] exI [of _ i] exI [of _ lw]) auto
qed

text \<open>
  C15: the linked controller process starts.  With the documented order of knative's set-up, and other
  packages that leave this program's keys alone, the set-up after \<open>main\<close> succeeds only with a client
  for its configuration; then the constructor returns, given that the getters of the other packages
  do, and its reconciler looks tasks up in the cache of an informer that the set-up hands out to be
  started, which lists and watches the tasks of the scope through that client.
\<close>

theorem controller_starts:
  fixes before :: "('cl, 'di, 'ri, 'q, (('rc, 'd) Clientset, 'dyn, 'fk) versioned_interface) app_registry"
  assumes laws: "injection_laws I" and documented: "\<forall>r cfg ctx w. SetupInformers r cfg ctx w = run_setup r cfg ctx w"
    and others: "foreign_injectors I (reg_Default before)" "foreign_injectors I after"
    and main: "controller_main L Z M S CL getIndexer answers = Return call"
    and started: "SetupInformers (linked RL I before after) cfg (sm_ctx call) w = (Return (ctx, infs), w1)"
    and build: "build \<in> set (sm_constructors call)"
    and getters: "RunInformerGet CL ctx = Return runs" "SecretInformerGet CL ctx = Return secrets"
      "KubeClientGet CL ctx = Return kube"
    and jobs: "\<forall>client ns. \<exists>jobRuns. CE_JobRuns_of CL (Some client) ns = Return jobRuns"
    and impl: "\<forall>r. \<exists>impl. NewImpl CL ctx r ''run-code-engine-task'' = Return impl"
  shows "\<exists>cs ctl i lw. NewForConfigOrDie RL cfg = Return cs \<and> build ctx w1 = (Return ctl, w1) \<and>
    r_taskLister (ctl_reconciler ctl) = answers (IndexerLister (NewCodeEngineTaskLister (getIndexer i))) \<and>
    OwnInformer i \<in> set infs \<and> si_ListerWatcher (w_made (iw_informers w1) ! i) = Some lw \<and>
    ListFunc lw (iw_store w1) options =
      ListCall (RealClientset cs) (scope_namespace I (sm_ctx call)) options \<and>
    WatchFunc lw (iw_store w1) options =
      WatchCall (RealClientset cs) (scope_namespace I (sm_ctx call)) options"
  using linked_controller [OF assms] by metis

text \<open>Another package that registers a client of its own.\<close>

type_synonym sample_versioned = "((int Config, int Config) Clientset, string, string) versioned_interface"

definition no_injectors :: "('q, 'ctx, 'w, 'o) injectors" where
  "no_injectors = \<lparr>in_clients = [], in_fetchers = [], in_factories = [], in_informers = [], in_filtered = []\<rparr>"

definition empty_registry :: "('q, 'ctx, 'w, 'o) injection_registry" where
  "empty_registry = \<lparr>reg_Default = no_injectors, reg_Dynamic = \<lparr>dy_clients = [], dy_informers = []\<rparr>,
     reg_Fake = no_injectors\<rparr>"

definition kube_package ::
    "('q, ('cl, 'di, 'ri, 'c) app_ctx, 'c inj_world, 'o) injectors" where
  "kube_package = RegisterClient
     (\<lambda>ctx cfg. Return (WithValue ctx (OtherKey ''kube'') (AnyString ''client''))) no_injectors"

lemma sample_packages_foreign:
  "foreign_injectors sample_injection (reg_Default empty_registry)"
  "foreign_injectors sample_injection kube_package"
  by (auto simp: foreign_injectors_def kube_package_def empty_registry_def no_injectors_def
      RegisterClient_def kept_def sample_injection_def scope_namespace_def)

lemma sample_setup:
  "\<exists>ctx infs w. run_setup (linked sample_rest_lib sample_injection
       (empty_registry :: (string, string, string, int, sample_versioned) app_registry) kube_package)
     sample_config ctx0 empty_world = (Return (ctx, infs), w)"
proof -
  obtain cs where cs: "NewForConfigOrDie sample_rest_lib sample_config = Return cs"
    by (simp add: NewForConfigOrDie_def or_die_def NewForConfig_def NewForConfigAndClient_def Let_def
        sample_rest_lib_def sample_config_def group_NewForConfigAndClient_def setConfigDefaults_def)
  show ?thesis
    by (simp add: run_setup_def linked_lists empty_registry_def no_injectors_def kube_package_def
        RegisterClient_def withClientFromConfig_def cs withInformerFactory_def client_Get_def
        scoped_factory new_factory_def single_def own_informer_def withInformer_def factory_Get_def
        factory_task_informer_def task_informer_Informer_def scoped_factory_Informer empty_world_def)
qed

definition versioned_answers ::
    "sample_versioned task_lister \<Rightarrow> string \<Rightarrow> string \<Rightarrow> (error + CodeEngineTask) outcome" where
  "versioned_answers l ns name = Return (Inl (Foreign name))"

text \<open>The sample process up to its constructor, for any listers.\<close>

type_synonym sample_controller =
  "((string, string, string, sample_versioned inj_any) ce_any, string, string, nat, string, string, string, string)
     controller_lib"

lemma sample_process:
  obtains call ctx infs w1 where
    "controller_main L sample_zap sample_main (sample_sdk 200 ''{}'')
       (sample_controller_lib :: sample_controller) getIndexer answers = Return call"
    and "run_setup (linked sample_rest_lib sample_injection
       (empty_registry :: (string, string, string, int, sample_versioned) app_registry) kube_package)
       sample_config (sm_ctx call) empty_world = (Return (ctx, infs), w1)"
    and "NewController L sample_controller_lib getIndexer answers \<in> set (sm_constructors call)"
proof -
  obtain ctx1 :: "(string, string, string, sample_versioned) app_ctx"
    where start: "WithClientAndInformers (sample_sdk 200 ''{}'')
      (WithValue [] (OtherKey ''logger'') (AnyString ''x'')) = Return ctx1"
    by (simp add: WithClientAndInformers_def startCodeEngineInformers_def getCodeEngineKubeConfig_def
        sample_sdk_def http_NewRequest_def Let_def)
  let ?new = "NewController L (sample_controller_lib :: sample_controller) getIndexer answers"
  define call where "call = \<lparr>sm_ctx = ctx1, sm_component = ''controller'', sm_constructors = [?new]\<rparr>"
  have main: "controller_main L sample_zap sample_main (sample_sdk 200 ''{}'')
       sample_controller_lib getIndexer answers = Return call"
    using start
    by (simp add: call_def controller_main_def initLogger_def LogLevelEnv_def sample_zap_def sample_main_def
        sample_Getenv)
  obtain ctx infs w1 where "run_setup (linked sample_rest_lib sample_injection
       (empty_registry :: (string, string, string, int, sample_versioned) app_registry) kube_package)
     sample_config (sm_ctx call) empty_world = (Return (ctx, infs), w1)"
    using sample_setup by metis
  with main show thesis by (rule that) (simp add: call_def)
qed

lemma sample_getters:
  "RunInformerGet (sample_controller_lib :: sample_controller) ctx = Return ''runs''"
  "SecretInformerGet (sample_controller_lib :: sample_controller) ctx = Return ''secrets''"
  "KubeClientGet (sample_controller_lib :: sample_controller) ctx = Return ''kube''"
  "\<forall>client ns. \<exists>jobRuns. CE_JobRuns_of (sample_controller_lib :: sample_controller) (Some client) ns = Return jobRuns"
  "\<forall>r. \<exists>impl. NewImpl (sample_controller_lib :: sample_controller) ctx r ''run-code-engine-task'' = Return impl"
  by (simp_all add: sample_controller_lib_def)

lemma controller_starts_witness:
  "\<exists>call ctx infs w1 ctl i. controller_main plain_schema sample_zap sample_main (sample_sdk 200 ''{}'')
       sample_controller_lib (\<lambda>i. one_task_indexer) versioned_answers = Return call \<and>
     run_setup (linked sample_rest_lib sample_injection
       (empty_registry :: (string, string, string, int, sample_versioned) app_registry) kube_package)
       sample_config (sm_ctx call) empty_world = (Return (ctx, infs), w1) \<and>
     NewController plain_schema sample_controller_lib (\<lambda>i. one_task_indexer) versioned_answers ctx w1 =
       (Return ctl, w1) \<and> OwnInformer i \<in> set infs"
proof -
  obtain call ctx infs w1 where main: "controller_main plain_schema sample_zap sample_main (sample_sdk 200 ''{}'')
       (sample_controller_lib :: sample_controller) (\<lambda>i. one_task_indexer) versioned_answers = Return call"
    and started: "run_setup (linked sample_rest_lib sample_injection
       (empty_registry :: (string, string, string, int, sample_versioned) app_registry) kube_package)
       sample_config (sm_ctx call) empty_world = (Return (ctx, infs), w1)"
    and build: "NewController plain_schema sample_controller_lib (\<lambda>i. one_task_indexer) versioned_answers
       \<in> set (sm_constructors call)"
    by (rule sample_process)
  have documented: "\<forall>r cfg ctx w. run_setup r cfg ctx w = run_setup r cfg ctx w" by blast
  from controller_starts [OF sample_injection_laws documented sample_packages_foreign main started build
      sample_getters]
  obtain ctl i where "NewController plain_schema sample_controller_lib (\<lambda>i. one_task_indexer) versioned_answers
      ctx w1 = (Return ctl, w1)" "OwnInformer i \<in> set infs" by blast
  with main started show ?thesis by blast
qed

section \<open>The fake packages\<close>

text \<open>What a test links in place of the real packages.\<close>

definition fake_linked ::
    "('sel, 'req, 'o, 'w) testing_lib \<Rightarrow>
       (('cl, 'di, 'ri, ('cs, 'dyn, 'o fake_clientset) versioned_interface inj_any) ce_any, 'cfg, 'dyn) injection_lib \<Rightarrow>
       ('cl, 'di, 'ri, 'q, 'cs, 'dyn, 'o fake_clientset) fake_registry \<Rightarrow>
       ('q, ('cl, 'di, 'ri, 'cs, 'dyn, 'o fake_clientset) fake_ctx,
        ('cs, 'dyn, 'o fake_clientset) versioned_interface inj_world,
        ('cs, 'dyn, 'o fake_clientset) versioned_interface inj_any) injectors \<Rightarrow>
       ('q, ('cl, 'di, 'ri, 'cs, 'dyn, 'o fake_clientset) fake_ctx,
        ('cs, 'dyn, 'o fake_clientset) versioned_interface inj_world,
        ('cs, 'dyn, 'o fake_clientset) versioned_interface inj_any) injectors" where
  "fake_linked T I before after =
     join_injectors (reg_Fake (fake_informer_init (fake_factory_init I (fake_client_init T before)))) after"

lemma fake_linked_lists:
  "in_clients (fake_linked T I before after) =
     in_clients (reg_Fake before) @ (\<lambda>ctx cfg. fake_withClient T ctx) # in_clients after"
  "in_factories (fake_linked T I before after) =
     in_factories (reg_Fake before) @ fake_withInformerFactory I # in_factories after"
  "in_informers (fake_linked T I before after) =
     in_informers (reg_Fake before) @ (\<lambda>ctx w. own_informer (fake_withInformer ctx w)) # in_informers after"
  "in_filtered (fake_linked T I before after) = in_filtered (reg_Fake before) @ in_filtered after"
  by (simp_all add: fake_linked_def join_injectors_def fake_client_init_def fake_factory_init_def
      fake_informer_init_def register_defs)

lemma fake_client_Get_real:
  "client_Get I ctx = Return (FakeClientset cs) \<Longrightarrow> fake_client_Get ctx = Return cs"
  by (auto simp: client_Get_def fake_client_Get_def split: option.splits ce_any.splits inj_any.splits
      if_splits)

text \<open>
  C36: a test that sets up the fake packages runs the program on an empty fake.  Whatever the
  configuration, the getters of the real packages return the same fake clientset as the getter of
  the fake one, and the injected informer, handed out to be started, lists and watches through it.
\<close>

theorem fake_setup_ready:
  fixes before :: "('cl, 'di, 'ri, 'q, 'cs, 'dyn, 'o fake_clientset) fake_registry"
  assumes laws: "injection_laws I" and documented: "\<forall>r cfg ctx w. SetupInformers r cfg ctx w = run_setup r cfg ctx w"
    and others: "foreign_injectors I (reg_Fake before)" "foreign_injectors I after"
    and started: "SetupInformers (fake_linked T I before after) cfg ctx w = (Return (ctx', infs), w')"
  shows "\<exists>cs ti i lw. NewSimpleClientset T [] = Return cs \<and> fk_tracker cs = NewObjectTracker T \<and>
    fake_client_Get ctx' = Return cs \<and> client_Get I ctx' = Return (FakeClientset cs) \<and>
    informer_Get ctx' = Return ti \<and> OwnInformer i \<in> set infs \<and>
    task_informer_Lister getIndexer ti w' = (IndexerLister (NewCodeEngineTaskLister (getIndexer i)), w') \<and>
    si_ListerWatcher (w_made (iw_informers w') ! i) = Some lw \<and>
    ListFunc lw (iw_store w') options = ListCall (FakeClientset cs) (scope_namespace I ctx) options"
proof -
  from fake_packages.setup_task_informer [OF laws others fake_linked_lists
      started [unfolded documented [rule_format]], of getIndexer options]
  obtain cs ti i lw where "NewSimpleClientset T [] = Return cs"
    "client_Get I ctx' = Return (FakeClientset cs)" "informer_Get ctx' = Return ti"
    "OwnInformer i \<in> set infs"
    "task_informer_Lister getIndexer ti w' = (IndexerLister (NewCodeEngineTaskLister (getIndexer i)), w')"
    "si_ListerWatcher (w_made (iw_informers w') ! i) = Some lw"
    "ListFunc lw (iw_store w') options = ListCall (FakeClientset cs) (scope_namespace I ctx) options"
    by blast
  with fake_client_Get_real [of I ctx' cs] show ?thesis by (auto simp: NewSimpleClientset_def)
qed

type_synonym tiny_versioned = "(string, string, CodeEngineTask list fake_clientset) versioned_interface"

lemma fake_setup_ready_witness:
  "\<exists>ctx' infs w' cs i. run_setup (fake_linked sample_testing sample_injection
       (empty_registry :: (string, string, string, int, tiny_versioned) app_registry) kube_package)
     sample_config [] empty_world = (Return (ctx', infs), w') \<and>
     fake_client_Get ctx' = Return cs \<and> fk_tracker cs = [] \<and> OwnInformer i \<in> set infs"
proof -
  obtain ctx' infs w' where started: "run_setup (fake_linked sample_testing sample_injection
       (empty_registry :: (string, string, string, int, tiny_versioned) app_registry) kube_package)
     sample_config [] empty_world = (Return (ctx', infs), w')"
    by (simp add: run_setup_def fake_linked_lists empty_registry_def no_injectors_def kube_package_def
        RegisterClient_def fake_withClient_def fake_With_def NewSimpleClientset_def
        fake_withInformerFactory_def fake_client_Get_def scoped_factory new_factory_def single_def
        own_informer_def fake_withInformer_def factory_Get_def factory_task_informer_def
        task_informer_Informer_def scoped_factory_Informer empty_world_def)
  have documented: "\<forall>r cfg ctx w. run_setup r cfg ctx w = run_setup r cfg ctx w" by blast
  have foreign: "foreign_injectors sample_injection
      (reg_Fake (empty_registry :: (string, string, string, int, tiny_versioned) app_registry))"
    by (simp add: foreign_injectors_def empty_registry_def no_injectors_def)
  from fake_setup_ready [OF sample_injection_laws documented foreign sample_packages_foreign(2) started]
  obtain cs i where "fake_client_Get ctx' = Return cs" "fk_tracker cs = NewObjectTracker sample_testing"
    "OwnInformer i \<in> set infs" by blast
  moreover have "NewObjectTracker sample_testing = []" by (simp add: sample_testing_def)
  ultimately show ?thesis using started by auto
qed

end
