(* ===== verification/ProcessRuns.thy ===== *)
theory ProcessRuns
  imports Registration RunFinishes
begin

text \<open>
  The whole process at work: the controller that \<open>main\<close>, the set-up of the injection and the constructor
  build, on a Run that refers to a task.  What it asks for is determined by the cache of the informer
  that the set-up starts, and comes back through the handlers that the constructor registers.
\<close>

section \<open>Requests for job runs\<close>

text \<open>Each request is for the job of the spec that counts, with the definition the lister gave.\<close>

definition requested_by_spec ::
    "('st, 'x, 'jd, 'z) ce_lib_scheme \<Rightarrow> ('x, 'jd, 'w) Reconciler \<Rightarrow> 'st Run \<Rightarrow> CodeEngineTaskSpec \<Rightarrow>
       'x JobRun \<Rightarrow> bool" where
  "requested_by_spec L r run sp jr \<longleftrightarrow>
     (\<exists>jd. r_jobDefinitionLister r (r_codeEngineNamespace r) (JobName sp) = Inr jd \<and>
        jr = requested_job_run L run sp jd)"

lemma requested_by_spec_identity:
  "same_identity run run' \<Longrightarrow> requested_by_spec L r run' sp jr = requested_by_spec L r run sp jr"
  by (simp add: requested_by_spec_def requested_job_run_identity)

lemma runCodeEngineJob_request:
  assumes "runCodeEngineJob L r s = (out, s')" and "CreateCall jr res \<in> set (rs_effects s')"
  shows "CreateCall jr res \<in> set (rs_effects s) \<or>
    ts_JobRunName (rs_status s) = [] \<and>
    (\<exists>sp. ts_CodeEngineTaskSpec (rs_status s) = Some sp \<and> requested_by_spec L r (rs_run s) sp jr)"
  using assms
  by (auto simp: runCodeEngineJob_def requested_by_spec_def requested_job_run_def Let_def
      split: if_splits option.splits sum.splits prod.splits)

lemma reconcile_request:
  assumes laws: "run_laws L" and call: "reconcile L r s = (out, s')"
    and create: "CreateCall jr res \<in> set (rs_effects s')"
  shows "CreateCall jr res \<in> set (rs_effects s) \<or>
    ts_JobRunName (rs_status s) = [] \<and>
    (\<exists>task. getCodeEngineTask L r s = (Return (Inr task), s) \<and>
       requested_by_spec L r (rs_run s) (effective_spec (rs_status s) (t_Spec task)) jr)"
proof -
  have job: ?thesis if task: "getCodeEngineTask L r s = (Return (Inr task), s)"
      and job: "runCodeEngineJob L r (s\<lparr>rs_status := storeCodeEngineTaskSpec (rs_status s) (t_Spec task)\<rparr>) = (x, s3)"
      and made: "CreateCall jr res \<in> set (rs_effects s3)" for task x s3
    using runCodeEngineJob_request [OF job made] task effective_stored [of "rs_status s" "t_Spec task"]
    by (auto simp del: storeCodeEngineTaskSpec_simps(2))
  show ?thesis
    using call
  proof (cases rule: reconcile_cases)
    case (job_stops task s2)
    with job create show ?thesis by blast
  next
    case (checked task s2 s3 err)
    with job create check_frame(4) [OF laws checked(4)] show ?thesis by metis
  qed (use create getCodeEngineTask_frame(4) [OF laws] in metis)+
qed

lemma ReconcileKind_request:
  assumes laws: "run_laws L" and now: "0 < now"
    and accepted: "verifyCodeEngineSpec L run = Return True"
    and undone: "\<not> IsDone L (run_Status run)"
    and stored: "stored_status L (run_Status run) = Some status"
    and call: "ReconcileKind L r now run api = (out, s')"
    and create: "CreateCall jr res \<in> set (rs_effects s')"
  shows "ts_JobRunName status = [] \<and>
    (\<exists>tls. task_spec_of r run tls \<and> requested_by_spec L r run (effective_spec status tls) jr)"
proof -
  obtain s1 s2 where s1: "begun L \<lparr>rs_run = run, rs_status = zero_CodeEngineTaskStatus,
        rs_api = api, rs_effects = []\<rparr> s1"
    and s2: "reconcile_undone L r s1 = (out, s2)"
      "filter is_create (rs_effects s') = filter is_create (rs_effects s2)"
    using ReconcileKind_undone [OF laws now accepted undone call] by metis
  note W = begun_work [OF s1 stored]
  have id: "same_identity run (rs_run s1)" using begunD(3) [OF s1] by simp
  have "CreateCall jr res \<in> set (filter is_create (rs_effects s2))"
    using create by (simp only: s2(2) [symmetric]) simp
  then have made: "CreateCall jr res \<in> set (rs_effects s2)" by simp
  have "CreateCall jr res \<notin> set (filter is_create (rs_effects s1))" by (simp only: W(6)) simp
  then have none: "CreateCall jr res \<notin> set (rs_effects s1)" by simp
  obtain x s3 where "reconcile L r (s1\<lparr>rs_status := status\<rparr>) = (x, s3)" "rs_effects s3 = rs_effects s2"
    using s2(1) W(2) by (cases rule: reconcile_undone_cases) auto
  from reconcile_request [OF laws this(1), of jr res] made none this(2)
  obtain task where name: "ts_JobRunName status = []"
    and task: "getCodeEngineTask L r (s1\<lparr>rs_status := status\<rparr>) = (Return (Inr task), s1\<lparr>rs_status := status\<rparr>)"
    and request: "requested_by_spec L r (rs_run s1) (effective_spec status (t_Spec task)) jr" by auto
  have "task_spec_of r (rs_run s1) (t_Spec task)"
    using task by (auto simp: getCodeEngineTask_def task_spec_of_def Let_def
        split: option.splits if_splits outcome.splits sum.splits prod.splits)
  with name request show ?thesis
    by (auto simp: task_spec_of_identity [OF id] requested_by_spec_identity [OF id])
qed


section \<open>From the process to the events of a job run\<close>

text \<open>What a reconciler with the lister of an indexer does with a Run that refers to a task.\<close>

lemma referenced_call:
  assumes laws: "run_laws L" "ce_laws L" and now: "0 < now"
    and accepted: "verifyCodeEngineSpec L run = Return True"
    and undone: "\<not> IsDone L (run_Status run)"
    and stored: "stored_status L (run_Status run) = Some status"
    and ref: "run_Spec run = None" "run_Ref run = Some ref"
    and lister: "r_taskLister r = indexer_task_lister L (NewCodeEngineTaskLister ix)"
      "indexer_laws ix (run_Namespace run)"
    and call: "ReconcileKind L r now run api = (out, s')"
  shows "\<not> is_panic out"
    and "CreateCall jr res \<in> set (rs_effects s') \<Longrightarrow> ts_JobRunName status = [] \<and>
      jr_Labels jr = owner_labels run \<and>
      (\<exists>t. indexed_task ix (run_Namespace run) (ref_Name ref) = Some t \<and>
         requested_by_spec L r run (effective_spec status (t_Spec t)) jr)"
proof -
  let ?l = "(L, Lister_CodeEngineTasks (NewCodeEngineTaskLister ix) (run_Namespace run))"
  have l: "lister_laws ?l"
    using laws(1) lister(2) by (simp add: lister_laws_def run_laws_def Lister_CodeEngineTasks_def NewCodeEngineTaskLister_def)
  show "\<not> is_panic out"
    using ReconcileKind_no_panic [OF laws(1) now accepted lister(1) l, of api] by (simp add: call)
  assume create: "CreateCall jr res \<in> set (rs_effects s')"
  from ReconcileKind_request [OF laws(1) now accepted undone stored call create]
  obtain tls where name: "ts_JobRunName status = []" and tls: "task_spec_of r run tls"
    and request: "requested_by_spec L r run (effective_spec status tls) jr" by blast
  obtain t where "r_taskLister r (run_Namespace run) (ref_Name ref) = Return (Inr t)" "t_Spec t = tls"
    using tls ref by (auto simp: task_spec_of_def)
  then have "indexed_task ix (run_Namespace run) (ref_Name ref) = Some t"
    using task_lister.get_iff [OF l]
    by (simp add: lister(1) indexer_task_lister_def Lister_CodeEngineTasks_def NewCodeEngineTaskLister_def)
  moreover have "jr_Labels jr = owner_labels run"
    using ReconcileKind_owned [OF laws call] create unfolding creates_owned_def by blast
  ultimately show "ts_JobRunName status = [] \<and> jr_Labels jr = owner_labels run \<and>
      (\<exists>t. indexed_task ix (run_Namespace run) (ref_Name ref) = Some t \<and>
         requested_by_spec L r run (effective_spec status (t_Spec t)) jr)"
    using name request \<open>t_Spec t = tls\<close> by blast
qed

text \<open>
  C8: the started process works.  The reconciler of the controller that \<open>main\<close>, knative's set-up and the
  constructor build never panics on an accepted, undecided Run that refers to a task.  It asks for a job
  run only while none is recorded, and only for the stored spec of the Run or else for the task that the
  cache of the started informer holds, with the job definition that its lister gives.  An event of a job
  run that keeps the labels of the request passes the filter that the controller registered with the job
  run informer, and the handler registered there enqueues the key of the Run with the same controller
  that the events of Runs go to.
\<close>

theorem started_process_works:
  fixes before :: "('cl, 'di, 'ri, 'q, (('rc, 'd) Clientset, 'dyn, 'fk) versioned_interface) app_registry"
  assumes laws: "injection_laws I" and documented: "\<forall>r cfg ctx w. SetupInformers r cfg ctx w = run_setup r cfg ctx w"
    and others: "foreign_injectors I (reg_Default before)" "foreign_injectors I after"
    and main: "controller_main L Z M S CL getIndexer answers = Return call"
    and started: "SetupInformers (linked RL I before after) cfg (sm_ctx call) w = (Return (ctx, infs), w1)"
    and build: "build \<in> set (sm_constructors call)"
    and getters: "RunInformerGet CL ctx = Return runs" "SecretInformerGet CL ctx = Return secrets"
      "KubeClientGet CL ctx = Return kube"
    and jobs: "\<forall>client ns. \<exists>jobRuns. CE_JobRuns_of CL (Some client) ns = Return jobRuns"
    and impl: "\<forall>r. \<exists>impl. NewImpl CL ctx r ''run-code-engine-task'' = Return impl"
    and contract: "\<forall>l. answers (IndexerLister l) = indexer_task_lister L l"
    and library: "run_laws L" "ce_laws L"
    and run: "verifyCodeEngineSpec L run = Return True" "\<not> IsDone L (run_Status run)"
      "stored_status L (run_Status run) = Some status"
    and ref: "run_Spec run = None" "run_Ref run = Some ref"
  shows "\<exists>cs ctl i lw events impl ri accepts enqueue. NewForConfigOrDie RL cfg = Return cs \<and>
    build ctx w1 = (Return ctl, w1) \<and> OwnInformer i \<in> set infs \<and>
    si_ListerWatcher (w_made (iw_informers w1) ! i) = Some lw \<and>
    ListFunc lw (iw_store w1) options =
      ListCall (RealClientset cs) (scope_namespace I (sm_ctx call)) options \<and>
    ctl_registrations ctl =
      [RegisterRuns events (GV_String L SchemeGroupVersion) CustomTaskKind impl,
       RegisterJobRuns ri accepts enqueue] \<and>
    (indexer_laws (getIndexer i) (run_Namespace run) \<longrightarrow>
      (\<forall>now api out s'. 0 < now \<longrightarrow> ReconcileKind L (ctl_reconciler ctl) now run api = (out, s') \<longrightarrow>
        \<not> is_panic out \<and>
        (\<forall>jr res. CreateCall jr res \<in> set (rs_effects s') \<longrightarrow>
           ts_JobRunName status = [] \<and>
           (\<exists>t. indexed_task (getIndexer i) (run_Namespace run) (ref_Name ref) = Some t \<and>
              requested_by_spec L (ctl_reconciler ctl) run (effective_spec status (t_Spec t)) jr) \<and>
           (\<forall>seen. jr_Labels seen = jr_Labels jr \<longrightarrow>
              accepts (JobRunObj seen) \<and> enqueue (JobRunObj seen) = Return (impl, run_key run)))))"
proof -
  from linked_controller [OF laws documented others main started build getters jobs impl, of options]
  obtain cs ctl i lw events ri impl' where C: "NewForConfigOrDie RL cfg = Return cs" "build ctx w1 = (Return ctl, w1)"
    "r_taskLister (ctl_reconciler ctl) = answers (IndexerLister (NewCodeEngineTaskLister (getIndexer i)))"
    "OwnInformer i \<in> set infs" "si_ListerWatcher (w_made (iw_informers w1) ! i) = Some lw"
    "ListFunc lw (iw_store w1) options =
      ListCall (RealClientset cs) (scope_namespace I (sm_ctx call)) options"
    "ctl_registrations ctl =
      [RegisterRuns events (GV_String L SchemeGroupVersion) CustomTaskKind impl',
       RegisterJobRuns ri filterJobRunRef (jobRunEnqueueFunc impl')]" by blast
  have lister: "r_taskLister (ctl_reconciler ctl) =
      indexer_task_lister L (NewCodeEngineTaskLister (getIndexer i))" by (simp add: C(3) contract)
  have "filterJobRunRef (JobRunObj seen) \<and> jobRunEnqueueFunc impl' (JobRunObj seen) = Return (impl', run_key run)"
    if "jr_Labels seen = owner_labels run" for seen :: "'x JobRun"
    using owned_job_run_event [OF that] by (simp add: run_key_def)
  then show ?thesis
    using C referenced_call [OF library _ run ref lister]
    by (intro exI [of _ cs] exI [of _ ctl] exI [of _ i] exI [of _ lw] exI [of _ events] exI [of _ impl']
        exI [of _ ri] exI [of _ filterJobRunRef] exI [of _ "jobRunEnqueueFunc impl'"]) auto
qed


definition indexer_answers ::
    "sample_versioned task_lister \<Rightarrow> string \<Rightarrow> string \<Rightarrow> (error + CodeEngineTask) outcome" where
  "indexer_answers l =
     (case l of
        IndexerLister c \<Rightarrow> indexer_task_lister sample_lib c
      | _ \<Rightarrow> (\<lambda>ns name. Return (Inl (Foreign name))))"

lemma started_process_works_witness:
  "\<exists>call ctx infs w1 ctl. controller_main sample_lib sample_zap sample_main (sample_sdk 200 ''{}'')
       sample_controller_lib (\<lambda>i. sample_indexer) indexer_answers = Return call \<and>
     run_setup (linked sample_rest_lib sample_injection
       (empty_registry :: (string, string, string, int, sample_versioned) app_registry) kube_package)
       sample_config (sm_ctx call) empty_world = (Return (ctx, infs), w1) \<and>
     NewController sample_lib sample_controller_lib (\<lambda>i. sample_indexer) indexer_answers ctx w1 =
       (Return ctl, w1) \<and>
     \<not> is_panic (fst (ReconcileKind sample_lib (ctl_reconciler ctl) 100 fresh_run 0))"
proof -
  obtain call ctx infs w1 where main: "controller_main sample_lib sample_zap sample_main (sample_sdk 200 ''{}'')
       (sample_controller_lib :: sample_controller) (\<lambda>i. sample_indexer) indexer_answers = Return call"
    and started: "run_setup (linked sample_rest_lib sample_injection
       (empty_registry :: (string, string, string, int, sample_versioned) app_registry) kube_package)
       sample_config (sm_ctx call) empty_world = (Return (ctx, infs), w1)"
    and build: "NewController sample_lib sample_controller_lib (\<lambda>i. sample_indexer) indexer_answers
       \<in> set (sm_constructors call)"
    by (rule sample_process)
  have documented: "\<forall>r cfg ctx w. run_setup r cfg ctx w = run_setup r cfg ctx w" by blast
  have contract: "\<forall>l. indexer_answers (IndexerLister l) = indexer_task_lister sample_lib l"
    by (simp add: indexer_answers_def)
  have ref: "run_Spec fresh_run = None" "run_Ref fresh_run = Some (sample_ref ''task'')"
    by (simp_all add: sample_run_def)
  have ix: "indexer_laws sample_indexer (run_Namespace fresh_run)"
    using sample_lister_laws by (simp add: lister_laws_def Lister_CodeEngineTasks_def sample_run_def)
  from started_process_works [OF sample_injection_laws documented sample_packages_foreign main started build
      sample_getters contract sample_run_laws sample_ce_laws sample_verify sample_undone sample_stored(1) ref]
  obtain ctl where ctl: "NewController sample_lib sample_controller_lib (\<lambda>i. sample_indexer) indexer_answers
      ctx w1 = (Return ctl, w1)"
    "\<forall>now api out s'. 0 < now \<longrightarrow> ReconcileKind sample_lib (ctl_reconciler ctl) now fresh_run api = (out, s') \<longrightarrow>
       \<not> is_panic out" using ix by blast
  obtain out s' where call1: "ReconcileKind sample_lib (ctl_reconciler ctl) 100 fresh_run 0 = (out, s')"
    by (rule prod.exhaust)
  have "\<not> is_panic out" using ctl(2) [rule_format, OF _ call1] by simp
  with main started ctl(1) call1 show ?thesis by (metis fst_conv)
qed

end
