(* ===== verification/DynamicClient.thy ===== *)
theory DynamicClient
  imports RestClient
begin

text \<open>
  \<open>wrapClient\<close> of \<open>src/pkg/client/injection/client/client.go\<close>: the typed interface over the dynamic
  client, with JSON conversions between tasks and unstructured objects.  The dynamic client and
  \<open>encoding/json\<close> are the records \<open>dynamic_lib\<close> and \<open>json_codec\<close>; an unstructured object, or list of
  them, is named by its JSON text.
\<close>

section \<open>The libraries\<close>

type_synonym unstructured = string

record 'w dynamic_lib =
  dy_Create :: "GroupVersionResource \<Rightarrow> string \<Rightarrow> unstructured \<Rightarrow> handle \<Rightarrow> 'w \<Rightarrow> (error + unstructured) \<times> 'w"
  dy_Update :: "GroupVersionResource \<Rightarrow> string \<Rightarrow> unstructured \<Rightarrow> handle \<Rightarrow> 'w \<Rightarrow> (error + unstructured) \<times> 'w"
  dy_UpdateStatus :: "GroupVersionResource \<Rightarrow> string \<Rightarrow> unstructured \<Rightarrow> handle \<Rightarrow> 'w \<Rightarrow> (error + unstructured) \<times> 'w"
  dy_Delete :: "GroupVersionResource \<Rightarrow> string \<Rightarrow> string \<Rightarrow> handle \<Rightarrow> 'w \<Rightarrow> error option \<times> 'w"
  dy_DeleteCollection :: "GroupVersionResource \<Rightarrow> string \<Rightarrow> handle \<Rightarrow> ListOptions \<Rightarrow> 'w \<Rightarrow> error option \<times> 'w"
  dy_Get :: "GroupVersionResource \<Rightarrow> string \<Rightarrow> string \<Rightarrow> GetOptions \<Rightarrow> 'w \<Rightarrow> (error + unstructured) \<times> 'w"
  dy_List :: "GroupVersionResource \<Rightarrow> string \<Rightarrow> ListOptions \<Rightarrow> 'w \<Rightarrow> (error + unstructured) \<times> 'w"
  dy_Patch :: "GroupVersionResource \<Rightarrow> string \<Rightarrow> string \<Rightarrow> string \<Rightarrow> string \<Rightarrow> handle \<Rightarrow> string list \<Rightarrow> 'w \<Rightarrow>
    (error + unstructured) \<times> 'w"

text \<open>
  \<open>SetGVK\<close> is \<open>TypeMeta.SetGroupVersionKind\<close>.  Unmarshalling works on the value it is given, which it
  may leave changed when it fails.
\<close>

record json_codec =
  SetGVK :: "GroupVersionKind \<Rightarrow> TypeMeta \<Rightarrow> TypeMeta"
  Marshal_task :: "CodeEngineTask \<Rightarrow> error + string"
  Marshal_doc :: "unstructured \<Rightarrow> error + string"
  Unmarshal_doc :: "string \<Rightarrow> unstructured \<Rightarrow> error option \<times> unstructured"
  Unmarshal_task :: "string \<Rightarrow> CodeEngineTask \<Rightarrow> error option \<times> CodeEngineTask"
  Unmarshal_list :: "string \<Rightarrow> CodeEngineTaskList \<Rightarrow> error option \<times> CodeEngineTaskList"

section \<open>The wrapped clients\<close>

record 'w wrapClient =
  wc_dyn :: "'w dynamic_lib"

record 'w wrapCustomV1alpha1 =
  wv_dyn :: "'w dynamic_lib"

text \<open>\<open>w.dyn.Resource(gvr)\<close> is the dynamic client with the resource it is applied to.\<close>

record 'w wrapTasks =
  wt_dyn :: "'w dynamic_lib"
  wt_resource :: GroupVersionResource
  wt_namespace :: string

definition wrap_Discovery :: "'w wrapClient \<Rightarrow> unit outcome" where
  "wrap_Discovery w = Panic (PanicValue ''Discovery called on dynamic client!'')"

definition wrap_CustomV1alpha1 :: "'w wrapClient \<Rightarrow> 'w wrapCustomV1alpha1" where
  "wrap_CustomV1alpha1 w = \<lparr>wv_dyn = wc_dyn w\<rparr>"

definition wrap_RESTClient :: "'w wrapCustomV1alpha1 \<Rightarrow> unit outcome" where
  "wrap_RESTClient w = Panic (PanicValue ''RESTClient called on dynamic client!'')"

definition wrap_CodeEngineTasks :: "'w wrapCustomV1alpha1 \<Rightarrow> string \<Rightarrow> 'w wrapTasks" where
  "wrap_CodeEngineTasks w namespace =
     \<lparr>wt_dyn = wv_dyn w,
      wt_resource = \<lparr>gvr_Group = ''custom.tekton.dev'', gvr_Version = ''v1alpha1'',
                     gvr_Resource = ''codeenginetasks''\<rparr>,
      wt_namespace = namespace\<rparr>"

definition convert ::
    "('a \<Rightarrow> error + string) \<Rightarrow> (string \<Rightarrow> 'b \<Rightarrow> error option \<times> 'b) \<Rightarrow> 'a \<Rightarrow> 'b \<Rightarrow> error option \<times> 'b" where
  "convert marshal unmarshal frm to =
     (case marshal frm of
        Inl err \<Rightarrow> (Some (Errorf ''Marshal() = %w'' [ArgErr err]), to)
      | Inr bs \<Rightarrow>
          (case unmarshal bs to of
             (Some err, to1) \<Rightarrow> (Some (Errorf ''Unmarshal() = %w'' [ArgErr err]), to1)
           | (None, to1) \<Rightarrow> (None, to1)))"

section \<open>The methods\<close>

definition task_gvk :: GroupVersionKind where
  "task_gvk = \<lparr>gvk_Group = ''custom.tekton.dev'', gvk_Version = ''v1alpha1'', gvk_Kind = ''CodeEngineTask''\<rparr>"

definition set_task_gvk :: "json_codec \<Rightarrow> CodeEngineTask \<Rightarrow> CodeEngineTask" where
  "set_task_gvk J t = t\<lparr>t_TypeMeta := SetGVK J task_gvk (t_TypeMeta t)\<rparr>"

text \<open>
  The end of the methods that return a task: an error of the server, or the conversion of its answer
  into a new task.
\<close>

definition decoded_task :: "json_codec \<Rightarrow> (error + unstructured) \<times> 'w \<Rightarrow> task_result \<times> 'w" where
  "decoded_task J r =
     (case r of
        (Inl err, w1) \<Rightarrow> ((None, Some err), w1)
      | (Inr uo, w1) \<Rightarrow>
          (case convert (Marshal_doc J) (Unmarshal_task J) uo zero_CodeEngineTask of
             (Some err, _) \<Rightarrow> ((None, Some err), w1)
           | (None, out) \<Rightarrow> ((Some out, None), w1)))"

text \<open>
  The start of the methods that send a task: the group, version and kind are written into the
  caller's task \<open>t\<close>, whose new value is returned, and the task is converted.  When that fails
  nothing is sent.
\<close>

definition send_task ::
    "json_codec \<Rightarrow> (unstructured \<Rightarrow> handle \<Rightarrow> 'w \<Rightarrow> (error + unstructured) \<times> 'w) \<Rightarrow> CodeEngineTask \<Rightarrow>
       handle \<Rightarrow> 'w \<Rightarrow> (task_result \<times> CodeEngineTask) \<times> 'w" where
  "send_task J call t opts w =
     (let t1 = set_task_gvk J t
      in (case convert (Marshal_task J) (Unmarshal_doc J) t1 [] of
            (Some err, _) \<Rightarrow> (((None, Some err), t1), w)
          | (None, uo) \<Rightarrow> (let (r, w1) = decoded_task J (call uo opts w) in ((r, t1), w1))))"

definition wrap_Create ::
    "json_codec \<Rightarrow> 'w wrapTasks \<Rightarrow> CodeEngineTask \<Rightarrow> handle \<Rightarrow> 'w \<Rightarrow> (task_result \<times> CodeEngineTask) \<times> 'w" where
  "wrap_Create J c t opts w =
     send_task J (dy_Create (wt_dyn c) (wt_resource c) (wt_namespace c)) t opts w"

definition wrap_Delete ::
    "'w wrapTasks \<Rightarrow> string \<Rightarrow> handle \<Rightarrow> 'w \<Rightarrow> error option \<times> 'w" where
  "wrap_Delete c name opts w = dy_Delete (wt_dyn c) (wt_resource c) (wt_namespace c) name opts w"

definition wrap_DeleteCollection ::
    "'w wrapTasks \<Rightarrow> handle \<Rightarrow> ListOptions \<Rightarrow> 'w \<Rightarrow> error option \<times> 'w" where
  "wrap_DeleteCollection c opts listOpts w =
     dy_DeleteCollection (wt_dyn c) (wt_resource c) (wt_namespace c) opts listOpts w"

definition wrap_Get ::
    "json_codec \<Rightarrow> 'w wrapTasks \<Rightarrow> string \<Rightarrow> GetOptions \<Rightarrow> 'w \<Rightarrow> task_result \<times> 'w" where
  "wrap_Get J c name opts w =
     decoded_task J (dy_Get (wt_dyn c) (wt_resource c) (wt_namespace c) name opts w)"

definition wrap_List ::
    "json_codec \<Rightarrow> 'w wrapTasks \<Rightarrow> ListOptions \<Rightarrow> 'w \<Rightarrow> (CodeEngineTaskList option \<times> error option) \<times> 'w" where
  "wrap_List J c opts w =
     (case dy_List (wt_dyn c) (wt_resource c) (wt_namespace c) opts w of
        (Inl err, w1) \<Rightarrow> ((None, Some err), w1)
      | (Inr uo, w1) \<Rightarrow>
          (case convert (Marshal_doc J) (Unmarshal_list J) uo zero_CodeEngineTaskList of
             (Some err, _) \<Rightarrow> ((None, Some err), w1)
           | (None, out) \<Rightarrow> ((Some out, None), w1)))"

text \<open>The argument \<open>subresources\<close> is not passed on.\<close>

definition wrap_Patch ::
    "json_codec \<Rightarrow> 'w wrapTasks \<Rightarrow> string \<Rightarrow> string \<Rightarrow> string \<Rightarrow> handle \<Rightarrow> string list \<Rightarrow> 'w \<Rightarrow>
       task_result \<times> 'w" where
  "wrap_Patch J c name pt data opts subresources w =
     decoded_task J (dy_Patch (wt_dyn c) (wt_resource c) (wt_namespace c) name pt data opts [] w)"

definition wrap_Update ::
    "json_codec \<Rightarrow> 'w wrapTasks \<Rightarrow> CodeEngineTask \<Rightarrow> handle \<Rightarrow> 'w \<Rightarrow> (task_result \<times> CodeEngineTask) \<times> 'w" where
  "wrap_Update J c t opts w =
     send_task J (dy_Update (wt_dyn c) (wt_resource c) (wt_namespace c)) t opts w"

definition wrap_UpdateStatus ::
    "json_codec \<Rightarrow> 'w wrapTasks \<Rightarrow> CodeEngineTask \<Rightarrow> handle \<Rightarrow> 'w \<Rightarrow> (task_result \<times> CodeEngineTask) \<times> 'w" where
  "wrap_UpdateStatus J c t opts w =
     send_task J (dy_UpdateStatus (wt_dyn c) (wt_resource c) (wt_namespace c)) t opts w"

definition wrap_Watch :: "'w wrapTasks \<Rightarrow> ListOptions \<Rightarrow> 'w \<Rightarrow> (error + handle) \<times> 'w" where
  "wrap_Watch c opts w = (Inl (Errorf ''NYI: Watch'' []), w)"

definition sent :: "('a \<times> CodeEngineTask) \<times> 'w \<Rightarrow> 'a \<times> 'w" where
  "sent r = (fst (fst r), snd r)"

definition wrap_interface :: "json_codec \<Rightarrow> 'w wrapTasks \<Rightarrow> 'w task_interface" where
  "wrap_interface J c =
     \<lparr>ti_Create = (\<lambda>t opts w. sent (wrap_Create J c t opts w)),
      ti_Update = (\<lambda>t opts w. sent (wrap_Update J c t opts w)),
      ti_UpdateStatus = (\<lambda>t opts w. sent (wrap_UpdateStatus J c t opts w)),
      ti_Delete = wrap_Delete c,
      ti_DeleteCollection = wrap_DeleteCollection c,
      ti_Get = wrap_Get J c,
      ti_List = wrap_List J c,
      ti_Watch = wrap_Watch c,
      ti_Patch = wrap_Patch J c\<rparr>"

end
