(* ===== verification/ClientAgreement.thy ===== *)
theory ClientAgreement
  imports DynamicClient
begin

text \<open>
  The typed client and the dynamic client against one API server.  The locale \<open>task_client\<close> is the
  contract of a client of CodeEngineTasks: every method is one request of the server and reports its
  answer.  Both clients keep it, so they agree, up to the kind and version inside a returned task:
  the typed decoder of client-go clears them.
\<close>

section \<open>The server\<close>

text \<open>
  The server answers a request with an error or a JSON document; \<open>srv_view\<close> decodes the document of a
  task, \<open>srv_body\<close> is the document a client sends for a task.
\<close>

record 'w server =
  srv_serve :: "request \<Rightarrow> 'w \<Rightarrow> (error + string) \<times> 'w"
  srv_view :: "string \<Rightarrow> error + CodeEngineTask"
  srv_body :: "CodeEngineTask \<Rightarrow> string"

definition untyped :: "CodeEngineTask \<Rightarrow> CodeEngineTask" where
  "untyped t = t\<lparr>t_TypeMeta := \<lparr>tm_Kind = [], tm_APIVersion = []\<rparr>\<rparr>"

lemma untyped_untyped [simp]: "untyped (untyped t) = untyped t"
  by (simp add: untyped_def)

definition task_answer :: "'w server \<Rightarrow> request \<Rightarrow> 'w \<Rightarrow> (CodeEngineTask option) \<times> 'w" where
  "task_answer sv req w =
     (case srv_serve sv req w of
        (Inl e, w1) \<Rightarrow> (None, w1)
      | (Inr doc, w1) \<Rightarrow> (case srv_view sv doc of Inl e \<Rightarrow> (None, w1) | Inr t \<Rightarrow> (Some (untyped t), w1)))"

text \<open>A result reports an answer: an error for no task, and the task without an error.\<close>

definition reports :: "task_result \<times> 'w \<Rightarrow> CodeEngineTask option \<times> 'w \<Rightarrow> bool" where
  "reports r a \<longleftrightarrow> snd r = snd a \<and>
     (case fst a of
        None \<Rightarrow> snd (fst r) \<noteq> None
      | Some t \<Rightarrow> snd (fst r) = None \<and> map_option untyped (fst (fst r)) = Some t)"

definition reports_done :: "error option \<times> 'w \<Rightarrow> (error + string) \<times> 'w \<Rightarrow> bool" where
  "reports_done r a \<longleftrightarrow> snd r = snd a \<and> (fst r = None \<longleftrightarrow> \<not> isl (fst a))"

definition same_answer :: "task_result \<times> 'w \<Rightarrow> task_result \<times> 'w \<Rightarrow> bool" where
  "same_answer r1 r2 \<longleftrightarrow> snd r1 = snd r2 \<and> (snd (fst r1) = None \<longleftrightarrow> snd (fst r2) = None) \<and>
     (snd (fst r1) = None \<longrightarrow> map_option untyped (fst (fst r1)) = map_option untyped (fst (fst r2)))"

lemma reports_same_answer: "reports r1 a \<Longrightarrow> reports r2 a \<Longrightarrow> same_answer r1 r2"
  by (auto simp: reports_def same_answer_def split: option.splits)

text \<open>The requests on the wire: the body of a task is its document.\<close>

definition wire_create :: "'w server \<Rightarrow> string \<Rightarrow> CodeEngineTask \<Rightarrow> handle \<Rightarrow> request" where
  "wire_create sv ns t opts =
     \<lparr>rq_Verb = VPost, rq_Steps = [Namespace ns, ReqResource ''codeenginetasks'',
        VersionedParams (CreateOpts opts), Body (BytesBody (srv_body sv t))]\<rparr>"

definition wire_update :: "'w server \<Rightarrow> string \<Rightarrow> string list \<Rightarrow> CodeEngineTask \<Rightarrow> handle \<Rightarrow> request" where
  "wire_update sv ns sub t opts =
     \<lparr>rq_Verb = VPut, rq_Steps = [Namespace ns, ReqResource ''codeenginetasks'',
        ReqName (om_Name (t_ObjectMeta t))] @ (if sub = [] then [] else [SubResource sub]) @
        [VersionedParams (UpdateOpts opts), Body (BytesBody (srv_body sv t))]\<rparr>"

definition wire_patch :: "string \<Rightarrow> string \<Rightarrow> string \<Rightarrow> string \<Rightarrow> handle \<Rightarrow> request" where
  "wire_patch ns name pt data opts =
     \<lparr>rq_Verb = VPatch pt, rq_Steps = [Namespace ns, ReqResource ''codeenginetasks'', ReqName name,
        VersionedParams (PatchOpts opts), Body (BytesBody data)]\<rparr>"

section \<open>The contract of a client\<close>

locale task_client =
  fixes laws :: "'k \<Rightarrow> bool"
    and iface :: "'k \<Rightarrow> 'w task_interface"
    and namespace_of :: "'k \<Rightarrow> string"
    and server_of :: "'k \<Rightarrow> 'w server"
  assumes get: "laws k \<Longrightarrow> name \<noteq> [] \<Longrightarrow>
      reports (ti_Get (iface k) name gopts w)
        (task_answer (server_of k) (get_request (namespace_of k) name gopts) w)"
    and create: "laws k \<Longrightarrow>
      reports (ti_Create (iface k) t opts w)
        (task_answer (server_of k) (wire_create (server_of k) (namespace_of k) t opts) w)"
    and update: "laws k \<Longrightarrow> om_Name (t_ObjectMeta t) \<noteq> [] \<Longrightarrow>
      reports (ti_Update (iface k) t opts w)
        (task_answer (server_of k) (wire_update (server_of k) (namespace_of k) [] t opts) w)"
    and update_status: "laws k \<Longrightarrow> om_Name (t_ObjectMeta t) \<noteq> [] \<Longrightarrow>
      reports (ti_UpdateStatus (iface k) t opts w)
        (task_answer (server_of k) (wire_update (server_of k) (namespace_of k) [''status''] t opts) w)"
    and delete: "laws k \<Longrightarrow> name \<noteq> [] \<Longrightarrow>
      reports_done (ti_Delete (iface k) name opts w)
        (srv_serve (server_of k) (delete_request (namespace_of k) name opts) w)"
    and patch: "laws k \<Longrightarrow> name \<noteq> [] \<Longrightarrow>
      reports (ti_Patch (iface k) name pt data opts [] w)
        (task_answer (server_of k) (wire_patch (namespace_of k) name pt data opts) w)"
begin

text \<open>A client is determined by its server and its namespace.\<close>

lemma get_determined:
  assumes "laws k" and "name \<noteq> []" and "reports r
    (task_answer (server_of k) (get_request (namespace_of k) name gopts) w)"
  shows "same_answer (ti_Get (iface k) name gopts w) r"
  using reports_same_answer [OF get [OF assms(1,2)] assms(3)] .

lemma create_error_iff:
  "laws k \<Longrightarrow> snd (fst (ti_Create (iface k) t opts w)) = None \<longleftrightarrow>
     fst (task_answer (server_of k) (wire_create (server_of k) (namespace_of k) t opts) w) \<noteq> None"
  using create [of k t opts w] by (auto simp: reports_def split: option.splits)

lemma get_leaves_server:
  assumes "laws k" and "name \<noteq> []"
    and "snd (srv_serve (server_of k) (get_request (namespace_of k) name gopts) w) = w"
  shows "snd (ti_Get (iface k) name gopts w) = w"
  using get [OF assms(1,2), of gopts w] assms(3)
  by (auto simp: reports_def task_answer_def split: prod.splits sum.splits)

end

section \<open>The typed client keeps it\<close>

text \<open>
  What client-go documents of its REST client: sending a request is the server's answer to it with
  the bodies as documents, an empty list of subresources adds nothing, and decoding gives the task
  without kind and version, or an error.
\<close>

fun wire_step :: "'w server \<Rightarrow> req_step \<Rightarrow> req_step" where
  "wire_step sv (Body (TaskBody t)) = Body (BytesBody (srv_body sv t))"
| "wire_step sv s = s"

definition wire :: "'w server \<Rightarrow> request \<Rightarrow> request" where
  "wire sv req = \<lparr>rq_Verb = rq_Verb req,
     rq_Steps = map (wire_step sv) (filter (\<lambda>s. s \<noteq> SubResource []) (rq_Steps req))\<rparr>"

definition typed_laws :: "'w server \<times> ('res, 'w) codeEngineTasks \<Rightarrow> bool" where
  "typed_laws k \<longleftrightarrow> (case k of (sv, c) \<Rightarrow>
     (\<forall>req w. case rc_Do (ct_client c) req w of (res, w1) \<Rightarrow>
        w1 = snd (srv_serve sv (wire sv req) w) \<and>
        (rc_Error (ct_client c) res = None \<longleftrightarrow> \<not> isl (fst (srv_serve sv (wire sv req) w))) \<and>
        (case fst (task_answer sv (wire sv req) w) of
           None \<Rightarrow> fst (rc_IntoTask (ct_client c) res zero_CodeEngineTask) \<noteq> None
         | Some t \<Rightarrow> rc_IntoTask (ct_client c) res zero_CodeEngineTask = (None, t))))"

lemma task_answer_world: "snd (task_answer sv req w) = snd (srv_serve sv req w)"
  by (auto simp: task_answer_def split: prod.splits sum.splits)

lemma task_answer_untyped: "fst (task_answer sv req w) = Some t \<Longrightarrow> untyped t = t"
  by (auto simp: task_answer_def split: prod.splits sum.splits)

lemma typed_reports:
  assumes "typed_laws (sv, c)"
  shows "reports (pointed (let (res, w1) = rc_Do (ct_client c) req w;
            (err, result) = rc_IntoTask (ct_client c) res zero_CodeEngineTask
          in ((result, err), w1))) (task_answer sv (wire sv req) w)"
proof -
  obtain res w1 where do: "rc_Do (ct_client c) req w = (res, w1)" by (rule prod.exhaust)
  have L: "w1 = snd (srv_serve sv (wire sv req) w)"
    "case fst (task_answer sv (wire sv req) w) of
       None \<Rightarrow> fst (rc_IntoTask (ct_client c) res zero_CodeEngineTask) \<noteq> None
     | Some t \<Rightarrow> rc_IntoTask (ct_client c) res zero_CodeEngineTask = (None, t)"
    using assms do unfolding typed_laws_def by (auto dest!: spec [of _ req] spec [of _ w])
  show ?thesis
    using L task_answer_untyped [of sv "wire sv req" w]
    by (auto simp: reports_def pointed_def do task_answer_world split: prod.splits option.splits)
qed

interpretation typed_client: task_client typed_laws "\<lambda>k. typed_interface (snd k)" "\<lambda>k. ct_ns (snd k)" fst
proof (unfold_locales, goal_cases)
  case (1 k name gopts w)
  obtain sv c where k: "k = (sv, c)" by (rule prod.exhaust)
  from typed_reports [OF 1(1) [unfolded k], of "get_request (ct_ns c) name gopts" w] show ?case
    by (simp add: k typed_interface_def Get_def get_request_def wire_def)
next
  case (2 k t opts w)
  obtain sv c where k: "k = (sv, c)" by (rule prod.exhaust)
  from typed_reports [OF 2(1) [unfolded k], of "create_request (ct_ns c) t opts" w] show ?case
    by (simp add: k typed_interface_def Create_def create_request_def wire_def wire_create_def)
next
  case (3 k t opts w)
  obtain sv c where k: "k = (sv, c)" by (rule prod.exhaust)
  from typed_reports [OF 3(1) [unfolded k], of "update_request (ct_ns c) t opts" w] show ?case
    by (simp add: k typed_interface_def Update_def update_request_def wire_def wire_update_def)
next
  case (4 k t opts w)
  obtain sv c where k: "k = (sv, c)" by (rule prod.exhaust)
  from typed_reports [OF 4(1) [unfolded k], of "update_status_request (ct_ns c) t opts" w] show ?case
    by (simp add: k typed_interface_def UpdateStatus_def update_status_request_def wire_def wire_update_def)
next
  case (5 k name opts w)
  obtain sv c where k: "k = (sv, c)" by (rule prod.exhaust)
  obtain res w1 where do: "rc_Do (ct_client c) (delete_request (ct_ns c) name opts) w = (res, w1)"
    by (rule prod.exhaust)
  have "wire sv (delete_request (ct_ns c) name opts) = delete_request (ct_ns c) name opts"
    by (simp add: wire_def delete_request_def)
  with 5(1) do show ?case
    by (auto simp: k typed_laws_def typed_interface_def Delete_def reports_done_def
        dest!: spec [of _ "delete_request (ct_ns c) name opts"] spec [of _ w])
next
  case (6 k name pt data opts w)
  obtain sv c where k: "k = (sv, c)" by (rule prod.exhaust)
  from typed_reports [OF 6(1) [unfolded k], of "patch_request (ct_ns c) name pt data opts []" w] show ?case
    by (simp add: k typed_interface_def Patch_def patch_request_def wire_def wire_patch_def)
qed

section \<open>The dynamic client keeps it\<close>

text \<open>
  What is documented of the dynamic client and of the codec: a call is the request of the same verb
  on the resource, the name in an update being that of the document; marshalling a task with its
  kind gives the document that the server takes, and unmarshalling a document its task.
\<close>

definition task_resource :: GroupVersionResource where
  "task_resource = \<lparr>gvr_Group = ''custom.tekton.dev'', gvr_Version = ''v1alpha1'', gvr_Resource = ''codeenginetasks''\<rparr>"

definition dynamic_requests :: "'w server \<Rightarrow> 'w dynamic_lib \<Rightarrow> bool" where
  "dynamic_requests sv D \<longleftrightarrow>
     (\<forall>ns t opts w. dy_Create D task_resource ns (srv_body sv t) opts w = srv_serve sv (wire_create sv ns t opts) w) \<and>
     (\<forall>ns t opts w. om_Name (t_ObjectMeta t) \<noteq> [] \<longrightarrow>
        dy_Update D task_resource ns (srv_body sv t) opts w = srv_serve sv (wire_update sv ns [] t opts) w \<and>
        dy_UpdateStatus D task_resource ns (srv_body sv t) opts w =
          srv_serve sv (wire_update sv ns [''status''] t opts) w) \<and>
     (\<forall>ns name opts w. name \<noteq> [] \<longrightarrow>
        dy_Get D task_resource ns name opts w = srv_serve sv (get_request ns name opts) w) \<and>
     (\<forall>ns name opts w. name \<noteq> [] \<longrightarrow> reports_done (dy_Delete D task_resource ns name opts w)
        (srv_serve sv (delete_request ns name opts) w)) \<and>
     (\<forall>ns name pt data opts w. name \<noteq> [] \<longrightarrow>
        dy_Patch D task_resource ns name pt data opts [] w = srv_serve sv (wire_patch ns name pt data opts) w)"

definition codec_laws :: "'w server \<Rightarrow> json_codec \<Rightarrow> bool" where
  "codec_laws sv J \<longleftrightarrow>
     (\<forall>t. Marshal_task J (set_task_gvk J t) = Inr (srv_body sv t) \<and>
          Unmarshal_doc J (srv_body sv t) [] = (None, srv_body sv t)) \<and>
     (\<forall>doc. Marshal_doc J doc = Inr doc \<and>
        (case srv_view sv doc of
           Inl e \<Rightarrow> fst (Unmarshal_task J doc zero_CodeEngineTask) \<noteq> None
         | Inr t \<Rightarrow> Unmarshal_task J doc zero_CodeEngineTask = (None, t)))"

definition wrapped_laws :: "'w server \<times> json_codec \<times> 'w wrapTasks \<Rightarrow> bool" where
  "wrapped_laws k \<longleftrightarrow> (case k of (sv, J, c) \<Rightarrow>
     wt_resource c = task_resource \<and> dynamic_requests sv (wt_dyn c) \<and> codec_laws sv J)"

lemma wrapped_lawsD:
  assumes "wrapped_laws (sv, J, c)"
  shows "wt_resource c = task_resource" and "dynamic_requests sv (wt_dyn c)" and "codec_laws sv J"
  using assms by (auto simp: wrapped_laws_def)

lemma decoded_reports:
  assumes "codec_laws sv J"
  shows "reports (decoded_task J (srv_serve sv req w)) (task_answer sv req w)"
proof -
  obtain x w1 where srv: "srv_serve sv req w = (x, w1)" by (rule prod.exhaust)
  show ?thesis
  proof (cases x)
    case (Inl e)
    then show ?thesis by (simp add: srv reports_def decoded_task_def task_answer_def)
  next
    case (Inr doc)
    have "Marshal_doc J doc = Inr doc" and "case srv_view sv doc of
           Inl e \<Rightarrow> fst (Unmarshal_task J doc zero_CodeEngineTask) \<noteq> None
         | Inr t \<Rightarrow> Unmarshal_task J doc zero_CodeEngineTask = (None, t)"
      using assms unfolding codec_laws_def by blast+
    then show ?thesis
      by (auto simp: srv Inr reports_def decoded_task_def task_answer_def convert_def
          split: sum.splits prod.splits option.splits)
  qed
qed

lemma sent_reports:
  assumes "codec_laws sv J" and "call (srv_body sv t) opts w = srv_serve sv req w"
  shows "reports (sent (send_task J call t opts w)) (task_answer sv req w)"
proof -
  have "convert (Marshal_task J) (Unmarshal_doc J) (set_task_gvk J t) [] = (None, srv_body sv t)"
    using assms(1) by (simp add: codec_laws_def convert_def)
  then have "sent (send_task J call t opts w) = decoded_task J (srv_serve sv req w)"
    using assms(2) by (simp add: send_task_def sent_def Let_def split: prod.split)
  then show ?thesis using decoded_reports [OF assms(1)] by simp
qed

interpretation dynamic_client: task_client wrapped_laws
    "\<lambda>k. wrap_interface (fst (snd k)) (snd (snd k))" "\<lambda>k. wt_namespace (snd (snd k))" fst
proof (unfold_locales, goal_cases)
  case (1 k name gopts w)
  obtain sv J c where k: "k = (sv, J, c)" by (metis prod.exhaust)
  note W = wrapped_lawsD [OF 1(1) [unfolded k]]
  have "dy_Get (wt_dyn c) task_resource (wt_namespace c) name gopts w =
      srv_serve sv (get_request (wt_namespace c) name gopts) w"
    using W(2) 1(2) by (simp add: dynamic_requests_def)
  with decoded_reports [OF W(3)] show ?case by (simp add: k wrap_interface_def wrap_Get_def W(1))
next
  case (2 k t opts w)
  obtain sv J c where k: "k = (sv, J, c)" by (metis prod.exhaust)
  note W = wrapped_lawsD [OF 2(1) [unfolded k]]
  show ?case
    using sent_reports [OF W(3)] W(2) by (simp add: k wrap_interface_def wrap_Create_def W(1) dynamic_requests_def)
next
  case (3 k t opts w)
  obtain sv J c where k: "k = (sv, J, c)" by (metis prod.exhaust)
  note W = wrapped_lawsD [OF 3(1) [unfolded k]]
  show ?case
    using sent_reports [OF W(3)] W(2) 3(2) by (simp add: k wrap_interface_def wrap_Update_def W(1) dynamic_requests_def)
next
  case (4 k t opts w)
  obtain sv J c where k: "k = (sv, J, c)" by (metis prod.exhaust)
  note W = wrapped_lawsD [OF 4(1) [unfolded k]]
  show ?case
    using sent_reports [OF W(3)] W(2) 4(2)
    by (simp add: k wrap_interface_def wrap_UpdateStatus_def W(1) dynamic_requests_def)
next
  case (5 k name opts w)
  obtain sv J c where k: "k = (sv, J, c)" by (metis prod.exhaust)
  note W = wrapped_lawsD [OF 5(1) [unfolded k]]
  show ?case using W(2) 5(2) by (simp add: k wrap_interface_def wrap_Delete_def W(1) dynamic_requests_def)
next
  case (6 k name pt data opts w)
  obtain sv J c where k: "k = (sv, J, c)" by (metis prod.exhaust)
  note W = wrapped_lawsD [OF 6(1) [unfolded k]]
  have "dy_Patch (wt_dyn c) task_resource (wt_namespace c) name pt data opts [] w =
      srv_serve sv (wire_patch (wt_namespace c) name pt data opts) w"
    using W(2) 6(2) by (simp add: dynamic_requests_def)
  with decoded_reports [OF W(3)] show ?case by (simp add: k wrap_interface_def wrap_Patch_def W(1))
qed

section \<open>A sample server\<close>

text \<open>It counts its requests and answers every one with the same task.\<close>

definition any_task :: CodeEngineTask where
  "any_task = zero_CodeEngineTask\<lparr>t_TypeMeta := \<lparr>tm_Kind = ''CodeEngineTask'', tm_APIVersion = ''v1''\<rparr>,
     t_ObjectMeta := zero_ObjectMeta\<lparr>om_Name := ''any''\<rparr>\<rparr>"

definition counting_server :: "nat server" where
  "counting_server = \<lparr>srv_serve = (\<lambda>req w. (Inr ''doc'', Suc w)), srv_view = (\<lambda>doc. Inr any_task),
     srv_body = (\<lambda>t. ''doc'')\<rparr>"

definition counting_client :: "(unit, nat) codeEngineTasks" where
  "counting_client =
     \<lparr>ct_client = \<lparr>rc_Do = (\<lambda>req w. ((), Suc w)), rc_IntoTask = (\<lambda>res t. (None, untyped any_task)),
        rc_IntoList = (\<lambda>res l. (None, l)), rc_Error = (\<lambda>res. None),
        rc_Watch = (\<lambda>req w. (Inr ''watch'', Suc w))\<rparr>,
      ct_ns = ''ns''\<rparr>"

definition counting_dynamic :: "nat dynamic_lib" where
  "counting_dynamic =
     \<lparr>dy_Create = (\<lambda>r ns u opts w. (Inr ''doc'', Suc w)), dy_Update = (\<lambda>r ns u opts w. (Inr ''doc'', Suc w)),
      dy_UpdateStatus = (\<lambda>r ns u opts w. (Inr ''doc'', Suc w)), dy_Delete = (\<lambda>r ns n opts w. (None, Suc w)),
      dy_DeleteCollection = (\<lambda>r ns opts l w. (None, Suc w)), dy_Get = (\<lambda>r ns n opts w. (Inr ''doc'', Suc w)),
      dy_List = (\<lambda>r ns opts w. (Inr ''doc'', Suc w)), dy_Patch = (\<lambda>r ns n pt d opts sub w. (Inr ''doc'', Suc w))\<rparr>"

definition sample_codec :: json_codec where
  "sample_codec =
     \<lparr>SetGVK = (\<lambda>gvk tm. \<lparr>tm_Kind = gvk_Kind gvk, tm_APIVersion = gvk_Group gvk @ ''/'' @ gvk_Version gvk\<rparr>),
      Marshal_task = (\<lambda>t. if JobName (t_Spec t) = ''bad'' then Inl (Foreign ''unsupported'') else Inr ''doc''),
      Marshal_doc = Inr, Unmarshal_doc = (\<lambda>s u. (None, s)),
      Unmarshal_task = (\<lambda>s t. (None, any_task)), Unmarshal_list = (\<lambda>s l. (None, l))\<rparr>"

definition good_codec :: json_codec where
  "good_codec = sample_codec\<lparr>Marshal_task := (\<lambda>t. Inr ''doc'')\<rparr>"

abbreviation counting_wrap :: "nat wrapTasks" where
  "counting_wrap \<equiv> wrap_CodeEngineTasks (wrap_CustomV1alpha1 \<lparr>wc_dyn = counting_dynamic\<rparr>) ''ns''"

lemma counting_laws:
  "typed_laws (counting_server, counting_client)"
  "wrapped_laws (counting_server, good_codec, counting_wrap)"
proof -
  show "typed_laws (counting_server, counting_client)"
    by (simp add: typed_laws_def counting_server_def counting_client_def task_answer_def)
  have "dynamic_requests counting_server counting_dynamic"
    by (simp add: dynamic_requests_def counting_server_def counting_dynamic_def reports_done_def)
  moreover have "codec_laws counting_server good_codec"
    by (simp add: codec_laws_def counting_server_def good_codec_def sample_codec_def)
  ultimately show "wrapped_laws (counting_server, good_codec, counting_wrap)"
    by (simp add: wrapped_laws_def wrap_CodeEngineTasks_def wrap_CustomV1alpha1_def task_resource_def)
qed

section \<open>Properties\<close>

text \<open>
  C31: how far the dynamic client agrees with the typed client.  Over the same server and namespace
  both leave the server in the same state and both fail or both return the same task, up to its kind
  and version, for the get, create, update and status update of a named task; its deletion fails for
  both or for none.  A patch agrees only without subresources: the typed client sends them, the
  dynamic one drops them and answers like the typed client without any.  A watch, which the typed
  client sends, it refuses with an error and without a request.
\<close>

theorem dynamic_client_agrees:
  assumes typed: "typed_laws (sv, c)"
    and dynamic: "wrapped_laws (sv, J, d)" "wt_namespace d = ct_ns c"
    and named: "name \<noteq> []" "om_Name (t_ObjectMeta t) \<noteq> []"
  shows "same_answer (ti_Get (typed_interface c) name gopts w) (ti_Get (wrap_interface J d) name gopts w) \<and>
    same_answer (ti_Create (typed_interface c) t opts w) (ti_Create (wrap_interface J d) t opts w) \<and>
    same_answer (ti_Update (typed_interface c) t opts w) (ti_Update (wrap_interface J d) t opts w) \<and>
    same_answer (ti_UpdateStatus (typed_interface c) t opts w) (ti_UpdateStatus (wrap_interface J d) t opts w) \<and>
    (let r1 = ti_Delete (typed_interface c) name opts w; r2 = ti_Delete (wrap_interface J d) name opts w
     in snd r1 = snd r2 \<and> (fst r1 = None \<longleftrightarrow> fst r2 = None)) \<and>
    same_answer (ti_Patch (typed_interface c) name pt data opts [] w)
      (ti_Patch (wrap_interface J d) name pt data opts subresources w) \<and>
    reports (ti_Patch (typed_interface c) name pt data opts subresources w)
      (task_answer sv (wire sv (patch_request (ct_ns c) name pt data opts subresources)) w) \<and>
    ti_Watch (wrap_interface J d) lopts w = (Inl (Errorf ''NYI: Watch'' []), w) \<and>
    ti_Watch (typed_interface c) lopts w = rc_Watch (ct_client c) (watch_request (ct_ns c) lopts) w"
proof -
  note simps = fst_conv snd_conv dynamic(2)
  note A = reports_same_answer [OF typed_client.get [OF typed named(1), unfolded simps]
      dynamic_client.get [OF dynamic(1) named(1), unfolded simps]]
    reports_same_answer [OF typed_client.create [OF typed, unfolded simps]
      dynamic_client.create [OF dynamic(1), unfolded simps]]
    reports_same_answer [OF typed_client.update [OF typed named(2), unfolded simps]
      dynamic_client.update [OF dynamic(1) named(2), unfolded simps]]
    reports_same_answer [OF typed_client.update_status [OF typed named(2), unfolded simps]
      dynamic_client.update_status [OF dynamic(1) named(2), unfolded simps]]
    reports_same_answer [OF typed_client.patch [OF typed named(1), unfolded simps]
      dynamic_client.patch [OF dynamic(1) named(1), unfolded simps]]
  have drops: "ti_Patch (wrap_interface J d) name pt data opts subresources w =
      ti_Patch (wrap_interface J d) name pt data opts [] w"
    by (simp add: wrap_interface_def wrap_Patch_def)
  have sends: "reports (ti_Patch (typed_interface c) name pt data opts subresources w)
      (task_answer sv (wire sv (patch_request (ct_ns c) name pt data opts subresources)) w)"
    using typed_reports [OF typed, of "patch_request (ct_ns c) name pt data opts subresources" w]
    by (simp add: typed_interface_def Patch_def)
  have watches: "ti_Watch (wrap_interface J d) lopts w = (Inl (Errorf ''NYI: Watch'' []), w)"
    "ti_Watch (typed_interface c) lopts w = rc_Watch (ct_client c) (watch_request (ct_ns c) lopts) w"
    by (simp_all add: wrap_interface_def wrap_Watch_def typed_interface_def Watch_def)
  show ?thesis
    unfolding drops
    using A sends watches typed_client.delete [OF typed named(1), of opts w, unfolded simps]
      dynamic_client.delete [OF dynamic(1) named(1), of opts w, unfolded simps]
    by (simp add: reports_done_def Let_def)
qed

lemma dynamic_client_agrees_witness:
  "same_answer (ti_Get (typed_interface counting_client) ''one'' zero_GetOptions 3)
     (ti_Get (wrap_interface good_codec counting_wrap) ''one'' zero_GetOptions 3) \<and>
   same_answer (ti_Patch (typed_interface counting_client) ''one'' ''merge'' ''{}'' [] [] 3)
     (ti_Patch (wrap_interface good_codec counting_wrap) ''one'' ''merge'' ''{}'' [] [''status''] 3)"
proof -
  have ns: "wt_namespace counting_wrap = ct_ns counting_client"
    by (simp add: wrap_CodeEngineTasks_def counting_client_def)
  have "om_Name (t_ObjectMeta any_task) \<noteq> []" by (simp add: any_task_def)
  note A = dynamic_client_agrees [OF counting_laws ns _ this, of "''one''"]
  show ?thesis
    by (intro conjI) (rule A [THEN conjunct1], simp,
      rule A [THEN conjunct2, THEN conjunct2, THEN conjunct2, THEN conjunct2, THEN conjunct2, THEN conjunct1], simp)
qed

text \<open>The discovery and REST clients of the dynamic client panic.\<close>

lemma dynamic_client_panics:
  "is_panic (wrap_Discovery wc)" "is_panic (wrap_RESTClient wv)"
  by (simp_all add: wrap_Discovery_def wrap_RESTClient_def)

text \<open>
  Creating and updating through the dynamic client writes group, version and kind into the
  caller's task, and a task that cannot be marshalled is reported with the marshalling error and
  never reaches the server.
\<close>

lemma dynamic_send_rewrites_task:
  assumes "call \<in> {wrap_Create J d, wrap_Update J d, wrap_UpdateStatus J d}"
  shows "snd (fst (call t opts w)) = t\<lparr>t_TypeMeta := SetGVK J
      \<lparr>gvk_Group = ''custom.tekton.dev'', gvk_Version = ''v1alpha1'', gvk_Kind = ''CodeEngineTask''\<rparr>
      (t_TypeMeta t)\<rparr> \<and>
    (\<forall>e. Marshal_task J (snd (fst (call t opts w))) = Inl e \<longrightarrow>
       fst (fst (call t opts w)) = (None, Some (Errorf ''Marshal() = %w'' [ArgErr e])) \<and>
       snd (call t opts w) = w)"
proof -
  obtain f where "call = send_task J f"
    using assms by (auto simp: wrap_Create_def [abs_def] wrap_Update_def [abs_def] wrap_UpdateStatus_def [abs_def])
  moreover have "snd (fst (send_task J f t opts w)) = set_task_gvk J t" for f
    by (simp add: send_task_def Let_def split: prod.split option.split)
  moreover have "Marshal_task J (set_task_gvk J t) = Inl e \<Longrightarrow> send_task J f t opts w =
      (((None, Some (Errorf ''Marshal() = %w'' [ArgErr e])), set_task_gvk J t), w)" for f e
    by (simp add: send_task_def convert_def)
  ultimately show ?thesis by (auto simp: set_task_gvk_def task_gvk_def)
qed

lemma dynamic_send_rewrites_task_witness:
  "snd (wrap_Create sample_codec counting_wrap (any_task\<lparr>t_Spec := \<lparr>JobName = ''bad''\<rparr>\<rparr>) [] 3) = 3"
proof -
  let ?call = "wrap_Create sample_codec counting_wrap"
  have "?call \<in> {?call, wrap_Update sample_codec counting_wrap, wrap_UpdateStatus sample_codec counting_wrap}"
    by simp
  from dynamic_send_rewrites_task [OF this, of "any_task\<lparr>t_Spec := \<lparr>JobName = ''bad''\<rparr>\<rparr>" "[]" 3]
  show ?thesis by (simp add: sample_codec_def)
qed

end
