(* ===== verification/Schemes.thy ===== *)
theory Schemes
  imports ApiTypes
begin

text \<open>
  The runtime schemes: the builder of \<open>pkg/apis/codeenginetask/v1alpha1/register.go\<close> and the package
  variables and \<open>init\<close> functions of the two generated schemes,
  \<open>pkg/client/clientset/versioned/scheme\<close> and \<open>pkg/client/clientset/versioned/fake\<close>.  The scheme of
  \<open>apimachinery\<close> is the record \<open>runtime_lib\<close>; the codecs made from the schemes are its objects and
  left out.
\<close>

section \<open>Scheme builders\<close>

text \<open>
  A \<open>runtime.SchemeBuilder\<close> is a list of functions; its method \<open>AddToScheme\<close>, documented, applies them
  to the scheme in order and abandons at the first error; a panic of one goes through.
\<close>

type_synonym 's scheme_func = "'s \<Rightarrow> (error option \<times> 's) outcome"

fun builder_AddToScheme :: "'s scheme_func list \<Rightarrow> 's scheme_func" where
  "builder_AddToScheme [] scheme = Return (None, scheme)"
| "builder_AddToScheme (f # fs) scheme =
     (case f scheme of
        Panic p \<Rightarrow> Panic p
      | Return (Some err, scheme1) \<Rightarrow> Return (Some err, scheme1)
      | Return (None, scheme1) \<Rightarrow> builder_AddToScheme fs scheme1)"

text \<open>
  The type a scheme knows a kind as: a type of the program or one of a library.  \<open>MetaKinds\<close> are the
  kinds \<open>metav1.AddToGroupVersion\<close> registers for a version, watch events, the option types and such.
\<close>

datatype known_type = OwnType go_type | LibType handle

record 's runtime_lib = "'s scheme_lib" +
  NewScheme :: 's
  Recognized :: "'s \<Rightarrow> GroupVersionKind \<Rightarrow> known_type option"
  MetaKinds :: "GroupVersion \<Rightarrow> GroupVersionKind \<Rightarrow> handle option"

definition SchemeBuilder :: "('s, 'z) scheme_lib_scheme \<Rightarrow> 's scheme_func list" where
  "SchemeBuilder SL = [addKnownTypes SL]"

definition AddToScheme :: "('s, 'z) scheme_lib_scheme \<Rightarrow> 's scheme_func" where
  "AddToScheme SL = builder_AddToScheme (SchemeBuilder SL)"

section \<open>The schemes of the clientsets\<close>

text \<open>
  Both packages have the same variables and \<open>init\<close>; \<open>utilruntime.Must\<close> panics on an error.
\<close>

definition must :: "(error option \<times> 's) outcome \<Rightarrow> 's outcome" where
  "must r =
     (case r of
        Panic p \<Rightarrow> Panic p
      | Return (Some err, _) \<Rightarrow> Panic (PanicError err)
      | Return (None, scheme) \<Rightarrow> Return scheme)"

definition scheme_localSchemeBuilder :: "('s, 'z) scheme_lib_scheme \<Rightarrow> 's scheme_func list" where
  "scheme_localSchemeBuilder SL = [AddToScheme SL]"

definition scheme_AddToScheme :: "('s, 'z) scheme_lib_scheme \<Rightarrow> 's scheme_func" where
  "scheme_AddToScheme SL = builder_AddToScheme (scheme_localSchemeBuilder SL)"

definition scheme_init :: "('s, 'z) scheme_lib_scheme \<Rightarrow> 's \<Rightarrow> 's outcome" where
  "scheme_init SL Scheme =
     (case AddToGroupVersion SL Scheme \<lparr>gv_Group = [], gv_Version = ''v1''\<rparr> of
        Panic p \<Rightarrow> Panic p
      | Return Scheme1 \<Rightarrow> must (scheme_AddToScheme SL Scheme1))"

definition Scheme :: "('s, 'z) runtime_lib_scheme \<Rightarrow> 's outcome" where
  "Scheme SL = scheme_init SL (NewScheme SL)"

definition fake_localSchemeBuilder :: "('s, 'z) scheme_lib_scheme \<Rightarrow> 's scheme_func list" where
  "fake_localSchemeBuilder SL = [AddToScheme SL]"

definition fake_AddToScheme :: "('s, 'z) scheme_lib_scheme \<Rightarrow> 's scheme_func" where
  "fake_AddToScheme SL = builder_AddToScheme (fake_localSchemeBuilder SL)"

definition fake_scheme_init :: "('s, 'z) scheme_lib_scheme \<Rightarrow> 's \<Rightarrow> 's outcome" where
  "fake_scheme_init SL scheme =
     (case AddToGroupVersion SL scheme \<lparr>gv_Group = [], gv_Version = ''v1''\<rparr> of
        Panic p \<Rightarrow> Panic p
      | Return scheme1 \<Rightarrow> must (fake_AddToScheme SL scheme1))"

definition fake_scheme :: "('s, 'z) runtime_lib_scheme \<Rightarrow> 's outcome" where
  "fake_scheme SL = fake_scheme_init SL (NewScheme SL)"

section \<open>What the schemes recognise\<close>

fun type_name :: "go_type \<Rightarrow> string" where
  "type_name CodeEngineTaskType = ''CodeEngineTask''"
| "type_name CodeEngineTaskListType = ''CodeEngineTaskList''"

lemma type_name_inject [simp]: "type_name a = type_name b \<longleftrightarrow> a = b"
  by (cases a; cases b) simp_all

definition type_kind :: "GroupVersion \<Rightarrow> go_type \<Rightarrow> GroupVersionKind" where
  "type_kind gv ty = \<lparr>gvk_Group = gv_Group gv, gvk_Version = gv_Version gv, gvk_Kind = type_name ty\<rparr>"

lemma type_kind_inject [simp]: "type_kind gv a = type_kind gv b \<longleftrightarrow> a = b"
  by (simp add: type_kind_def)

text \<open>The kinds the two operations register, with their types.\<close>

definition own_entries :: "GroupVersion \<Rightarrow> go_type list \<Rightarrow> GroupVersionKind \<Rightarrow> known_type option" where
  "own_entries gv types = map_of (map (\<lambda>ty. (type_kind gv ty, OwnType ty)) types)"

definition meta_entries :: "('s, 'z) runtime_lib_scheme \<Rightarrow> GroupVersion \<Rightarrow> GroupVersionKind \<Rightarrow> known_type option" where
  "meta_entries SL gv gvk = map_option LibType (MetaKinds SL gv gvk)"

text \<open>No kind of the entries is known as another type.\<close>

definition compatible :: "('k \<Rightarrow> 't option) \<Rightarrow> ('k \<Rightarrow> 't option) \<Rightarrow> bool" where
  "compatible known entries \<longleftrightarrow> (\<forall>k ty ty'. known k = Some ty \<longrightarrow> entries k = Some ty' \<longrightarrow> ty = ty')"

text \<open>
  Documented: a new scheme recognises nothing; both operations add their kinds to a scheme that knows
  none of them as another type, and panic on one that does, with a double registration.  The kinds of
  \<open>metav1\<close> are not named like the types of the program, and one of them is the same type for every
  version it is registered for (but \<open>__internal\<close>, which has watch events of its own).
\<close>

definition registers :: "('s, 'z) runtime_lib_scheme \<Rightarrow> 's \<Rightarrow> (GroupVersionKind \<Rightarrow> known_type option) \<Rightarrow> 's outcome \<Rightarrow> bool" where
  "registers SL s entries r \<longleftrightarrow>
     (if compatible (Recognized SL s) entries
      then \<exists>s'. r = Return s' \<and> Recognized SL s' = Recognized SL s ++ entries
      else is_panic r)"

definition runtime_laws :: "('s, 'z) runtime_lib_scheme \<Rightarrow> bool" where
  "runtime_laws SL \<longleftrightarrow>
     Recognized SL (NewScheme SL) = Map.empty \<and>
     (\<forall>s gv types. gv_Version gv \<noteq> [] \<longrightarrow>
        registers SL s (own_entries gv types) (AddKnownTypes SL s gv types)) \<and>
     (\<forall>s gv. gv_Version gv \<notin> {[], ''__internal''} \<longrightarrow>
        registers SL s (meta_entries SL gv) (AddToGroupVersion SL s gv)) \<and>
     (\<forall>gv gvk ty. MetaKinds SL gv gvk \<noteq> None \<longrightarrow> gvk_Kind gvk \<noteq> type_name ty) \<and>
     (\<forall>gv gv'. gv_Version gv \<noteq> ''__internal'' \<longrightarrow> gv_Version gv' \<noteq> ''__internal'' \<longrightarrow>
        compatible (MetaKinds SL gv) (MetaKinds SL gv'))"

text \<open>What the program registers: its two types and the kinds of \<open>metav1\<close> for its version.\<close>

definition program_entries :: "('s, 'z) runtime_lib_scheme \<Rightarrow> GroupVersionKind \<Rightarrow> known_type option" where
  "program_entries SL =
     own_entries SchemeGroupVersion [CodeEngineTaskType, CodeEngineTaskListType] ++
     meta_entries SL SchemeGroupVersion"

lemma SchemeGroupVersion_Version: "gv_Version SchemeGroupVersion = ''v1alpha1''"
  by (simp add: SchemeGroupVersion_def)

lemma task_entries_Some:
  "own_entries gv [CodeEngineTaskType, CodeEngineTaskListType] gvk = Some t \<longleftrightarrow>
     (\<exists>ty. gvk = type_kind gv ty \<and> t = OwnType ty)"
proof -
  have "(\<exists>ty. P ty) \<longleftrightarrow> P CodeEngineTaskType \<or> P CodeEngineTaskListType" for P
    by (metis go_type.exhaust)
  then show ?thesis by (auto simp: own_entries_def)
qed

lemma meta_entries_Some: "meta_entries SL gv gvk = Some t \<longleftrightarrow> (\<exists>h. MetaKinds SL gv gvk = Some h \<and> t = LibType h)"
  by (auto simp: meta_entries_def)

lemma meta_not_own:
  assumes "runtime_laws SL"
  shows "MetaKinds SL gv (type_kind gv' ty) = None"
  using assms by (force simp: runtime_laws_def type_kind_def)

lemma program_entries_Some:
  assumes "runtime_laws SL"
  shows "program_entries SL gvk = Some t \<longleftrightarrow>
    (\<exists>ty. gvk = type_kind SchemeGroupVersion ty \<and> t = OwnType ty) \<or>
    (\<exists>h. MetaKinds SL SchemeGroupVersion gvk = Some h \<and> t = LibType h)"
  using meta_not_own [OF assms]
  by (auto simp: program_entries_def map_add_Some_iff task_entries_Some meta_entries_Some meta_entries_def)

lemma compatible_disjoint:
  assumes "dom a \<inter> dom b = {}"
  shows "compatible known (a ++ b) \<longleftrightarrow> compatible known a \<and> compatible known b"
    and "compatible (known ++ a) b \<longleftrightarrow> compatible known b"
proof -
  have "(a ++ b) k = Some t \<longleftrightarrow> a k = Some t \<or> b k = Some t" for k t
    using assms by (auto simp: map_add_Some_iff)
  then show "compatible known (a ++ b) \<longleftrightarrow> compatible known a \<and> compatible known b"
    unfolding compatible_def by auto
  have "b k = Some t \<Longrightarrow> (known ++ a) k = known k" for k t
    using assms by (auto simp: map_add_def split: option.split)
  then show "compatible (known ++ a) b \<longleftrightarrow> compatible known b"
    unfolding compatible_def by metis
qed

lemma compatible_again: "compatible (known ++ entries) entries"
  by (auto simp: compatible_def)

lemma map_add_again: "known ++ entries ++ entries = known ++ entries"
  by (rule ext) (simp add: map_add_def split: option.split)

text \<open>\<open>addKnownTypes\<close> adds these entries, or panics.\<close>

lemma addKnownTypes_registers:
  assumes laws: "runtime_laws SL"
  shows "if compatible (Recognized SL s) (program_entries SL)
    then \<exists>s'. addKnownTypes SL s = Return (None, s') \<and>
      Recognized SL s' = Recognized SL s ++ program_entries SL
    else is_panic (addKnownTypes SL s)"
proof -
  let ?own = "own_entries SchemeGroupVersion [CodeEngineTaskType, CodeEngineTaskListType]"
  let ?meta = "meta_entries SL SchemeGroupVersion"
  have "dom ?own \<inter> dom ?meta = {}"
    using meta_not_own [OF laws] by (auto simp: task_entries_Some meta_entries_Some)
  note both = compatible_disjoint [OF this]
  have step1: "registers SL s ?own (AddKnownTypes SL s SchemeGroupVersion [CodeEngineTaskType, CodeEngineTaskListType])"
    and step2: "registers SL s1 ?meta (AddToGroupVersion SL s1 SchemeGroupVersion)" for s1
    using laws by (simp_all add: runtime_laws_def SchemeGroupVersion_Version)
  show ?thesis
  proof (cases "compatible (Recognized SL s) ?own")
    case False
    then show ?thesis
      using step1 by (auto simp: program_entries_def both registers_def addKnownTypes_def is_panic_iff)
  next
    case own: True
    then obtain s1 where s1: "AddKnownTypes SL s SchemeGroupVersion [CodeEngineTaskType, CodeEngineTaskListType] = Return s1"
      and rec1: "Recognized SL s1 = Recognized SL s ++ ?own"
      using step1 by (auto simp: registers_def)
    show ?thesis
      using step2 [of s1] own
      by (auto simp: both registers_def addKnownTypes_def s1 rec1 program_entries_def is_panic_iff split: if_splits)
  qed
qed

lemma AddToScheme_eq: "AddToScheme SL = addKnownTypes SL"
  by (rule ext) (auto simp: AddToScheme_def SchemeBuilder_def split: outcome.split prod.split option.split)

lemma clientset_AddToScheme_eq:
  "scheme_AddToScheme SL = addKnownTypes SL" "fake_AddToScheme SL = addKnownTypes SL"
  by (rule ext, auto simp: scheme_AddToScheme_def scheme_localSchemeBuilder_def fake_AddToScheme_def
      fake_localSchemeBuilder_def AddToScheme_eq split: outcome.split prod.split option.split)+

lemma program_entries_foreign:
  assumes "\<forall>ty. gvk \<noteq> type_kind SchemeGroupVersion ty"
  shows "program_entries SL gvk = meta_entries SL SchemeGroupVersion gvk"
proof -
  have "own_entries SchemeGroupVersion [CodeEngineTaskType, CodeEngineTaskListType] gvk = None"
    using assms by (simp add: own_entries_def)
  then show ?thesis by (simp add: program_entries_def map_add_def split: option.split)
qed

lemma lib_kinds:
  assumes "runtime_laws SL" and "compatible (MetaKinds SL gv) (MetaKinds SL SchemeGroupVersion)"
  shows "(meta_entries SL gv ++ program_entries SL) gvk = Some (LibType h) \<longleftrightarrow>
    MetaKinds SL gv gvk = Some h \<or> MetaKinds SL SchemeGroupVersion gvk = Some h"
proof (cases "\<exists>ty. gvk = type_kind SchemeGroupVersion ty")
  case True
  then show ?thesis
    by (auto simp: map_add_Some_iff program_entries_Some [OF assms(1)] meta_not_own [OF assms(1)] meta_entries_Some)
next
  case False
  then show ?thesis
    using assms(2) program_entries_foreign [of gvk SL]
    by (cases "MetaKinds SL SchemeGroupVersion gvk") (auto simp: map_add_Some_iff meta_entries_def compatible_def)
qed

text \<open>The two \<open>init\<close> functions on the new scheme.\<close>

lemma init_registers:
  assumes laws: "runtime_laws SL"
  shows "\<exists>s. Scheme SL = Return s \<and> fake_scheme SL = Return s \<and>
    Recognized SL s = meta_entries SL \<lparr>gv_Group = [], gv_Version = ''v1''\<rparr> ++ program_entries SL"
proof -
  let ?v1 = "\<lparr>gv_Group = [], gv_Version = ''v1''\<rparr>"
  have new: "Recognized SL (NewScheme SL) = Map.empty"
    and step: "registers SL (NewScheme SL) (meta_entries SL ?v1) (AddToGroupVersion SL (NewScheme SL) ?v1)"
    and same: "compatible (MetaKinds SL ?v1) (MetaKinds SL SchemeGroupVersion)"
    using laws by (simp_all add: runtime_laws_def SchemeGroupVersion_Version)
  have "compatible Map.empty (meta_entries SL ?v1)" by (simp add: compatible_def)
  then obtain s1 where s1: "AddToGroupVersion SL (NewScheme SL) ?v1 = Return s1"
    and rec1: "Recognized SL s1 = meta_entries SL ?v1"
    using step by (auto simp: registers_def new)
  have "compatible (Recognized SL s1) (program_entries SL)"
    using same meta_not_own [OF laws]
    by (auto simp: compatible_def rec1 program_entries_Some [OF laws] meta_entries_Some)
  then obtain s where "addKnownTypes SL s1 = Return (None, s)"
    and "Recognized SL s = Recognized SL s1 ++ program_entries SL"
    using addKnownTypes_registers [OF laws, of s1] by auto
  then show ?thesis
    by (simp add: rec1 Scheme_def scheme_init_def fake_scheme_def fake_scheme_init_def s1
        clientset_AddToScheme_eq must_def)
qed

text \<open>
  C37: both generated schemes know the two types of the program.  Their \<open>init\<close> functions never panic;
  after them a kind is known as a type of the program exactly when it is that of \<open>CodeEngineTask\<close> or
  \<open>CodeEngineTaskList\<close> in the version of the API, as the type of that name, and as a type of a library
  exactly when \<open>metav1\<close> has it for version \<open>v1\<close> or for the version of the API.  Adding the clientset to
  another scheme makes it know the two types and the \<open>metav1\<close> kinds of that version, leaves every other
  kind as it was and changes nothing the second time, unless the scheme knows one of these kinds as
  another type: then it panics.
\<close>

theorem schemes_know_task_types:
  assumes "runtime_laws SL"
  shows "\<exists>s s'. Scheme SL = Return s \<and> fake_scheme SL = Return s' \<and> Recognized SL s' = Recognized SL s \<and>
    (\<forall>gvk ty. Recognized SL s gvk = Some (OwnType ty) \<longleftrightarrow> gvk = type_kind SchemeGroupVersion ty) \<and>
    (\<forall>gvk h. Recognized SL s gvk = Some (LibType h) \<longleftrightarrow>
       MetaKinds SL \<lparr>gv_Group = [], gv_Version = ''v1''\<rparr> gvk = Some h \<or>
       MetaKinds SL SchemeGroupVersion gvk = Some h) \<and>
    (\<forall>other.
       if compatible (Recognized SL other) (program_entries SL)
       then \<exists>once twice. scheme_AddToScheme SL other = Return (None, once) \<and>
         scheme_AddToScheme SL once = Return (None, twice) \<and> Recognized SL twice = Recognized SL once \<and>
         (\<forall>ty. Recognized SL once (type_kind SchemeGroupVersion ty) = Some (OwnType ty)) \<and>
         (\<forall>gvk. (\<forall>ty. gvk \<noteq> type_kind SchemeGroupVersion ty) \<longrightarrow> Recognized SL once gvk =
            (case MetaKinds SL SchemeGroupVersion gvk of
               Some h \<Rightarrow> Some (LibType h) | None \<Rightarrow> Recognized SL other gvk))
       else is_panic (scheme_AddToScheme SL other))"
proof -
  let ?v1 = "\<lparr>gv_Group = [], gv_Version = ''v1''\<rparr>"
  obtain s where made: "Scheme SL = Return s" "fake_scheme SL = Return s"
    and rec: "Recognized SL s = meta_entries SL ?v1 ++ program_entries SL"
    using init_registers [OF assms] by blast
  have "compatible (MetaKinds SL ?v1) (MetaKinds SL SchemeGroupVersion)"
    using assms by (simp add: runtime_laws_def SchemeGroupVersion_Version)
  then have lib: "Recognized SL s gvk = Some (LibType h) \<longleftrightarrow>
      MetaKinds SL ?v1 gvk = Some h \<or> MetaKinds SL SchemeGroupVersion gvk = Some h" for gvk h
    using lib_kinds [OF assms, of ?v1 gvk h] by (simp add: rec)
  have own: "Recognized SL s gvk = Some (OwnType ty) \<longleftrightarrow> gvk = type_kind SchemeGroupVersion ty" for gvk ty
    by (auto simp: rec map_add_Some_iff program_entries_Some [OF assms] meta_entries_Some)
  have other: "if compatible (Recognized SL other) (program_entries SL)
       then \<exists>once twice. scheme_AddToScheme SL other = Return (None, once) \<and>
         scheme_AddToScheme SL once = Return (None, twice) \<and> Recognized SL twice = Recognized SL once \<and>
         (\<forall>ty. Recognized SL once (type_kind SchemeGroupVersion ty) = Some (OwnType ty)) \<and>
         (\<forall>gvk. (\<forall>ty. gvk \<noteq> type_kind SchemeGroupVersion ty) \<longrightarrow> Recognized SL once gvk =
            (case MetaKinds SL SchemeGroupVersion gvk of
               Some h \<Rightarrow> Some (LibType h) | None \<Rightarrow> Recognized SL other gvk))
       else is_panic (scheme_AddToScheme SL other)" for other
  proof (cases "compatible (Recognized SL other) (program_entries SL)")
    case False
    then show ?thesis using addKnownTypes_registers [OF assms, of other] by (simp add: clientset_AddToScheme_eq)
  next
    case True
    then obtain once where once: "addKnownTypes SL other = Return (None, once)"
      and r1: "Recognized SL once = Recognized SL other ++ program_entries SL"
      using addKnownTypes_registers [OF assms, of other] by auto
    have "compatible (Recognized SL once) (program_entries SL)" using True by (simp add: r1 compatible_again)
    then obtain twice where twice: "addKnownTypes SL once = Return (None, twice)"
      and r2: "Recognized SL twice = Recognized SL once ++ program_entries SL"
      using addKnownTypes_registers [OF assms, of once] by auto
    have "Recognized SL twice = Recognized SL once" by (simp add: r1 r2 map_add_again)
    moreover have "Recognized SL once (type_kind SchemeGroupVersion ty) = Some (OwnType ty)" for ty
      by (simp add: r1 map_add_Some_iff program_entries_Some [OF assms])
    moreover have "Recognized SL once gvk = (case MetaKinds SL SchemeGroupVersion gvk of
        Some h \<Rightarrow> Some (LibType h) | None \<Rightarrow> Recognized SL other gvk)"
      if "\<forall>ty. gvk \<noteq> type_kind SchemeGroupVersion ty" for gvk
      using program_entries_foreign [of gvk SL] that
      by (simp add: r1 map_add_def meta_entries_def split: option.split)
    ultimately show ?thesis using True once twice by (simp add: clientset_AddToScheme_eq)
  qed
  from made own lib other show ?thesis by blast
qed

text \<open>
  A scheme that is a list of registrations, with some of the kinds of \<open>metav1\<close>, and its
  \<open>AddKnownTypes\<close> and \<open>AddToGroupVersion\<close>.
\<close>

definition meta_kind_list :: "GroupVersion \<Rightarrow> GroupVersionKind list" where
  "meta_kind_list gv =
     [\<lparr>gvk_Group = gv_Group gv, gvk_Version = ''__internal'', gvk_Kind = ''WatchEvent''\<rparr>,
      \<lparr>gvk_Group = [], gvk_Version = ''v1'', gvk_Kind = ''Status''\<rparr>] @
     map (\<lambda>k. \<lparr>gvk_Group = gv_Group gv, gvk_Version = gv_Version gv, gvk_Kind = k\<rparr>)
       [''WatchEvent'', ''ListOptions'', ''GetOptions'', ''DeleteOptions'']"

definition meta_type :: "GroupVersionKind \<Rightarrow> handle" where
  "meta_type gvk = (if gvk_Version gvk = ''__internal'' then ''InternalEvent'' else gvk_Kind gvk)"

definition list_register ::
    "(GroupVersionKind \<times> known_type) list \<Rightarrow> (GroupVersionKind \<times> known_type) list \<Rightarrow>
     (GroupVersionKind \<times> known_type) list outcome" where
  "list_register s entries =
     (if \<forall>(k, ty) \<in> set entries. map_of s k \<in> {None, Some ty}
      then Return (entries @ s) else Panic (PanicValue ''Double registration of different types''))"

definition list_runtime :: "(GroupVersionKind \<times> known_type) list runtime_lib" where
  "list_runtime =
     \<lparr>AddKnownTypes = (\<lambda>s gv types. list_register s (map (\<lambda>ty. (type_kind gv ty, OwnType ty)) types)),
      AddToGroupVersion = (\<lambda>s gv. list_register s (map (\<lambda>k. (k, LibType (meta_type k))) (meta_kind_list gv))),
      NewScheme = [], Recognized = map_of,
      MetaKinds = (\<lambda>gv k. if k \<in> set (meta_kind_list gv) then Some (meta_type k) else None)\<rparr>"

lemma list_register_registers:
  assumes "\<And>k t. (k, t) \<in> set entries \<longleftrightarrow> map_of entries k = Some t"
  shows "registers list_runtime s (map_of entries) (list_register s entries)"
proof -
  have "(\<forall>(k, ty) \<in> set entries. map_of s k \<in> {None, Some ty}) \<longleftrightarrow> compatible (map_of s) (map_of entries)"
    unfolding compatible_def case_prod_beta Ball_def split_paired_All
    by (simp add: assms) (metis option.exhaust option.inject option.distinct(1))
  then show ?thesis by (simp add: registers_def list_register_def list_runtime_def)
qed

lemma list_runtime_laws: "runtime_laws list_runtime"
proof -
  have f: "map_of (map (\<lambda>x. (x, h x)) xs) k = (if k \<in> set xs then Some (h k) else None)"
    for h :: "GroupVersionKind \<Rightarrow> known_type" and xs k
    by (induction xs) auto
  have own: "(k, t) \<in> set (map (\<lambda>ty. (type_kind gv ty, OwnType ty)) types) \<longleftrightarrow>
      map_of (map (\<lambda>ty. (type_kind gv ty, OwnType ty)) types) k = Some t" for k t gv types
    by (induction types) auto
  have meta: "meta_entries list_runtime gv = map_of (map (\<lambda>k. (k, LibType (meta_type k))) (meta_kind_list gv))" for gv
    unfolding meta_entries_def f by (rule ext) (simp add: meta_entries_def f list_runtime_def)
  have "registers list_runtime s (own_entries gv types) (AddKnownTypes list_runtime s gv types)" for s gv types
    using list_register_registers [OF own] by (simp add: own_entries_def list_runtime_def)
  moreover have "registers list_runtime s (meta_entries list_runtime gv) (AddToGroupVersion list_runtime s gv)" for s gv
  proof -
    have "registers list_runtime s (meta_entries list_runtime gv)
        (list_register s (map (\<lambda>k. (k, LibType (meta_type k))) (meta_kind_list gv)))"
      unfolding meta by (rule list_register_registers) (auto simp: f split: if_splits)
    then show ?thesis by (simp add: list_runtime_def)
  qed
  moreover have "gvk_Kind gvk \<noteq> type_name ty" if "MetaKinds list_runtime gv gvk \<noteq> None" for gv gvk ty
    using that by (cases ty) (auto simp: list_runtime_def meta_kind_list_def split: if_splits)
  moreover have "compatible (MetaKinds list_runtime gv) (MetaKinds list_runtime gv')" for gv gv'
    by (simp add: compatible_def list_runtime_def)
  moreover have "Recognized list_runtime (NewScheme list_runtime) = Map.empty"
    by (simp add: list_runtime_def)
  ultimately show ?thesis unfolding runtime_laws_def by blast
qed

lemma schemes_know_task_types_witness:
  "\<exists>s. Scheme list_runtime = Return s \<and>
     Recognized list_runtime s (type_kind SchemeGroupVersion CodeEngineTaskListType) =
       Some (OwnType CodeEngineTaskListType) \<and>
     Recognized list_runtime s
       \<lparr>gvk_Group = ''custom.tekton.dev'', gvk_Version = ''v1alpha1'', gvk_Kind = ''ListOptions''\<rparr> =
       Some (LibType ''ListOptions'') \<and>
     is_panic (scheme_AddToScheme list_runtime
       [(type_kind SchemeGroupVersion CodeEngineTaskType, LibType ''another'')])"
proof -
  have meta: "MetaKinds list_runtime SchemeGroupVersion
       \<lparr>gvk_Group = ''custom.tekton.dev'', gvk_Version = ''v1alpha1'', gvk_Kind = ''ListOptions''\<rparr> = Some ''ListOptions''"
    by (simp add: list_runtime_def meta_kind_list_def meta_type_def SchemeGroupVersion_def GroupName_def)
  have "program_entries list_runtime (type_kind SchemeGroupVersion CodeEngineTaskType) = Some (OwnType CodeEngineTaskType)"
    by (simp add: program_entries_Some [OF list_runtime_laws])
  then have "\<not> compatible (Recognized list_runtime [(type_kind SchemeGroupVersion CodeEngineTaskType, LibType ''another'')])
      (program_entries list_runtime)"
    unfolding compatible_def
    by (auto simp: list_runtime_def intro!: exI [of _ "type_kind SchemeGroupVersion CodeEngineTaskType"])
  then have bad: "is_panic (scheme_AddToScheme list_runtime
      [(type_kind SchemeGroupVersion CodeEngineTaskType, LibType ''another'')])"
    using schemes_know_task_types [OF list_runtime_laws]
    by (elim exE conjE)
      (erule allE [of _ "[(type_kind SchemeGroupVersion CodeEngineTaskType, LibType ''another'')]"],
       simp only: if_False)
  obtain s where "Scheme list_runtime = Return s"
    and "\<forall>gvk ty. Recognized list_runtime s gvk = Some (OwnType ty) \<longleftrightarrow> gvk = type_kind SchemeGroupVersion ty"
    and "\<forall>gvk h. Recognized list_runtime s gvk = Some (LibType h) \<longleftrightarrow>
       MetaKinds list_runtime \<lparr>gv_Group = [], gv_Version = ''v1''\<rparr> gvk = Some h \<or>
       MetaKinds list_runtime SchemeGroupVersion gvk = Some h"
    using schemes_know_task_types [OF list_runtime_laws] by blast
  then show ?thesis using meta bad by blast
qed

end
