(* ===== verification/DeepCopy.thy ===== *)
theory DeepCopy
  imports ApiTypes
begin

text \<open>
  The generated copy functions of \<open>src/pkg/apis/codeenginetask/v1alpha1/zz_generated.deepcopy.go\<close>
  on a heap, where a pointer is an address.  \<open>ObjectMeta\<close>, \<open>ListMeta\<close> and the embedded \<open>Status\<close> of
  the libraries hold maps and slices in cells of their own; their copy functions are the record
  \<open>copy_lib\<close>.

  The locale \<open>deep_copier\<close> is the contract of a deep copy: the copy has the value of the original
  and shares no cell with it.
\<close>

section \<open>Structs with pointers\<close>

record 'ds p_status =
  ps_Status :: 'ds
  ps_Spec :: "nat option"
  ps_JobRunName :: string

record ('om, 'ds) p_task =
  pt_TypeMeta :: TypeMeta
  pt_ObjectMeta :: 'om
  pt_Spec :: CodeEngineTaskSpec
  pt_Status :: "'ds p_status"

text \<open>A slice of tasks is nil or the address of its array.\<close>

record 'lm p_list =
  pl_TypeMeta :: TypeMeta
  pl_ListMeta :: 'lm
  pl_Items :: "nat option"

text \<open>Addresses from \<open>h_next\<close> on are unused; \<open>'b\<close> is the content of a library cell.\<close>

record ('om, 'ds, 'lm, 'b) heap =
  h_next :: nat
  h_spec :: "nat \<Rightarrow> CodeEngineTaskSpec"
  h_status :: "nat \<Rightarrow> 'ds p_status"
  h_task :: "nat \<Rightarrow> ('om, 'ds) p_task"
  h_array :: "nat \<Rightarrow> ('om, 'ds) p_task list"
  h_list :: "nat \<Rightarrow> 'lm p_list"
  h_lib :: "nat \<Rightarrow> 'b"

type_synonym ('a, 'b) lib_copy = "'a \<Rightarrow> (nat \<Rightarrow> 'b) \<times> nat \<Rightarrow> 'a \<times> (nat \<Rightarrow> 'b) \<times> nat"

record ('om, 'ds, 'lm, 'b) copy_lib =
  Meta_DeepCopyInto :: "('om, 'b) lib_copy"
  Status_DeepCopyInto :: "('ds, 'b) lib_copy"
  ListMeta_DeepCopyInto :: "('lm, 'b) lib_copy"
  zero_Meta :: 'om
  zero_Status :: 'ds
  zero_ListMeta :: 'lm
  meta_value :: "(nat \<Rightarrow> 'b) \<Rightarrow> 'om \<Rightarrow> ObjectMeta"
  meta_cells :: "(nat \<Rightarrow> 'b) \<Rightarrow> 'om \<Rightarrow> nat set"
  status_value :: "(nat \<Rightarrow> 'b) \<Rightarrow> 'ds \<Rightarrow> DuckStatus"
  status_cells :: "(nat \<Rightarrow> 'b) \<Rightarrow> 'ds \<Rightarrow> nat set"
  listmeta_value :: "(nat \<Rightarrow> 'b) \<Rightarrow> 'lm \<Rightarrow> handle"
  listmeta_cells :: "(nat \<Rightarrow> 'b) \<Rightarrow> 'lm \<Rightarrow> nat set"

definition on_lib ::
    "('a, 'b) lib_copy \<Rightarrow> 'a \<Rightarrow> ('om, 'ds, 'lm, 'b) heap \<Rightarrow> 'a \<times> ('om, 'ds, 'lm, 'b) heap" where
  "on_lib f x h = (case f x (h_lib h, h_next h) of (y, \<sigma>, n) \<Rightarrow> (y, h\<lparr>h_lib := \<sigma>, h_next := n\<rparr>))"

section \<open>The copy functions\<close>

text \<open>\<open>DeepCopyInto(out)\<close> returns what it leaves in \<open>*out\<close>; the first assignment is \<open>*out = *in\<close>.\<close>

definition Spec_DeepCopyInto :: "CodeEngineTaskSpec \<Rightarrow> CodeEngineTaskSpec" where
  "Spec_DeepCopyInto src = src"

definition status_DeepCopyInto ::
    "('om, 'ds, 'lm, 'b) copy_lib \<Rightarrow> 'ds p_status \<Rightarrow> ('om, 'ds, 'lm, 'b) heap \<Rightarrow>
       'ds p_status \<times> ('om, 'ds, 'lm, 'b) heap" where
  "status_DeepCopyInto l src h =
     (let dst = src;
          (s, h1) = on_lib (Status_DeepCopyInto l) (ps_Status src) h;
          dst1 = dst\<lparr>ps_Status := s\<rparr>
      in (case ps_Spec src of
            None \<Rightarrow> (dst1, h1)
          | Some p \<Rightarrow>
              (let a = h_next h1
               in (dst1\<lparr>ps_Spec := Some a\<rparr>,
                   h1\<lparr>h_next := Suc a, h_spec := (h_spec h1)(a := h_spec h1 p)\<rparr>))))"

definition task_DeepCopyInto ::
    "('om, 'ds, 'lm, 'b) copy_lib \<Rightarrow> ('om, 'ds) p_task \<Rightarrow> ('om, 'ds, 'lm, 'b) heap \<Rightarrow>
       ('om, 'ds) p_task \<times> ('om, 'ds, 'lm, 'b) heap" where
  "task_DeepCopyInto l src h =
     (let dst = src\<lparr>pt_TypeMeta := pt_TypeMeta src\<rparr>;
          (m, h1) = on_lib (Meta_DeepCopyInto l) (pt_ObjectMeta src) h;
          dst1 = dst\<lparr>pt_ObjectMeta := m, pt_Spec := pt_Spec src\<rparr>;
          (s, h2) = status_DeepCopyInto l (pt_Status src) h1
      in (dst1\<lparr>pt_Status := s\<rparr>, h2))"

text \<open>
  The loop over the items, from index \<open>i\<close> on: the array \<open>dst\<close> was made with zero tasks, and item
  \<open>i\<close> of the array \<open>src\<close> is copied into its item \<open>i\<close>.
\<close>

definition zero_p_task :: "('om, 'ds, 'lm, 'b) copy_lib \<Rightarrow> ('om, 'ds) p_task" where
  "zero_p_task l = \<lparr>pt_TypeMeta = \<lparr>tm_Kind = [], tm_APIVersion = []\<rparr>, pt_ObjectMeta = zero_Meta l,
     pt_Spec = zero_CodeEngineTaskSpec,
     pt_Status = \<lparr>ps_Status = zero_Status l, ps_Spec = None, ps_JobRunName = []\<rparr>\<rparr>"

fun copy_items ::
    "('om, 'ds, 'lm, 'b) copy_lib \<Rightarrow> nat \<Rightarrow> nat \<Rightarrow> nat list \<Rightarrow> ('om, 'ds, 'lm, 'b) heap \<Rightarrow>
       ('om, 'ds, 'lm, 'b) heap" where
  "copy_items l src dst [] h = h"
| "copy_items l src dst (i # is) h =
     (let (t, h1) = task_DeepCopyInto l (h_array h src ! i) h
      in copy_items l src dst is (h1\<lparr>h_array := (h_array h1)(dst := (h_array h1 dst)[i := t])\<rparr>))"

definition list_DeepCopyInto ::
    "('om, 'ds, 'lm, 'b) copy_lib \<Rightarrow> 'lm p_list \<Rightarrow> ('om, 'ds, 'lm, 'b) heap \<Rightarrow>
       'lm p_list \<times> ('om, 'ds, 'lm, 'b) heap" where
  "list_DeepCopyInto l src h =
     (let dst = src\<lparr>pl_TypeMeta := pl_TypeMeta src\<rparr>;
          (m, h1) = on_lib (ListMeta_DeepCopyInto l) (pl_ListMeta src) h;
          dst1 = dst\<lparr>pl_ListMeta := m\<rparr>
      in (case pl_Items src of
            None \<Rightarrow> (dst1, h1)
          | Some p \<Rightarrow>
              (let n = length (h_array h1 p); a = h_next h1;
                   h2 = h1\<lparr>h_next := Suc a, h_array := (h_array h1)(a := replicate n (zero_p_task l))\<rparr>
               in (dst1\<lparr>pl_Items := Some a\<rparr>, copy_items l p a [0..<n] h2))))"

text \<open>\<open>DeepCopy\<close> on a pointer that may be nil: a new variable, and the copy into it.\<close>

definition Spec_DeepCopy ::
    "nat option \<Rightarrow> ('om, 'ds, 'lm, 'b) heap \<Rightarrow> nat option \<times> ('om, 'ds, 'lm, 'b) heap" where
  "Spec_DeepCopy src h =
     (case src of
        None \<Rightarrow> (None, h)
      | Some p \<Rightarrow>
          (let a = h_next h; h1 = h\<lparr>h_next := Suc a, h_spec := (h_spec h)(a := zero_CodeEngineTaskSpec)\<rparr>
           in (Some a, h1\<lparr>h_spec := (h_spec h1)(a := Spec_DeepCopyInto (h_spec h1 p))\<rparr>)))"

definition status_DeepCopy ::
    "('om, 'ds, 'lm, 'b) copy_lib \<Rightarrow> nat option \<Rightarrow> ('om, 'ds, 'lm, 'b) heap \<Rightarrow>
       nat option \<times> ('om, 'ds, 'lm, 'b) heap" where
  "status_DeepCopy l src h =
     (case src of
        None \<Rightarrow> (None, h)
      | Some p \<Rightarrow>
          (let a = h_next h;
               (s, h1) = status_DeepCopyInto l (h_status h p) (h\<lparr>h_next := Suc a\<rparr>)
           in (Some a, h1\<lparr>h_status := (h_status h1)(a := s)\<rparr>)))"

definition task_DeepCopy ::
    "('om, 'ds, 'lm, 'b) copy_lib \<Rightarrow> nat option \<Rightarrow> ('om, 'ds, 'lm, 'b) heap \<Rightarrow>
       nat option \<times> ('om, 'ds, 'lm, 'b) heap" where
  "task_DeepCopy l src h =
     (case src of
        None \<Rightarrow> (None, h)
      | Some p \<Rightarrow>
          (let a = h_next h;
               (t, h1) = task_DeepCopyInto l (h_task h p) (h\<lparr>h_next := Suc a\<rparr>)
           in (Some a, h1\<lparr>h_task := (h_task h1)(a := t)\<rparr>)))"

definition list_DeepCopy ::
    "('om, 'ds, 'lm, 'b) copy_lib \<Rightarrow> nat option \<Rightarrow> ('om, 'ds, 'lm, 'b) heap \<Rightarrow>
       nat option \<times> ('om, 'ds, 'lm, 'b) heap" where
  "list_DeepCopy l src h =
     (case src of
        None \<Rightarrow> (None, h)
      | Some p \<Rightarrow>
          (let a = h_next h;
               (t, h1) = list_DeepCopyInto l (h_list h p) (h\<lparr>h_next := Suc a\<rparr>)
           in (Some a, h1\<lparr>h_list := (h_list h1)(a := t)\<rparr>)))"

text \<open>A \<open>runtime.Object\<close> that is nil, or holds a pointer that is not nil.\<close>

datatype object_ptr = TaskPtr nat | TaskListPtr nat

definition task_DeepCopyObject ::
    "('om, 'ds, 'lm, 'b) copy_lib \<Rightarrow> nat option \<Rightarrow> ('om, 'ds, 'lm, 'b) heap \<Rightarrow>
       object_ptr option \<times> ('om, 'ds, 'lm, 'b) heap" where
  "task_DeepCopyObject l src h =
     (case task_DeepCopy l src h of (Some c, h1) \<Rightarrow> (Some (TaskPtr c), h1) | (None, h1) \<Rightarrow> (None, h1))"

definition list_DeepCopyObject ::
    "('om, 'ds, 'lm, 'b) copy_lib \<Rightarrow> nat option \<Rightarrow> ('om, 'ds, 'lm, 'b) heap \<Rightarrow>
       object_ptr option \<times> ('om, 'ds, 'lm, 'b) heap" where
  "list_DeepCopyObject l src h =
     (case list_DeepCopy l src h of (Some c, h1) \<Rightarrow> (Some (TaskListPtr c), h1) | (None, h1) \<Rightarrow> (None, h1))"

end
