(* ===== verification/DeepCopyFacts.thy ===== *)
theory DeepCopyFacts
  imports DeepCopy
begin

text \<open>
  The contract of a deep copy, proved of the copy functions of a status, a task and a list of tasks
  from the one of the library copies: equal value, fresh cells, nothing else touched.
\<close>

section \<open>Heaps that agree\<close>

definition agree :: "nat set \<Rightarrow> ('om, 'ds, 'lm, 'b) heap \<Rightarrow> ('om, 'ds, 'lm, 'b) heap \<Rightarrow> bool" where
  "agree A h h' \<longleftrightarrow> (\<forall>a\<in>A. h_spec h' a = h_spec h a \<and> h_status h' a = h_status h a \<and>
     h_task h' a = h_task h a \<and> h_array h' a = h_array h a \<and> h_list h' a = h_list h a \<and>
     h_lib h' a = h_lib h a)"

lemma agree_refl [simp]: "agree A h h"
  by (simp add: agree_def)

lemma agree_trans: "agree A h h1 \<Longrightarrow> agree A h1 h2 \<Longrightarrow> agree A h h2"
  by (simp add: agree_def)

lemma agree_mono: "agree A h h' \<Longrightarrow> B \<subseteq> A \<Longrightarrow> agree B h h'"
  by (auto simp: agree_def)

lemma agreeD:
  assumes "agree A h h'" and "a \<in> A"
  shows "h_spec h' a = h_spec h a" and "h_array h' a = h_array h a" and "h_lib h' a = h_lib h a"
    and "h_task h' a = h_task h a" and "h_status h' a = h_status h a" and "h_list h' a = h_list h a"
  using assms by (auto simp: agree_def)

section \<open>The contract\<close>

locale deep_copier =
  fixes laws :: "'l \<Rightarrow> bool"
    and copy :: "'l \<Rightarrow> 'a \<Rightarrow> ('om, 'ds, 'lm, 'b) heap \<Rightarrow> 'a \<times> ('om, 'ds, 'lm, 'b) heap"
    and val :: "'l \<Rightarrow> ('om, 'ds, 'lm, 'b) heap \<Rightarrow> 'a \<Rightarrow> 'v"
    and cells :: "'l \<Rightarrow> ('om, 'ds, 'lm, 'b) heap \<Rightarrow> 'a \<Rightarrow> nat set"
  assumes copies: "laws l \<Longrightarrow> cells l h x \<subseteq> {..<h_next h} \<Longrightarrow> copy l x h = (y, h') \<Longrightarrow>
      h_next h \<le> h_next h' \<and> agree {..<h_next h} h h' \<and> val l h' y = val l h x \<and>
      cells l h' y \<subseteq> {h_next h..<h_next h'}"
    and local: "laws l \<Longrightarrow> agree (cells l h x) h h' \<Longrightarrow>
      val l h' x = val l h x \<and> cells l h' x = cells l h x"
begin

lemma original_unchanged:
  assumes "laws l" and "cells l h x \<subseteq> {..<h_next h}" and "copy l x h = (y, h')"
  shows "val l h' x = val l h x" and "cells l h' x = cells l h x"
  using local [OF assms(1) agree_mono] copies [OF assms] assms(2) by blast+

lemma no_alias:
  assumes "laws l" and "cells l h x \<subseteq> {..<h_next h}" and "copy l x h = (y, h')"
  shows "cells l h' x \<inter> cells l h' y = {}"
  using copies [OF assms] original_unchanged(2) [OF assms] assms(2) by fastforce

text \<open>Writing through the copy leaves the original alone, and the other way round.\<close>

lemma independent:
  assumes "laws l" and "cells l h x \<subseteq> {..<h_next h}" and "copy l x h = (y, h')"
  shows "agree (- cells l h' y) h' h'' \<Longrightarrow> val l h'' x = val l h x"
    and "agree (- cells l h' x) h' h'' \<Longrightarrow> val l h'' y = val l h x"
proof -
  assume "agree (- cells l h' y) h' h''"
  then have "agree (cells l h' x) h' h''" by (rule agree_mono) (use no_alias [OF assms] in auto)
  with local [OF assms(1)] original_unchanged(1) [OF assms] show "val l h'' x = val l h x" by simp
next
  assume "agree (- cells l h' x) h' h''"
  then have "agree (cells l h' y) h' h''" by (rule agree_mono) (use no_alias [OF assms] in auto)
  with local [OF assms(1)] copies [OF assms] show "val l h'' y = val l h x" by simp
qed

text \<open>A copy into a new variable, at the address that was the next one, written after the copy.\<close>

lemma pointer_copy:
  assumes "laws l" and sub: "cells l h x \<subseteq> {..<h_next h}"
    and call: "copy l x (h\<lparr>h_next := Suc (h_next h)\<rparr>) = (y, h1)"
    and h2: "agree (- {h_next h}) h1 h2" "h_next h2 = h_next h1"
  shows "val l h2 y = val l h x" and "agree {..<h_next h} h h2"
    and "cells l h2 y \<subseteq> {Suc (h_next h)..<h_next h2}"
    and "agree (- insert (h_next h) (cells l h2 y)) h2 h3 \<Longrightarrow>
      val l h3 x = val l h x \<and> agree {..<h_next h} h h3"
    and "p < h_next h \<Longrightarrow> agree (- insert p (cells l h x)) h2 h3 \<Longrightarrow>
      val l h3 y = val l h x \<and> agree {h_next h} h2 h3"
proof -
  let ?a = "h_next h" let ?g = "h\<lparr>h_next := Suc ?a\<rparr>"
  have g: "val l ?g x = val l h x" "cells l ?g x = cells l h x"
    using local [OF assms(1), of h x ?g] by (simp_all add: agree_def)
  have "cells l ?g x \<subseteq> {..<h_next ?g}" using sub by (force simp: g)
  from copies [OF assms(1) this call] have C: "agree {..<Suc ?a} h h1" "val l h1 y = val l h x"
    "cells l h1 y \<subseteq> {Suc ?a..<h_next h1}" by (simp_all add: g agree_def)
  have "agree (cells l h1 y) h1 h2" by (rule agree_mono [OF h2(1)]) (use C(3) in auto)
  from local [OF assms(1) this] C have y: "val l h2 y = val l h x"
    "cells l h2 y \<subseteq> {Suc ?a..<h_next h2}" by (simp_all add: h2(2))
  have old: "agree {..<?a} h h2"
    by (rule agree_trans [OF agree_mono [OF C(1)] agree_mono [OF h2(1)]]) auto
  show "val l h2 y = val l h x" "agree {..<?a} h h2" "cells l h2 y \<subseteq> {Suc ?a..<h_next h2}"
    using y old by simp_all
  show "val l h3 x = val l h x \<and> agree {..<?a} h h3" if "agree (- insert ?a (cells l h2 y)) h2 h3"
  proof -
    have "agree {..<?a} h h3"
      by (rule agree_trans [OF old agree_mono [OF that]]) (use y(2) in force)
    with local [OF assms(1) agree_mono [OF this sub]] show ?thesis by simp
  qed
  show "val l h3 y = val l h x \<and> agree {?a} h2 h3"
    if "p < ?a" "agree (- insert p (cells l h x)) h2 h3"
  proof -
    have "agree (insert ?a (cells l h2 y)) h2 h3"
      by (rule agree_mono [OF that(2)]) (use that(1) y(2) sub in force)
    then have "agree (cells l h2 y) h2 h3" "agree {?a} h2 h3" by (auto intro: agree_mono)
    with local [OF assms(1) this(1)] y(1) show ?thesis by simp
  qed
qed

end

section \<open>The libraries\<close>

definition lib_laws ::
    "('a, 'b) lib_copy \<Rightarrow> ((nat \<Rightarrow> 'b) \<Rightarrow> 'a \<Rightarrow> 'v) \<Rightarrow> ((nat \<Rightarrow> 'b) \<Rightarrow> 'a \<Rightarrow> nat set) \<Rightarrow> bool" where
  "lib_laws f value cells \<longleftrightarrow>
     (\<forall>x \<sigma> n y \<sigma>' n'. f x (\<sigma>, n) = (y, \<sigma>', n') \<longrightarrow> cells \<sigma> x \<subseteq> {..<n} \<longrightarrow>
        n \<le> n' \<and> (\<forall>a<n. \<sigma>' a = \<sigma> a) \<and> value \<sigma>' y = value \<sigma> x \<and> cells \<sigma>' y \<subseteq> {n..<n'}) \<and>
     (\<forall>x \<sigma> \<sigma>'. (\<forall>a\<in>cells \<sigma> x. \<sigma>' a = \<sigma> a) \<longrightarrow> value \<sigma>' x = value \<sigma> x \<and> cells \<sigma>' x = cells \<sigma> x)"

definition copy_laws :: "('om, 'ds, 'lm, 'b) copy_lib \<Rightarrow> bool" where
  "copy_laws l \<longleftrightarrow> lib_laws (Meta_DeepCopyInto l) (meta_value l) (meta_cells l) \<and>
     lib_laws (Status_DeepCopyInto l) (status_value l) (status_cells l) \<and>
     lib_laws (ListMeta_DeepCopyInto l) (listmeta_value l) (listmeta_cells l)"

lemma on_lib_copies:
  assumes "lib_laws f value cells" and "cells (h_lib h) x \<subseteq> {..<h_next h}" and "on_lib f x h = (y, h')"
  shows "h_next h \<le> h_next h' \<and> agree {..<h_next h} h h' \<and> value (h_lib h') y = value (h_lib h) x \<and>
    cells (h_lib h') y \<subseteq> {h_next h..<h_next h'}"
proof -
  obtain \<sigma> n where f: "f x (h_lib h, h_next h) = (y, \<sigma>, n)" and h': "h' = h\<lparr>h_lib := \<sigma>, h_next := n\<rparr>"
    using assms(3) by (auto simp: on_lib_def split: prod.splits)
  from assms(1) f assms(2) have "h_next h \<le> n \<and> (\<forall>a<h_next h. \<sigma> a = h_lib h a) \<and>
      value \<sigma> y = value (h_lib h) x \<and> cells \<sigma> y \<subseteq> {h_next h..<n}"
    unfolding lib_laws_def by blast
  then show ?thesis by (simp add: h' agree_def)
qed

lemma on_lib_local:
  assumes "lib_laws f value cells" and "agree (cells (h_lib h) x) h h'"
  shows "value (h_lib h') x = value (h_lib h) x \<and> cells (h_lib h') x = cells (h_lib h) x"
  using assms agreeD(3) unfolding lib_laws_def by blast

section \<open>A status\<close>

definition status_val ::
    "('om, 'ds, 'lm, 'b) copy_lib \<Rightarrow> ('om, 'ds, 'lm, 'b) heap \<Rightarrow> 'ds p_status \<Rightarrow> CodeEngineTaskStatus" where
  "status_val l h s = \<lparr>ts_Status = status_value l (h_lib h) (ps_Status s),
     ts_CodeEngineTaskSpec = map_option (h_spec h) (ps_Spec s), ts_JobRunName = ps_JobRunName s\<rparr>"

definition status_reach ::
    "('om, 'ds, 'lm, 'b) copy_lib \<Rightarrow> ('om, 'ds, 'lm, 'b) heap \<Rightarrow> 'ds p_status \<Rightarrow> nat set" where
  "status_reach l h s = status_cells l (h_lib h) (ps_Status s) \<union> set_option (ps_Spec s)"

interpretation status_copier: deep_copier copy_laws status_DeepCopyInto status_val status_reach
proof (unfold_locales, goal_cases)
  case (1 l h x y h')
  have lib: "lib_laws (Status_DeepCopyInto l) (status_value l) (status_cells l)"
    using 1(1) by (simp add: copy_laws_def)
  obtain s h1 where s: "on_lib (Status_DeepCopyInto l) (ps_Status x) h = (s, h1)" by (rule prod.exhaust)
  have S: "h_next h \<le> h_next h1" "agree {..<h_next h} h h1"
    "status_value l (h_lib h1) s = status_value l (h_lib h) (ps_Status x)"
    "status_cells l (h_lib h1) s \<subseteq> {h_next h..<h_next h1}"
    using on_lib_copies [OF lib _ s] 1(2) by (simp_all add: status_reach_def)
  show ?case
  proof (cases "ps_Spec x")
    case None
    with 1(3) s have "y = x\<lparr>ps_Status := s\<rparr>" "h' = h1" by (simp_all add: status_DeepCopyInto_def)
    with S None show ?thesis by (auto simp: status_val_def status_reach_def)
  next
    case (Some p)
    with 1(3) s have y: "y = x\<lparr>ps_Status := s, ps_Spec := Some (h_next h1)\<rparr>"
      and h': "h' = h1\<lparr>h_next := Suc (h_next h1), h_spec := (h_spec h1)(h_next h1 := h_spec h1 p)\<rparr>"
      by (simp_all add: status_DeepCopyInto_def Let_def)
    have "p < h_next h" using 1(2) Some by (auto simp: status_reach_def)
    then have "h_spec h1 p = h_spec h p" using agreeD(1) [OF S(2)] by simp
    moreover have "agree {..<h_next h} h h'" using S(1,2) by (auto simp: agree_def h')
    ultimately show ?thesis
      using S(1,3,4) Some by (auto simp: status_val_def status_reach_def y h')
  qed
next
  case (2 l h x h')
  have lib: "lib_laws (Status_DeepCopyInto l) (status_value l) (status_cells l)"
    using 2(1) by (simp add: copy_laws_def)
  have "agree (status_cells l (h_lib h) (ps_Status x)) h h'"
    by (rule agree_mono [OF 2(2)]) (simp add: status_reach_def)
  with on_lib_local [OF lib] agreeD(1) [OF 2(2)] show ?case
    by (cases "ps_Spec x") (auto simp: status_val_def status_reach_def)
qed

section \<open>A task\<close>

definition task_val ::
    "('om, 'ds, 'lm, 'b) copy_lib \<Rightarrow> ('om, 'ds, 'lm, 'b) heap \<Rightarrow> ('om, 'ds) p_task \<Rightarrow> CodeEngineTask" where
  "task_val l h t = \<lparr>t_TypeMeta = pt_TypeMeta t, t_ObjectMeta = meta_value l (h_lib h) (pt_ObjectMeta t),
     t_Spec = pt_Spec t, t_Status = status_val l h (pt_Status t)\<rparr>"

definition task_reach ::
    "('om, 'ds, 'lm, 'b) copy_lib \<Rightarrow> ('om, 'ds, 'lm, 'b) heap \<Rightarrow> ('om, 'ds) p_task \<Rightarrow> nat set" where
  "task_reach l h t = meta_cells l (h_lib h) (pt_ObjectMeta t) \<union> status_reach l h (pt_Status t)"

interpretation task_copier: deep_copier copy_laws task_DeepCopyInto task_val task_reach
proof (unfold_locales, goal_cases)
  case (1 l h x y h')
  have lib: "lib_laws (Meta_DeepCopyInto l) (meta_value l) (meta_cells l)"
    using 1(1) by (simp add: copy_laws_def)
  obtain m h1 where m: "on_lib (Meta_DeepCopyInto l) (pt_ObjectMeta x) h = (m, h1)" by (rule prod.exhaust)
  obtain s h2 where s: "status_DeepCopyInto l (pt_Status x) h1 = (s, h2)" by (rule prod.exhaust)
  from 1(3) m s have y: "y = x\<lparr>pt_ObjectMeta := m, pt_Status := s\<rparr>" and h': "h' = h2"
    by (simp_all add: task_DeepCopyInto_def)
  have M: "h_next h \<le> h_next h1" "agree {..<h_next h} h h1"
    "meta_value l (h_lib h1) m = meta_value l (h_lib h) (pt_ObjectMeta x)"
    "meta_cells l (h_lib h1) m \<subseteq> {h_next h..<h_next h1}"
    using on_lib_copies [OF lib _ m] 1(2) by (simp_all add: task_reach_def)
  have sub: "status_reach l h (pt_Status x) \<subseteq> {..<h_next h}" using 1(2) by (simp add: task_reach_def)
  have same: "status_val l h1 (pt_Status x) = status_val l h (pt_Status x)"
    "status_reach l h1 (pt_Status x) = status_reach l h (pt_Status x)"
    using status_copier.local [OF 1(1) agree_mono [OF M(2) sub]] by simp_all
  have S: "h_next h1 \<le> h_next h2" "agree {..<h_next h1} h1 h2"
    "status_val l h2 s = status_val l h (pt_Status x)" "status_reach l h2 s \<subseteq> {h_next h1..<h_next h2}"
    using status_copier.copies [OF 1(1) _ s] sub M(1) by (force simp: same)+
  have m2: "meta_value l (h_lib h2) m = meta_value l (h_lib h1) m \<and>
      meta_cells l (h_lib h2) m = meta_cells l (h_lib h1) m"
    by (rule on_lib_local [OF lib agree_mono [OF S(2)]]) (use M(4) in auto)
  have "agree {..<h_next h} h h2"
    by (rule agree_trans [OF M(2) agree_mono [OF S(2)]]) (use M(1) in auto)
  moreover have "task_reach l h2 y \<subseteq> {h_next h..<h_next h2}"
    using M(1,4) S(1,4) m2 by (force simp: task_reach_def y)
  ultimately show ?case using M(1,3) S(1,3) m2 by (simp add: task_val_def y h')
next
  case (2 l h x h')
  have lib: "lib_laws (Meta_DeepCopyInto l) (meta_value l) (meta_cells l)"
    using 2(1) by (simp add: copy_laws_def)
  have a: "agree (meta_cells l (h_lib h) (pt_ObjectMeta x)) h h'"
    "agree (status_reach l h (pt_Status x)) h h'"
    by (rule agree_mono [OF 2(2)], simp add: task_reach_def)+
  from on_lib_local [OF lib a(1)] status_copier.local [OF 2(1) a(2)] show ?case
    by (simp add: task_val_def task_reach_def)
qed

section \<open>A list\<close>

definition items_reach ::
    "('om, 'ds, 'lm, 'b) copy_lib \<Rightarrow> ('om, 'ds, 'lm, 'b) heap \<Rightarrow> nat \<Rightarrow> nat set" where
  "items_reach l h p = {p} \<union> (\<Union>t\<in>set (h_array h p). task_reach l h t)"

definition items_val ::
    "('om, 'ds, 'lm, 'b) copy_lib \<Rightarrow> ('om, 'ds, 'lm, 'b) heap \<Rightarrow> nat \<Rightarrow> CodeEngineTask list" where
  "items_val l h p = map (task_val l h) (h_array h p)"

lemma items_local:
  assumes "copy_laws l" and "agree (items_reach l h p) h h'"
  shows "items_val l h' p = items_val l h p \<and> items_reach l h' p = items_reach l h p"
proof -
  have arr: "h_array h' p = h_array h p" by (rule agreeD(2) [OF assms(2)]) (simp add: items_reach_def)
  have "task_val l h' t = task_val l h t \<and> task_reach l h' t = task_reach l h t" if "t \<in> set (h_array h p)" for t
    by (rule task_copier.local [OF assms(1) agree_mono [OF assms(2)]]) (use that in \<open>auto simp: items_reach_def\<close>)
  then show ?thesis by (simp add: items_val_def items_reach_def arr)
qed

text \<open>
  The loop: \<open>h0\<close> is the heap before it, \<open>a\<close> the new array of \<open>n\<close> tasks, of which the first \<open>i\<close> are
  copied.
\<close>

definition loop_inv ::
    "('om, 'ds, 'lm, 'b) copy_lib \<Rightarrow> ('om, 'ds, 'lm, 'b) heap \<Rightarrow> nat \<Rightarrow> nat \<Rightarrow> nat \<Rightarrow>
       ('om, 'ds, 'lm, 'b) heap \<Rightarrow> bool" where
  "loop_inv l h0 p a i h \<longleftrightarrow> Suc a \<le> h_next h \<and> agree {..<a} h0 h \<and>
     length (h_array h a) = length (h_array h0 p) \<and>
     (\<forall>j<i. task_val l h (h_array h a ! j) = task_val l h0 (h_array h0 p ! j) \<and>
        task_reach l h (h_array h a ! j) \<subseteq> {Suc a..<h_next h})"

lemma loop_step:
  assumes laws: "copy_laws l" and old: "items_reach l h0 p \<subseteq> {..<a}" and i: "i < length (h_array h0 p)"
    and inv: "loop_inv l h0 p a i h"
    and call: "task_DeepCopyInto l (h_array h p ! i) h = (t, h1)"
  shows "loop_inv l h0 p a (Suc i) (h1\<lparr>h_array := (h_array h1)(a := (h_array h1 a)[i := t])\<rparr>)"
proof -
  let ?h2 = "h1\<lparr>h_array := (h_array h1)(a := (h_array h1 a)[i := t])\<rparr>"
  let ?x = "h_array h0 p ! i"
  have I: "Suc a \<le> h_next h" "agree {..<a} h0 h" "length (h_array h a) = length (h_array h0 p)"
    using inv by (simp_all add: loop_inv_def)
  have pa: "p < a" using old by (simp add: items_reach_def)
  have arr: "h_array h p = h_array h0 p" by (rule agreeD(2) [OF I(2)]) (simp add: pa)
  have sub: "task_reach l h0 ?x \<subseteq> {..<a}" using old i by (force simp: items_reach_def)
  have same: "task_val l h ?x = task_val l h0 ?x \<and> task_reach l h ?x = task_reach l h0 ?x"
    by (rule task_copier.local [OF laws agree_mono [OF I(2) sub]])
  have C: "h_next h \<le> h_next h1" "agree {..<h_next h} h h1" "task_val l h1 t = task_val l h0 ?x"
    "task_reach l h1 t \<subseteq> {h_next h..<h_next h1}"
    using task_copier.copies [OF laws _ call] sub I(1) by (force simp: arr same)+
  have frame: "agree (- {a}) h1 ?h2" by (simp add: agree_def)
  have here: "task_val l ?h2 t = task_val l h0 ?x \<and> task_reach l ?h2 t \<subseteq> {Suc a..<h_next h1}"
  proof -
    have "agree (task_reach l h1 t) h1 ?h2" by (rule agree_mono [OF frame]) (use C(4) I(1) in auto)
    from task_copier.local [OF laws this] C(3,4) I(1) show ?thesis by auto
  qed
  have there: "task_val l ?h2 u = task_val l h u \<and> task_reach l ?h2 u \<subseteq> {Suc a..<h_next h1}"
    if "task_reach l h u \<subseteq> {Suc a..<h_next h}" for u
  proof -
    have "agree (task_reach l h u) h1 ?h2" by (rule agree_mono [OF frame]) (use that in auto)
    moreover have "agree (task_reach l h u) h h1" by (rule agree_mono [OF C(2)]) (use that in auto)
    ultimately have "agree (task_reach l h u) h ?h2" by (blast intro: agree_trans)
    from task_copier.local [OF laws this] that C(1) show ?thesis by auto
  qed
  have array: "h_array h1 a = h_array h a" by (rule agreeD(2) [OF C(2)]) (use I(1) in simp)
  have "agree {..<a} h0 ?h2"
    by (rule agree_trans [OF I(2)], rule agree_trans [OF agree_mono [OF C(2)] agree_mono [OF frame]])
      (use I(1) in auto)
  moreover have "task_val l ?h2 (h_array ?h2 a ! j) = task_val l h0 (h_array h0 p ! j) \<and>
      task_reach l ?h2 (h_array ?h2 a ! j) \<subseteq> {Suc a..<h_next ?h2}" if "j < Suc i" for j
  proof (cases "j = i")
    case True
    with here i I(3) show ?thesis by (simp add: array)
  next
    case False
    with that have "j < i" by simp
    then have "task_val l h (h_array h a ! j) = task_val l h0 (h_array h0 p ! j)"
      "task_reach l h (h_array h a ! j) \<subseteq> {Suc a..<h_next h}" using inv by (simp_all add: loop_inv_def)
    with there [OF this(2)] False show ?thesis by (simp add: array)
  qed
  ultimately show ?thesis using I(1,3) C(1) by (simp add: loop_inv_def array)
qed

lemma copy_items_inv:
  assumes "copy_laws l" and "items_reach l h0 p \<subseteq> {..<a}" and "loop_inv l h0 p a i h"
    and "i \<le> length (h_array h0 p)"
  shows "loop_inv l h0 p a (length (h_array h0 p)) (copy_items l p a [i..<length (h_array h0 p)] h)"
  using assms(3,4)
proof (induction "length (h_array h0 p) - i" arbitrary: i h)
  case 0
  then show ?case by simp
next
  case (Suc k)
  obtain t h1 where call: "task_DeepCopyInto l (h_array h p ! i) h = (t, h1)" by (rule prod.exhaust)
  have i: "i < length (h_array h0 p)" using Suc.hyps(2) by simp
  from Suc.hyps(1) [OF _ loop_step [OF assms(1,2) i Suc.prems(1) call]] Suc.hyps(2) i call show ?case
    by (simp add: upt_conv_Cons)
qed

definition list_val ::
    "('om, 'ds, 'lm, 'b) copy_lib \<Rightarrow> ('om, 'ds, 'lm, 'b) heap \<Rightarrow> 'lm p_list \<Rightarrow>
       TypeMeta \<times> handle \<times> CodeEngineTask list option" where
  "list_val l h x = (pl_TypeMeta x, listmeta_value l (h_lib h) (pl_ListMeta x),
     map_option (items_val l h) (pl_Items x))"

definition list_reach ::
    "('om, 'ds, 'lm, 'b) copy_lib \<Rightarrow> ('om, 'ds, 'lm, 'b) heap \<Rightarrow> 'lm p_list \<Rightarrow> nat set" where
  "list_reach l h x = listmeta_cells l (h_lib h) (pl_ListMeta x) \<union>
     (case pl_Items x of None \<Rightarrow> {} | Some p \<Rightarrow> items_reach l h p)"

text \<open>The items of the copy after the loop.\<close>

lemma items_copied:
  assumes laws: "copy_laws l" and old: "items_reach l h1 p \<subseteq> {..<h_next h1}"
    and h': "h' = copy_items l p (h_next h1) [0..<length (h_array h1 p)]
      (h1\<lparr>h_next := Suc (h_next h1),
          h_array := (h_array h1)(h_next h1 := replicate (length (h_array h1 p)) (zero_p_task l))\<rparr>)"
  shows "h_next h1 \<le> h_next h' \<and> agree {..<h_next h1} h1 h' \<and>
    items_val l h' (h_next h1) = items_val l h1 p \<and>
    items_reach l h' (h_next h1) \<subseteq> {h_next h1..<h_next h'}"
proof -
  let ?a = "h_next h1" let ?n = "length (h_array h1 p)"
  let ?h2 = "h1\<lparr>h_next := Suc ?a, h_array := (h_array h1)(?a := replicate ?n (zero_p_task l))\<rparr>"
  have "loop_inv l h1 p ?a 0 ?h2" by (simp add: loop_inv_def agree_def)
  from copy_items_inv [OF laws old this] have inv: "loop_inv l h1 p ?a ?n h'" by (simp add: h')
  then have L: "Suc ?a \<le> h_next h'" "agree {..<?a} h1 h'" "length (h_array h' ?a) = ?n"
    "\<And>j. j < ?n \<Longrightarrow> task_val l h' (h_array h' ?a ! j) = task_val l h1 (h_array h1 p ! j)"
    "\<And>j. j < ?n \<Longrightarrow> task_reach l h' (h_array h' ?a ! j) \<subseteq> {Suc ?a..<h_next h'}"
    by (simp_all add: loop_inv_def)
  have "items_val l h' ?a = items_val l h1 p"
    unfolding items_val_def by (rule nth_equalityI) (simp_all add: L)
  moreover have "items_reach l h' ?a \<subseteq> {?a..<h_next h'}"
    using L(1,5) by (force simp: items_reach_def in_set_conv_nth L(3))
  ultimately show ?thesis using L(1,2) by simp
qed

interpretation list_copier: deep_copier copy_laws list_DeepCopyInto list_val list_reach
proof (unfold_locales, goal_cases)
  case (1 l h x y h')
  have lib: "lib_laws (ListMeta_DeepCopyInto l) (listmeta_value l) (listmeta_cells l)"
    using 1(1) by (simp add: copy_laws_def)
  obtain m h1 where m: "on_lib (ListMeta_DeepCopyInto l) (pl_ListMeta x) h = (m, h1)" by (rule prod.exhaust)
  have M: "h_next h \<le> h_next h1" "agree {..<h_next h} h h1"
    "listmeta_value l (h_lib h1) m = listmeta_value l (h_lib h) (pl_ListMeta x)"
    "listmeta_cells l (h_lib h1) m \<subseteq> {h_next h..<h_next h1}"
    using on_lib_copies [OF lib _ m] 1(2) by (simp_all add: list_reach_def)
  show ?case
  proof (cases "pl_Items x")
    case None
    with 1(3) m have "y = x\<lparr>pl_ListMeta := m\<rparr>" "h' = h1" by (simp_all add: list_DeepCopyInto_def)
    with M None show ?thesis by (simp add: list_val_def list_reach_def)
  next
    case (Some p)
    let ?a = "h_next h1"
    from 1(3) m Some have y: "y = x\<lparr>pl_ListMeta := m, pl_Items := Some ?a\<rparr>"
      and h': "h' = copy_items l p ?a [0..<length (h_array h1 p)]
        (h1\<lparr>h_next := Suc ?a,
            h_array := (h_array h1)(?a := replicate (length (h_array h1 p)) (zero_p_task l))\<rparr>)"
      by (simp_all add: list_DeepCopyInto_def Let_def)
    have sub: "items_reach l h p \<subseteq> {..<h_next h}" using 1(2) Some by (simp add: list_reach_def)
    have same: "items_val l h1 p = items_val l h p" "items_reach l h1 p = items_reach l h p"
      using items_local [OF 1(1) agree_mono [OF M(2) sub]] by simp_all
    have "items_reach l h1 p \<subseteq> {..<?a}" using sub M(1) by (force simp: same)
    from items_copied [OF 1(1) this h'] have C: "?a \<le> h_next h'" "agree {..<?a} h1 h'"
      "items_val l h' ?a = items_val l h p" "items_reach l h' ?a \<subseteq> {?a..<h_next h'}"
      by (simp_all add: same)
    have m2: "listmeta_value l (h_lib h') m = listmeta_value l (h_lib h1) m \<and>
        listmeta_cells l (h_lib h') m = listmeta_cells l (h_lib h1) m"
      by (rule on_lib_local [OF lib agree_mono [OF C(2)]]) (use M(4) in auto)
    have "agree {..<h_next h} h h'"
      by (rule agree_trans [OF M(2) agree_mono [OF C(2)]]) (use M(1) in auto)
    moreover have "list_reach l h' y \<subseteq> {h_next h..<h_next h'}"
      using M(1,4) C(1,4) m2 by (force simp: list_reach_def y)
    ultimately show ?thesis using M(1,3) C(1,3) m2 Some by (simp add: list_val_def y)
  qed
next
  case (2 l h x h')
  have lib: "lib_laws (ListMeta_DeepCopyInto l) (listmeta_value l) (listmeta_cells l)"
    using 2(1) by (simp add: copy_laws_def)
  have "agree (listmeta_cells l (h_lib h) (pl_ListMeta x)) h h'"
    by (rule agree_mono [OF 2(2)]) (simp add: list_reach_def)
  note L = on_lib_local [OF lib this]
  show ?case
  proof (cases "pl_Items x")
    case None
    with L show ?thesis by (simp add: list_val_def list_reach_def)
  next
    case (Some p)
    have "agree (items_reach l h p) h h'" by (rule agree_mono [OF 2(2)]) (simp add: list_reach_def Some)
    from items_local [OF 2(1) this] L Some show ?thesis by (simp add: list_val_def list_reach_def)
  qed
qed

section \<open>Properties\<close>

text \<open>
  C38: a deep copy of a task is a new object with the value of the original and shares nothing with
  it.  Whatever is later written to the copy or to anything reachable from it, the original keeps
  its value, and the other way round.
\<close>

theorem task_copy_independent:
  assumes "copy_laws l" and p: "p < h_next h" and "task_reach l h (h_task h p) \<subseteq> {..<h_next h}"
    and call: "task_DeepCopy l (Some p) h = (q, h')"
  shows "\<exists>a. q = Some a \<and> h_next h \<le> a \<and>
    task_val l h' (h_task h' a) = task_val l h (h_task h p) \<and>
    (\<forall>h''. agree (- insert a (task_reach l h' (h_task h' a))) h' h'' \<longrightarrow>
       task_val l h'' (h_task h'' p) = task_val l h (h_task h p)) \<and>
    (\<forall>h''. agree (- insert p (task_reach l h (h_task h p))) h' h'' \<longrightarrow>
       task_val l h'' (h_task h'' a) = task_val l h (h_task h p))"
proof -
  let ?a = "h_next h"
  obtain t h1 where t: "task_DeepCopyInto l (h_task h p) (h\<lparr>h_next := Suc ?a\<rparr>) = (t, h1)"
    by (rule prod.exhaust)
  with call have q: "q = Some ?a" and h': "h' = h1\<lparr>h_task := (h_task h1)(?a := t)\<rparr>"
    by (auto simp: task_DeepCopy_def Let_def)
  have "agree (- {?a}) h1 h'" "h_next h' = h_next h1" by (simp_all add: h' agree_def)
  note C = task_copier.pointer_copy [OF assms(1,3) t this]
  have copied: "h_task h' ?a = t" by (simp add: h')
  show ?thesis
  proof (intro exI [of _ ?a] conjI allI impI)
    show "task_val l h' (h_task h' ?a) = task_val l h (h_task h p)" by (simp add: copied C(1))
    show "task_val l h'' (h_task h'' p) = task_val l h (h_task h p)"
      if "agree (- insert ?a (task_reach l h' (h_task h' ?a))) h' h''" for h''
      using C(4) [of h''] that p agreeD(4) [of "{..<?a}" h h'' p] by (simp add: copied)
    show "task_val l h'' (h_task h'' ?a) = task_val l h (h_task h p)"
      if "agree (- insert p (task_reach l h (h_task h p))) h' h''" for h''
      using C(5) [OF p that] agreeD(4) [of "{?a}" h' h'' ?a] by (simp add: copied)
  qed (simp_all add: q)
qed

text \<open>A library whose objects are plain values, for the witnesses.\<close>

definition value_lib :: "(ObjectMeta, DuckStatus, handle, unit) copy_lib" where
  "value_lib =
     \<lparr>Meta_DeepCopyInto = (\<lambda>m s. (m, s)), Status_DeepCopyInto = (\<lambda>m s. (m, s)),
      ListMeta_DeepCopyInto = (\<lambda>m s. (m, s)), zero_Meta = zero_ObjectMeta, zero_Status = zero_DuckStatus,
      zero_ListMeta = [], meta_value = (\<lambda>\<sigma> m. m), meta_cells = (\<lambda>\<sigma> m. {}), status_value = (\<lambda>\<sigma> m. m),
      status_cells = (\<lambda>\<sigma> m. {}), listmeta_value = (\<lambda>\<sigma> m. m), listmeta_cells = (\<lambda>\<sigma> m. {})\<rparr>"

definition sample_heap :: "(ObjectMeta, DuckStatus, handle, unit) heap" where
  "sample_heap =
     \<lparr>h_next = 4, h_spec = (\<lambda>a. \<lparr>JobName = ''train''\<rparr>), h_status = (\<lambda>a. \<lparr>ps_Status = zero_DuckStatus,
        ps_Spec = None, ps_JobRunName = []\<rparr>),
      h_task = (\<lambda>a. (zero_p_task value_lib)\<lparr>pt_Status := \<lparr>ps_Status = zero_DuckStatus, ps_Spec = Some 0,
        ps_JobRunName = ''train-0''\<rparr>\<rparr>),
      h_array = (\<lambda>a. [zero_p_task value_lib]),
      h_list = (\<lambda>a. \<lparr>pl_TypeMeta = \<lparr>tm_Kind = [], tm_APIVersion = []\<rparr>, pl_ListMeta = [], pl_Items = Some 2\<rparr>),
      h_lib = (\<lambda>a. ())\<rparr>"

lemma value_lib_laws: "copy_laws value_lib"
  by (simp add: copy_laws_def lib_laws_def value_lib_def)

lemma task_copy_independent_witness:
  "\<exists>a h'. task_DeepCopy value_lib (Some 1) sample_heap = (Some a, h') \<and> 4 \<le> a \<and>
     task_val value_lib h' (h_task h' a) = task_val value_lib sample_heap (h_task sample_heap 1)"
proof -
  obtain q h' where call: "task_DeepCopy value_lib (Some 1) sample_heap = (q, h')" by (rule prod.exhaust)
  have p: "1 < h_next sample_heap" by (simp add: sample_heap_def)
  have reach: "task_reach value_lib sample_heap (h_task sample_heap 1) \<subseteq> {..<h_next sample_heap}"
    by (simp add: task_reach_def status_reach_def sample_heap_def value_lib_def zero_p_task_def)
  from task_copy_independent [OF value_lib_laws p reach call] call show ?thesis
    by (auto simp: sample_heap_def)
qed

text \<open>
  C39: a deep copy of a list copies the list, its array and everything reachable from its items, in
  order; a nil slice stays nil and an empty one empty; writing to the copy leaves every item of the
  original alone, and the other way round; copying a nil pointer gives a nil pointer and a nil
  object.
\<close>

theorem list_copy_independent:
  assumes "copy_laws l" and p: "p < h_next h" and "list_reach l h (h_list h p) \<subseteq> {..<h_next h}"
    and call: "list_DeepCopyObject l (Some p) h = (q, h')"
  shows "(\<exists>a. q = Some (TaskListPtr a) \<and> h_next h \<le> a \<and>
      list_val l h' (h_list h' a) = list_val l h (h_list h p) \<and>
      (\<forall>h''. agree (- insert a (list_reach l h' (h_list h' a))) h' h'' \<longrightarrow>
         list_val l h'' (h_list h'' p) = list_val l h (h_list h p)) \<and>
      (\<forall>h''. agree (- insert p (list_reach l h (h_list h p))) h' h'' \<longrightarrow>
         list_val l h'' (h_list h'' a) = list_val l h (h_list h p))) \<and>
    list_DeepCopyObject l None h = (None, h) \<and> task_DeepCopyObject l None h = (None, h)"
proof -
  let ?a = "h_next h"
  obtain t h1 where t: "list_DeepCopyInto l (h_list h p) (h\<lparr>h_next := Suc ?a\<rparr>) = (t, h1)"
    by (rule prod.exhaust)
  with call have q: "q = Some (TaskListPtr ?a)" and h': "h' = h1\<lparr>h_list := (h_list h1)(?a := t)\<rparr>"
    by (auto simp: list_DeepCopyObject_def list_DeepCopy_def Let_def)
  have "agree (- {?a}) h1 h'" "h_next h' = h_next h1" by (simp_all add: h' agree_def)
  note C = list_copier.pointer_copy [OF assms(1,3) t this]
  have copied: "h_list h' ?a = t" by (simp add: h')
  have through_copy: "list_val l h'' (h_list h'' p) = list_val l h (h_list h p)"
    if "agree (- insert ?a (list_reach l h' (h_list h' ?a))) h' h''" for h''
    using C(4) [of h''] that p agreeD(6) [of "{..<?a}" h h'' p] by (simp add: copied)
  have through_original: "list_val l h'' (h_list h'' ?a) = list_val l h (h_list h p)"
    if "agree (- insert p (list_reach l h (h_list h p))) h' h''" for h''
    using C(5) [OF p that] agreeD(6) [of "{?a}" h' h'' ?a] by (simp add: copied)
  have "list_val l h' (h_list h' ?a) = list_val l h (h_list h p)" by (simp add: copied C(1))
  with through_copy through_original q show ?thesis
    by (simp add: list_DeepCopyObject_def list_DeepCopy_def task_DeepCopyObject_def task_DeepCopy_def)
qed

lemma list_copy_independent_witness:
  "\<exists>a h'. list_DeepCopyObject value_lib (Some 3) sample_heap = (Some (TaskListPtr a), h') \<and> 4 \<le> a \<and>
     list_val value_lib h' (h_list h' a) = list_val value_lib sample_heap (h_list sample_heap 3)"
proof -
  obtain q h' where call: "list_DeepCopyObject value_lib (Some 3) sample_heap = (q, h')" by (rule prod.exhaust)
  have p: "3 < h_next sample_heap" by (simp add: sample_heap_def)
  have reach: "list_reach value_lib sample_heap (h_list sample_heap 3) \<subseteq> {..<h_next sample_heap}"
    by (simp add: list_reach_def items_reach_def task_reach_def status_reach_def sample_heap_def
        value_lib_def zero_p_task_def)
  from list_copy_independent [OF value_lib_laws p reach call] call show ?thesis
    by (auto simp: sample_heap_def)
qed

end
