(* ===== verification/Spec2Isabelle.thy ===== *)
theory Spec2Isabelle
  imports RunGuards RunFinishes RunProvenance ClusterProgress ProcessRuns CEContext FactoryRuns Clientset
    ClientAgreement FakeRuns Schemes DeepCopyFacts
begin

text \<open>
  The Tekton custom-task controller for IBM Cloud Code Engine (\<open>src/pkg\<close>, \<open>src/cmd\<close>).

  A Tekton \<open>Run\<close> refers to a \<open>CodeEngineTask\<close> or embeds its spec.  The reconciler creates a Code Engine
  job run for it, records the name of the job run in the extra fields of the status of the Run, and
  copies the verdict of the job run to the condition of the Run.  The process is put together by
  \<open>cmd/controller/main.go\<close>: a logger, a connection to the Code Engine project, and the injected
  clients and informers of the task type; \<open>cmd/webhook/main.go\<close> defaults and validates tasks.

  \<^bold>\<open>Conventions.\<close>  A Go call that may panic is an \<open>outcome\<close>; a \<open>(value, error)\<close> result is
  \<open>error + value\<close>, or a pair where both parts can be set; a nil pointer is \<open>None\<close>.  Code outside
  \<open>src/\<close> (Kubernetes, knative, Tekton, the IBM SDKs, zap, \<open>encoding/json\<close> on library types) is a
  record of functions that the definitions take as argument: \<open>schema_lib\<close>, \<open>run_lib\<close>, \<open>ce_lib\<close>,
  \<open>ce_sdk\<close>, \<open>rest_lib\<close>, \<open>injection_lib\<close>, \<open>dynamic_lib\<close>, \<open>json_codec\<close>, \<open>labels_lib\<close>,
  \<open>controller_lib\<close>, \<open>testing_lib\<close>, \<open>copy_lib\<close>, \<open>zap_lib\<close>, \<open>webhook_lib\<close>, \<open>runtime_lib\<close>.  What a theorem needs of
  it is a named predicate (\<open>run_laws\<close>, \<open>ce_laws\<close>, \<open>schema_laws\<close>, \<open>server_laws\<close>, \<open>copy_laws\<close>, and so on),
  and a witness after the theorem shows on a concrete library that it can hold.

  \<^bold>\<open>Shared.\<close>  \<open>CEPrelude\<close>: outcomes, errors, object keys, decimal printing.  \<open>GoContext\<close>:
  \<open>context.Context\<close> and the locale \<open>context_slot\<close>, the contract of every With/Get pair.
  \<open>SampleEnv\<close>: the concrete environment of the witnesses.

  \<^bold>\<open>The API types\<close> (\<open>pkg/apis/codeenginetask\<close>).  \<open>ApiTypes\<close>: types, registration, validation,
  defaulting, conditions.  \<open>RunStatus\<close>: the Run and \<open>DecodeStatusFromRun\<close>/\<open>EncodeIntoRun\<close>, with the
  locale \<open>status_store\<close> of a store that can be read back.  \<open>Schemes\<close>: the scheme builders and the \<open>init\<close>
  functions of the generated schemes, which know of the program exactly its two types, and beside them
  the kinds \<open>metav1.AddToGroupVersion\<close> registers.  \<open>DeepCopy\<close>, \<open>DeepCopyFacts\<close>:
  \<open>zz_generated.deepcopy.go\<close> on a heap; the locale \<open>deep_copier\<close> is interpreted for statuses, tasks
  and lists.

  \<^bold>\<open>The reconciler\<close> (\<open>pkg/reconciler/codeenginetask/codeenginetask.go\<close>).  \<open>Reconciler\<close> has one
  definition per method over the state \<open>rstate\<close>: the Run, the task status, the API, and the trace of
  emitted events and creation requests.  \<open>GoJson\<close> decodes embedded specs; its parser has the fuel
  twice the length of the text plus one, which is proved to be enough, more changing nothing.
  \<open>ReconcilerFacts\<close>: case rules and frames of the steps.  \<open>RunLifecycle\<close>: an abstract machine of four
  phases and the refinement of \<open>ReconcileKind\<close> to it.  \<open>RunHistory\<close>: sequences of reconciliations with
  the write-back between them, and what they preserve.  \<open>RunPaths\<close>, \<open>RunProgress\<close>: the main paths.
  \<open>RunProperties\<close>, \<open>RunGuards\<close>, \<open>RunFinishes\<close>: the properties, on every branch, errors and panics
  included.  \<open>RunProvenance\<close>: an invariant of the stored status, and where a recorded name and a
  success come from.  \<open>Listers\<close>: the generated task listers (\<open>pkg/client/listers\<close>), with the locale
  \<open>namespace_lister\<close> that the dynamic lister also meets.

  \<^bold>\<open>The controller\<close> (\<open>controller.go\<close>, \<open>cmd\<close>).  \<open>Controller\<close>, \<open>Commands\<close>: \<open>NewController\<close>, the two
  \<open>main\<close> functions, the admission controllers.  \<open>ControllerRuns\<close>, \<open>CommandRuns\<close>: events of job runs
  come back to their Run, the controller is connected to the project, what the webhook admits.
  \<open>Cluster\<close>: many Runs interleaved, with users, events, a queue of keys and a moving API, as a step
  relation; its reachable states ask for at most one job run per Run.  Every reconciliation there works
  on the stored Run and with a \<open>reliable\<close> reconciler: a job run lister that fails with NotFound only and
  an API that names the job runs it creates; without these two, \<open>check_error_loses_creation\<close> and
  \<open>stale_run_creates_twice\<close> show what happens.  \<open>ClusterRuns\<close> names its steps as
  actions and shows that the queue never loses a Run that still needs a job run; \<open>ClusterProgress\<close> shows
  that in fair infinite executions every accepted Run gets its verdict.

  \<^bold>\<open>The Code Engine connection\<close> (\<open>pkg/codeenegine/context.go\<close>).  \<open>CEContext\<close>, with URL encoding in
  \<open>GoUrl\<close>: environment, token request, kube config, informers, and the order of the calls made.

  \<^bold>\<open>Informers and clients\<close> (\<open>pkg/client\<close>).  \<open>InformerFactory\<close>, \<open>FactoryRuns\<close>: the shared informer
  factory, whose informers run at most once.  \<open>RestClient\<close>, \<open>Clientset\<close>: the typed client, the requests
  it sends and its construction; timeouts are 64-bit words.  \<open>Injection\<close>, \<open>TaskInformers\<close>, \<open>InjectionRuns\<close>: clients,
  factories and informers in a context, plain and filtered; factories live on a heap and the loop
  variable that closures capture is a cell of a store.  \<open>Registration\<close>: the \<open>init\<close> functions as
  what they add to the registries of knative, and the process from \<open>main\<close> through the set-up of the
  injection to the constructor; the locale \<open>injection_packages\<close> is the contract of a set of
  packages, interpreted on the real and on the fake ones.  \<open>ProcessRuns\<close>: the process so built at
  work, from the cache of its informer to the events of the job runs it asks for.  \<open>DynamicListers\<close>: how
  far the dynamic wrappers agree with the cache, given that the server knows a selector only as its
  text.  \<open>DynamicClient\<close>, \<open>ClientAgreement\<close>: the dynamic client agrees with the typed one but for
  patches of subresources and watches; both interpret the locale \<open>task_client\<close>.  \<open>FakeClient\<close>, \<open>FakeRuns\<close>: the fakes of the tests.

  \<^bold>\<open>Bounds.\<close>  Apart from the JSON parser no definition has fuel: all loops are structural.  Times are
  unbounded integers, the zero time being \<open>0\<close>; only the timeouts of the typed client are kept at
  their width, where the product can wrap around.

  \<^bold>\<open>Not modelled.\<close>  Log messages, except where evaluating their arguments can panic.  Locks: every
  operation of the factory is atomic under its mutex, so sequences of operations are what can
  happen.  Informers, \<open>sharedmain\<close> and the admission handlers run in the libraries; the work queue is
  modelled in \<open>Cluster\<close> only as far as it decides which Run is reconciled when.  The codecs made from
  the schemes are objects of the libraries;
  interface declarations and the assertions that a type implements one have no behaviour.  A
  reconciliation is one step of the cluster, so a second event during it is one before or after it.
  The cache \<open>createdJobRuns\<close> is only read by the program, so it is a function;
  that nothing is ever put into it is what \<open>stale_run_creates_twice\<close> shows the effect of.
\<close>

end
